(* ===== verification/Gum_Base.thy ===== *)
theory Gum_Base
  imports Complex_Main "HOL-Library.Word" "HOL-Library.Char_ord" "HOL-Library.List_Lexorder"
    "HOL-Library.Product_Lexorder"
begin

text \<open>
  Prelude of the development: the types every component shares, the parts of Rust's standard
  library the sources use on strings, integers and options, the JSON values of \<^verbatim>\<open>serde_json\<close>,
  the row operations behind the SQL statements, and the record of third-party functions the
  service calls but does not define.

  Conventions. A Rust \<open>String\<close> is its UTF-8 byte sequence (\<^typ>\<open>string\<close>), so \<open>len()\<close> is
  \<^const>\<open>length\<close>. \<open>u64\<close> and \<open>usize\<close> are \<^typ>\<open>nat\<close>, \<open>i64\<close> is \<^typ>\<open>int\<close>; the casts between them are
  written out (\<open>as_i64\<close>, \<open>as_u64\<close>). \<open>U256\<close>, \<open>B256\<close> and \<open>Address\<close> are machine words of 256, 256 and
  160 bits. A point in time is an \<^typ>\<open>int\<close>, nanoseconds since the epoch.
\<close>

section \<open>Types\<close>

type_synonym uuid = nat
type_synonym time = int
type_synonym u256 = "256 word"
type_synonym b256 = "256 word"
type_synonym address = "160 word"
type_synonym byte = "8 word"
type_synonym bytes = "byte list"

named_theorems std_simps \<open>evaluation rules of the modelled standard library\<close>
named_theorems tx_simps \<open>unfolding rules of the database transactions\<close>

section \<open>Options and results\<close>

fun ok :: "'e + 'a \<Rightarrow> 'a option" where
  "ok (Inl e) = None"
| "ok (Inr x) = Some x"

definition ok_or :: "'a option \<Rightarrow> 'e \<Rightarrow> 'e + 'a" where
  "ok_or x e = (case x of None \<Rightarrow> Inl e | Some v \<Rightarrow> Inr v)"

definition filter_option :: "('a \<Rightarrow> bool) \<Rightarrow> 'a option \<Rightarrow> 'a option" where
  "filter_option p x = (case x of None \<Rightarrow> None | Some v \<Rightarrow> if p v then Some v else None)"

definition unwrap_or :: "'a \<Rightarrow> 'a option \<Rightarrow> 'a" where
  "unwrap_or d x = (case x of None \<Rightarrow> d | Some v \<Rightarrow> v)"

text \<open>SQL's \<open>COALESCE\<close> on nullable columns.\<close>

definition coalesce :: "'a option \<Rightarrow> 'a option \<Rightarrow> 'a option" where
  "coalesce x y = (case x of None \<Rightarrow> y | Some v \<Rightarrow> Some v)"

lemma ok_or_simps [simp]:
  "ok_or (Some v) e = Inr v" "ok_or None e = Inl e"
  by (simp_all add: ok_or_def)

lemma ok_or_eq_Inr [simp]: "(ok_or x e = Inr v) = (x = Some v)"
  by (cases x) simp_all

lemma filter_option_eq_Some [simp]: "(filter_option p x = Some v) = (x = Some v \<and> p v)"
  by (auto simp: filter_option_def split: option.splits)

lemma filter_option_simps [simp]:
  "filter_option p None = None" "filter_option p (Some v) = (if p v then Some v else None)"
  by (simp_all add: filter_option_def)

lemma unwrap_or_simps [simp]: "unwrap_or d None = d" "unwrap_or d (Some v) = v"
  by (simp_all add: unwrap_or_def)

lemma coalesce_simps [simp]: "coalesce None y = y" "coalesce (Some v) y = Some v"
  by (simp_all add: coalesce_def)

lemma coalesce_None_iff [simp]: "(coalesce x y = None) = (x = None \<and> y = None)"
  by (cases x) simp_all

section \<open>Integers\<close>

text \<open>The \<open>as\<close> casts between \<open>u64\<close> and \<open>i64\<close> keep the 64 bits.\<close>

definition as_i64 :: "nat \<Rightarrow> int" where
  "as_i64 n = (let m = int n mod 2 ^ 64 in if m < 2 ^ 63 then m else m - 2 ^ 64)"

definition as_u64 :: "int \<Rightarrow> nat" where
  "as_u64 i = nat (i mod 2 ^ 64)"

lemma as_u64_as_i64: "n < 2 ^ 64 \<Longrightarrow> as_u64 (as_i64 n) = n"
  by (auto simp: as_u64_def as_i64_def Let_def)

lemma as_i64_inj:
  assumes "as_i64 m = as_i64 n" and "m < 2 ^ 64" and "n < 2 ^ 64"
  shows "m = n"
  using assms as_u64_as_i64 by metis

text \<open>Release builds wrap on overflow: \<open>-\<close> and \<open>abs\<close> of \<open>i64\<close>.\<close>

definition wrap_i64 :: "int \<Rightarrow> int" where
  "wrap_i64 x = (x + 2 ^ 63) mod 2 ^ 64 - 2 ^ 63"

definition abs_i64 :: "int \<Rightarrow> int" where
  "abs_i64 x = wrap_i64 \<bar>x\<bar>"

definition checked_add :: "'a::len word \<Rightarrow> 'a word \<Rightarrow> 'a word option" where
  "checked_add a b = (if unat a + unat b < 2 ^ LENGTH('a) then Some (a + b) else None)"

definition saturating_sub :: "'a::len word \<Rightarrow> 'a word \<Rightarrow> 'a word" where
  "saturating_sub a b = (if b \<le> a then a - b else 0)"

lemma byte_lt: "unat (a :: byte) < 256"
  using unsigned_less [of a] by simp

lemma checked_add_eq_Some:
  "checked_add a b = Some c \<longleftrightarrow> unat c = unat a + unat b"
proof
  assume "checked_add a b = Some c"
  then show "unat c = unat a + unat b"
    by (auto simp: checked_add_def unat_word_ariths split: if_splits)
next
  assume c: "unat c = unat a + unat b"
  then have "unat a + unat b < 2 ^ LENGTH('a)"
    by (metis unsigned_less)
  moreover from this c have "c = a + b"
    by (simp add: unat_plus_if' word_unat_eq_iff)
  ultimately show "checked_add a b = Some c"
    by (simp add: checked_add_def)
qed

lemma checked_add_zero [simp]: "checked_add a 0 = Some a" "checked_add 0 a = Some a"
  by (simp_all add: checked_add_eq_Some)

lemma unat_saturating_sub: "unat (saturating_sub a b) = unat a - unat b"
  by (auto simp: saturating_sub_def unat_sub word_le_nat_alt)

text \<open>\<open>try_fold\<close> of \<open>checked_add\<close>: the running totals of the route checks.\<close>

fun checked_sum :: "'a::len word \<Rightarrow> 'a word list \<Rightarrow> 'a word option" where
  "checked_sum acc [] = Some acc"
| "checked_sum acc (x # xs) =
     (case checked_add acc x of None \<Rightarrow> None | Some acc' \<Rightarrow> checked_sum acc' xs)"

lemma checked_sum_eq_Some:
  "checked_sum acc xs = Some s \<Longrightarrow> unat s = unat acc + (\<Sum>x\<leftarrow>xs. unat x)"
  by (induction xs arbitrary: acc) (auto simp: checked_add_eq_Some split: option.splits)

section \<open>Strings\<close>

definition starts_with :: "string \<Rightarrow> string \<Rightarrow> bool" where
  "starts_with s p = (take (length p) s = p)"

definition ends_with :: "string \<Rightarrow> string \<Rightarrow> bool" where
  "ends_with s p = (length p \<le> length s \<and> drop (length s - length p) s = p)"

definition strip_prefix :: "string \<Rightarrow> string \<Rightarrow> string option" where
  "strip_prefix p s = (if starts_with s p then Some (drop (length p) s) else None)"

definition char_code :: "char \<Rightarrow> nat" where
  "char_code c = of_char c"

definition is_ascii_digit :: "char \<Rightarrow> bool" where
  "is_ascii_digit c = (48 \<le> char_code c \<and> char_code c \<le> 57)"

definition is_ascii_upper :: "char \<Rightarrow> bool" where
  "is_ascii_upper c = (65 \<le> char_code c \<and> char_code c \<le> 90)"

definition is_ascii_lower :: "char \<Rightarrow> bool" where
  "is_ascii_lower c = (97 \<le> char_code c \<and> char_code c \<le> 122)"

definition is_ascii_hexdigit :: "char \<Rightarrow> bool" where
  "is_ascii_hexdigit c = (is_ascii_digit c
     \<or> (65 \<le> char_code c \<and> char_code c \<le> 70) \<or> (97 \<le> char_code c \<and> char_code c \<le> 102))"

definition ascii_lower_char :: "char \<Rightarrow> char" where
  "ascii_lower_char c = (if is_ascii_upper c then char_of (char_code c + 32) else c)"

definition ascii_upper_char :: "char \<Rightarrow> char" where
  "ascii_upper_char c = (if is_ascii_lower c then char_of (char_code c - 32) else c)"

definition to_ascii_lowercase :: "string \<Rightarrow> string" where
  "to_ascii_lowercase s = map ascii_lower_char s"

definition to_ascii_uppercase :: "string \<Rightarrow> string" where
  "to_ascii_uppercase s = map ascii_upper_char s"

definition eq_ignore_ascii_case :: "string \<Rightarrow> string \<Rightarrow> bool" where
  "eq_ignore_ascii_case a b = (to_ascii_lowercase a = to_ascii_lowercase b)"

text \<open>
  \<open>str::trim\<close> removes the code points of Unicode's \<open>White_Space\<close>; these are their UTF-8 encodings.
\<close>

definition ws_seqs :: "string list" where
  "ws_seqs = [[CHR 0x09], [CHR 0x0A], [CHR 0x0B], [CHR 0x0C], [CHR 0x0D], [CHR 0x20],
     [CHR 0xC2, CHR 0x85], [CHR 0xC2, CHR 0xA0], [CHR 0xE1, CHR 0x9A, CHR 0x80],
     [CHR 0xE2, CHR 0x80, CHR 0x80], [CHR 0xE2, CHR 0x80, CHR 0x81], [CHR 0xE2, CHR 0x80, CHR 0x82],
     [CHR 0xE2, CHR 0x80, CHR 0x83], [CHR 0xE2, CHR 0x80, CHR 0x84], [CHR 0xE2, CHR 0x80, CHR 0x85],
     [CHR 0xE2, CHR 0x80, CHR 0x86], [CHR 0xE2, CHR 0x80, CHR 0x87], [CHR 0xE2, CHR 0x80, CHR 0x88],
     [CHR 0xE2, CHR 0x80, CHR 0x89], [CHR 0xE2, CHR 0x80, CHR 0x8A], [CHR 0xE2, CHR 0x80, CHR 0xA8],
     [CHR 0xE2, CHR 0x80, CHR 0xA9], [CHR 0xE2, CHR 0x80, CHR 0xAF], [CHR 0xE2, CHR 0x81, CHR 0x9F],
     [CHR 0xE3, CHR 0x80, CHR 0x80]]"

text \<open>Dropping leading pieces; every piece is non-empty, so the length of the text is enough fuel.\<close>

fun drop_pieces :: "nat \<Rightarrow> string list \<Rightarrow> string \<Rightarrow> string" where
  "drop_pieces 0 ws s = s"
| "drop_pieces (Suc n) ws s =
     (case find (starts_with s) ws of None \<Rightarrow> s | Some w \<Rightarrow> drop_pieces n ws (drop (length w) s))"

definition trim_start :: "string \<Rightarrow> string" where
  "trim_start s = drop_pieces (length s) ws_seqs s"

definition trim_end :: "string \<Rightarrow> string" where
  "trim_end s = rev (drop_pieces (length s) (map rev ws_seqs) (rev s))"

definition trim :: "string \<Rightarrow> string" where
  "trim s = trim_end (trim_start s)"

definition split_once :: "char \<Rightarrow> string \<Rightarrow> (string \<times> string) option" where
  "split_once c s = (if c \<in> set s
     then Some (takeWhile (\<lambda>x. x \<noteq> c) s, tl (dropWhile (\<lambda>x. x \<noteq> c) s)) else None)"

fun split_on :: "char \<Rightarrow> string \<Rightarrow> string list" where
  "split_on c [] = [[]]"
| "split_on c (x # xs) =
     (if x = c then [] # split_on c xs
      else case split_on c xs of [] \<Rightarrow> [[x]] | w # ws \<Rightarrow> (x # w) # ws)"

fun join :: "string \<Rightarrow> string list \<Rightarrow> string" where
  "join sep [] = []"
| "join sep [x] = x"
| "join sep (x # y # ys) = x @ sep @ join sep (y # ys)"

definition is_graphic :: "char \<Rightarrow> bool" where
  "is_graphic c = (33 \<le> char_code c \<and> char_code c \<le> 126)"

lemma ws_seqs_not_graphic:
  "list_all (\<lambda>w. w \<noteq> [] \<and> \<not> is_graphic (hd w) \<and> \<not> is_graphic (last w)) ws_seqs"
  by code_simp

lemma starts_with_hd: "starts_with s w \<Longrightarrow> w \<noteq> [] \<Longrightarrow> hd s = hd w"
  by (cases w; cases s) (auto simp: starts_with_def)

lemma find_ws_graphic:
  assumes "is_graphic (hd s)"
  shows "find (starts_with s) ws_seqs = None" and "find (starts_with s) (map rev ws_seqs) = None"
  using assms ws_seqs_not_graphic
  by (auto simp: find_None_iff list_all_iff hd_rev dest: starts_with_hd)

lemma trim_start_graphic: "s \<noteq> [] \<Longrightarrow> is_graphic (hd s) \<Longrightarrow> trim_start s = s"
  using find_ws_graphic(1) [of s] by (cases s) (simp_all add: trim_start_def)

lemma trim_end_graphic: "s \<noteq> [] \<Longrightarrow> is_graphic (last s) \<Longrightarrow> trim_end s = s"
  using find_ws_graphic(2) [of "rev s"]
  by (cases s rule: rev_cases) (simp_all add: trim_end_def hd_rev)

lemma trim_graphic: "list_all is_graphic s \<Longrightarrow> trim s = s"
proof (cases s)
  case Nil
  then show ?thesis by (simp add: trim_def trim_start_def trim_end_def)
next
  case (Cons c cs)
  assume "list_all is_graphic s"
  then have "is_graphic (hd s)" "is_graphic (last s)"
    using Cons by (auto simp: list_all_iff)
  then show ?thesis
    using Cons by (simp add: trim_def trim_start_graphic trim_end_graphic)
qed

lemma split_once_append: "c \<notin> set a \<Longrightarrow> split_once c (a @ c # b) = Some (a, b)"
proof -
  assume "c \<notin> set a"
  then have "\<forall>x \<in> set a. x \<noteq> c" by auto
  then show ?thesis by (auto simp: split_once_def takeWhile_append2 dropWhile_append2)
qed

lemma strip_prefix_eq_Some: "strip_prefix p s = Some t \<longleftrightarrow> s = p @ t"
  by (auto simp: strip_prefix_def starts_with_def) (metis append_take_drop_id)+

lemma starts_with_append [simp]: "starts_with (p @ s) p"
  by (simp add: starts_with_def)

section \<open>Decimal numbers\<close>

definition digit_char :: "nat \<Rightarrow> char" where
  "digit_char d = char_of (48 + d)"

definition digit_value :: "char \<Rightarrow> nat" where
  "digit_value c = char_code c - 48"

fun dec_nat :: "nat \<Rightarrow> string" where
  "dec_nat n = (if n < 10 then [digit_char n] else dec_nat (n div 10) @ [digit_char (n mod 10)])"

declare dec_nat.simps [simp del]

definition dec_int :: "int \<Rightarrow> string" where
  "dec_int i = (if i < 0 then CHR ''-'' # dec_nat (nat (- i)) else dec_nat (nat i))"

definition dec_value :: "string \<Rightarrow> nat" where
  "dec_value s = foldl (\<lambda>acc c. acc * 10 + digit_value c) 0 s"

definition all_digits :: "string \<Rightarrow> bool" where
  "all_digits s = (s \<noteq> [] \<and> list_all is_ascii_digit s)"

text \<open>\<open>str::parse::<u64>\<close> and \<open>str::parse::<i64>\<close>: an optional sign, then digits, within range.\<close>

definition parse_u64 :: "string \<Rightarrow> nat option" where
  "parse_u64 s = (let t = (case s of c # cs \<Rightarrow> if c = CHR ''+'' then cs else s | [] \<Rightarrow> [])
     in if all_digits t \<and> dec_value t < 2 ^ 64 then Some (dec_value t) else None)"

definition parse_i64 :: "string \<Rightarrow> int option" where
  "parse_i64 s = (case s of
       [] \<Rightarrow> None
     | c # cs \<Rightarrow>
         if c = CHR ''-'' then
           (if all_digits cs \<and> dec_value cs \<le> 2 ^ 63 then Some (- int (dec_value cs)) else None)
         else let t = (if c = CHR ''+'' then cs else s)
           in if all_digits t \<and> dec_value t < 2 ^ 63 then Some (int (dec_value t)) else None)"

definition u256_to_string :: "u256 \<Rightarrow> string" where
  "u256_to_string a = dec_nat (unat a)"

lemma char_code_digit [simp]: "d < 10 \<Longrightarrow> char_code (digit_char d) = 48 + d"
  by (simp add: char_code_def digit_char_def)

lemma digit_value_digit [simp]: "d < 10 \<Longrightarrow> digit_value (digit_char d) = d"
  by (simp add: digit_value_def)

lemma is_digit_digit [simp]: "d < 10 \<Longrightarrow> is_ascii_digit (digit_char d)"
  by (simp add: is_ascii_digit_def)

lemma dec_nat_not_Nil [simp]: "dec_nat n \<noteq> []"
  by (subst dec_nat.simps) simp

lemma dec_value_snoc [simp]: "dec_value (s @ [c]) = dec_value s * 10 + digit_value c"
  by (simp add: dec_value_def)

lemma dec_value_dec_nat [simp]: "dec_value (dec_nat n) = n"
proof (induction n rule: dec_nat.induct)
  case (1 n)
  show ?case
  proof (cases "n < 10")
    case True
    then show ?thesis
      by (subst dec_nat.simps) (simp add: dec_value_def)
  next
    case False
    with "1" have "dec_value (dec_nat (n div 10)) = n div 10" by simp
    with False show ?thesis by (subst dec_nat.simps) simp
  qed
qed

lemma all_digits_dec_nat [simp]: "all_digits (dec_nat n)"
proof (induction n rule: dec_nat.induct)
  case (1 n)
  show ?case
  proof (cases "n < 10")
    case True
    then show ?thesis by (subst dec_nat.simps) (simp add: all_digits_def)
  next
    case False
    with "1" have "all_digits (dec_nat (n div 10))" by simp
    with False show ?thesis by (subst dec_nat.simps) (simp add: all_digits_def)
  qed
qed

lemma is_graphic_digit: "is_ascii_digit c \<Longrightarrow> is_graphic c"
  by (simp add: is_ascii_digit_def is_graphic_def)

lemma trim_digits: "all_digits s \<Longrightarrow> trim s = s"
  by (rule trim_graphic) (auto simp: all_digits_def list_all_iff is_graphic_digit)

lemma hd_dec_nat: "is_ascii_digit (hd (dec_nat n))"
  using all_digits_dec_nat [of n] by (cases "dec_nat n") (auto simp: all_digits_def)

lemma not_digit_signs [simp]:
  "\<not> is_ascii_digit CHR ''-''" "\<not> is_ascii_digit CHR ''+''" "\<not> is_ascii_digit CHR ''_''"
  by (simp_all add: is_ascii_digit_def char_code_def)

lemma parse_i64_dec_int:
  assumes "- (2 ^ 63) \<le> i" and "i < 2 ^ 63"
  shows "parse_i64 (dec_int i) = Some i"
proof (cases "i < 0")
  case True
  with assms show ?thesis by (simp add: dec_int_def parse_i64_def nat_le_iff)
next
  case False
  obtain c cs where cs: "dec_nat (nat i) = c # cs"
    by (cases "dec_nat (nat i)") auto
  with hd_dec_nat [of "nat i"] have c: "is_ascii_digit c" by simp
  then have "c \<noteq> CHR ''-''" "c \<noteq> CHR ''+''" by auto
  moreover have "all_digits (c # cs)" "dec_value (c # cs) = nat i"
    using cs all_digits_dec_nat dec_value_dec_nat by metis+
  ultimately show ?thesis
    using False assms cs by (simp add: dec_int_def parse_i64_def nat_less_iff)
qed

lemma underscore_notin_dec_int: "CHR ''_'' \<notin> set (dec_int i)"
proof -
  have "CHR ''_'' \<notin> set (dec_nat n)" for n
    using all_digits_dec_nat [of n] by (auto simp: all_digits_def list_all_iff)
  then show ?thesis by (auto simp: dec_int_def)
qed

section \<open>Durations\<close>

definition nanos_per_sec :: int where "nanos_per_sec = 1000000000"

text \<open>\<open>DateTime::timestamp\<close> floors; \<open>TimeDelta::num_seconds\<close> truncates towards zero.\<close>

definition timestamp :: "time \<Rightarrow> int" where
  "timestamp t = t div nanos_per_sec"

definition from_timestamp :: "int \<Rightarrow> time" where
  "from_timestamp s = s * nanos_per_sec"

definition num_seconds :: "int \<Rightarrow> int" where
  "num_seconds d = (if 0 \<le> d then d div nanos_per_sec else - ((- d) div nanos_per_sec))"

definition make_interval :: "int \<Rightarrow> int" where
  "make_interval secs = secs * nanos_per_sec"

definition timestamp_micros :: "time \<Rightarrow> int" where
  "timestamp_micros t = t div 1000"

lemma timestamp_from_timestamp [simp]: "timestamp (from_timestamp s) = s"
  by (simp add: timestamp_def from_timestamp_def nanos_per_sec_def)

section \<open>JSON\<close>

text \<open>\<^verbatim>\<open>serde_json::Value\<close>. Objects keep their entries as an association list.\<close>

datatype json =
    JNull
  | JBool bool
  | JInt int
  | JFloat "64 word"
  | JStr string
  | JArr "json list"
  | JObj "(string \<times> json) list"

fun as_object :: "json \<Rightarrow> (string \<times> json) list option" where
  "as_object (JObj kvs) = Some kvs"
| "as_object _ = None"

fun as_str :: "json \<Rightarrow> string option" where
  "as_str (JStr s) = Some s"
| "as_str _ = None"

fun as_array :: "json \<Rightarrow> json list option" where
  "as_array (JArr xs) = Some xs"
| "as_array _ = None"

fun json_as_u64 :: "json \<Rightarrow> nat option" where
  "json_as_u64 (JInt i) = (if 0 \<le> i \<and> i < 2 ^ 64 then Some (nat i) else None)"
| "json_as_u64 _ = None"

fun is_object :: "json \<Rightarrow> bool" where
  "is_object (JObj _) = True"
| "is_object _ = False"

fun is_null :: "json \<Rightarrow> bool" where
  "is_null JNull = True"
| "is_null _ = False"

text \<open>\<open>Value::get\<close> with a string key.\<close>

fun jget :: "json \<Rightarrow> string \<Rightarrow> json option" where
  "jget (JObj kvs) k = map_of kvs k"
| "jget _ k = None"

text \<open>\<open>Map::insert\<close>: replaces the entry of an existing key.\<close>

fun obj_insert :: "string \<Rightarrow> json \<Rightarrow> (string \<times> json) list \<Rightarrow> (string \<times> json) list" where
  "obj_insert k v [] = [(k, v)]"
| "obj_insert k v ((k', v') # kvs) =
     (if k = k' then (k, v) # kvs else (k', v') # obj_insert k v kvs)"

text \<open>\<open>data["key"] = v\<close>: on an object an insert; the sources only use it on objects.\<close>

fun jset :: "string \<Rightarrow> json \<Rightarrow> json \<Rightarrow> json" where
  "jset k v (JObj kvs) = JObj (obj_insert k v kvs)"
| "jset k v j = j"

definition jopt :: "('a \<Rightarrow> json) \<Rightarrow> 'a option \<Rightarrow> json" where
  "jopt f x = (case x of None \<Rightarrow> JNull | Some v \<Rightarrow> f v)"

lemma map_of_obj_insert [simp]: "map_of (obj_insert k v kvs) = (map_of kvs)(k \<mapsto> v)"
  by (induction k v kvs rule: obj_insert.induct) auto

lemma keys_obj_insert: "fst ` set (obj_insert k v kvs) = insert k (fst ` set kvs)"
  by (induction k v kvs rule: obj_insert.induct) auto

section \<open>Rows\<close>

text \<open>
  A table is the list of its rows. \<open>UPDATE ... WHERE p RETURNING ...\<close> read with \<open>fetch_optional\<close>
  changes every row that satisfies \<open>p\<close> and returns the first of them as updated.
\<close>

definition upd_rows :: "('r \<Rightarrow> bool) \<Rightarrow> ('r \<Rightarrow> 'r) \<Rightarrow> 'r list \<Rightarrow> 'r list" where
  "upd_rows p f rows = map (\<lambda>r. if p r then f r else r) rows"

definition update_returning :: "('r \<Rightarrow> bool) \<Rightarrow> ('r \<Rightarrow> 'r) \<Rightarrow> 'r list \<Rightarrow> 'r list \<times> 'r option" where
  "update_returning p f rows = (upd_rows p f rows, map_option f (find p rows))"

lemma upd_rows_none: "\<forall>r \<in> set rows. \<not> p r \<Longrightarrow> upd_rows p f rows = rows"
  by (induction rows) (auto simp: upd_rows_def)

lemma find_None_upd_rows: "find p rows = None \<Longrightarrow> upd_rows p f rows = rows"
  by (auto simp: find_None_iff intro: upd_rows_none)

lemma map_upd_rows: "(\<And>r. g (f r) = g r) \<Longrightarrow> map g (upd_rows p f rows) = map g rows"
  by (auto simp: upd_rows_def)

lemma in_upd_rows:
  "r' \<in> set (upd_rows p f rows) \<longleftrightarrow> (\<exists>r \<in> set rows. r' = (if p r then f r else r))"
  by (auto simp: upd_rows_def)

lemma in_upd_rowsE:
  assumes "r' \<in> set (upd_rows p f rows)"
  obtains (hit) r where "r \<in> set rows" "p r" "r' = f r"
    | (miss) "r' \<in> set rows" "\<not> p r'"
  using assms by (auto simp: in_upd_rows split: if_splits)

lemma find_SomeD: "find p xs = Some x \<Longrightarrow> x \<in> set xs \<and> p x"
  by (auto simp: find_Some_iff)

lemma find_append: "find p (xs @ ys) = (case find p xs of None \<Rightarrow> find p ys | Some x \<Rightarrow> Some x)"
  by (induction xs) auto

lemma find_unique:
  assumes "distinct (map k xs)" and "x \<in> set xs" and "k x = i" and "q x"
    and "\<And>y. q y \<Longrightarrow> k y = i"
  shows "find q xs = Some x"
  using assms
proof (induction xs)
  case Nil
  then show ?case by simp
next
  case (Cons y ys)
  show ?case
  proof (cases "y = x")
    case True
    with Cons.prems show ?thesis by simp
  next
    case False
    then have "x \<in> set ys" using Cons.prems by simp
    moreover have "\<not> q y"
      using Cons.prems calculation by (auto simp: image_iff)
    ultimately show ?thesis using Cons by simp
  qed
qed

lemma unique_by_key:
  "distinct (map k xs) \<Longrightarrow> x \<in> set xs \<Longrightarrow> y \<in> set xs \<Longrightarrow> k x = k y \<Longrightarrow> x = y"
  by (metis distinct_map inj_onD)

section \<open>Ordered maps\<close>

text \<open>
  A \<open>BTreeMap\<close> is its list of entries in key order; \<open>insert\<close> replaces the value of an existing key.
\<close>

fun bt_insert :: "'k::linorder \<Rightarrow> 'v \<Rightarrow> ('k \<times> 'v) list \<Rightarrow> ('k \<times> 'v) list" where
  "bt_insert k v [] = [(k, v)]"
| "bt_insert k v ((k', v') # m) =
     (if k < k' then (k, v) # (k', v') # m
      else if k = k' then (k, v) # m
      else (k', v') # bt_insert k v m)"

definition bt_values :: "('k \<times> 'v) list \<Rightarrow> 'v list" where
  "bt_values m = map snd m"

definition bt_sorted :: "('k::linorder \<times> 'v) list \<Rightarrow> bool" where
  "bt_sorted m = sorted_wrt (<) (map fst m)"

lemma bt_keys_insert [simp]: "fst ` set (bt_insert k v m) = insert k (fst ` set m)"
  by (induction k v m rule: bt_insert.induct) auto

lemma bt_sorted_insert: "bt_sorted m \<Longrightarrow> bt_sorted (bt_insert k v m)"
proof (induction k v m rule: bt_insert.induct)
  case (2 k v k' v' m)
  have "set (map fst (bt_insert k v m)) = insert k (fst ` set m)" by simp
  with 2 show ?case by (force simp: bt_sorted_def)
qed (simp add: bt_sorted_def)

lemma map_of_bt_insert:
  "bt_sorted m \<Longrightarrow> map_of (bt_insert k v m) = (map_of m)(k \<mapsto> v)"
proof (induction k v m rule: bt_insert.induct)
  case (2 k v k' v' m)
  then have "bt_sorted m" "\<forall>k'' \<in> fst ` set m. k' < k''"
    by (auto simp: bt_sorted_def)
  moreover from this have "k < k' \<Longrightarrow> map_of m k = None"
    by (metis map_of_eq_None_iff order_less_asym order_less_trans)
  ultimately show ?case
    using 2 by (auto simp: fun_eq_iff)
qed simp

section \<open>Third-party code\<close>

text \<open>
  The functions of other crates that the sources call (\<^verbatim>\<open>alloy\<close>, \<^verbatim>\<open>uuid\<close>, \<^verbatim>\<open>hex\<close>, \<^verbatim>\<open>sha2\<close>,
  \<^verbatim>\<open>hmac\<close>, \<^verbatim>\<open>chrono\<close>'s formatting, \<^verbatim>\<open>serde_json\<close>'s printer). They are parameters: a definition that
  uses them takes this record, and a theorem that relies on them states what it relies on.
  \<open>l_abi_decode sig data\<close> is \<open>T::abi_decode\<close> for the Solidity error or call with that signature:
  its arguments when the data starts with its selector and decodes, \<open>None\<close> otherwise.
\<close>

datatype abi_value =
    AUint u256
  | AAddr address
  | AB256 b256
  | ABytes bytes
  | AStr string
  | ATuple "abi_value list"
  | AArray "abi_value list"

datatype sqlx_error =
    RowNotFound
  | UniqueViolation
  | PoolTimedOut
  | PoolClosed
  | Io
  | Protocol string
  | OtherDb string

record lib =
  l_parse_address :: "string \<Rightarrow> address option"
  l_parse_b256 :: "string \<Rightarrow> b256 option"
  l_parse_bytes :: "string \<Rightarrow> bytes option"
  l_parse_u256 :: "string \<Rightarrow> u256 option"
  l_u256_radix10 :: "string \<Rightarrow> u256 option"
  l_parse_uuid :: "string \<Rightarrow> uuid option"
  l_fmt_address :: "address \<Rightarrow> string"
  l_fmt_b256 :: "b256 \<Rightarrow> string"
  l_fmt_bytes :: "bytes \<Rightarrow> string"
  l_fmt_uuid :: "uuid \<Rightarrow> string"
  l_fmt_time :: "time \<Rightarrow> string"
  l_checksum :: "address \<Rightarrow> string"
  l_hex_encode :: "bytes \<Rightarrow> string"
  l_hex_decode :: "string \<Rightarrow> bytes option"
  l_uuid_v7 :: "nat \<Rightarrow> uuid"
  l_uuid_unix :: "uuid \<Rightarrow> nat option"
  l_keccak256 :: "bytes \<Rightarrow> b256"
  l_sha256 :: "bytes \<Rightarrow> bytes"
  l_hmac_sha256 :: "bytes \<Rightarrow> bytes \<Rightarrow> bytes"
  l_create :: "address \<Rightarrow> nat \<Rightarrow> address"
  l_create2 :: "address \<Rightarrow> b256 \<Rightarrow> b256 \<Rightarrow> address"
  l_abi_decode :: "string \<Rightarrow> bytes \<Rightarrow> abi_value list option"
  l_abi_encode_call :: "string \<Rightarrow> abi_value list \<Rightarrow> bytes"
  l_abi_encode_params :: "abi_value list \<Rightarrow> bytes"
  l_fmt_u256_hex :: "u256 \<Rightarrow> string"
  l_panic_kind :: "nat \<Rightarrow> string option"
  l_payment_creation_code :: bytes
  l_fmt_sqlx :: "sqlx_error \<Rightarrow> string"
  l_json_to_string :: "json \<Rightarrow> string"
  l_fmt_debug :: "string \<Rightarrow> string"
  l_fmt_debug_json :: "json option \<Rightarrow> string"
  l_fmt_time_millis :: "time \<Rightarrow> string"
  l_fmt_usd_cost :: "string \<Rightarrow> string option"

text \<open>
  \<open>l_u256_radix10\<close> is \<open>U256::from_str_radix(_, 10)\<close>,
  \<open>l_abi_encode_call sig args\<close> is \<open>SolCall::abi_encode\<close> (selector and arguments),
  \<open>l_abi_encode_params\<close> is \<open>abi_encode_params\<close> of a tuple, and \<open>l_payment_creation_code\<close> the bytes of
  the pinned \<^verbatim>\<open>payment_creation_code.hex\<close>. \<open>l_fmt_debug\<close> and \<open>l_fmt_debug_json\<close> are the \<open>Debug\<close> texts
  of a string and of an optional JSON value, which only appear in messages; \<open>l_fmt_time_millis\<close> is
  RFC 3339 with milliseconds, and \<open>l_fmt_usd_cost s\<close> reads \<open>s\<close> as an \<open>f64\<close> and prints
  \<open>(-usd).max(0.0)\<close> with two decimals.
\<close>

text \<open>Documented behaviour of these functions, named so that theorems can ask for it.\<close>

definition u256_parser_ok :: "lib \<Rightarrow> bool" where
  "u256_parser_ok L = (\<forall>s. all_digits s \<longrightarrow>
     l_parse_u256 L s = (if dec_value s < 2 ^ 256 then Some (of_nat (dec_value s)) else None))"

definition u256_radix_ok :: "lib \<Rightarrow> bool" where
  "u256_radix_ok L = (\<forall>s. all_digits s \<longrightarrow>
     l_u256_radix10 L s = (if dec_value s < 2 ^ 256 then Some (of_nat (dec_value s)) else None))"

text \<open>\<open>hex::encode\<close> writes hexadecimal digits only.\<close>

definition hex_alphabet_ok :: "lib \<Rightarrow> bool" where
  "hex_alphabet_ok L = (\<forall>b. list_all is_ascii_hexdigit (l_hex_encode L b))"

text \<open>\<open>hex::decode\<close> reads upper and lower case digits alike.\<close>

definition hex_case_ok :: "lib \<Rightarrow> bool" where
  "hex_case_ok L = (\<forall>s. l_hex_decode L (to_ascii_lowercase s) = l_hex_decode L s)"

definition address_codec_ok :: "lib \<Rightarrow> bool" where
  "address_codec_ok L = ((\<forall>a. l_parse_address L (l_fmt_address L a) = Some a) \<and> l_parse_address L [] = None)"

definition b256_codec_ok :: "lib \<Rightarrow> bool" where
  "b256_codec_ok L = (\<forall>a. l_parse_b256 L (l_fmt_b256 L a) = Some a)"

definition bytes_codec_ok :: "lib \<Rightarrow> bool" where
  "bytes_codec_ok L = (\<forall>b. l_parse_bytes L (l_fmt_bytes L b) = Some b)"

definition uuid_codec_ok :: "lib \<Rightarrow> bool" where
  "uuid_codec_ok L = (\<forall>i. l_parse_uuid L (l_fmt_uuid L i) = Some i)"

definition hex_codec_ok :: "lib \<Rightarrow> bool" where
  "hex_codec_ok L = (\<forall>b. l_hex_decode L (l_hex_encode L b) = Some b)"

text \<open>\<open>Uuid::now_v7\<close> is monotonic: later calls return greater ids.\<close>

definition uuid_v7_ok :: "lib \<Rightarrow> bool" where
  "uuid_v7_ok L = strict_mono (l_uuid_v7 L)"

lemma u256_parser_to_string:
  assumes "u256_parser_ok L"
  shows "l_parse_u256 L (u256_to_string a) = Some a"
proof -
  have "unat a < 2 ^ 256" using unsigned_less [of a] by simp
  then show ?thesis
    using assms by (simp add: u256_parser_ok_def u256_to_string_def)
qed

end
