(* ===== verification/Chain_Payment.thy ===== *)
theory Chain_Payment
  imports Gum_Base
begin

text \<open>
  \<^verbatim>\<open>src/chain/mod.rs\<close> and \<^verbatim>\<open>src/chain/payment.rs\<close>: the registry of chains and tokens, the terms a
  payment address commits to, and the reading of an \<open>execute\<close> receipt's logs. ABI encoding,
  hashing and CREATE/CREATE2 come from \<^verbatim>\<open>alloy\<close> and are taken from the \<^typ>\<open>lib\<close> parameter.
\<close>

section \<open>Chains and tokens\<close>

record token_config =
  tc_symbol :: string
  tc_address :: address
  tc_decimals :: nat

record chain_config =
  cc_chain_id :: nat
  cc_enabled :: bool
  cc_tokens :: "token_config list"

record token_spec =
  ts_symbol :: string
  ts_address :: address
  ts_decimals :: nat

record chain_spec =
  cs_name :: string
  cs_chain_id :: nat
  cs_enabled :: bool
  cs_tokens :: "token_spec list"

definition chain_token :: "lib \<Rightarrow> chain_spec \<Rightarrow> string \<Rightarrow> token_spec option" where
  "chain_token L c raw0 = (let raw = trim raw0 in
     case l_parse_address L raw of
       Some address \<Rightarrow> find (\<lambda>t. ts_address t = address) (cs_tokens c)
     | None \<Rightarrow> find (\<lambda>t. eq_ignore_ascii_case (ts_symbol t) raw) (cs_tokens c))"

record registry =
  by_id :: "(nat \<times> chain_spec) list"
  by_name :: "(string \<times> chain_spec) list"

definition empty_registry :: registry where
  "empty_registry = \<lparr>by_id = [], by_name = []\<rparr>"

definition token_of_config :: "token_config \<Rightarrow> token_spec" where
  "token_of_config t = \<lparr>ts_symbol = to_ascii_uppercase (tc_symbol t), ts_address = tc_address t,
     ts_decimals = tc_decimals t\<rparr>"

definition spec_of_config :: "string \<Rightarrow> chain_config \<Rightarrow> chain_spec" where
  "spec_of_config name chain = \<lparr>cs_name = name, cs_chain_id = cc_chain_id chain,
     cs_enabled = cc_enabled chain, cs_tokens = map token_of_config (cc_tokens chain)\<rparr>"

fun registry_insert :: "string \<times> chain_config \<Rightarrow> registry \<Rightarrow> registry" where
  "registry_insert (name, chain) r = (let spec = spec_of_config name chain in
     \<lparr>by_id = bt_insert (cc_chain_id chain) spec (by_id r),
      by_name = bt_insert (to_ascii_lowercase name) spec (by_name r)\<rparr>)"

definition from_config :: "(string \<times> chain_config) list \<Rightarrow> registry" where
  "from_config cfgs = fold registry_insert cfgs empty_registry"

definition chain_by_id :: "registry \<Rightarrow> nat \<Rightarrow> chain_spec option" where
  "chain_by_id r i = map_of (by_id r) i"

definition registry_chain :: "registry \<Rightarrow> string \<Rightarrow> chain_spec option" where
  "registry_chain r raw0 = (let raw = trim raw0 in
     case parse_u64 raw of
       Some i \<Rightarrow> map_of (by_id r) i
     | None \<Rightarrow> map_of (by_name r) (to_ascii_lowercase raw))"

definition registry_chains :: "registry \<Rightarrow> chain_spec list" where
  "registry_chains r = filter cs_enabled (bt_values (by_id r))"

definition chain_ids :: "registry \<Rightarrow> nat list" where
  "chain_ids r = map cs_chain_id (registry_chains r)"

definition disabled_chain_ids :: "registry \<Rightarrow> nat list" where
  "disabled_chain_ids r = map cs_chain_id (filter (\<lambda>c. \<not> cs_enabled c) (bt_values (by_id r)))"

section \<open>Payment terms\<close>

record call =
  c_target :: address
  c_data :: bytes

record payment_terms =
  pt_token :: address
  pt_amount :: u256
  pt_calls :: "call list"
  pt_expiration_timestamp :: nat
  pt_recovery :: address
  pt_salt :: b256
  pt_chain_id :: nat

definition transfer_sig :: string where
  "transfer_sig = ''transfer(address,uint256)''"

definition execute_sig :: string where
  "execute_sig =
     ''execute(address,uint256,(address,bytes)[],uint64,address,bytes32,uint256)''"

text \<open>\<open>Call::transfer\<close>: \<open>token.transfer(to, amount)\<close>.\<close>

definition call_transfer :: "lib \<Rightarrow> address \<Rightarrow> address \<Rightarrow> u256 \<Rightarrow> call" where
  "call_transfer L token to amount =
     \<lparr>c_target = token, c_data = l_abi_encode_call L transfer_sig [AAddr to, AUint amount]\<rparr>"

definition payment_implementation :: "lib \<Rightarrow> address \<Rightarrow> address" where
  "payment_implementation L factory = l_create L factory 1"

definition abi_of_call :: "call \<Rightarrow> abi_value" where
  "abi_of_call c = ATuple [AAddr (c_target c), ABytes (c_data c)]"

definition execute_args :: "payment_terms \<Rightarrow> abi_value list" where
  "execute_args t = [AAddr (pt_token t), AUint (pt_amount t), AArray (map abi_of_call (pt_calls t)),
     AUint (of_nat (pt_expiration_timestamp t)), AAddr (pt_recovery t), AB256 (pt_salt t),
     AUint (of_nat (pt_chain_id t))]"

definition execute_calldata :: "lib \<Rightarrow> payment_terms \<Rightarrow> bytes" where
  "execute_calldata L t = l_abi_encode_call L execute_sig (execute_args t)"

definition init_code :: "lib \<Rightarrow> payment_terms \<Rightarrow> address \<Rightarrow> bytes" where
  "init_code L t factory = (let terms = drop 4 (execute_calldata L t) in
     l_payment_creation_code L
       @ l_abi_encode_params L [AAddr (payment_implementation L factory), ABytes terms])"

definition payment_address :: "lib \<Rightarrow> payment_terms \<Rightarrow> address \<Rightarrow> address" where
  "payment_address L t factory = l_create2 L factory 0 (l_keccak256 L (init_code L t factory))"

section \<open>What \<open>execute\<close> did\<close>

datatype exec_outcome = OSettled | ORecoveredOnly | OWrongChain | ONoEvents

record receipt_log =
  rl_address :: address
  rl_topics :: "b256 list"
  rl_data :: bytes

definition ascii_bytes :: "string \<Rightarrow> bytes" where
  "ascii_bytes s = map (\<lambda>c. of_nat (char_code c)) s"

text \<open>\<open>SIGNATURE_HASH\<close> of the three events of \<open>IPayment\<close>.\<close>

definition settled_topic :: "lib \<Rightarrow> b256" where
  "settled_topic L = l_keccak256 L (ascii_bytes ''Settled(address,uint256)'')"

definition recovered_topic :: "lib \<Rightarrow> b256" where
  "recovered_topic L = l_keccak256 L (ascii_bytes ''Recovered(address,address,uint256)'')"

definition wrong_chain_topic :: "lib \<Rightarrow> b256" where
  "wrong_chain_topic L = l_keccak256 L (ascii_bytes ''WrongChain(uint256,uint256)'')"

fun outcome_loop :: "lib \<Rightarrow> bool \<Rightarrow> receipt_log list \<Rightarrow> exec_outcome" where
  "outcome_loop L recovered [] = (if recovered then ORecoveredOnly else ONoEvents)"
| "outcome_loop L recovered (entry # logs) =
     (case rl_topics entry of
        [] \<Rightarrow> outcome_loop L recovered logs
      | topic0 # _ \<Rightarrow>
          if topic0 = settled_topic L then OSettled
          else if topic0 = wrong_chain_topic L then OWrongChain
          else outcome_loop L (recovered \<or> topic0 = recovered_topic L) logs)"

definition execution_outcome :: "lib \<Rightarrow> receipt_log list \<Rightarrow> address \<Rightarrow> exec_outcome" where
  "execution_outcome L logs payment_addr =
     outcome_loop L False (filter (\<lambda>l. rl_address l = payment_addr) logs)"

section \<open>Registry lemmas\<close>

definition registry_ok :: "registry \<Rightarrow> bool" where
  "registry_ok r = (bt_sorted (by_id r) \<and> bt_sorted (by_name r)
     \<and> (\<forall>i c. map_of (by_id r) i = Some c \<longrightarrow> cs_chain_id c = i)
     \<and> (\<forall>n c. map_of (by_name r) n = Some c \<longrightarrow> to_ascii_lowercase (cs_name c) = n))"

lemma registry_ok_empty: "registry_ok empty_registry"
  by (simp add: registry_ok_def empty_registry_def bt_sorted_def)

lemma registry_ok_insert: "registry_ok r \<Longrightarrow> registry_ok (registry_insert nc r)"
  by (cases nc)
    (auto simp: registry_ok_def Let_def bt_sorted_insert map_of_bt_insert spec_of_config_def
      split: if_splits)

lemma registry_ok_fold: "registry_ok r \<Longrightarrow> registry_ok (fold registry_insert cfgs r)"
  by (induction cfgs arbitrary: r) (auto intro: registry_ok_insert)

lemma registry_ok_from_config: "registry_ok (from_config cfgs)"
  by (simp add: from_config_def registry_ok_fold registry_ok_empty)

lemma by_id_fold:
  assumes "registry_ok r" and "i \<notin> cc_chain_id ` snd ` set cfgs"
  shows "map_of (by_id (fold registry_insert cfgs r)) i = map_of (by_id r) i"
  using assms
proof (induction cfgs arbitrary: r)
  case Nil
  then show ?case by simp
next
  case (Cons nc cfgs)
  obtain n c where nc: "nc = (n, c)" by force
  have "registry_ok (registry_insert nc r)" using Cons.prems by (simp add: registry_ok_insert)
  moreover have "bt_sorted (by_id r)" using Cons.prems by (simp add: registry_ok_def)
  ultimately show ?case
    using Cons.IH [of "registry_insert nc r"] Cons.prems nc
    by (simp add: Let_def map_of_bt_insert)
qed

text \<open>With distinct chain ids (which \<open>Config::validate\<close> enforces) every configured chain is kept.\<close>

lemma from_config_by_id:
  assumes "distinct (map (cc_chain_id \<circ> snd) cfgs)" and "(name, chain) \<in> set cfgs"
  shows "chain_by_id (from_config cfgs) (cc_chain_id chain) = Some (spec_of_config name chain)"
proof -
  obtain xs ys where split: "cfgs = xs @ (name, chain) # ys"
    using assms(2) by (meson split_list)
  define r where "r = fold registry_insert xs empty_registry"
  have r: "registry_ok r" by (simp add: r_def registry_ok_fold registry_ok_empty)
  have "cc_chain_id chain \<notin> cc_chain_id ` snd ` set ys"
    using assms(1) split by (auto simp: image_iff)
  then have "map_of (by_id (fold registry_insert ys (registry_insert (name, chain) r)))
      (cc_chain_id chain) = map_of (by_id (registry_insert (name, chain) r)) (cc_chain_id chain)"
    using by_id_fold registry_ok_insert [OF r] by blast
  also have "\<dots> = Some (spec_of_config name chain)"
    using r by (simp add: Let_def map_of_bt_insert registry_ok_def)
  finally show ?thesis by (simp add: chain_by_id_def from_config_def split r_def)
qed

lemma chain_ids_enabled:
  assumes "registry_ok r"
  shows "i \<in> set (chain_ids r) \<longleftrightarrow> (\<exists>c. chain_by_id r i = Some c \<and> cs_enabled c)"
proof -
  have d: "distinct (map fst (by_id r))"
    using assms by (auto simp: registry_ok_def bt_sorted_def strict_sorted_iff)
  have "i \<in> set (chain_ids r) \<longleftrightarrow> (\<exists>j c. (j, c) \<in> set (by_id r) \<and> cs_enabled c \<and> cs_chain_id c = i)"
    by (force simp: chain_ids_def registry_chains_def bt_values_def)
  also have "\<dots> \<longleftrightarrow> (\<exists>c. map_of (by_id r) i = Some c \<and> cs_enabled c)"
    using assms d by (auto simp: registry_ok_def map_of_eq_Some_iff)
  finally show ?thesis by (simp add: chain_by_id_def)
qed

section \<open>Address derivation\<close>

text \<open>
  What \<^verbatim>\<open>alloy\<close> documents of ABI encoding: a call is a four-byte selector followed by the encoded
  arguments, and an encoding determines the values it encodes.
\<close>

definition abi_codec_ok :: "lib \<Rightarrow> bool" where
  "abi_codec_ok L = ((\<forall>sig. \<exists>sel. length sel = 4
       \<and> (\<forall>args. l_abi_encode_call L sig args = sel @ l_abi_encode_params L args))
     \<and> inj (l_abi_encode_params L))"

lemma drop_selector:
  "abi_codec_ok L \<Longrightarrow> drop 4 (execute_calldata L t) = l_abi_encode_params L (execute_args t)"
  by (auto simp: abi_codec_ok_def execute_calldata_def) (metis append_eq_conv_conj)

lemma of_nat_u64_inj:
  fixes a b :: nat
  assumes "(of_nat a :: u256) = of_nat b" and "a < 2 ^ 64" and "b < 2 ^ 64"
  shows "a = b"
proof -
  have "a < 2 ^ LENGTH(256)" "b < 2 ^ LENGTH(256)" using assms(2,3) by simp_all
  then show ?thesis using assms(1) by (metis of_nat_inverse)
qed

lemma abi_of_call_inj: "map abi_of_call xs = map abi_of_call ys \<Longrightarrow> xs = ys"
proof -
  have "inj abi_of_call" by (rule injI) (simp add: abi_of_call_def)
  then show "map abi_of_call xs = map abi_of_call ys \<Longrightarrow> xs = ys"
    by (simp add: inj_map_eq_map)
qed

lemma execute_args_inj:
  assumes "execute_args s = execute_args t"
    and "pt_expiration_timestamp s < 2 ^ 64" "pt_expiration_timestamp t < 2 ^ 64"
    and "pt_chain_id s < 2 ^ 64" "pt_chain_id t < 2 ^ 64"
  shows "s = t"
proof (rule payment_terms.equality)
  show "pt_calls s = pt_calls t"
    using assms(1) by (simp add: execute_args_def abi_of_call_inj)
  show "pt_expiration_timestamp s = pt_expiration_timestamp t" "pt_chain_id s = pt_chain_id t"
    using assms by (auto simp: execute_args_def intro: of_nat_u64_inj)
qed (use assms(1) in \<open>simp_all add: execute_args_def\<close>)

lemma init_code_inj:
  assumes "abi_codec_ok L" and "init_code L s factory = init_code L t factory"
    and "pt_expiration_timestamp s < 2 ^ 64" "pt_expiration_timestamp t < 2 ^ 64"
    and "pt_chain_id s < 2 ^ 64" "pt_chain_id t < 2 ^ 64"
  shows "s = t"
proof -
  have inj: "inj (l_abi_encode_params L)" using assms(1) by (simp add: abi_codec_ok_def)
  have "l_abi_encode_params L (execute_args s) = l_abi_encode_params L (execute_args t)"
    using assms(1,2) injD [OF inj] by (fastforce simp: init_code_def Let_def drop_selector)
  then have "execute_args s = execute_args t" by (rule injD [OF inj])
  then show ?thesis using assms(3-6) by (rule execute_args_inj)
qed

section \<open>Receipt lemmas\<close>

definition topic0_is :: "b256 \<Rightarrow> receipt_log \<Rightarrow> bool" where
  "topic0_is h entry = (\<exists>ts. rl_topics entry = h # ts)"

lemma outcome_loop_settled:
  "outcome_loop L rec logs = OSettled \<longleftrightarrow>
     (\<exists>pre entry post. logs = pre @ entry # post \<and> topic0_is (settled_topic L) entry
        \<and> (\<forall>l \<in> set pre. \<not> topic0_is (settled_topic L) l \<and> \<not> topic0_is (wrong_chain_topic L) l))"
proof (induction L rec logs rule: outcome_loop.induct)
  case (1 L rec)
  then show ?case by simp
next
  case (2 L rec entry logs)
  let ?bad = "\<lambda>l. topic0_is (settled_topic L) l \<or> topic0_is (wrong_chain_topic L) l"
  let ?R = "\<lambda>ls. \<exists>pre lg post. ls = pre @ lg # post \<and> topic0_is (settled_topic L) lg
        \<and> (\<forall>l \<in> set pre. \<not> topic0_is (settled_topic L) l \<and> \<not> topic0_is (wrong_chain_topic L) l)"
  have R: "?R (entry # logs) \<longleftrightarrow> topic0_is (settled_topic L) entry \<or> \<not> ?bad entry \<and> ?R logs"
  proof
    assume "?R (entry # logs)"
    then obtain pre lg post where *: "entry # logs = pre @ lg # post" "topic0_is (settled_topic L) lg"
      "\<forall>l \<in> set pre. \<not> topic0_is (settled_topic L) l \<and> \<not> topic0_is (wrong_chain_topic L) l"
      by blast
    then show "topic0_is (settled_topic L) entry \<or> \<not> ?bad entry \<and> ?R logs"
      by (cases pre) auto
  next
    assume "topic0_is (settled_topic L) entry \<or> \<not> ?bad entry \<and> ?R logs"
    then show "?R (entry # logs)"
    proof
      assume "topic0_is (settled_topic L) entry"
      then show ?thesis by (intro exI [of _ "[]"]) auto
    next
      assume "\<not> ?bad entry \<and> ?R logs"
      then obtain pre lg post where "\<not> ?bad entry" "logs = pre @ lg # post"
        "topic0_is (settled_topic L) lg" "\<forall>l \<in> set pre. \<not> ?bad l" by blast
      then show ?thesis by (intro exI [of _ "entry # pre"]) auto
    qed
  qed
  show ?case
    using 2 unfolding R by (cases "rl_topics entry") (auto simp: topic0_is_def)
qed

end
