(* ===== verification/Relay_Wire.thy ===== *)
theory Relay_Wire
  imports Chain_Payment
begin

text \<open>
  The wire types of \<^verbatim>\<open>src/clients/relay.rs\<close>: Relay's chains, tokens and quotes, and Relay's contracts
  on a chain by the role they play. An \<open>f64\<close> is its 64 bits.
\<close>

section \<open>Chains\<close>

record relay_metadata =
  rm_logo_uri :: "string option"
  rm_verified :: "bool option"

record relay_chain_currency =
  rcc_symbol :: string
  rcc_name :: string
  rcc_address :: string
  rcc_decimals :: nat
  rcc_metadata :: "relay_metadata option"

record relay_router_contracts =
  rrc_erc20_router :: "string option"
  rrc_approval_proxy :: "string option"

record relay_contracts =
  rk_multicall3 :: "string option"
  rk_relay_receiver :: "string option"
  rk_erc20_router :: "string option"
  rk_approval_proxy :: "string option"
  rk_v3 :: "relay_router_contracts option"

record relay_protocol_v2 =
  rp_depository :: "string option"
  rp_chain_id :: "string option"

record relay_protocol =
  rp_v2 :: "relay_protocol_v2 option"

record relay_chain =
  rc_id :: nat
  rc_name :: string
  rc_display_name :: string
  rc_vm_type :: string
  rc_disabled :: bool
  rc_deposit_enabled :: bool
  rc_http_rpc_url :: string
  rc_explorer_url :: string
  rc_icon_url :: "string option"
  rc_currency :: "relay_chain_currency option"
  rc_featured_tokens :: "relay_chain_currency list"
  rc_erc20_currencies :: "relay_chain_currency list"
  rc_solver_currencies :: "relay_chain_currency list"
  rc_contracts :: "relay_contracts option"
  rc_tags :: "string list"
  rc_protocol :: "relay_protocol option"

record relay_currency =
  rcu_chain_id :: nat
  rcu_address :: string
  rcu_symbol :: string
  rcu_name :: string
  rcu_decimals :: nat
  rcu_vm_type :: string
  rcu_metadata :: "relay_metadata option"

section \<open>Roles\<close>

record relay_roles =
  rr_depositories :: "address list"
  rr_approval_proxies :: "address list"
  rr_receivers :: "address list"
  rr_routers :: "address list"

definition no_roles :: relay_roles where
  "no_roles = \<lparr>rr_depositories = [], rr_approval_proxies = [], rr_receivers = [], rr_routers = []\<rparr>"

definition roles_contains :: "relay_roles \<Rightarrow> address \<Rightarrow> bool" where
  "roles_contains R a = (a \<in> set (rr_depositories R) \<or> a \<in> set (rr_approval_proxies R)
     \<or> a \<in> set (rr_receivers R) \<or> a \<in> set (rr_routers R))"

definition may_hold_allowance :: "relay_roles \<Rightarrow> address \<Rightarrow> bool" where
  "may_hold_allowance R a = (a \<in> set (rr_depositories R) \<or> a \<in> set (rr_approval_proxies R))"

definition role_address :: "lib \<Rightarrow> string option \<Rightarrow> address option" where
  "role_address L raw = filter_option (\<lambda>a. a \<noteq> 0) (Option.bind raw (l_parse_address L))"

fun flatten :: "'a option list \<Rightarrow> 'a list" where
  "flatten [] = []"
| "flatten (None # xs) = flatten xs"
| "flatten (Some x # xs) = x # flatten xs"

text \<open>\<open>sort\<close> and \<open>dedup\<close> of each list.\<close>

definition sorted_once :: "'a::linorder list \<Rightarrow> 'a list" where
  "sorted_once xs = remdups_adj (sort xs)"

definition relay_roles_of :: "lib \<Rightarrow> relay_chain \<Rightarrow> relay_roles" where
  "relay_roles_of L c =
     (let k = rc_contracts c; v3 = Option.bind k rk_v3; parse = role_address L;
          v2 = Option.bind (rc_protocol c) rp_v2 in
      \<lparr>rr_depositories = sorted_once (flatten [parse (Option.bind v2 rp_depository)]),
       rr_approval_proxies = sorted_once (flatten [parse (Option.bind k rk_approval_proxy),
         parse (Option.bind v3 rrc_approval_proxy)]),
       rr_receivers = sorted_once (flatten [parse (Option.bind k rk_relay_receiver)]),
       rr_routers = sorted_once (flatten [parse (Option.bind k rk_erc20_router),
         parse (Option.bind v3 rrc_erc20_router)])\<rparr>)"

lemma set_flatten: "set (flatten xs) = {x. Some x \<in> set xs}"
  by (induction xs rule: flatten.induct) auto

lemma set_sorted_once [simp]: "set (sorted_once xs) = set xs"
  by (simp add: sorted_once_def)

lemma role_address_nonzero: "Some 0 \<noteq> role_address L raw"
  using filter_option_eq_Some [of "\<lambda>a. a \<noteq> 0" _ "0 :: address"] by (metis role_address_def)

text \<open>The zero address plays no role, whatever Relay's chain list says.\<close>

lemma zero_has_no_role: "\<not> roles_contains (relay_roles_of L c) 0"
  by (auto simp: roles_contains_def relay_roles_of_def Let_def set_flatten role_address_nonzero)

section \<open>Quotes\<close>

record quote_request =
  qr_user :: string
  qr_recipient :: string
  qr_refund_to :: string
  qr_refund_on_origin :: bool
  qr_origin_chain_id :: nat
  qr_origin_currency :: string
  qr_destination_chain_id :: nat
  qr_destination_currency :: string
  qr_amount :: string
  qr_trade_type :: string
  qr_referrer :: string
  qr_enable_true_exact_output :: bool
  qr_force_solver_execution :: bool

record quote_currency =
  qc_chain_id :: nat
  qc_address :: string
  qc_symbol :: string
  qc_name :: string
  qc_decimals :: nat
  qc_metadata :: "relay_metadata option"

record quote_amount =
  qa_currency :: quote_currency
  qa_amount :: string
  qa_amount_formatted :: "string option"
  qa_amount_usd :: "string option"
  qa_minimum_amount :: "string option"

record quote_step_item =
  qi_status :: string
  qi_data :: json
  qi_check :: "json option"

record quote_step =
  qs_id :: string
  qs_action :: string
  qs_description :: string
  qs_kind :: string
  qs_request_id :: "string option"
  qs_items :: "quote_step_item list"

record quote_fees =
  qf_gas :: "quote_amount option"
  qf_relayer :: "quote_amount option"
  qf_app :: "quote_amount option"

record impact =
  im_usd :: "string option"
  im_percent :: "string option"

record quote_details =
  qd_operation :: string
  qd_sender :: string
  qd_recipient :: string
  qd_currency_in :: quote_amount
  qd_currency_out :: quote_amount
  qd_total_impact :: "impact option"
  qd_time_estimate :: "64 word option"
  qd_rate :: "string option"

record quote =
  q_request_id :: "string option"
  q_steps :: "quote_step list"
  q_fees :: "quote_fees option"
  q_details :: quote_details
  q_protocol :: "json option"

record intent_status =
  is_status :: string
  is_in_tx_hashes :: "string list"
  is_tx_hashes :: "string list"
  is_origin_chain_id :: "nat option"
  is_destination_chain_id :: "nat option"
  is_fail_reason :: "string option"
  is_refund_fail_reason :: "string option"
  is_updated_at :: "int option"

end
