(* ===== verification/Relay_Abi.thy ===== *)
theory Relay_Abi
  imports Relay_Wire
begin

text \<open>
  The readers and tallies behind the route checks of \<^verbatim>\<open>src/deposit/relay.rs\<close>: the bounds-checked ABI
  reader \<open>Abi\<close>, the wallet's tab \<open>Spend\<close> and the flow of one pull \<open>Flow\<close>. A \<open>usize\<close> is a natural
  number below \<open>2 ^ 64\<close>, its \<open>checked_add\<close> is written out. A reader that fails reads as \<open>None\<close>.
\<close>

section \<open>Byte slices\<close>

definition usize_add :: "nat \<Rightarrow> nat \<Rightarrow> nat option" where
  "usize_add a b = (if a + b < 2 ^ 64 then Some (a + b) else None)"

definition slice :: "bytes \<Rightarrow> nat \<Rightarrow> nat \<Rightarrow> bytes option" where
  "slice bs a b = (if a \<le> b \<and> b \<le> length bs then Some (take (b - a) (drop a bs)) else None)"

definition be_value :: "bytes \<Rightarrow> nat" where
  "be_value bs = foldl (\<lambda>acc b. acc * 256 + unat b) 0 bs"

definition from_be_slice :: "bytes \<Rightarrow> 'a::len word" where
  "from_be_slice bs = of_nat (be_value bs)"

definition split_at_4 :: "bytes \<Rightarrow> (bytes \<times> bytes) option" where
  "split_at_4 bs = (if 4 \<le> length bs then Some (take 4 bs, drop 4 bs) else None)"

lemma be_value_snoc [simp]: "be_value (bs @ [b]) = be_value bs * 256 + unat b"
  by (simp add: be_value_def)

lemma be_value_bound: "be_value bs < 256 ^ length bs"
proof (induction bs rule: rev_induct)
  case (snoc b bs)
  have "be_value bs * 256 + unat b < (be_value bs + 1) * 256" using byte_lt [of b] by simp
  also have "\<dots> \<le> 256 ^ length bs * 256" using snoc by (intro mult_right_mono) auto
  finally show ?case by simp
qed (simp add: be_value_def)

lemma unat_from_be_slice:
  assumes "8 * length bs \<le> LENGTH('a)"
  shows "unat (from_be_slice bs :: 'a::len word) = be_value bs"
proof -
  have "(256 :: nat) ^ length bs = 2 ^ (8 * length bs)" by (simp add: power_mult)
  also have "\<dots> \<le> 2 ^ LENGTH('a)" using assms by (intro power_increasing) auto
  finally have "be_value bs < 2 ^ LENGTH('a)" using be_value_bound [of bs] by simp
  then show ?thesis by (simp add: from_be_slice_def unat_of_nat)
qed

section \<open>The reader\<close>

record abi =
  ab_bytes :: bytes
  ab_base :: nat
  ab_pos :: nat

definition max_abi_offset :: nat where "max_abi_offset = 2 ^ 20"
definition max_abi_bytes :: nat where "max_abi_bytes = 8 * 2 ^ 10"
definition max_abi_items :: nat where "max_abi_items = 8"

definition abi_at :: "bytes \<Rightarrow> nat \<Rightarrow> nat \<Rightarrow> abi" where
  "abi_at bs base pos = \<lparr>ab_bytes = bs, ab_base = base, ab_pos = pos\<rparr>"

definition abi_new :: "bytes \<Rightarrow> abi" where
  "abi_new bs = abi_at bs 0 0"

definition abi_word :: "abi \<Rightarrow> (bytes \<times> abi) option" where
  "abi_word r = (case usize_add (ab_pos r) 32 of None \<Rightarrow> None | Some e \<Rightarrow>
     map_option (\<lambda>w. (w, r\<lparr>ab_pos := e\<rparr>)) (slice (ab_bytes r) (ab_pos r) e))"

definition abi_address :: "abi \<Rightarrow> (address \<times> abi) option" where
  "abi_address r = (case abi_word r of None \<Rightarrow> None | Some (w, r') \<Rightarrow>
     if list_ex (\<lambda>b. b \<noteq> 0) (take 12 w) then None else Some (from_be_slice (drop 12 w), r'))"

definition abi_uint :: "abi \<Rightarrow> (u256 \<times> abi) option" where
  "abi_uint r = map_option (\<lambda>(w, r'). (from_be_slice w, r')) (abi_word r)"

text \<open>\<open>usize::try_from\<close> of a \<open>U256\<close>.\<close>

definition usize_of :: "u256 \<Rightarrow> nat option" where
  "usize_of w = (if unat w < 2 ^ 64 then Some (unat w) else None)"

definition abi_offset :: "abi \<Rightarrow> (nat \<times> abi) option" where
  "abi_offset r = (case abi_uint r of None \<Rightarrow> None | Some (w, r') \<Rightarrow>
     map_option (\<lambda>off. (off, r')) (filter_option (\<lambda>off. off \<le> max_abi_offset) (usize_of w)))"

definition abi_dynamic :: "abi \<Rightarrow> (nat \<times> abi) option" where
  "abi_dynamic r = (case abi_offset r of None \<Rightarrow> None | Some (off, r') \<Rightarrow>
     map_option (\<lambda>p. (p, r')) (usize_add (ab_base r) off))"

definition abi_length :: "bytes \<Rightarrow> nat \<Rightarrow> (nat \<times> abi) option" where
  "abi_length bs p = (case abi_uint (abi_at bs p p) of None \<Rightarrow> None | Some (w, r) \<Rightarrow>
     map_option (\<lambda>n. (n, r)) (usize_of w))"

definition abi_bytes :: "abi \<Rightarrow> (bytes \<times> abi) option" where
  "abi_bytes r = (case abi_dynamic r of None \<Rightarrow> None | Some (p, r') \<Rightarrow>
     case abi_length (ab_bytes r) p of None \<Rightarrow> None | Some (len, _) \<Rightarrow>
       if max_abi_bytes < len then None
       else case usize_add p 32 of None \<Rightarrow> None | Some s \<Rightarrow>
         case usize_add s len of None \<Rightarrow> None | Some e \<Rightarrow>
           map_option (\<lambda>bs. (bs, r')) (slice (ab_bytes r) s e))"

fun abi_items :: "(abi \<Rightarrow> ('a \<times> abi) option) \<Rightarrow> nat \<Rightarrow> abi \<Rightarrow> 'a list option" where
  "abi_items item 0 r = Some []"
| "abi_items item (Suc n) r = (case item r of None \<Rightarrow> None | Some (x, r') \<Rightarrow>
     map_option ((#) x) (abi_items item n r'))"

definition static_items :: "(abi \<Rightarrow> ('a \<times> abi) option) \<Rightarrow> abi \<Rightarrow> ('a list \<times> abi) option" where
  "static_items item r = (case abi_dynamic r of None \<Rightarrow> None | Some (p, r') \<Rightarrow>
     case abi_length (ab_bytes r) p of None \<Rightarrow> None | Some (len, el) \<Rightarrow>
       if max_abi_items < len then None
       else map_option (\<lambda>xs. (xs, r')) (abi_items item len (el\<lparr>ab_base := ab_pos el\<rparr>)))"

record nested_call =
  nc_target :: address
  nc_allow_failure :: bool
  nc_value :: u256
  nc_data :: bytes

definition abi_bool :: "abi \<Rightarrow> (bool \<times> abi) option" where
  "abi_bool r = (case abi_uint r of None \<Rightarrow> None | Some (w, r') \<Rightarrow>
     if w = 0 then Some (False, r') else if w = 1 then Some (True, r') else None)"

definition nested_item :: "abi \<Rightarrow> (nested_call \<times> abi) option" where
  "nested_item r = (case abi_dynamic r of None \<Rightarrow> None | Some (p, r') \<Rightarrow>
     case abi_address (abi_at (ab_bytes r) p p) of None \<Rightarrow> None | Some (target, e1) \<Rightarrow>
     case abi_bool e1 of None \<Rightarrow> None | Some (allow_failure, e2) \<Rightarrow>
     case abi_uint e2 of None \<Rightarrow> None | Some (value, e3) \<Rightarrow>
     map_option (\<lambda>(data, _). (\<lparr>nc_target = target, nc_allow_failure = allow_failure, nc_value = value,
       nc_data = data\<rparr>, r')) (abi_bytes e3))"

definition nested_calls :: "abi \<Rightarrow> (nested_call list \<times> abi) option" where
  "nested_calls r = static_items nested_item r"

section \<open>What a route takes\<close>

record spend =
  sp_pulled :: u256
  sp_allowances :: "(address \<times> u256) list"

definition no_spend :: spend where
  "no_spend = \<lparr>sp_pulled = 0, sp_allowances = []\<rparr>"

definition overflow_text :: string where
  "overflow_text = ''the route's token spending overflows''"

definition spend_grant :: "address \<Rightarrow> u256 \<Rightarrow> spend \<Rightarrow> spend" where
  "spend_grant spender amount s =
     (let slot = unwrap_or 0 (map_of (sp_allowances s) spender) in
      s\<lparr>sp_allowances := bt_insert spender (if slot < amount then amount else slot) (sp_allowances s)\<rparr>)"

definition spend_transfer :: "u256 \<Rightarrow> spend \<Rightarrow> string + spend" where
  "spend_transfer amount s = (case checked_add (sp_pulled s) amount of
       None \<Rightarrow> Inl overflow_text
     | Some tot \<Rightarrow> Inr (s\<lparr>sp_pulled := tot\<rparr>))"

definition spend_pull :: "address \<Rightarrow> u256 \<Rightarrow> spend \<Rightarrow> string + spend" where
  "spend_pull spender amount s =
     spend_transfer amount (case map_of (sp_allowances s) spender of
         None \<Rightarrow> s
       | Some slot \<Rightarrow> s\<lparr>sp_allowances := bt_insert spender (slot - min slot amount) (sp_allowances s)\<rparr>)"

definition spend_exposure :: "spend \<Rightarrow> string + u256" where
  "spend_exposure s = (case checked_sum (sp_pulled s) (bt_values (sp_allowances s)) of
       None \<Rightarrow> Inl overflow_text
     | Some tot \<Rightarrow> Inr tot)"

record flow =
  fl_granted :: "(address \<times> u256) list"
  fl_consumed :: u256

definition no_flow :: flow where
  "no_flow = \<lparr>fl_granted = [], fl_consumed = 0\<rparr>"

end
