(* ===== verification/Relay_Check.thy ===== *)
theory Relay_Check
  imports Relay_Abi
begin

text \<open>
  The checks of \<^verbatim>\<open>src/deposit/relay.rs\<close> that hold a Relay quote against a deposit's terms before a
  payer sees it: \<open>check_quote\<close>, the signed order, every transaction the wallet would sign, and what
  Relay's contracts would do with it. A refusal is a text, as in the source.
\<close>

section \<open>Terms\<close>

record expected =
  ex_user :: address
  ex_origin_chain_id :: nat
  ex_origin_currency :: address
  ex_destination_chain_id :: nat
  ex_token :: address
  ex_recipient :: address
  ex_amount :: u256
  ex_relay_roles :: relay_roles
  ex_origin_decimals :: nat
  ex_token_decimals :: nat
  ex_origin_chain_names :: "string list"
  ex_destination_chain_names :: "string list"

definition same_address :: "lib \<Rightarrow> string \<Rightarrow> address \<Rightarrow> bool" where
  "same_address L raw want = (l_parse_address L raw = Some want)"

definition base_units :: "lib \<Rightarrow> string option \<Rightarrow> u256 option" where
  "base_units L raw = Option.bind raw (\<lambda>s. l_u256_radix10 L (trim s))"

definition is_hash :: "string \<Rightarrow> bool" where
  "is_hash raw = (length raw = 66 \<and> starts_with raw ''0x'' \<and> list_all is_ascii_hexdigit (drop 2 raw))"

definition is_chain :: "json option \<Rightarrow> nat \<Rightarrow> string list \<Rightarrow> bool" where
  "is_chain field i names = (case field of
       None \<Rightarrow> False
     | Some v \<Rightarrow>
         if json_as_u64 v = Some i then True
         else case map_option trim (as_str v) of
             None \<Rightarrow> False
           | Some spelled \<Rightarrow>
              (case parse_u64 spelled of
                 Some n \<Rightarrow> n = i
               | None \<Rightarrow> to_ascii_lowercase spelled \<in> set names))"

text \<open>\<open>value.get(key).and_then(Value::as_str)\<close>, and its \<open>unwrap_or_default\<close>.\<close>

definition str_field :: "json \<Rightarrow> string \<Rightarrow> string option" where
  "str_field v k = Option.bind (jget v k) as_str"

definition str_or_empty :: "json \<Rightarrow> string \<Rightarrow> string" where
  "str_or_empty v k = unwrap_or [] (str_field v k)"

definition fmt_u256 :: "u256 \<Rightarrow> string" where
  "fmt_u256 w = dec_nat (unat w)"

section \<open>The signed order\<close>

fun order_payments :: "lib \<Rightarrow> expected \<Rightarrow> u256 \<Rightarrow> json list \<Rightarrow> string + u256" where
  "order_payments L want tot [] = Inr tot"
| "order_payments L want tot (p # ps) =
     (let recipient = str_or_empty p ''recipient''; currency = str_or_empty p ''currency'' in
      if \<not> same_address L recipient (ex_recipient want) \<or> \<not> same_address L currency (ex_token want)
      then Inl (''the order pays '' @ currency @ '' to '' @ recipient)
      else case Option.bind (str_field p ''minimumAmount'') (\<lambda>s. base_units L (Some s)) of
          None \<Rightarrow> Inl ''a payment of the signed order has no minimumAmount''
        | Some minimum \<Rightarrow>
           (case checked_add tot minimum of
              None \<Rightarrow> Inl ''the signed order's payments overflow''
            | Some tot' \<Rightarrow> order_payments L want tot' ps))"

definition refund_ok :: "lib \<Rightarrow> expected \<Rightarrow> json \<Rightarrow> bool" where
  "refund_ok L want refund =
     (let to = str_or_empty refund ''recipient''; currency = str_or_empty refund ''currency'';
          to_payer = same_address L to (ex_user want) \<and> same_address L currency (ex_origin_currency want);
          to_deposit = same_address L to (ex_recipient want) \<and> same_address L currency (ex_token want);
          on_origin = is_chain (jget refund ''chainId'') (ex_origin_chain_id want) (ex_origin_chain_names want);
          on_destination = is_chain (jget refund ''chainId'') (ex_destination_chain_id want)
            (ex_destination_chain_names want) in
      on_origin \<and> to_payer \<or> on_destination \<and> to_deposit)"

fun order_refunds :: "lib \<Rightarrow> expected \<Rightarrow> json list \<Rightarrow> string + unit" where
  "order_refunds L want [] = Inr ()"
| "order_refunds L want (refund # refunds) =
     (if \<not> refund_ok L want refund
      then Inl (''the order refunds '' @ str_or_empty refund ''currency'' @ '' to ''
        @ str_or_empty refund ''recipient'' @ '' on '' @ l_fmt_debug_json L (jget refund ''chainId'')
        @ '', neither the payer's nor this payment's'')
      else order_refunds L want refunds)"

definition order_input :: "lib \<Rightarrow> expected \<Rightarrow> u256 \<Rightarrow> json \<Rightarrow> string + u256" where
  "order_input L want taken input =
     (case filter_option is_object (jget input ''payment'') of
        None \<Rightarrow> Inl ''an input of the signed order has no payment''
      | Some payment \<Rightarrow>
         (let currency = str_or_empty payment ''currency'' in
          if \<not> same_address L currency (ex_origin_currency want)
          then Inl (''the order takes '' @ currency @ '', not what the payer chose'')
          else if \<not> is_chain (jget payment ''chainId'') (ex_origin_chain_id want) (ex_origin_chain_names want)
          then Inl (''the order takes '' @ currency @ '' on '' @ l_fmt_debug_json L (jget payment ''chainId''))
          else case base_units L (str_field payment ''amount'') of
            None \<Rightarrow> Inl ''an input of the signed order has no amount''
          | Some amount \<Rightarrow>
             (case checked_add taken amount of
                None \<Rightarrow> Inl ''the signed order's inputs overflow''
              | Some taken' \<Rightarrow>
                 (case Option.bind (jget input ''refunds'') as_array of
                    None \<Rightarrow> Inl ''an input of the signed order has no refunds''
                  | Some refunds \<Rightarrow>
                      if refunds = [] then Inl ''an input of the signed order has nowhere its refunds go''
                      else case order_refunds L want refunds of Inl e \<Rightarrow> Inl e | Inr _ \<Rightarrow> Inr taken'))))"

fun order_inputs :: "lib \<Rightarrow> expected \<Rightarrow> u256 \<Rightarrow> json list \<Rightarrow> string + u256" where
  "order_inputs L want taken [] = Inr taken"
| "order_inputs L want taken (i # is) = (case order_input L want taken i of
       Inl e \<Rightarrow> Inl e
     | Inr taken' \<Rightarrow> order_inputs L want taken' is)"

definition check_order :: "lib \<Rightarrow> json \<Rightarrow> expected \<Rightarrow> u256 \<Rightarrow> string + unit" where
  "check_order L order want input_amount =
     (case jget order ''output'' of None \<Rightarrow> Inl ''the signed order has no output'' | Some output \<Rightarrow>
      case Option.bind (jget output ''payments'') as_array of
        None \<Rightarrow> Inl ''the signed order has no payments to check'' | Some payments \<Rightarrow>
      if payments = [] then Inl ''the signed order pays nothing''
      else if \<not> is_chain (jget output ''chainId'') (ex_destination_chain_id want)
          (ex_destination_chain_names want)
      then Inl (''the signed order settles on '' @ l_fmt_debug_json L (jget output ''chainId''))
      else case order_payments L want 0 payments of Inl e \<Rightarrow> Inl e | Inr tot \<Rightarrow>
      if tot < ex_amount want
      then Inl (''the order guarantees '' @ fmt_u256 tot @ '', less than '' @ fmt_u256 (ex_amount want))
      else case Option.bind (jget order ''inputs'') as_array of
        None \<Rightarrow> Inl ''the signed order has no inputs'' | Some inputs \<Rightarrow>
      if inputs = [] then Inl ''the signed order takes nothing''
      else case order_inputs L want 0 inputs of Inl e \<Rightarrow> Inl e | Inr taken \<Rightarrow>
      if taken \<noteq> input_amount
      then Inl (''the order takes '' @ fmt_u256 taken @ '', not the quoted '' @ fmt_u256 input_amount)
      else Inr ())"

section \<open>Selectors\<close>

definition sel_approve :: bytes where "sel_approve = [0x09, 0x5e, 0xa7, 0xb3]"
definition sel_transfer :: bytes where "sel_transfer = [0xa9, 0x05, 0x9c, 0xbb]"
definition sel_deposit_erc20 :: bytes where "sel_deposit_erc20 = [0xe8, 0x01, 0x79, 0x52]"
definition sel_deposit_erc20_all :: bytes where "sel_deposit_erc20_all = [0x5a, 0x1e, 0xe3, 0xac]"
definition sel_deposit_native :: bytes where "sel_deposit_native = [0x49, 0x29, 0x0c, 0x1c]"
definition sel_multicall :: bytes where "sel_multicall = [0xcd, 0x6e, 0x13, 0xf7]"
definition sel_multicall_v2 :: bytes where "sel_multicall_v2 = [0x30, 0xbe, 0x55, 0x67]"
definition sel_transfer_and_multicall :: bytes where "sel_transfer_and_multicall = [0xf9, 0xe4, 0xba, 0xb4]"
definition sel_transfer_and_multicall_v2 :: bytes where
  "sel_transfer_and_multicall_v2 = [0x30, 0x87, 0x50, 0x56]"
definition sel_forward :: bytes where "sel_forward = [0xd9, 0x48, 0xd4, 0x68]"

lemmas selectors = sel_approve_def sel_transfer_def sel_deposit_erc20_def sel_deposit_erc20_all_def
  sel_deposit_native_def sel_multicall_def sel_multicall_v2_def sel_transfer_and_multicall_def
  sel_transfer_and_multicall_v2_def sel_forward_def

definition is_multicall :: "bytes \<Rightarrow> bool" where
  "is_multicall sel = (sel = sel_multicall \<or> sel = sel_multicall_v2)"

definition is_pull :: "bytes \<Rightarrow> bool" where
  "is_pull sel = (sel = sel_transfer_and_multicall \<or> sel = sel_transfer_and_multicall_v2)"

section \<open>Calls on Relay's contracts\<close>

record wallet_call =
  wc_to :: address
  wc_calldata :: bytes
  wc_value :: u256

record route =
  rt_id :: string
  rt_want :: expected
  rt_input_amount :: u256
  rt_depth :: nat

definition refuse :: "route \<Rightarrow> string \<Rightarrow> string" where
  "refuse R what = ''step '' @ rt_id R @ '' '' @ what"

text \<open>Which role a selector belongs to.\<close>

definition role_refusal :: "lib \<Rightarrow> route \<Rightarrow> address \<Rightarrow> bytes \<Rightarrow> string option" where
  "role_refusal L R to sel = (let roles = ex_relay_roles (rt_want R) in
     if sel \<in> {sel_deposit_erc20, sel_deposit_erc20_all, sel_deposit_native}
        \<and> to \<notin> set (rr_depositories roles)
     then Some (refuse R (''deposits through '' @ l_fmt_address L to @ '', which is not Relay's depository''))
     else if is_multicall sel \<and> to \<notin> set (rr_routers roles)
     then Some (refuse R (''runs nested calls through '' @ l_fmt_address L to @ '', which is not Relay's router''))
     else if is_pull sel \<and> to \<notin> set (rr_approval_proxies roles)
     then Some (refuse R (''pulls on an allowance through '' @ l_fmt_address L to
       @ '', which is not Relay's approval proxy''))
     else if sel = sel_forward \<and> to \<notin> set (rr_receivers roles)
     then Some (refuse R (''forwards value through '' @ l_fmt_address L to @ '', which is not Relay's receiver''))
     else None)"

definition spend_via ::
    "route \<Rightarrow> (spend \<Rightarrow> string + spend) \<Rightarrow> spend option \<Rightarrow> string + spend option" where
  "spend_via R f s = (case s of
       None \<Rightarrow> Inr None
     | Some sp \<Rightarrow> (case f sp of Inl e \<Rightarrow> Inl (refuse R e) | Inr sp' \<Rightarrow> Inr (Some sp')))"

definition foreign :: "expected \<Rightarrow> address \<Rightarrow> bool" where
  "foreign want a = (a \<noteq> 0 \<and> a \<noteq> ex_user want)"

definition check_deposit_erc20 ::
    "lib \<Rightarrow> route \<Rightarrow> address \<Rightarrow> bytes \<Rightarrow> spend option \<Rightarrow> string + spend option" where
  "check_deposit_erc20 L R to args s =
     (let malformed = Inl (refuse R ''has malformed depositErc20 arguments''); want = rt_want R in
      case abi_address (abi_new args) of None \<Rightarrow> malformed | Some (depositor, r1) \<Rightarrow>
      case abi_address r1 of None \<Rightarrow> malformed | Some (token, r2) \<Rightarrow>
      case abi_uint r2 of None \<Rightarrow> malformed | Some (amount, r3) \<Rightarrow>
      case abi_word r3 of None \<Rightarrow> malformed | Some _ \<Rightarrow>
      if foreign want depositor
      then Inl (refuse R (''deposits as '' @ l_fmt_address L depositor @ '', not the payer''))
      else if token \<noteq> ex_origin_currency want
      then Inl (refuse R (''deposits '' @ l_fmt_address L token @ '', not the token being paid with''))
      else if rt_input_amount R < amount
      then Inl (refuse R (''deposits '' @ fmt_u256 amount @ '', more than the quoted ''
        @ fmt_u256 (rt_input_amount R)))
      else spend_via R (spend_pull to amount) s)"

definition check_deposit_native :: "lib \<Rightarrow> route \<Rightarrow> bytes \<Rightarrow> string + unit" where
  "check_deposit_native L R args =
     (let malformed = Inl (refuse R ''has malformed depositNative arguments'') in
      case abi_address (abi_new args) of None \<Rightarrow> malformed | Some (depositor, r1) \<Rightarrow>
      case abi_word r1 of None \<Rightarrow> malformed | Some _ \<Rightarrow>
      if foreign (rt_want R) depositor
      then Inl (refuse R (''deposits as '' @ l_fmt_address L depositor @ '', not the payer''))
      else Inr ())"

text \<open>The pulls of \<open>transferAndMulticall\<close>: each token of its list, then the running total.\<close>

fun check_pulls ::
    "lib \<Rightarrow> route \<Rightarrow> address \<Rightarrow> (address \<times> u256) list \<Rightarrow> spend option \<Rightarrow> u256
      \<Rightarrow> string + (spend option \<times> u256)" where
  "check_pulls L R to [] s tot = Inr (s, tot)"
| "check_pulls L R to ((token, amount) # pulls) s tot =
     (let want = rt_want R in
      if token \<noteq> ex_origin_currency want
      then Inl (refuse R (''pulls '' @ l_fmt_address L token @ '', not the token being paid with''))
      else if ex_origin_currency want = 0
      then Inl (refuse R ''pulls the chain's native currency, which no allowance can'')
      else if rt_input_amount R < amount
      then Inl (refuse R (''pulls '' @ fmt_u256 amount @ '', more than the quoted ''
        @ fmt_u256 (rt_input_amount R)))
      else case spend_via R (spend_pull to amount) s of Inl e \<Rightarrow> Inl e | Inr s' \<Rightarrow>
        (case checked_add tot amount of
           None \<Rightarrow> Inl (refuse R ''pulls more than a quote can bound'')
         | Some tot' \<Rightarrow> check_pulls L R to pulls s' tot'))"

record multicall_args =
  ma_pulls :: "(address list \<times> u256 list) option"
  ma_calls :: "nested_call list"
  ma_refund_to :: address
  ma_nft_recipient :: address

definition multicall_args_of :: "route \<Rightarrow> bytes \<Rightarrow> bytes \<Rightarrow> string + multicall_args" where
  "multicall_args_of R sel args =
     (let bad_pull = Inl (refuse R ''has malformed transferAndMulticall arguments'');
          bad = Inl (refuse R ''has malformed multicall arguments'') in
      case (if is_pull sel then
              (case static_items abi_address (abi_new args) of None \<Rightarrow> bad_pull | Some (tokens, r1) \<Rightarrow>
               case static_items abi_uint r1 of None \<Rightarrow> bad_pull | Some (amounts, r2) \<Rightarrow>
               Inr (Some (tokens, amounts), r2))
            else Inr (None, abi_new args)) of
        Inl e \<Rightarrow> Inl e | Inr (pulls, r) \<Rightarrow>
      case nested_calls r of None \<Rightarrow> bad | Some (calls, r1) \<Rightarrow>
      case abi_address r1 of None \<Rightarrow> bad | Some (refund_to, r2) \<Rightarrow>
      case abi_address r2 of None \<Rightarrow> bad | Some (nft_recipient, r3) \<Rightarrow>
      if (sel = sel_multicall \<or> sel = sel_transfer_and_multicall) \<and> abi_bytes r3 = None then bad
      else Inr \<lparr>ma_pulls = pulls, ma_calls = calls, ma_refund_to = refund_to,
        ma_nft_recipient = nft_recipient\<rparr>)"

definition nested_erc20 ::
    "lib \<Rightarrow> route \<Rightarrow> u256 \<Rightarrow> bytes \<Rightarrow> flow option \<Rightarrow> string + flow option" where
  "nested_erc20 L R value data fl = (let roles = ex_relay_roles (rt_want R) in
     if value \<noteq> 0 then Inl (refuse R ''sends value with a call on the token, which takes none'')
     else case split_at_4 data of
       None \<Rightarrow> Inl (refuse R ''nests a call on the token with no selector'')
     | Some (sel, args) \<Rightarrow>
        if sel \<noteq> sel_approve \<and> sel \<noteq> sel_transfer
        then Inl (refuse R (''nests an unexpected call on the payer's token ('' @ l_hex_encode L sel @ '')''))
        else if length args < 64
        then Inl (refuse R ''nests a call on the token with truncated arguments'')
        else let spender = from_be_slice (take 20 (drop 12 args)); amount = from_be_slice (take 32 (drop 32 args)) in
        if rt_input_amount R < amount
        then Inl (refuse R (''nests a call for '' @ fmt_u256 amount @ '', more than the quoted ''
          @ fmt_u256 (rt_input_amount R)))
        else if sel = sel_approve then
          (if \<not> may_hold_allowance roles spender
           then Inl (refuse R (''nests an allowance to '' @ l_fmt_address L spender @ '', which may not hold one''))
           else case fl of
               None \<Rightarrow> Inr None
             | Some f \<Rightarrow>
                (case checked_add (unwrap_or 0 (map_of (fl_granted f) spender)) amount of
                   None \<Rightarrow> Inl (refuse R ''nested allowances overflow'')
                 | Some slot \<Rightarrow> Inr (Some (f\<lparr>fl_granted := bt_insert spender slot (fl_granted f)\<rparr>))))
        else if fl \<noteq> None
        then Inl (refuse R (''nests a plain transfer to '' @ l_fmt_address L spender
          @ '', which a misbehaving token could silently not make''))
        else if spender \<notin> set (rr_depositories roles)
        then Inl (refuse R (''nests a transfer to '' @ l_fmt_address L spender
          @ '', which is not Relay's depository''))
        else Inr fl)"

text \<open>A nested deposit draws the router's fresh allowance down.\<close>

definition draw_down :: "route \<Rightarrow> address \<Rightarrow> bytes \<Rightarrow> flow \<Rightarrow> string + flow" where
  "draw_down R target data f =
     (let amount = from_be_slice (unwrap_or [] (slice data 68 100)) in
      case map_of (fl_granted f) target of
        None \<Rightarrow> Inl (refuse R (''draws down '' @ fmt_u256 amount @ '' no nested call approved''))
      | Some slot \<Rightarrow>
          if slot < amount
          then Inl (refuse R (''draws down '' @ fmt_u256 amount @ '', more than the nested calls approved''))
          else case checked_add (fl_consumed f) amount of
              None \<Rightarrow> Inl (refuse R ''nested deposits overflow'')
            | Some consumed \<Rightarrow> Inr (f\<lparr>fl_granted := bt_insert target (slot - amount) (fl_granted f),
                fl_consumed := consumed\<rparr>))"

definition check_multicall_terms ::
    "lib \<Rightarrow> route \<Rightarrow> address \<Rightarrow> multicall_args \<Rightarrow> spend option \<Rightarrow> string + (spend option \<times> u256)" where
  "check_multicall_terms L R to m s = (let want = rt_want R in
     if foreign want (ma_refund_to m)
     then Inl (refuse R (''sends its surplus to '' @ l_fmt_address L (ma_refund_to m) @ '', not the payer''))
     else if foreign want (ma_nft_recipient m)
     then Inl (refuse R (''sends its claims to '' @ l_fmt_address L (ma_nft_recipient m) @ '', not the payer''))
     else case ma_pulls m of
         None \<Rightarrow> Inr (s, 0)
       | Some (tokens, amounts) \<Rightarrow>
           if ma_calls m = []
           then Inl (refuse R ''pulls the quoted input but runs no calls to deposit it'')
           else if length tokens \<noteq> length amounts
           then Inl (refuse R ''pulls tokens and amounts of different lengths'')
           else check_pulls L R to (zip tokens amounts) s 0)"

definition nested_route :: "route \<Rightarrow> route" where
  "nested_route R = R\<lparr>rt_depth := rt_depth R + 1\<rparr>"

definition flow_settled :: "route \<Rightarrow> u256 \<Rightarrow> flow option \<Rightarrow> string option" where
  "flow_settled R pulled fl = (case fl of
       None \<Rightarrow> None
     | Some f \<Rightarrow> if fl_consumed f \<noteq> pulled
         then Some (refuse R (''leaves '' @ fmt_u256 (pulled - fl_consumed f) @ '' of the pulled ''
           @ fmt_u256 pulled @ '' in Relay's router, where anyone could sweep it''))
         else None)"

definition ellipsis :: string where
  "ellipsis = [CHR 0xE2, CHR 0x80, CHR 0xA6]"

text \<open>
  \<open>check_relay_call\<close> and \<open>check_nested_call\<close> call each other; the depth ends it: a nested call is only
  followed at depth 1, so the calls it makes are at depth 2 and their nested calls are refused.
\<close>

function check_relay_call :: "lib \<Rightarrow> route \<Rightarrow> wallet_call \<Rightarrow> spend option \<Rightarrow> string + spend option"
  and check_nested_list ::
    "lib \<Rightarrow> route \<Rightarrow> u256 \<Rightarrow> u256 \<Rightarrow> nested_call list \<Rightarrow> flow option \<Rightarrow> string + flow option"
  and check_nested_call :: "lib \<Rightarrow> route \<Rightarrow> nested_call \<Rightarrow> flow option \<Rightarrow> string + flow option" where
  "check_relay_call L R call s =
     (case split_at_4 (wc_calldata call) of
        None \<Rightarrow> Inl (refuse R (''calls '' @ l_fmt_address L (wc_to call) @ '' with no selector''))
      | Some (sel, args) \<Rightarrow>
         (case role_refusal L R (wc_to call) sel of
            Some e \<Rightarrow> Inl e
          | None \<Rightarrow>
              if sel = sel_deposit_erc20 then check_deposit_erc20 L R (wc_to call) args s
              else if sel = sel_deposit_erc20_all
              then Inl (refuse R ''deposits by the wallet's whole allowance, which no quote bounds'')
              else if sel = sel_deposit_native
              then (case check_deposit_native L R args of Inl e \<Rightarrow> Inl e | Inr _ \<Rightarrow> Inr s)
              else if is_multicall sel \<or> is_pull sel then
               (case multicall_args_of R sel args of Inl e \<Rightarrow> Inl e | Inr m \<Rightarrow>
                case check_multicall_terms L R (wc_to call) m s of Inl e \<Rightarrow> Inl e | Inr (s', pulled) \<Rightarrow>
                case check_nested_list L (nested_route R) (wc_value call) 0 (ma_calls m)
                       (if is_pull sel then Some no_flow else None) of Inl e \<Rightarrow> Inl e | Inr fl \<Rightarrow>
                case flow_settled R pulled fl of Some e \<Rightarrow> Inl e | None \<Rightarrow> Inr s')
              else if sel = sel_forward
              then (if abi_bytes (abi_new args) = None then Inl (refuse R ''has malformed forward arguments'')
                    else Inr s)
              else Inl (refuse R (''makes a call the checks don't decode (''
                @ l_fmt_address L (wc_to call) @ l_hex_encode L sel @ ellipsis @ '')''))))"
| "check_nested_list L R tx_value nested_value [] fl = Inr fl"
| "check_nested_list L R tx_value nested_value (c # cs) fl =
     (if nc_allow_failure c then Inl (refuse R ''nests a call that may fail without saying so'')
      else case checked_add nested_value (nc_value c) of
          None \<Rightarrow> Inl (refuse R ''nested calls overflow'')
        | Some nested_value' \<Rightarrow>
            if tx_value < nested_value'
            then Inl (refuse R ''nests calls worth more than the transaction's value'')
            else (case check_nested_call L R c fl of
                Inl e \<Rightarrow> Inl (refuse R e)
              | Inr fl' \<Rightarrow> check_nested_list L R tx_value nested_value' cs fl'))"
| "check_nested_call L R c fl =
     (let want = rt_want R; target = nc_target c in
      if 1 < rt_depth R then Inl (refuse R ''nests calls within nested calls'')
      else if ex_origin_currency want \<noteq> 0 \<and> target = ex_origin_currency want
      then nested_erc20 L R (nc_value c) (nc_data c) fl
      else if roles_contains (ex_relay_roles want) target then
       (case check_relay_call L (nested_route R)
               \<lparr>wc_to = target, wc_calldata = nc_data c, wc_value = nc_value c\<rparr> None of
          Inl e \<Rightarrow> Inl e
        | Inr _ \<Rightarrow>
           (case fl of
              None \<Rightarrow> Inr None
            | Some f \<Rightarrow>
                if target \<in> set (rr_depositories (ex_relay_roles want)) \<and> take 4 (nc_data c) = sel_deposit_erc20
                then (case draw_down R target (nc_data c) f of Inl e \<Rightarrow> Inl e | Inr f' \<Rightarrow> Inr (Some f'))
                else Inr fl))
      else Inl (refuse R (''nests a call to '' @ l_fmt_address L target
        @ '', which is neither Relay's nor the payer's token'')))"
  by pat_completeness auto

termination
proof (relation "inv_image (less_than <*lex*> less_than <*lex*> less_than)
    (\<lambda>x. case x of
       Inl (L, R, call, s) \<Rightarrow> (4 - rt_depth R, 2 :: nat, 0)
     | Inr (Inl (L, R, tv, nv, cs, fl)) \<Rightarrow> (4 - rt_depth R, 1, length cs)
     | Inr (Inr (L, R, c, fl)) \<Rightarrow> (4 - rt_depth R, 0, 0))")
qed (auto simp: nested_route_def)

declare check_relay_call.simps [simp del] check_nested_call.simps [simp del]

end
