(* ===== verification/Relay_Quote.thy ===== *)
theory Relay_Quote
  imports Relay_Check
begin

text \<open>
  \<^verbatim>\<open>src/deposit/relay.rs\<close>, from one transaction of a route to the whole quote: \<open>check_step\<close>,
  \<open>is_approval\<close>, \<open>check_quote\<close> and the route it returns. The time of the quote and the rendering of its
  USD cost are taken from the arguments.
\<close>

section \<open>Tokens on the page\<close>

record source_token =
  st_address :: string
  st_symbol :: string
  st_name :: string
  st_decimals :: nat
  st_logo_uri :: "string option"

definition logo :: "relay_metadata option \<Rightarrow> string option" where
  "logo metadata = filter_option (\<lambda>u. starts_with u ''https://'') (Option.bind metadata rm_logo_uri)"

record route_amount =
  ra_chain_id :: nat
  ra_currency :: source_token
  ra_amount :: string
  ra_amount_usd :: "string option"

definition route_amount_of :: "quote_amount \<Rightarrow> route_amount" where
  "route_amount_of a = (let c = qa_currency a in
     \<lparr>ra_chain_id = qc_chain_id c,
      ra_currency = \<lparr>st_address = to_ascii_lowercase (qc_address c), st_symbol = qc_symbol c,
        st_name = qc_name c, st_decimals = qc_decimals c, st_logo_uri = logo (qc_metadata c)\<rparr>,
      ra_amount = qa_amount a, ra_amount_usd = qa_amount_usd a\<rparr>)"

record route_fees =
  rf_route_usd :: "string option"
  rf_gas :: "route_amount option"

record route_step =
  rs_id :: string
  rs_description :: string
  rs_chain_id :: nat
  rs_to :: string
  rs_data :: string
  rs_value :: string

record route_quote =
  rq_request_id :: string
  rq_quoted_at :: string
  rq_origin :: route_amount
  rq_destination :: route_amount
  rq_fees :: route_fees
  rq_time_estimate_secs :: "64 word option"
  rq_steps :: "route_step list"

section \<open>One transaction\<close>

definition is_approval :: "lib \<Rightarrow> json \<Rightarrow> expected \<Rightarrow> bool" where
  "is_approval L data want =
     (if ex_origin_currency want = 0 then False
      else
        let to = Option.bind (str_field data ''to'') (l_parse_address L);
            sel = Option.bind (filter_option (\<lambda>c. 8 \<le> length c)
                (Option.bind (str_field data ''data'') (strip_prefix ''0x'')))
              (\<lambda>c. l_hex_decode L (take 8 c)) in
        case (to, sel) of
          (Some to, Some sel) \<Rightarrow> to = ex_origin_currency want \<and> sel = sel_approve
        | _ \<Rightarrow> False)"

text \<open>The native value of a transaction: absent or null is zero.\<close>

definition step_value :: "lib \<Rightarrow> string \<Rightarrow> json \<Rightarrow> string + string" where
  "step_value L i data = (case jget data ''value'' of
       None \<Rightarrow> Inr ''0''
     | Some JNull \<Rightarrow> Inr ''0''
     | Some (JStr s) \<Rightarrow> if base_units L (Some s) \<noteq> None then Inr (trim s)
         else Inl (''step '' @ i @ '' has value '' @ l_json_to_string L (JStr s))
     | Some other \<Rightarrow> Inl (''step '' @ i @ '' has value '' @ l_json_to_string L other))"

definition calldata_ok :: "string \<Rightarrow> bool" where
  "calldata_ok c = (starts_with c ''0x'' \<and> length c mod 2 = 0 \<and> list_all is_ascii_hexdigit (drop 2 c))"

text \<open>A call on the payer's token: an approval of, or a transfer to, one of Relay's contracts.\<close>

definition check_token_call ::
    "lib \<Rightarrow> string \<Rightarrow> expected \<Rightarrow> u256 \<Rightarrow> bytes \<Rightarrow> spend \<Rightarrow> string + spend" where
  "check_token_call L i want input_amount bs s = (let roles = ex_relay_roles want in
     case split_at_4 bs of
       None \<Rightarrow> Inl (''step '' @ i @ '' calls the token with no selector'')
     | Some (sel, args) \<Rightarrow>
        if sel \<noteq> sel_approve \<and> sel \<noteq> sel_transfer \<or> length args < 64
        then Inl (''step '' @ i @ '' makes an unexpected call on the payer's token'')
        else let target = from_be_slice (take 20 (drop 12 args)); amount = from_be_slice (take 32 (drop 32 args)) in
        if input_amount < amount
        then Inl (''step '' @ i @ '' approves or transfers '' @ fmt_u256 amount @ '', more than the quoted ''
          @ fmt_u256 input_amount)
        else if sel = sel_approve then
          (if \<not> may_hold_allowance roles target
           then Inl (''step '' @ i @ '' approves '' @ l_fmt_address L target @ '', which may not hold an allowance'')
           else Inr (spend_grant target amount s))
        else if target \<notin> set (rr_depositories roles)
        then Inl (''step '' @ i @ '' transfers to '' @ l_fmt_address L target @ '', which is not Relay's depository'')
        else case spend_transfer amount s of Inl e \<Rightarrow> Inl (''step '' @ i @ '' '' @ e) | Inr s' \<Rightarrow> Inr s')"

definition check_call ::
    "lib \<Rightarrow> string \<Rightarrow> expected \<Rightarrow> u256 \<Rightarrow> address \<Rightarrow> bytes \<Rightarrow> u256 \<Rightarrow> spend \<Rightarrow> string + spend" where
  "check_call L i want input_amount to bs value_wei s =
     (if ex_origin_currency want \<noteq> 0 \<and> to = ex_origin_currency want
      then check_token_call L i want input_amount bs s
      else if roles_contains (ex_relay_roles want) to then
       (case check_relay_call L \<lparr>rt_id = i, rt_want = want, rt_input_amount = input_amount, rt_depth = 0\<rparr>
               \<lparr>wc_to = to, wc_calldata = bs, wc_value = value_wei\<rparr> (Some s) of
          Inl e \<Rightarrow> Inl e
        | Inr s' \<Rightarrow> Inr (unwrap_or s s'))
      else Inl (''step '' @ i @ '' calls '' @ l_fmt_address L to
        @ '', which is not one of Relay's contracts on the origin chain''))"

definition check_step ::
    "lib \<Rightarrow> string \<Rightarrow> string \<Rightarrow> json \<Rightarrow> expected \<Rightarrow> u256 \<Rightarrow> spend \<Rightarrow> string + (route_step \<times> spend)" where
  "check_step L i description data want input_amount s =
     (let chain_id = unwrap_or 0 (Option.bind (jget data ''chainId'') json_as_u64);
          calldata = str_or_empty data ''data'' in
      if chain_id \<noteq> ex_origin_chain_id want
      then Inl (''step '' @ i @ '' runs on chain '' @ dec_nat chain_id @ '', not the origin'')
      else if \<not> same_address L (str_or_empty data ''from'') (ex_user want)
      then Inl (''step '' @ i @ '' is sent from '' @ str_or_empty data ''from'' @ '', not the payer'')
      else case l_parse_address L (str_or_empty data ''to'') of
        None \<Rightarrow> Inl (''step '' @ i @ '' has no valid target'') | Some to \<Rightarrow>
      if \<not> calldata_ok calldata then Inl (''step '' @ i @ '' has malformed calldata'')
      else case l_hex_decode L (drop 2 calldata) of
        None \<Rightarrow> Inl (''step '' @ i @ '' has malformed calldata'') | Some bs \<Rightarrow>
      case step_value L i data of Inl e \<Rightarrow> Inl e | Inr value \<Rightarrow>
      let value_wei = unwrap_or (- 1) (base_units L (Some value)) in
      case check_call L i want input_amount to bs value_wei s of Inl e \<Rightarrow> Inl e | Inr s' \<Rightarrow>
      Inr (\<lparr>rs_id = i, rs_description = description, rs_chain_id = chain_id, rs_to = l_fmt_address L to,
            rs_data = to_ascii_lowercase calldata, rs_value = value\<rparr>, s'))"

section \<open>The steps of a route\<close>

record progress =
  pr_steps :: "route_step list"
  pr_spend :: spend
  pr_funded :: bool

definition start :: progress where
  "start = \<lparr>pr_steps = [], pr_spend = no_spend, pr_funded = False\<rparr>"

fun check_items ::
    "lib \<Rightarrow> expected \<Rightarrow> u256 \<Rightarrow> quote_step \<Rightarrow> quote_step_item list \<Rightarrow> progress \<Rightarrow> string + progress" where
  "check_items L want input_amount st [] p = Inr p"
| "check_items L want input_amount st (item # items) p =
     (if pr_funded p
      then Inl (''step '' @ qs_id st @ '' comes after the payment is funded; a route must end at its funding ''
        @ ''transaction, so the wallet owns the payment as soon as one transaction has gone out'')
      else case check_step L (qs_id st) (qs_description st) (qi_data item) want input_amount (pr_spend p) of
          Inl e \<Rightarrow> Inl e
        | Inr (rs, s') \<Rightarrow> check_items L want input_amount st items
            \<lparr>pr_steps = pr_steps p @ [rs], pr_spend = s', pr_funded = \<not> is_approval L (qi_data item) want\<rparr>)"

fun check_steps ::
    "lib \<Rightarrow> expected \<Rightarrow> u256 \<Rightarrow> quote_step list \<Rightarrow> progress \<Rightarrow> string + progress" where
  "check_steps L want input_amount [] p = Inr p"
| "check_steps L want input_amount (st # sts) p =
     (if qs_kind st \<noteq> ''transaction''
      then Inl (''step '' @ qs_id st @ '' is a '' @ qs_kind st @ '' step; only transactions are supported'')
      else case check_items L want input_amount st (qs_items st) p of
          Inl e \<Rightarrow> Inl e
        | Inr p' \<Rightarrow> check_steps L want input_amount sts p')"

definition total_value :: "lib \<Rightarrow> route_step list \<Rightarrow> u256 option" where
  "total_value L steps = checked_sum 0 (map (\<lambda>s. unwrap_or (- 1) (base_units L (Some (rs_value s)))) steps)"

definition check_route ::
    "lib \<Rightarrow> expected \<Rightarrow> u256 \<Rightarrow> quote_step list \<Rightarrow> string + route_step list" where
  "check_route L want input_amount sts =
     (case check_steps L want input_amount sts start of Inl e \<Rightarrow> Inl e | Inr p \<Rightarrow>
      if \<not> pr_funded p then Inl ''no steps to execute''
      else case total_value L (pr_steps p) of
        None \<Rightarrow> Inl ''the route's native value overflows'' | Some value \<Rightarrow>
      let limit = (if ex_origin_currency want = 0 then input_amount else 0) in
      if limit < value then Inl (''the steps send '' @ fmt_u256 value @ '' wei of value; the quote takes ''
        @ fmt_u256 limit)
      else case spend_exposure (pr_spend p) of Inl e \<Rightarrow> Inl e | Inr taken \<Rightarrow>
      if input_amount < taken then Inl (''the steps take '' @ fmt_u256 taken
        @ '' from the wallet; the quote is for '' @ fmt_u256 input_amount)
      else Inr (pr_steps p))"

section \<open>The quote\<close>

definition fmt_debug_opt :: "lib \<Rightarrow> string option \<Rightarrow> string" where
  "fmt_debug_opt L x = (case x of None \<Rightarrow> ''None'' | Some s \<Rightarrow> ''Some('' @ l_fmt_debug L s @ '')'')"

text \<open>\<open>is_finite() && t >= 0.0\<close> on the bits of an \<open>f64\<close>; \<open>-0.0\<close> is not below zero.\<close>

definition finite_nonneg :: "64 word \<Rightarrow> bool" where
  "finite_nonneg w = (unat w < 0x7FF0000000000000 \<or> unat w = 0x8000000000000000)"

definition check_parties :: "lib \<Rightarrow> quote \<Rightarrow> expected \<Rightarrow> string option" where
  "check_parties L q want = (let d = q_details q; request_id = unwrap_or [] (q_request_id q) in
     if \<not> is_hash request_id
     then Some (''request id '' @ l_fmt_debug L request_id @ '' is not a 32-byte hex id'')
     else if \<not> same_address L (qd_sender d) (ex_user want)
     then Some (''sender '' @ qd_sender d @ '' is not the payer'')
     else if \<not> same_address L (qd_recipient d) (ex_recipient want)
     then Some (''recipient '' @ qd_recipient d @ '' is not the payment address'')
     else None)"

definition check_output :: "lib \<Rightarrow> quote_amount \<Rightarrow> expected \<Rightarrow> string option" where
  "check_output L out want = (let c = qa_currency out in
     if qc_chain_id c \<noteq> ex_destination_chain_id want \<or> \<not> same_address L (qc_address c) (ex_token want)
     then Some (''pays '' @ qc_address c @ '' on chain '' @ dec_nat (qc_chain_id c) @ '', not the deposit's token'')
     else if qc_decimals c \<noteq> ex_token_decimals want
     then Some (''pays in '' @ dec_nat (qc_decimals c) @ '' decimals, not the deposit token's ''
       @ dec_nat (ex_token_decimals want))
     else case base_units L (qa_minimum_amount out) of
         None \<Rightarrow> Some (''guarantees '' @ fmt_debug_opt L (qa_minimum_amount out)
           @ '', which is no number of base units'')
       | Some guaranteed \<Rightarrow>
           if guaranteed < ex_amount want
           then Some (''guarantees '' @ fmt_debug_opt L (qa_minimum_amount out) @ '', less than ''
             @ fmt_u256 (ex_amount want))
           else None)"

definition check_input :: "lib \<Rightarrow> quote_amount \<Rightarrow> expected \<Rightarrow> string + u256" where
  "check_input L input want = (let c = qa_currency input in
     if qc_chain_id c \<noteq> ex_origin_chain_id want \<or> \<not> same_address L (qc_address c) (ex_origin_currency want)
     then Inl (''takes '' @ qc_address c @ '' on chain '' @ dec_nat (qc_chain_id c)
       @ '', not what the payer chose'')
     else if qc_decimals c \<noteq> ex_origin_decimals want
     then Inl (''takes '' @ dec_nat (qc_decimals c) @ '' decimals on the origin chain, not the ''
       @ dec_nat (ex_origin_decimals want) @ '' Relay lists for it'')
     else case base_units L (Some (qa_amount input)) of
         None \<Rightarrow> Inl (''input amount '' @ l_fmt_debug L (qa_amount input) @ '' is not base units'')
       | Some amount \<Rightarrow> Inr amount)"

text \<open>\<open>protocol.pointer("/v2/orderData")\<close>. Through an array a pointer token is an index; \<open>v2\<close> is none.\<close>

definition order_data :: "quote \<Rightarrow> json option" where
  "order_data q = filter_option is_object
     (Option.bind (Option.bind (q_protocol q) (\<lambda>p. jget p ''v2'')) (\<lambda>v. jget v ''orderData''))"

definition route_quote_of ::
    "lib \<Rightarrow> time \<Rightarrow> quote \<Rightarrow> expected \<Rightarrow> route_step list \<Rightarrow> route_quote" where
  "route_quote_of L now q want steps = (let d = q_details q in
     \<lparr>rq_request_id = to_ascii_lowercase (unwrap_or [] (q_request_id q)),
      rq_quoted_at = l_fmt_time_millis L now,
      rq_origin = route_amount_of (qd_currency_in d),
      rq_destination = (route_amount_of (qd_currency_out d))\<lparr>ra_amount := fmt_u256 (ex_amount want)\<rparr>,
      rq_fees = \<lparr>rf_route_usd = Option.bind (Option.bind (qd_total_impact d) im_usd) (l_fmt_usd_cost L),
        rf_gas = map_option route_amount_of (filter_option (\<lambda>g. qa_amount g \<noteq> ''0'')
          (Option.bind (q_fees q) qf_gas))\<rparr>,
      rq_time_estimate_secs = filter_option finite_nonneg (qd_time_estimate d),
      rq_steps = steps\<rparr>)"

definition check_quote :: "lib \<Rightarrow> time \<Rightarrow> quote \<Rightarrow> expected \<Rightarrow> string + route_quote" where
  "check_quote L now q want =
     (let d = q_details q in
      case check_parties L q want of Some e \<Rightarrow> Inl e | None \<Rightarrow>
      case check_output L (qd_currency_out d) want of Some e \<Rightarrow> Inl e | None \<Rightarrow>
      case check_input L (qd_currency_in d) want of Inl e \<Rightarrow> Inl e | Inr input_amount \<Rightarrow>
      case order_data q of
        None \<Rightarrow> Inl ''no signed order (protocol.v2.orderData) to check'' | Some order \<Rightarrow>
      case check_order L order want input_amount of Inl e \<Rightarrow> Inl e | Inr _ \<Rightarrow>
      case check_route L want input_amount (q_steps q) of Inl e \<Rightarrow> Inl e | Inr steps \<Rightarrow>
      Inr (route_quote_of L now q want steps))"

end
