(* ===== verification/Chain_Revert.thy ===== *)
theory Chain_Revert
  imports Chain_Payment
begin

text \<open>
  \<^verbatim>\<open>src/chain/revert.rs\<close>: why a settlement reverted. The decoders that \<open>sol!\<close> generates are
  \<open>l_abi_decode\<close> at the signature of each error; everything built on them is modelled here: the
  decoded reason, its name, arguments, metric label and sentence, and the nested view apps get.
\<close>

section \<open>Reasons\<close>

datatype reason =
    InsufficientTokenBalance u256 u256
  | CallFailed u256 bytes reason
  | CallTargetHasNoCode u256 address
  | AmountNotSpent u256
  | AlreadyDeployed
  | DeploymentFailed
  | InitCodeTooLarge u256
  | Message string
  | Panic u256
  | Custom string "(string \<times> string) list"
  | Empty
  | Unrecognised bytes

text \<open>\<open>ICallTargetErrors\<close>: signature and argument names of each error.\<close>

definition transfer_failed_sig :: string where
  "transfer_failed_sig = ''TransferFailed()''"

definition call_target_errors :: "(string \<times> string list) list" where
  "call_target_errors =
     [(''ERC20InsufficientBalance(address,uint256,uint256)'', [''sender'', ''balance'', ''needed'']),
      (''ERC20InvalidSender(address)'', [''sender'']),
      (''ERC20InvalidReceiver(address)'', [''receiver'']),
      (''ERC20InsufficientAllowance(address,uint256,uint256)'', [''spender'', ''allowance'', ''needed'']),
      (''ERC20InvalidApprover(address)'', [''approver'']),
      (''ERC20InvalidSpender(address)'', [''spender'']),
      (''EnforcedPause()'', []),
      (''AccountIsFrozen(address)'', [''frozenAccount'']),
      (''TransferPaused()'', []),
      (''InsufficientBalance()'', []),
      (''InsufficientAllowance()'', []),
      (transfer_failed_sig, []),
      (''TransferFromFailed()'', []),
      (''ApproveFailed()'', [])]"

text \<open>How an argument is rendered: \<open>uint\<close>s in decimal, addresses as \<open>0x\<close> hex.\<close>

fun render_arg :: "lib \<Rightarrow> abi_value \<Rightarrow> string" where
  "render_arg L (AUint n) = u256_to_string n"
| "render_arg L (AAddr a) = l_fmt_address L a"
| "render_arg L _ = []"

fun decode_custom :: "lib \<Rightarrow> (string \<times> string list) list \<Rightarrow> bytes \<Rightarrow> reason option" where
  "decode_custom L [] data = None"
| "decode_custom L ((sig, names) # errs) data =
     (case l_abi_decode L sig data of
        Some vals \<Rightarrow> Some (Custom sig (zip names (map (render_arg L) vals)))
      | None \<Rightarrow> decode_custom L errs data)"

text \<open>\<open>sanitize\<close>: every NUL becomes the two characters backslash and zero.\<close>

definition sanitize :: "string \<Rightarrow> string" where
  "sanitize m = concat (map (\<lambda>c. if c = CHR 0x00 then [CHR 0x5C, CHR ''0''] else [c]) m)"

text \<open>Reading the arguments of a decoded error by their Solidity types.\<close>

fun arg_str :: "abi_value list \<Rightarrow> string option" where
  "arg_str [AStr s] = Some s"
| "arg_str _ = None"

fun arg_uint :: "abi_value list \<Rightarrow> u256 option" where
  "arg_uint [AUint n] = Some n"
| "arg_uint _ = None"

fun arg_uint_uint :: "abi_value list \<Rightarrow> (u256 \<times> u256) option" where
  "arg_uint_uint [AUint m, AUint n] = Some (m, n)"
| "arg_uint_uint _ = None"

fun arg_uint_bytes :: "abi_value list \<Rightarrow> (u256 \<times> bytes) option" where
  "arg_uint_bytes [AUint m, ABytes d] = Some (m, d)"
| "arg_uint_bytes _ = None"

fun arg_uint_addr :: "abi_value list \<Rightarrow> (u256 \<times> address) option" where
  "arg_uint_addr [AUint m, AAddr a] = Some (m, a)"
| "arg_uint_addr _ = None"

fun arg_addr_uint :: "abi_value list \<Rightarrow> (address \<times> u256) option" where
  "arg_addr_uint [AAddr a, AUint m] = Some (a, m)"
| "arg_addr_uint _ = None"

fun arg_none :: "abi_value list \<Rightarrow> unit option" where
  "arg_none [] = Some ()"
| "arg_none _ = None"

definition decode_as :: "lib \<Rightarrow> string \<Rightarrow> (abi_value list \<Rightarrow> 'a option) \<Rightarrow> bytes \<Rightarrow> 'a option" where
  "decode_as L sig f data = Option.bind (l_abi_decode L sig data) f"

definition decode_call :: "lib \<Rightarrow> bytes \<Rightarrow> reason" where
  "decode_call L data =
     (if data = [] then Empty
      else case decode_as L ''Error(string)'' arg_str data of
        Some r \<Rightarrow> Message (sanitize r)
      | None \<Rightarrow>
       (case decode_as L ''Panic(uint256)'' arg_uint data of
          Some c \<Rightarrow> Panic c
        | None \<Rightarrow>
         (case decode_custom L call_target_errors data of
            Some r \<Rightarrow> r
          | None \<Rightarrow> Unrecognised data)))"

definition decode_payment_errors :: "lib \<Rightarrow> bytes \<Rightarrow> reason option" where
  "decode_payment_errors L data =
     (case decode_as L ''InsufficientTokenBalance(uint256,uint256)'' arg_uint_uint data of
        Some (b, r) \<Rightarrow> Some (InsufficientTokenBalance b r)
      | None \<Rightarrow>
       (case decode_as L ''CallFailed(uint256,bytes)'' arg_uint_bytes data of
          Some (i, d) \<Rightarrow> Some (CallFailed i d (decode_call L d))
        | None \<Rightarrow>
         (case decode_as L ''CallTargetHasNoCode(uint256,address)'' arg_uint_addr data of
            Some (i, t) \<Rightarrow> Some (CallTargetHasNoCode i t)
          | None \<Rightarrow>
            map_option AmountNotSpent (decode_as L ''AmountNotSpent(uint256)'' arg_uint data))))"

definition decode_factory_errors :: "lib \<Rightarrow> bytes \<Rightarrow> reason option" where
  "decode_factory_errors L data =
     (case decode_as L ''AlreadyDeployed()'' arg_none data of
        Some _ \<Rightarrow> Some AlreadyDeployed
      | None \<Rightarrow>
       (case decode_as L ''DeploymentFailed()'' arg_none data of
          Some _ \<Rightarrow> Some DeploymentFailed
        | None \<Rightarrow>
          map_option InitCodeTooLarge (decode_as L ''InitCodeTooLarge(uint256)'' arg_uint data)))"

definition decode_execute :: "lib \<Rightarrow> bytes \<Rightarrow> reason" where
  "decode_execute L data =
     (case decode_payment_errors L data of
        Some r \<Rightarrow> r
      | None \<Rightarrow> (case decode_factory_errors L data of
          Some r \<Rightarrow> r
        | None \<Rightarrow> decode_call L data))"

fun reason_signature :: "reason \<Rightarrow> string option" where
  "reason_signature (InsufficientTokenBalance _ _) = Some ''InsufficientTokenBalance(uint256,uint256)''"
| "reason_signature (CallFailed _ _ _) = Some ''CallFailed(uint256,bytes)''"
| "reason_signature (CallTargetHasNoCode _ _) = Some ''CallTargetHasNoCode(uint256,address)''"
| "reason_signature (AmountNotSpent _) = Some ''AmountNotSpent(uint256)''"
| "reason_signature AlreadyDeployed = Some ''AlreadyDeployed()''"
| "reason_signature DeploymentFailed = Some ''DeploymentFailed()''"
| "reason_signature (InitCodeTooLarge _) = Some ''InitCodeTooLarge(uint256)''"
| "reason_signature (Message _) = Some ''Error(string)''"
| "reason_signature (Panic _) = Some ''Panic(uint256)''"
| "reason_signature (Custom sig _) = Some sig"
| "reason_signature Empty = None"
| "reason_signature (Unrecognised _) = None"

definition reason_name :: "reason \<Rightarrow> string option" where
  "reason_name r = map_option (takeWhile (\<lambda>c. c \<noteq> CHR ''('')) (reason_signature r)"

fun reason_args :: "lib \<Rightarrow> reason \<Rightarrow> (string \<times> string) list" where
  "reason_args L (InsufficientTokenBalance b r) =
     [(''balance'', u256_to_string b), (''required'', u256_to_string r)]"
| "reason_args L (CallFailed i _ _) = [(''index'', u256_to_string i)]"
| "reason_args L (CallTargetHasNoCode i t) =
     [(''index'', u256_to_string i), (''target'', l_fmt_address L t)]"
| "reason_args L (AmountNotSpent n) = [(''remaining'', u256_to_string n)]"
| "reason_args L (Message m) = [(''message'', m)]"
| "reason_args L (Panic c) = [(''code'', u256_to_string c)]"
| "reason_args L (Custom _ as) = as"
| "reason_args L (InitCodeTooLarge n) = [(''length'', u256_to_string n)]"
| "reason_args L AlreadyDeployed = []"
| "reason_args L DeploymentFailed = []"
| "reason_args L Empty = []"
| "reason_args L (Unrecognised _) = []"

text \<open>
  The metric label. \<open>other.name().expect("named")\<close> cannot fail: only \<open>Empty\<close> and \<open>Unrecognised\<close>
  have no name (lemma \<open>reason_name_some\<close> below).
\<close>

fun label_name :: "reason \<Rightarrow> string" where
  "label_name Empty = ''empty''"
| "label_name (Unrecognised _) = ''unrecognised''"
| "label_name other = the (reason_name other)"

fun reason_label :: "reason \<Rightarrow> string" where
  "reason_label (CallFailed _ _ r) = ''CallFailed:'' @ label_name r"
| "reason_label other = label_name other"

definition call_at :: "u256 \<Rightarrow> call list \<Rightarrow> call option" where
  "call_at index calls = (if unat index < length calls then Some (calls ! unat index) else None)"

definition describe_call :: "lib \<Rightarrow> u256 \<Rightarrow> call list \<Rightarrow> string" where
  "describe_call L index calls =
     (case call_at index calls of
        None \<Rightarrow> ''call '' @ u256_to_string index
      | Some c \<Rightarrow>
         (case decode_as L transfer_sig arg_addr_uint (c_data c) of
            Some (to, amount) \<Rightarrow>
              ''call '' @ u256_to_string index @ '' (transfer of '' @ u256_to_string amount
                @ '' to '' @ l_fmt_address L to @ '')''
          | None \<Rightarrow> ''call '' @ u256_to_string index @ '' (to '' @ l_fmt_address L (c_target c) @ '')''))"

text \<open>
  \<open>describe\<close> and \<open>describe_call_reason\<close> hand each other the cases the other one handles; the
  termination proof shows that this never goes back and forth.
\<close>

definition own_error :: "reason \<Rightarrow> bool" where
  "own_error r = (case r of
       Message _ \<Rightarrow> False | Panic _ \<Rightarrow> False | Custom sig _ \<Rightarrow> False
     | Empty \<Rightarrow> False | Unrecognised _ \<Rightarrow> False | _ \<Rightarrow> True)"

function (sequential) describe :: "lib \<Rightarrow> reason \<Rightarrow> call list \<Rightarrow> string"
  and describe_call_reason :: "lib \<Rightarrow> reason \<Rightarrow> string" where
  "describe L (InsufficientTokenBalance b r) calls =
     ''the payment address holds '' @ u256_to_string b @ '', less than the '' @ u256_to_string r
       @ '' it settles''"
| "describe L (CallFailed index d r) calls =
     ''settlement '' @ describe_call L index calls @ '' reverted: '' @ describe_call_reason L r"
| "describe L (CallTargetHasNoCode index target) calls =
     ''settlement call '' @ u256_to_string index @ '' targets '' @ l_fmt_address L target
       @ '', which has no code on this chain''"
| "describe L (AmountNotSpent n) calls =
     ''the settlement calls succeeded but left '' @ u256_to_string n @ '' of the amount unspent ''
       @ ''(a token that returns false instead of reverting does this)''"
| "describe L AlreadyDeployed calls =
     ''the payment was already executed: an earlier execute went through, and its ''
       @ ''receipt says whether it settled or went to recovery''"
| "describe L DeploymentFailed calls =
     ''the Payment constructor reverted without data (e.g. out of gas)''"
| "describe L (InitCodeTooLarge n) calls =
     ''the encoded payment terms are '' @ u256_to_string n
       @ '' bytes, past EIP-3860'' @ [CHR 0x27] @ ''s 49,152-byte init-code limit''"
| "describe L (Custom sig as) calls =
     (if sig = transfer_failed_sig
      then ''the payment'' @ [CHR 0x27] @ ''s own transfer of the token to the recovery address failed''
      else ''reverted: '' @ describe_call_reason L (Custom sig as))"
| "describe L other calls = ''reverted: '' @ describe_call_reason L other"
| "describe_call_reason L (Message m) = m"
| "describe_call_reason L (Panic c) =
     (case (if unat c < 2 ^ 32 then l_panic_kind L (unat c) else None) of
        Some kind \<Rightarrow> ''panic '' @ l_fmt_u256_hex L c @ '' ('' @ kind @ '')''
      | None \<Rightarrow> ''panic '' @ l_fmt_u256_hex L c)"
| "describe_call_reason L (Custom sig as) =
     the (reason_name (Custom sig as)) @ ''('' @
       join '', '' (map (\<lambda>(k, v). k @ '': '' @ v) as) @ '')''"
| "describe_call_reason L Empty = ''no reason given''"
| "describe_call_reason L (Unrecognised data) =
     (if 4 \<le> length data
      then ''an unrecognised error (selector 0x'' @ l_hex_encode L (take 4 data) @ '')''
      else ''unrecognised data '' @ l_fmt_bytes L data)"
| "describe_call_reason L other = describe L other []"
  by pat_completeness auto
termination
  by (relation "measure (\<lambda>x. case x of
      Inl (L, r, calls) \<Rightarrow> 2 * size r + (if own_error r then 0 else 1)
    | Inr (L, r) \<Rightarrow> 2 * size r + (if own_error r then 1 else 0))")
    (auto simp: own_error_def split: reason.splits)

section \<open>The view apps get\<close>

datatype revert_kind = KDecoded | KEmpty | KUnrecognised

record call_ref =
  cr_index :: nat
  cr_target :: string

datatype revert_view = RevertView
  (rv_kind: revert_kind)
  (rv_data: string)
  (rv_selector: "string option")
  (rv_name: "string option")
  (rv_signature: "string option")
  (rv_args: "(string \<times> string) list option")
  (rv_call: "call_ref option")
  (rv_reason: "revert_view option")

fun kind_of :: "reason \<Rightarrow> revert_kind" where
  "kind_of Empty = KEmpty"
| "kind_of (Unrecognised _) = KUnrecognised"
| "kind_of _ = KDecoded"

definition call_ref_at :: "lib \<Rightarrow> u256 \<Rightarrow> call list \<Rightarrow> call_ref option" where
  "call_ref_at L index calls = map_option
     (\<lambda>c. \<lparr>cr_index = unat index, cr_target = l_fmt_address L (c_target c)\<rparr>) (call_at index calls)"

fun call_of_reason :: "lib \<Rightarrow> reason \<Rightarrow> call list \<Rightarrow> call_ref option" where
  "call_of_reason L (CallFailed index _ _) calls = call_ref_at L index calls"
| "call_of_reason L (CallTargetHasNoCode index _) calls = call_ref_at L index calls"
| "call_of_reason L _ calls = None"

definition collect_args :: "(string \<times> string) list \<Rightarrow> (string \<times> string) list" where
  "collect_args as = fold (\<lambda>(k, v) m. bt_insert k v m) as []"

definition level_view ::
    "lib \<Rightarrow> bytes \<Rightarrow> reason \<Rightarrow> call list \<Rightarrow> revert_view option \<Rightarrow> revert_view" where
  "level_view L data r calls nested = RevertView (kind_of r)
     (''0x'' @ l_hex_encode L data)
     (if 4 \<le> length data then Some (''0x'' @ l_hex_encode L (take 4 data)) else None)
     (reason_name r)
     (reason_signature r)
     (if kind_of r = KDecoded then Some (collect_args (reason_args L r)) else None)
     (call_of_reason L r calls)
     nested"

fun view_of :: "lib \<Rightarrow> bytes \<Rightarrow> reason \<Rightarrow> call list \<Rightarrow> revert_view" where
  "view_of L data (CallFailed i d r) calls =
     level_view L data (CallFailed i d r) calls (Some (view_of L d r []))"
| "view_of L data r calls = level_view L data r calls None"

definition of_execute :: "lib \<Rightarrow> bytes \<Rightarrow> call list \<Rightarrow> revert_view" where
  "of_execute L data calls = view_of L data (decode_execute L data) calls"

text \<open>\<open>Serialize\<close> of \<open>RevertView\<close>: absent options are left out.\<close>

definition jfield :: "string \<Rightarrow> ('a \<Rightarrow> json) \<Rightarrow> 'a option \<Rightarrow> (string \<times> json) list" where
  "jfield k f x = (case x of None \<Rightarrow> [] | Some v \<Rightarrow> [(k, f v)])"

fun kind_str :: "revert_kind \<Rightarrow> string" where
  "kind_str KDecoded = ''decoded''"
| "kind_str KEmpty = ''empty''"
| "kind_str KUnrecognised = ''unrecognised''"

definition json_of_call_ref :: "call_ref \<Rightarrow> json" where
  "json_of_call_ref c = JObj [(''index'', JInt (int (cr_index c))), (''target'', JStr (cr_target c))]"

fun json_of_revert :: "revert_view \<Rightarrow> json" where
  "json_of_revert (RevertView k d sel n sig as c r) = JObj
     ([(''kind'', JStr (kind_str k)), (''data'', JStr d)]
      @ jfield ''selector'' JStr sel @ jfield ''name'' JStr n @ jfield ''signature'' JStr sig
      @ jfield ''args'' (\<lambda>kvs. JObj (map (\<lambda>(k, v). (k, JStr v)) kvs)) as
      @ jfield ''call'' json_of_call_ref c
      @ (case r of None \<Rightarrow> [] | Some v \<Rightarrow> [(''reason'', json_of_revert v)]))"

section \<open>Lemmas\<close>

lemma reason_name_some: "reason_name r = None \<longleftrightarrow> kind_of r \<noteq> KDecoded"
  by (cases r) (simp_all add: reason_name_def)

lemma sanitize_no_nul: "CHR 0x00 \<notin> set (sanitize m)"
  by (induction m) (auto simp: sanitize_def)

lemma sanitize_id: "CHR 0x00 \<notin> set m \<Longrightarrow> sanitize m = m"
  by (induction m) (auto simp: sanitize_def)

text \<open>The raw bytes of every level of a view.\<close>

fun levels :: "revert_view \<Rightarrow> string list" where
  "levels (RevertView k d sel n sig as c r) = d # (case r of None \<Rightarrow> [] | Some v \<Rightarrow> levels v)"

fun reason_levels :: "lib \<Rightarrow> bytes \<Rightarrow> reason \<Rightarrow> string list" where
  "reason_levels L data (CallFailed i d r) = (''0x'' @ l_hex_encode L data) # reason_levels L d r"
| "reason_levels L data _ = [''0x'' @ l_hex_encode L data]"

lemma levels_view_of: "levels (view_of L data r calls) = reason_levels L data r"
  by (induction L data r calls rule: view_of.induct) (simp_all add: level_view_def)

lemma decode_custom_is_custom:
  "decode_custom L errs data = Some r \<Longrightarrow> \<exists>sig as. r = Custom sig as \<and> sig \<in> fst ` set errs"
  by (induction L errs data rule: decode_custom.induct) (auto split: option.splits)

text \<open>A call target's revert is never one of the payment's own errors.\<close>

lemma decode_call_not_own: "\<not> own_error (decode_call L data)"
proof -
  have "\<not> own_error r" if "decode_custom L call_target_errors data = Some r" for r
    using decode_custom_is_custom [OF that] by (auto simp: own_error_def)
  then show ?thesis
    by (auto simp: decode_call_def own_error_def
        split: option.splits)
qed

end
