(* ===== verification/Deposit_Model.thy ===== *)
theory Deposit_Model
  imports Chain_Revert
begin

text \<open>
  \<^verbatim>\<open>src/deposit/mod.rs\<close>: the deposit row, its status, its wire representation, its timeline
  events and the settlement calls as stored text.
\<close>

section \<open>Status\<close>

datatype deposit_status = Pending | PartialPaid | Paid | Settled | Failed | Expired

fun status_as_str :: "deposit_status \<Rightarrow> string" where
  "status_as_str Pending = ''pending''"
| "status_as_str PartialPaid = ''partial_paid''"
| "status_as_str Paid = ''paid''"
| "status_as_str Settled = ''settled''"
| "status_as_str Failed = ''failed''"
| "status_as_str Expired = ''expired''"

definition is_terminal :: "deposit_status \<Rightarrow> bool" where
  "is_terminal s = (s \<in> {Settled, Failed, Expired})"

definition status_parse :: "string \<Rightarrow> deposit_status option" where
  "status_parse raw =
     (if raw = ''pending'' then Some Pending
      else if raw = ''partial_paid'' then Some PartialPaid
      else if raw = ''paid'' then Some Paid
      else if raw = ''settled'' then Some Settled
      else if raw = ''failed'' then Some Failed
      else if raw = ''expired'' then Some Expired
      else None)"

text \<open>\<open>status IN ('pending', 'partial_paid')\<close>, the guard most transitions share.\<close>

definition is_open :: "deposit_status \<Rightarrow> bool" where
  "is_open s = (s \<in> {Pending, PartialPaid})"

section \<open>Settlement calls as stored\<close>

record call_view =
  cv_target :: string
  cv_data :: string

definition call_view_of :: "lib \<Rightarrow> call \<Rightarrow> call_view" where
  "call_view_of L c = \<lparr>cv_target = l_fmt_address L (c_target c), cv_data = l_fmt_bytes L (c_data c)\<rparr>"

text \<open>\<open>CallView::to_call\<close>: \<open>None\<close> stands for the panic of \<open>expect\<close> on text that does not parse.\<close>

definition to_call :: "lib \<Rightarrow> call_view \<Rightarrow> call option" where
  "to_call L v = (case (l_parse_address L (cv_target v), l_parse_bytes L (cv_data v)) of
       (Some t, Some d) \<Rightarrow> Some \<lparr>c_target = t, c_data = d\<rparr>
     | _ \<Rightarrow> None)"

fun to_calls :: "lib \<Rightarrow> call_view list \<Rightarrow> call list option" where
  "to_calls L [] = Some []"
| "to_calls L (v # vs) = (case to_call L v of
       None \<Rightarrow> None
     | Some c \<Rightarrow> map_option ((#) c) (to_calls L vs))"

section \<open>The row\<close>

record deposit =
  d_id :: uuid
  d_user_id :: string
  d_chain_id :: int
  d_token_symbol :: string
  d_token_address :: string
  d_token_decimals :: int
  d_amount :: string
  d_receiver :: string
  d_calls :: "call_view list"
  d_recovery :: string
  d_salt :: string
  d_expires_at :: time
  d_payment_address :: string
  d_reference :: "string option"
  d_webhook_url :: "string option"
  d_status :: deposit_status
  d_confirmed_amount :: string
  d_watch_id :: "uuid option"
  d_watch_registered_at :: "time option"
  d_engine_job_id :: "uuid option"
  d_engine_submitted_at :: "time option"
  d_tx_hash :: "string option"
  d_block_number :: "int option"
  d_failure_code :: "string option"
  d_failure_message :: "string option"
  d_failure_revert_data :: "string option"
  d_event_seq :: int
  d_detected_at :: "time option"
  d_settled_at :: "time option"
  d_failed_at :: "time option"
  d_expired_at :: "time option"
  d_created_at :: time
  d_updated_at :: time

text \<open>The \<open>expect\<close>s of these readers are \<open>None\<close> here.\<close>

definition deposit_payment_address :: "lib \<Rightarrow> deposit \<Rightarrow> address option" where
  "deposit_payment_address L d = l_parse_address L (d_payment_address d)"

definition deposit_calls :: "lib \<Rightarrow> deposit \<Rightarrow> call list option" where
  "deposit_calls L d = to_calls L (d_calls d)"

definition deposit_terms :: "lib \<Rightarrow> deposit \<Rightarrow> payment_terms option" where
  "deposit_terms L d =
     (case (l_parse_address L (d_token_address d), l_parse_u256 L (d_amount d), deposit_calls L d,
            l_parse_address L (d_recovery d), l_parse_b256 L (d_salt d)) of
        (Some token, Some amount, Some calls, Some recovery, Some salt) \<Rightarrow>
          Some \<lparr>pt_token = token, pt_amount = amount, pt_calls = calls,
                pt_expiration_timestamp = as_u64 (timestamp (d_expires_at d)),
                pt_recovery = recovery, pt_salt = salt, pt_chain_id = as_u64 (d_chain_id d)\<rparr>
      | _ \<Rightarrow> None)"

section \<open>The wire representation\<close>

record failure =
  f_code :: string
  f_message :: string
  f_revert :: "revert_view option"

record timestamps =
  t_created_at :: time
  t_updated_at :: time
  t_detected_at :: "time option"
  t_settled_at :: "time option"
  t_failed_at :: "time option"
  t_expired_at :: "time option"

record deposit_event =
  e_id :: uuid
  e_deposit_id :: uuid
  e_sequence :: int
  e_type :: string
  e_data :: json
  e_created_at :: time

record deposit_event_view =
  ev_id :: uuid
  ev_sequence :: int
  ev_type :: string
  ev_data :: json
  ev_created_at :: time

definition event_view :: "deposit_event \<Rightarrow> deposit_event_view" where
  "event_view e = \<lparr>ev_id = e_id e, ev_sequence = e_sequence e, ev_type = e_type e,
     ev_data = e_data e, ev_created_at = e_created_at e\<rparr>"

record deposit_view =
  v_id :: uuid
  v_status :: deposit_status
  v_payment_address :: string
  v_chain_id :: nat
  v_token :: string
  v_token_address :: string
  v_token_decimals :: nat
  v_amount :: string
  v_confirmed_amount :: string
  v_receiver :: string
  v_calls :: "call_view list"
  v_recovery :: string
  v_salt :: string
  v_reference :: "string option"
  v_webhook_url :: "string option"
  v_expires_at :: time
  v_tx_hash :: "string option"
  v_block_number :: "nat option"
  v_failure :: "failure option"
  v_timestamps :: timestamps
  v_events :: "deposit_event_view list option"

definition as_u8 :: "int \<Rightarrow> nat" where
  "as_u8 i = nat (i mod 256)"

definition timestamps_of :: "deposit \<Rightarrow> timestamps" where
  "timestamps_of d = \<lparr>t_created_at = d_created_at d, t_updated_at = d_updated_at d,
     t_detected_at = d_detected_at d, t_settled_at = d_settled_at d, t_failed_at = d_failed_at d,
     t_expired_at = d_expired_at d\<rparr>"

text \<open>
  The failure of the view. Stored revert data and calls that do not parse would panic in the code;
  the rows this service writes always parse, and the model leaves such a revert out.
\<close>

definition failure_of :: "lib \<Rightarrow> deposit \<Rightarrow> failure option" where
  "failure_of L d = map_option (\<lambda>code. \<lparr>f_code = code,
       f_message = unwrap_or [] (d_failure_message d),
       f_revert = Option.bind (d_failure_revert_data d) (\<lambda>t.
         Option.bind (l_parse_bytes L t) (\<lambda>bytes.
           map_option (of_execute L bytes) (deposit_calls L d)))\<rparr>)
     (d_failure_code d)"

definition deposit_view_of :: "lib \<Rightarrow> deposit \<Rightarrow> deposit_view" where
  "deposit_view_of L d = \<lparr>v_id = d_id d, v_status = d_status d,
     v_payment_address = d_payment_address d, v_chain_id = as_u64 (d_chain_id d),
     v_token = d_token_symbol d, v_token_address = d_token_address d,
     v_token_decimals = as_u8 (d_token_decimals d), v_amount = d_amount d,
     v_confirmed_amount = d_confirmed_amount d, v_receiver = d_receiver d, v_calls = d_calls d,
     v_recovery = d_recovery d, v_salt = d_salt d, v_reference = d_reference d,
     v_webhook_url = d_webhook_url d, v_expires_at = d_expires_at d, v_tx_hash = d_tx_hash d,
     v_block_number = map_option as_u64 (d_block_number d), v_failure = failure_of L d,
     v_timestamps = timestamps_of d, v_events = None\<rparr>"

text \<open>\<open>Serialize\<close> of the view, field by field; the fields with \<open>skip_serializing_if\<close> are left out when absent.\<close>

definition jtime :: "lib \<Rightarrow> time \<Rightarrow> json" where
  "jtime L t = JStr (l_fmt_time L t)"

definition json_of_failure :: "failure \<Rightarrow> json" where
  "json_of_failure f = JObj ([(''code'', JStr (f_code f)), (''message'', JStr (f_message f))]
     @ jfield ''revert'' json_of_revert (f_revert f))"

definition json_of_timestamps :: "lib \<Rightarrow> timestamps \<Rightarrow> json" where
  "json_of_timestamps L t = JObj [(''created_at'', jtime L (t_created_at t)),
     (''updated_at'', jtime L (t_updated_at t)), (''detected_at'', jopt (jtime L) (t_detected_at t)),
     (''settled_at'', jopt (jtime L) (t_settled_at t)), (''failed_at'', jopt (jtime L) (t_failed_at t)),
     (''expired_at'', jopt (jtime L) (t_expired_at t))]"

definition json_of_call_view :: "call_view \<Rightarrow> json" where
  "json_of_call_view c = JObj [(''target'', JStr (cv_target c)), (''data'', JStr (cv_data c))]"

definition json_of_event_view :: "lib \<Rightarrow> deposit_event_view \<Rightarrow> json" where
  "json_of_event_view L e = JObj [(''id'', JStr (l_fmt_uuid L (ev_id e))),
     (''sequence'', JInt (ev_sequence e)), (''type'', JStr (ev_type e)), (''data'', ev_data e),
     (''created_at'', jtime L (ev_created_at e))]"

definition json_of_view :: "lib \<Rightarrow> deposit_view \<Rightarrow> json" where
  "json_of_view L v = JObj
     ([(''id'', JStr (l_fmt_uuid L (v_id v))), (''status'', JStr (status_as_str (v_status v))),
       (''payment_address'', JStr (v_payment_address v)), (''chain_id'', JInt (int (v_chain_id v))),
       (''token'', JStr (v_token v)), (''token_address'', JStr (v_token_address v)),
       (''token_decimals'', JInt (int (v_token_decimals v))), (''amount'', JStr (v_amount v)),
       (''confirmed_amount'', JStr (v_confirmed_amount v)), (''receiver'', JStr (v_receiver v)),
       (''calls'', JArr (map json_of_call_view (v_calls v))), (''recovery'', JStr (v_recovery v)),
       (''salt'', JStr (v_salt v))]
      @ jfield ''reference'' JStr (v_reference v) @ jfield ''webhook_url'' JStr (v_webhook_url v)
      @ [(''expires_at'', jtime L (v_expires_at v))]
      @ jfield ''tx_hash'' JStr (v_tx_hash v)
      @ jfield ''block_number'' (\<lambda>n. JInt (int n)) (v_block_number v)
      @ jfield ''failure'' json_of_failure (v_failure v)
      @ [(''timestamps'', json_of_timestamps L (v_timestamps v))]
      @ jfield ''events'' (\<lambda>es. JArr (map (json_of_event_view L) es)) (v_events v))"

section \<open>Event types\<close>

definition ev_created :: string where "ev_created = ''deposit.created''"
definition ev_watch_registered :: string where "ev_watch_registered = ''deposit.watch_registered''"
definition ev_watch_lost :: string where "ev_watch_lost = ''deposit.watch_lost''"
definition ev_reconciled :: string where "ev_reconciled = ''deposit.reconciled''"
definition ev_detected :: string where "ev_detected = ''deposit.detected''"
definition ev_payment_confirmed :: string where "ev_payment_confirmed = ''deposit.payment_confirmed''"
definition ev_payment_orphaned :: string where "ev_payment_orphaned = ''deposit.payment_orphaned''"
definition ev_ready :: string where "ev_ready = ''deposit.ready''"
definition ev_settlement_submitted :: string where
  "ev_settlement_submitted = ''deposit.settlement_submitted''"
definition ev_settlement_included :: string where
  "ev_settlement_included = ''deposit.settlement_included''"
definition ev_settlement_retried :: string where
  "ev_settlement_retried = ''deposit.settlement_retried''"
definition ev_settled :: string where "ev_settled = ''deposit.settled''"
definition ev_failed :: string where "ev_failed = ''deposit.failed''"
definition ev_expired :: string where "ev_expired = ''deposit.expired''"

lemmas event_type_defs = ev_created_def ev_watch_registered_def ev_watch_lost_def ev_reconciled_def
  ev_detected_def ev_payment_confirmed_def ev_payment_orphaned_def ev_ready_def
  ev_settlement_submitted_def ev_settlement_included_def ev_settlement_retried_def ev_settled_def
  ev_failed_def ev_expired_def

definition is_app_facing :: "string \<Rightarrow> bool" where
  "is_app_facing t = (t \<in> {ev_detected, ev_payment_confirmed, ev_payment_orphaned, ev_ready,
     ev_settled, ev_failed, ev_expired})"

section \<open>Lemmas\<close>

lemma status_parse_as_str: "status_parse (status_as_str s) = Some s"
  by (cases s) (simp_all add: status_parse_def)

lemma status_parse_Some: "status_parse raw = Some s \<Longrightarrow> raw = status_as_str s"
  by (auto simp: status_parse_def split: if_splits)

lemma to_call_call_view_of:
  "address_codec_ok L \<Longrightarrow> bytes_codec_ok L \<Longrightarrow> to_call L (call_view_of L c) = Some c"
  by (simp add: to_call_def call_view_of_def address_codec_ok_def bytes_codec_ok_def)

lemma to_calls_map:
  "address_codec_ok L \<Longrightarrow> bytes_codec_ok L \<Longrightarrow> to_calls L (map (call_view_of L) cs) = Some cs"
  by (induction cs) (simp_all add: to_call_call_view_of)

end
