(* ===== verification/Deposit_Store.thy ===== *)
theory Deposit_Store
  imports Deposit_Model
begin

text \<open>
  \<^verbatim>\<open>src/deposit/store.rs\<close> over the schema of \<^verbatim>\<open>migrations/\<close>: every query of the deposit lifecycle.

  The database is a record of tables. A function that works on a connection inside a transaction
  is a \<open>tx\<close>: it returns an error, or a result with the new database. \<open>run_tx\<close> is a whole
  transaction: an error rolls everything back. \<open>now\<close> is SQL's \<open>now()\<close>, the time the transaction
  started. \<open>Uuid::now_v7()\<close> draws from the \<open>lib\<close> parameter at a counter kept with the tables;
  collisions of fresh ids are not modelled, so the primary keys on them are theorems here and not
  checks. The other constraints (\<open>deposits (chain_id, payment_address)\<close>, the foreign key to \<open>users\<close>,
  the idempotency keys, the inbound events) are checked where the statements rely on them.
\<close>

section \<open>Tables\<close>

record idempotency_row =
  ik_user_id :: string
  ik_key :: string
  ik_request_hash :: bytes
  ik_deposit_id :: uuid
  ik_created_at :: time

record inbound_row =
  in_source :: string
  in_event_id :: string
  in_received_at :: time

record outbox_row =
  o_id :: uuid
  o_kind :: string
  o_deposit_id :: uuid
  o_payload :: json
  o_attempts :: int
  o_next_attempt_at :: time
  o_locked_until :: "time option"
  o_last_error :: "string option"
  o_dead_at :: "time option"
  o_created_at :: time

record user_row =
  u_id :: string
  u_webhook_secret :: string
  u_default_webhook_url :: "string option"
  u_created_at :: time
  u_last_seen_at :: time

record api_key_row =
  ak_user_id :: string
  ak_key_hash :: bytes
  ak_key_prefix :: string
  ak_created_at :: time
  ak_rotated_at :: "time option"
  ak_last_used_at :: "time option"

record db =
  deposits :: "deposit list"
  deposit_events :: "deposit_event list"
  idempotency_keys :: "idempotency_row list"
  inbound_events :: "inbound_row list"
  outbox :: "outbox_row list"
  users :: "user_row list"
  api_keys :: "api_key_row list"
  notices :: "uuid list"
  uuid_ctr :: nat

type_synonym 'a tx = "db \<Rightarrow> sqlx_error + ('a \<times> db)"

definition and_then :: "'a tx \<Rightarrow> ('a \<Rightarrow> 'b tx) \<Rightarrow> 'b tx" where
  "and_then m f db = (case m db of Inl e \<Rightarrow> Inl e | Inr (x, db') \<Rightarrow> f x db')"

definition tx_return :: "'a \<Rightarrow> 'a tx" where
  "tx_return x db = Inr (x, db)"

definition run_tx :: "'a tx \<Rightarrow> db \<Rightarrow> (sqlx_error + 'a) \<times> db" where
  "run_tx m db = (case m db of Inl e \<Rightarrow> (Inl e, db) | Inr (x, db') \<Rightarrow> (Inr x, db'))"

text \<open>
  A transaction can also fail for reasons outside the tables. A failure while it commits may be
  reported for a transaction that did commit.
\<close>

datatype tx_stage = AtBegin | AtStatement | AtCommit

datatype tx_fault = NoFault | BeginFault sqlx_error | StatementFault sqlx_error
  | CommitFault sqlx_error bool

definition run_faulty :: "tx_fault \<Rightarrow> 'a tx \<Rightarrow> db \<Rightarrow> ((tx_stage \<times> sqlx_error) + 'a) \<times> db" where
  "run_faulty f m db = (case f of
       BeginFault e \<Rightarrow> (Inl (AtBegin, e), db)
     | StatementFault e \<Rightarrow> (Inl (AtStatement, e), db)
     | CommitFault e committed \<Rightarrow>
        (case m db of
           Inl e' \<Rightarrow> (Inl (AtStatement, e'), db)
         | Inr (x, db') \<Rightarrow> (Inl (AtCommit, e), if committed then db' else db))
     | NoFault \<Rightarrow>
        (case m db of
           Inl e \<Rightarrow> (Inl (AtStatement, e), db)
         | Inr (x, db') \<Rightarrow> (Inr x, db')))"

definition new_uuid :: "lib \<Rightarrow> uuid tx" where
  "new_uuid L db = Inr (l_uuid_v7 L (uuid_ctr db), db\<lparr>uuid_ctr := Suc (uuid_ctr db)\<rparr>)"

section \<open>Statements\<close>

definition select_deposit :: "(deposit \<Rightarrow> bool) \<Rightarrow> db \<Rightarrow> deposit option" where
  "select_deposit where_clause db = find where_clause (deposits db)"

definition update_deposit ::
    "time \<Rightarrow> (deposit \<Rightarrow> deposit) \<Rightarrow> (deposit \<Rightarrow> bool) \<Rightarrow> deposit option tx" where
  "update_deposit now set_clause where_clause db =
     (let (rows, r) = update_returning where_clause
            (\<lambda>d. (set_clause d)\<lparr>d_updated_at := now\<rparr>) (deposits db)
      in Inr (r, db\<lparr>deposits := rows\<rparr>))"

definition get :: "db \<Rightarrow> uuid \<Rightarrow> deposit option" where
  "get db i = select_deposit (\<lambda>d. d_id d = i) db"

definition get_by_watch :: "db \<Rightarrow> uuid \<Rightarrow> deposit option" where
  "get_by_watch db w = select_deposit (\<lambda>d. d_watch_id d = Some w) db"

definition get_by_payment_address :: "lib \<Rightarrow> db \<Rightarrow> nat \<Rightarrow> address \<Rightarrow> deposit option" where
  "get_by_payment_address L db chain addr = select_deposit
     (\<lambda>d. d_chain_id d = as_i64 chain \<and> d_payment_address d = l_fmt_address L addr) db"

definition get_by_engine_job :: "db \<Rightarrow> uuid \<Rightarrow> deposit option" where
  "get_by_engine_job db j = select_deposit (\<lambda>d. d_engine_job_id d = Some j) db"

definition events :: "db \<Rightarrow> uuid \<Rightarrow> deposit_event list" where
  "events db i = sort_key e_sequence (filter (\<lambda>e. e_deposit_id e = i) (deposit_events db))"

definition events_through :: "db \<Rightarrow> uuid \<Rightarrow> int \<Rightarrow> string list \<Rightarrow> deposit_event list" where
  "events_through db i through types = sort_key e_sequence
     (filter (\<lambda>e. e_deposit_id e = i \<and> e_sequence e \<le> through \<and> e_type e \<in> set types)
       (deposit_events db))"

section \<open>Events and outbox\<close>

definition webhook_url_for :: "db \<Rightarrow> deposit \<Rightarrow> string option" where
  "webhook_url_for db d =
     (if d_webhook_url d \<noteq> None then d_webhook_url d
      else Option.bind (find (\<lambda>u. u_id u = d_user_id d) (users db)) u_default_webhook_url)"

definition outbox_entry :: "time \<Rightarrow> uuid \<Rightarrow> string \<Rightarrow> uuid \<Rightarrow> json \<Rightarrow> outbox_row" where
  "outbox_entry now i kind deposit payload = \<lparr>o_id = i, o_kind = kind, o_deposit_id = deposit,
     o_payload = payload, o_attempts = 0, o_next_attempt_at = now, o_locked_until = None,
     o_last_error = None, o_dead_at = None, o_created_at = now\<rparr>"

definition enqueue :: "lib \<Rightarrow> time \<Rightarrow> string \<Rightarrow> uuid \<Rightarrow> json \<Rightarrow> unit tx" where
  "enqueue L now kind deposit payload = and_then (new_uuid L) (\<lambda>i db.
     Inr ((), db\<lparr>outbox := outbox db @ [outbox_entry now i kind deposit payload]\<rparr>))"

definition notify_body :: "lib \<Rightarrow> deposit_event \<Rightarrow> deposit \<Rightarrow> json" where
  "notify_body L e d = JObj [(''id'', JStr (l_fmt_uuid L (e_id e))), (''type'', JStr (e_type e)),
     (''created_at'', jtime L (e_created_at e)), (''sequence'', JInt (e_sequence e)),
     (''deposit'', json_of_view L (deposit_view_of L d)), (''data'', e_data e)]"

definition notify_payload :: "lib \<Rightarrow> string \<Rightarrow> deposit_event \<Rightarrow> deposit \<Rightarrow> json" where
  "notify_payload L url e d = JObj [(''url'', JStr url), (''event_id'', JStr (l_fmt_uuid L (e_id e))),
     (''event_type'', JStr (e_type e)), (''body'', notify_body L e d)]"

definition bump_seq :: "deposit \<Rightarrow> int tx" where
  "bump_seq d db =
     (let (rows, r) = update_returning (\<lambda>r. d_id r = d_id d)
            (\<lambda>r. r\<lparr>d_event_seq := d_event_seq r + 1\<rparr>) (deposits db)
      in case r of None \<Rightarrow> Inl RowNotFound | Some r \<Rightarrow> Inr (d_event_seq r, db\<lparr>deposits := rows\<rparr>))"

definition insert_event :: "deposit_event \<Rightarrow> unit tx" where
  "insert_event e db = Inr ((), db\<lparr>deposit_events := deposit_events db @ [e],
     notices := notices db @ [e_deposit_id e]\<rparr>)"

definition notify_app_event :: "lib \<Rightarrow> time \<Rightarrow> deposit \<Rightarrow> deposit_event \<Rightarrow> unit tx" where
  "notify_app_event L now d e db =
     (if is_app_facing (e_type e) then
        (case webhook_url_for db d of
           None \<Rightarrow> Inr ((), db)
         | Some url \<Rightarrow> enqueue L now ''notify_app'' (d_id d) (notify_payload L url e d) db)
      else Inr ((), db))"

definition record_event :: "lib \<Rightarrow> time \<Rightarrow> deposit \<Rightarrow> string \<Rightarrow> json \<Rightarrow> deposit_event tx" where
  "record_event L now d ty data =
     and_then (bump_seq d) (\<lambda>sequence.
     and_then (new_uuid L) (\<lambda>eid.
       let event = \<lparr>e_id = eid, e_deposit_id = d_id d, e_sequence = sequence, e_type = ty,
             e_data = data, e_created_at = now\<rparr>
       in and_then (insert_event event) (\<lambda>_.
          and_then (notify_app_event L now d event) (\<lambda>_. tx_return event))))"

definition claim_inbound :: "time \<Rightarrow> string \<Rightarrow> string \<Rightarrow> bool tx" where
  "claim_inbound now source event_id db =
     (if \<exists>r \<in> set (inbound_events db). in_source r = source \<and> in_event_id r = event_id
      then Inr (False, db)
      else Inr (True, db\<lparr>inbound_events := inbound_events db @
        [\<lparr>in_source = source, in_event_id = event_id, in_received_at = now\<rparr>]\<rparr>))"

definition execute_key :: "lib \<Rightarrow> uuid \<Rightarrow> int \<Rightarrow> string" where
  "execute_key L i sequence = ''deposit:'' @ l_fmt_uuid L i @ '':execute:'' @ dec_int sequence"

definition enqueue_execute :: "lib \<Rightarrow> time \<Rightarrow> uuid \<Rightarrow> int \<Rightarrow> unit tx" where
  "enqueue_execute L now i sequence = enqueue L now ''submit_execute'' i
     (JObj [(''idempotency_key'', JStr (execute_key L i sequence))])"

text \<open>The tail every transition shares: the event of the updated row, if there is one.\<close>

definition then_event :: "lib \<Rightarrow> time \<Rightarrow> string \<Rightarrow> json \<Rightarrow> deposit option \<Rightarrow> deposit option tx" where
  "then_event L now ty data r = (case r of
       None \<Rightarrow> tx_return None
     | Some d \<Rightarrow> and_then (record_event L now d ty data) (\<lambda>_. tx_return (Some d)))"

section \<open>Transitions\<close>

definition mark_watch_registered :: "lib \<Rightarrow> time \<Rightarrow> uuid \<Rightarrow> uuid \<Rightarrow> deposit option tx" where
  "mark_watch_registered L now i w =
     and_then (update_deposit now
         (\<lambda>d. d\<lparr>d_watch_id := Some w, d_watch_registered_at := Some now\<rparr>)
         (\<lambda>d. d_id d = i \<and> d_watch_id d = None))
       (then_event L now ev_watch_registered (JObj [(''watch_id'', JStr (l_fmt_uuid L w))]))"

definition apply_payment_pending :: "lib \<Rightarrow> time \<Rightarrow> uuid \<Rightarrow> json \<Rightarrow> deposit option tx" where
  "apply_payment_pending L now i data =
     and_then (update_deposit now
         (\<lambda>d. d\<lparr>d_status := PartialPaid, d_detected_at := coalesce (d_detected_at d) (Some now)\<rparr>)
         (\<lambda>d. d_id d = i \<and> is_open (d_status d)))
       (then_event L now ev_detected data)"

definition apply_payment_confirmed ::
    "lib \<Rightarrow> time \<Rightarrow> uuid \<Rightarrow> u256 \<Rightarrow> json \<Rightarrow> deposit option tx" where
  "apply_payment_confirmed L now i confirmed data =
     and_then (update_deposit now
         (\<lambda>d. d\<lparr>d_status := PartialPaid, d_detected_at := coalesce (d_detected_at d) (Some now),
            d_confirmed_amount := u256_to_string confirmed\<rparr>)
         (\<lambda>d. d_id d = i \<and> is_open (d_status d)))
       (then_event L now ev_payment_confirmed data)"

definition apply_payment_orphaned :: "lib \<Rightarrow> time \<Rightarrow> uuid \<Rightarrow> json \<Rightarrow> deposit option tx" where
  "apply_payment_orphaned L now i data db =
     then_event L now ev_payment_orphaned data (select_deposit (\<lambda>d. d_id d = i) db) db"

definition apply_threshold_reached ::
    "lib \<Rightarrow> time \<Rightarrow> uuid \<Rightarrow> u256 \<Rightarrow> json \<Rightarrow> deposit option tx" where
  "apply_threshold_reached L now i confirmed data =
     and_then (update_deposit now
         (\<lambda>d. d\<lparr>d_status := Paid, d_detected_at := coalesce (d_detected_at d) (Some now),
            d_confirmed_amount := u256_to_string confirmed\<rparr>)
         (\<lambda>d. d_id d = i \<and> is_open (d_status d)))
       (\<lambda>r. case r of
          None \<Rightarrow> tx_return None
        | Some d \<Rightarrow> and_then (record_event L now d ev_ready data) (\<lambda>event.
            and_then (enqueue_execute L now (d_id d) (e_sequence event)) (\<lambda>_. tx_return (Some d))))"

definition apply_expired :: "lib \<Rightarrow> time \<Rightarrow> uuid \<Rightarrow> json \<Rightarrow> deposit option tx" where
  "apply_expired L now i data =
     and_then (update_deposit now
         (\<lambda>d. d\<lparr>d_status := Expired, d_expired_at := Some now\<rparr>)
         (\<lambda>d. d_id d = i \<and> is_open (d_status d)))
       (then_event L now ev_expired data)"

definition mark_engine_submitted ::
    "lib \<Rightarrow> time \<Rightarrow> uuid \<Rightarrow> uuid \<Rightarrow> bool \<Rightarrow> deposit option tx" where
  "mark_engine_submitted L now i job replayed =
     and_then (update_deposit now
         (\<lambda>d. d\<lparr>d_engine_job_id := Some job, d_engine_submitted_at := Some now\<rparr>)
         (\<lambda>d. d_id d = i \<and> d_status d = Paid
            \<and> (d_engine_job_id d = None \<or> d_engine_job_id d = Some job)))
       (\<lambda>r. if replayed then tx_return r
            else then_event L now ev_settlement_submitted
                   (JObj [(''engine_job_id'', JStr (l_fmt_uuid L job))]) r)"

definition apply_settlement_included ::
    "lib \<Rightarrow> time \<Rightarrow> uuid \<Rightarrow> string \<Rightarrow> int option \<Rightarrow> json \<Rightarrow> deposit option tx" where
  "apply_settlement_included L now i tx_hash block data =
     and_then (update_deposit now
         (\<lambda>d. d\<lparr>d_tx_hash := Some tx_hash, d_block_number := block\<rparr>)
         (\<lambda>d. d_id d = i \<and> d_status d = Paid))
       (then_event L now ev_settlement_included data)"

definition apply_settled ::
    "lib \<Rightarrow> time \<Rightarrow> uuid \<Rightarrow> string \<Rightarrow> int option \<Rightarrow> json \<Rightarrow> deposit option tx" where
  "apply_settled L now i tx_hash block data =
     and_then (update_deposit now
         (\<lambda>d. d\<lparr>d_status := Settled, d_settled_at := Some now, d_tx_hash := Some tx_hash,
            d_block_number := coalesce block (d_block_number d)\<rparr>)
         (\<lambda>d. d_id d = i \<and> d_status d = Paid))
       (then_event L now ev_settled data)"

definition with_code :: "string \<Rightarrow> json \<Rightarrow> json" where
  "with_code code data = jset ''code'' (JStr code) data"

definition apply_failed ::
    "lib \<Rightarrow> time \<Rightarrow> uuid \<Rightarrow> string \<Rightarrow> string \<Rightarrow> string option \<Rightarrow> bytes option \<Rightarrow> json \<Rightarrow> deposit option tx"
  where
  "apply_failed L now i code message tx_hash revert_data data =
     and_then (update_deposit now
         (\<lambda>d. d\<lparr>d_status := Failed, d_failed_at := Some now, d_failure_code := Some code,
            d_failure_message := Some message, d_tx_hash := coalesce tx_hash (d_tx_hash d),
            d_failure_revert_data := map_option (l_fmt_bytes L) revert_data\<rparr>)
         (\<lambda>d. d_id d = i \<and> d_status d = Paid))
       (then_event L now ev_failed (with_code code data))"

definition retry_settlement :: "lib \<Rightarrow> time \<Rightarrow> uuid \<Rightarrow> deposit option tx" where
  "retry_settlement L now i =
     and_then (update_deposit now
         (\<lambda>d. d\<lparr>d_status := Paid, d_engine_job_id := None, d_engine_submitted_at := None,
            d_failure_code := None, d_failure_message := None, d_failure_revert_data := None,
            d_failed_at := None\<rparr>)
         (\<lambda>d. d_id d = i \<and> d_status d = Failed))
       (\<lambda>r. case r of
          None \<Rightarrow> tx_return None
        | Some d \<Rightarrow> and_then (record_event L now d ev_settlement_retried (JObj [])) (\<lambda>event.
            and_then (enqueue_execute L now (d_id d) (e_sequence event)) (\<lambda>_. tx_return (Some d))))"

definition reregister_watch :: "lib \<Rightarrow> time \<Rightarrow> uuid \<Rightarrow> bool tx" where
  "reregister_watch L now i =
     and_then (update_deposit now
         (\<lambda>d. d\<lparr>d_watch_id := None, d_watch_registered_at := None\<rparr>)
         (\<lambda>d. d_id d = i \<and> is_open (d_status d)))
       (\<lambda>r. case r of
          None \<Rightarrow> tx_return False
        | Some d \<Rightarrow> and_then (record_event L now d ev_watch_lost (JObj [])) (\<lambda>_.
            and_then (enqueue L now ''register_watch'' (d_id d) (JObj [])) (\<lambda>_. tx_return True)))"

definition touch :: "time \<Rightarrow> uuid \<Rightarrow> unit tx" where
  "touch now i db = Inr ((), db\<lparr>deposits :=
     upd_rows (\<lambda>d. d_id d = i) (\<lambda>d. d\<lparr>d_updated_at := now\<rparr>) (deposits db)\<rparr>)"

definition prune :: "time \<Rightarrow> int \<Rightarrow> unit tx" where
  "prune now ttl_secs db = Inr ((), db\<lparr>
     idempotency_keys := filter (\<lambda>k. \<not> ik_created_at k < now - make_interval ttl_secs) (idempotency_keys db),
     inbound_events := filter (\<lambda>e. \<not> in_received_at e < now - make_interval (7 * 86400)) (inbound_events db)\<rparr>)"

section \<open>Creating a deposit\<close>

record new_deposit =
  n_chain_id :: nat
  n_token_symbol :: string
  n_token_address :: address
  n_token_decimals :: nat
  n_amount :: u256
  n_receiver :: address
  n_calls :: "call list"
  n_recovery :: address
  n_salt :: b256
  n_expires_at :: time
  n_payment_address :: address
  n_reference :: "b256 option"
  n_webhook_url :: "string option"

datatype create_outcome = Created deposit | Replayed deposit | Conflict

record idempotency =
  idem_key :: string
  idem_fingerprint :: bytes

definition new_row :: "lib \<Rightarrow> time \<Rightarrow> uuid \<Rightarrow> string \<Rightarrow> new_deposit \<Rightarrow> deposit" where
  "new_row L now i user n = \<lparr>d_id = i, d_user_id = user, d_chain_id = as_i64 (n_chain_id n),
     d_token_symbol = n_token_symbol n, d_token_address = l_fmt_address L (n_token_address n),
     d_token_decimals = int (n_token_decimals n), d_amount = u256_to_string (n_amount n),
     d_receiver = l_fmt_address L (n_receiver n), d_calls = map (call_view_of L) (n_calls n),
     d_recovery = l_fmt_address L (n_recovery n), d_salt = l_fmt_b256 L (n_salt n),
     d_expires_at = n_expires_at n, d_payment_address = l_fmt_address L (n_payment_address n),
     d_reference = map_option (l_fmt_b256 L) (n_reference n), d_webhook_url = n_webhook_url n,
     d_status = Pending, d_confirmed_amount = ''0'', d_watch_id = None, d_watch_registered_at = None,
     d_engine_job_id = None, d_engine_submitted_at = None, d_tx_hash = None, d_block_number = None,
     d_failure_code = None, d_failure_message = None, d_failure_revert_data = None, d_event_seq = 0,
     d_detected_at = None, d_settled_at = None, d_failed_at = None, d_expired_at = None,
     d_created_at = now, d_updated_at = now\<rparr>"

definition find_idempotency :: "db \<Rightarrow> string \<Rightarrow> string \<Rightarrow> idempotency_row option" where
  "find_idempotency db user key =
     find (\<lambda>k. ik_user_id k = user \<and> ik_key k = key) (idempotency_keys db)"

definition lookup_idempotent :: "db \<Rightarrow> string \<Rightarrow> idempotency \<Rightarrow> create_outcome option" where
  "lookup_idempotent db user idem = (case find_idempotency db user (idem_key idem) of
       None \<Rightarrow> None
     | Some row \<Rightarrow>
         if ik_request_hash row \<noteq> idem_fingerprint idem then Some Conflict
         else map_option Replayed (get db (ik_deposit_id row)))"

definition insert_deposit :: "lib \<Rightarrow> time \<Rightarrow> string \<Rightarrow> new_deposit \<Rightarrow> deposit tx" where
  "insert_deposit L now user n = and_then (new_uuid L) (\<lambda>i db.
     let d = new_row L now i user n in
     if \<exists>r \<in> set (deposits db). d_chain_id r = d_chain_id d \<and> d_payment_address r = d_payment_address d
     then Inl UniqueViolation
     else if \<not> (\<exists>u \<in> set (users db). u_id u = user) then Inl (OtherDb ''deposits_user_id_fkey'')
     else Inr (d, db\<lparr>deposits := deposits db @ [d]\<rparr>))"

text \<open>\<open>INSERT INTO idempotency_keys ... ON CONFLICT DO NOTHING\<close>: whether the key was claimed.\<close>

definition claim_key :: "time \<Rightarrow> string \<Rightarrow> idempotency option \<Rightarrow> uuid \<Rightarrow> bool tx" where
  "claim_key now user idem i db = (case idem of
       None \<Rightarrow> Inr (True, db)
     | Some k \<Rightarrow>
         if find_idempotency db user (idem_key k) \<noteq> None then Inr (False, db)
         else Inr (True, db\<lparr>idempotency_keys := idempotency_keys db @
           [\<lparr>ik_user_id = user, ik_key = idem_key k, ik_request_hash = idem_fingerprint k,
             ik_deposit_id = i, ik_created_at = now\<rparr>]\<rparr>))"

text \<open>
  The transaction of \<open>create_deposit\<close>. \<open>None\<close>: another request holds the key, so this one rolled
  back.
\<close>

definition create_tx ::
    "lib \<Rightarrow> time \<Rightarrow> string \<Rightarrow> new_deposit \<Rightarrow> idempotency option \<Rightarrow> deposit option tx" where
  "create_tx L now user n idem db0 =
     and_then (insert_deposit L now user n) (\<lambda>d.
     and_then (claim_key now user idem (d_id d)) (\<lambda>claimed.
       if \<not> claimed then (\<lambda>_. Inr (None, db0))
       else and_then (record_event L now d ev_created (JObj [])) (\<lambda>_.
            and_then (enqueue L now ''register_watch'' (d_id d) (JObj [])) (\<lambda>_.
              tx_return (Some d))))) db0"

text \<open>
  The whole request. Its three statements run on the pool, so other connections may commit between
  them: \<open>others\<close> is what they do, once before the transaction and once after a rollback.
\<close>

definition create_deposit ::
    "lib \<Rightarrow> time \<Rightarrow> (db \<Rightarrow> db) \<Rightarrow> string \<Rightarrow> new_deposit \<Rightarrow> idempotency option \<Rightarrow> db
      \<Rightarrow> (sqlx_error + create_outcome) \<times> db" where
  "create_deposit L now others user n idem db0 =
     (case Option.bind idem (lookup_idempotent db0 user) of
        Some outcome \<Rightarrow> (Inr outcome, db0)
      | None \<Rightarrow>
         (case run_tx (create_tx L now user n idem) (others db0) of
            (Inl e, db1) \<Rightarrow> (Inl e, db1)
          | (Inr (Some d), db1) \<Rightarrow> (Inr (Created d), db1)
          | (Inr None, db1) \<Rightarrow>
             (let db2 = others db1 in
              case Option.bind idem (lookup_idempotent db2 user) of
                Some outcome \<Rightarrow> (Inr outcome, db2)
              | None \<Rightarrow> (Inl (Protocol ''idempotency row vanished''), db2))))"

section \<open>Listing\<close>

record cursor =
  cur_created_at :: time
  cur_id :: uuid

definition cursor_encode :: "lib \<Rightarrow> cursor \<Rightarrow> string" where
  "cursor_encode L c = dec_int (timestamp_micros (cur_created_at c)) @ ''_'' @ l_fmt_uuid L (cur_id c)"

text \<open>
  \<open>DateTime::from_timestamp_micros\<close> fails outside chrono's range; \<open>micros_in_range\<close> is that range
  check.
\<close>

definition micros_in_range :: "int \<Rightarrow> bool" where
  "micros_in_range m = (- 8334601228800000000 \<le> m \<and> m \<le> 8210266876799999999)"

definition cursor_decode :: "lib \<Rightarrow> string \<Rightarrow> cursor option" where
  "cursor_decode L raw = (case split_once CHR ''_'' raw of
       None \<Rightarrow> None
     | Some (micros, i) \<Rightarrow>
        (case filter_option micros_in_range (parse_i64 micros) of
           None \<Rightarrow> None
         | Some m \<Rightarrow> map_option (\<lambda>u. \<lparr>cur_created_at = m * 1000, cur_id = u\<rparr>) (l_parse_uuid L i)))"

record list_filter =
  lf_status :: "deposit_status option"
  lf_chain_id :: "int option"
  lf_token :: "string option"
  lf_reference :: "string option"
  lf_payment_address :: "string option"
  lf_receiver :: "string option"
  lf_created_after :: "time option"
  lf_created_before :: "time option"
  lf_cursor :: "cursor option"
  lf_limit :: nat

record page =
  pg_items :: "deposit list"
  pg_next_cursor :: "string option"

definition opt_all :: "('a \<Rightarrow> bool) \<Rightarrow> 'a option \<Rightarrow> bool" where
  "opt_all p x = (case x of None \<Rightarrow> True | Some v \<Rightarrow> p v)"

definition row_key :: "deposit \<Rightarrow> time \<times> uuid" where
  "row_key d = (d_created_at d, d_id d)"

definition list_where :: "string \<Rightarrow> list_filter \<Rightarrow> deposit \<Rightarrow> bool" where
  "list_where user f d = (d_user_id d = user
     \<and> opt_all (\<lambda>s. d_status d = s) (lf_status f)
     \<and> opt_all (\<lambda>c. d_chain_id d = c) (lf_chain_id f)
     \<and> opt_all (\<lambda>t. d_token_symbol d = to_ascii_uppercase t) (lf_token f)
     \<and> opt_all (\<lambda>r. d_reference d = Some (to_ascii_lowercase r)) (lf_reference f)
     \<and> opt_all (\<lambda>a. d_payment_address d = to_ascii_lowercase a) (lf_payment_address f)
     \<and> opt_all (\<lambda>r. d_receiver d = to_ascii_lowercase r) (lf_receiver f)
     \<and> opt_all (\<lambda>t. t \<le> d_created_at d) (lf_created_after f)
     \<and> opt_all (\<lambda>t. d_created_at d < t) (lf_created_before f)
     \<and> opt_all (\<lambda>c. row_key d < (cur_created_at c, cur_id c)) (lf_cursor f))"

text \<open>\<open>ORDER BY created_at DESC, id DESC\<close>.\<close>

definition newest_first :: "deposit list \<Rightarrow> deposit list" where
  "newest_first ds = rev (sort_key row_key ds)"

definition list :: "lib \<Rightarrow> db \<Rightarrow> string \<Rightarrow> list_filter \<Rightarrow> page" where
  "list L db user f =
     (let items = take (lf_limit f + 1) (newest_first (filter (list_where user f) (deposits db))) in
      if lf_limit f < length items then
        let items = take (lf_limit f) items in
        \<lparr>pg_items = items, pg_next_cursor = (case items of [] \<Rightarrow> None | _ \<Rightarrow>
           Some (cursor_encode L \<lparr>cur_created_at = d_created_at (last items), cur_id = d_id (last items)\<rparr>))\<rparr>
      else \<lparr>pg_items = items, pg_next_cursor = None\<rparr>)"

section \<open>Batches and gauges\<close>

definition stale_paid :: "db \<Rightarrow> time \<Rightarrow> int \<Rightarrow> int \<Rightarrow> nat \<Rightarrow> deposit list" where
  "stale_paid db now stale_secs repoll_secs limit = take limit (sort_key d_updated_at
     (filter (\<lambda>d. d_status d = Paid \<and> d_engine_job_id d \<noteq> None
        \<and> unwrap_or (d_updated_at d) (d_engine_submitted_at d) < now - make_interval stale_secs
        \<and> d_updated_at d < now - make_interval repoll_secs) (deposits db)))"

definition stale_open :: "db \<Rightarrow> time \<Rightarrow> int \<Rightarrow> nat \<Rightarrow> deposit list" where
  "stale_open db now stale_secs limit = take limit (sort_key d_updated_at
     (filter (\<lambda>d. is_open (d_status d) \<and> d_watch_id d \<noteq> None
        \<and> d_updated_at d < now - make_interval stale_secs) (deposits db)))"

definition overdue_ids :: "db \<Rightarrow> time \<Rightarrow> int \<Rightarrow> nat \<Rightarrow> uuid list" where
  "overdue_ids db now grace_secs limit = take limit (map d_id
     (filter (\<lambda>d. is_open (d_status d) \<and> d_expires_at d < now - make_interval grace_secs)
       (deposits db)))"

text \<open>The loop of \<open>expire_overdue\<close>: one transaction per id; an error ends it.\<close>

fun expire_each :: "lib \<Rightarrow> time \<Rightarrow> uuid list \<Rightarrow> nat \<Rightarrow> db \<Rightarrow> (sqlx_error + nat) \<times> db" where
  "expire_each L now [] n db = (Inr n, db)"
| "expire_each L now (i # is) n db =
     (case run_tx (apply_expired L now i
             (JObj [(''reason'', JStr ''expiry passed without threshold'')])) db of
        (Inl e, db') \<Rightarrow> (Inl e, db')
      | (Inr r, db') \<Rightarrow> expire_each L now is (if r \<noteq> None then Suc n else n) db')"

definition expire_overdue :: "lib \<Rightarrow> time \<Rightarrow> int \<Rightarrow> nat \<Rightarrow> db \<Rightarrow> (sqlx_error + nat) \<times> db" where
  "expire_overdue L now grace_secs limit db =
     expire_each L now (overdue_ids db now grace_secs limit) 0 db"

definition age_secs :: "time \<Rightarrow> time list \<Rightarrow> real" where
  "age_secs now ts = (case ts of [] \<Rightarrow> 0
     | t # ts' \<Rightarrow> of_int (now - fold min ts' t) / of_int nanos_per_sec)"

definition outbox_due :: "db \<Rightarrow> time \<Rightarrow> nat \<times> real" where
  "outbox_due db now =
     (let due = filter (\<lambda>j. o_dead_at j = None \<and> o_next_attempt_at j \<le> now) (outbox db)
      in (length due, age_secs now (map o_next_attempt_at due)))"

definition paid_backlog :: "db \<Rightarrow> time \<Rightarrow> nat \<times> real" where
  "paid_backlog db now =
     (let paid = filter (\<lambda>d. d_status d = Paid) (deposits db)
      in (length paid,
          age_secs now (map (\<lambda>d. unwrap_or (d_updated_at d) (d_engine_submitted_at d)) paid)))"

end
