(* ===== verification/Webhook_Auth.thy ===== *)
theory Webhook_Auth
  imports Chain_Payment
begin

text \<open>
  \<^verbatim>\<open>src/webhooks/sign.rs\<close> (signing and verifying deliveries) and \<^verbatim>\<open>src/webhooks/target.rs\<close> (which
  webhook URLs an app may ask for). HMAC, hex and the URL parser are parameters.
\<close>

section \<open>Signatures\<close>

definition mac :: "lib \<Rightarrow> string \<Rightarrow> int \<Rightarrow> bytes \<Rightarrow> bytes" where
  "mac L secret ts body =
     l_hmac_sha256 L (ascii_bytes secret) (ascii_bytes (dec_int ts) @ ascii_bytes ''.'' @ body)"

definition signature_header :: "lib \<Rightarrow> string \<Rightarrow> int \<Rightarrow> bytes \<Rightarrow> string" where
  "signature_header L secret ts body =
     ''t='' @ dec_int ts @ '',v1='' @ l_hex_encode L (mac L secret ts body)"

definition sig_part ::
    "lib \<Rightarrow> string \<Rightarrow> int option \<times> bytes option \<Rightarrow> int option \<times> bytes option" where
  "sig_part L part st = (case split_once CHR ''='' (trim part) of
       None \<Rightarrow> st
     | Some (k, v) \<Rightarrow>
         if k = ''t'' then (parse_i64 v, snd st)
         else if k = ''v1'' then (fst st, l_hex_decode L v)
         else st)"

definition sig_fields :: "lib \<Rightarrow> string \<Rightarrow> int option \<times> bytes option" where
  "sig_fields L header = fold (sig_part L) (split_on CHR '','' header) (None, None)"

definition too_old :: "int \<Rightarrow> int \<Rightarrow> int \<Rightarrow> bool" where
  "too_old now ts tolerance_secs = (tolerance_secs < abs_i64 (wrap_i64 (now - ts)))"

definition sign_verify :: "lib \<Rightarrow> string \<Rightarrow> string \<Rightarrow> bytes \<Rightarrow> int \<Rightarrow> int \<Rightarrow> bool" where
  "sign_verify L secret header body now tolerance_secs = (case sig_fields L header of
       (Some ts, Some digest) \<Rightarrow>
         if too_old now ts tolerance_secs then False else mac L secret ts body = digest
     | _ \<Rightarrow> False)"

lemma split_on_none: "c \<notin> set s \<Longrightarrow> split_on c s = [s]"
  by (induction s) auto

lemma split_on_append: "c \<notin> set a \<Longrightarrow> split_on c (a @ c # b) = a # split_on c b"
  by (induction a) (auto split: list.splits)

lemma graphic_dec_int: "list_all is_graphic (dec_int i)"
proof -
  have "list_all is_graphic (dec_nat n)" for n
    using all_digits_dec_nat [of n] by (auto simp: all_digits_def list_all_iff is_graphic_digit)
  then show ?thesis by (auto simp: dec_int_def is_graphic_def char_code_def)
qed

lemma comma_notin_dec_int: "CHR '','' \<notin> set (dec_int i)"
proof -
  have "CHR '','' \<notin> set (dec_nat n)" for n
    using all_digits_dec_nat [of n]
    by (auto simp: all_digits_def list_all_iff is_ascii_digit_def char_code_def)
  then show ?thesis by (auto simp: dec_int_def)
qed

lemma hexdigit_graphic: "is_ascii_hexdigit c \<Longrightarrow> is_graphic c \<and> c \<noteq> CHR '',''"
  by (auto simp: is_ascii_hexdigit_def is_ascii_digit_def is_graphic_def char_code_def)

lemma sig_fields_header:
  assumes "hex_codec_ok L" "hex_alphabet_ok L" "- (2 ^ 63) \<le> ts" "ts < 2 ^ 63"
  shows "sig_fields L (signature_header L secret ts body) = (Some ts, Some (mac L secret ts body))"
proof -
  let ?h = "l_hex_encode L (mac L secret ts body)"
  have h: "list_all is_ascii_hexdigit ?h" using assms(2) by (simp add: hex_alphabet_ok_def)
  then have "CHR '','' \<notin> set (''v1='' @ ?h)" "list_all is_graphic (''v1='' @ ?h)"
    using hexdigit_graphic by (auto simp: list_all_iff is_graphic_def char_code_def)
  moreover have "signature_header L secret ts body = (''t='' @ dec_int ts) @ CHR '','' # (''v1='' @ ?h)"
    by (simp add: signature_header_def)
  moreover have "CHR '','' \<notin> set (''t='' @ dec_int ts)" "list_all is_graphic (''t='' @ dec_int ts)"
    using comma_notin_dec_int graphic_dec_int by (auto simp: is_graphic_def char_code_def)
  ultimately have "split_on CHR '','' (signature_header L secret ts body) = [''t='' @ dec_int ts, ''v1='' @ ?h]"
      "trim (''t='' @ dec_int ts) = ''t='' @ dec_int ts" "trim (''v1='' @ ?h) = ''v1='' @ ?h"
    using split_on_append [of "CHR '',''" "''t='' @ dec_int ts" "''v1='' @ ?h"]
      split_on_none [of "CHR '',''" "''v1='' @ ?h"]
    by (simp_all only: trim_graphic simp_thms)
  moreover have "split_once CHR ''='' (''t='' @ dec_int ts) = Some (''t'', dec_int ts)"
      "split_once CHR ''='' (''v1='' @ ?h) = Some (''v1'', ?h)"
    using split_once_append [of "CHR ''=''" "''t''"] split_once_append [of "CHR ''=''" "''v1''"]
    by simp_all
  ultimately show ?thesis
    using assms parse_i64_dec_int by (simp add: sig_fields_def sig_part_def hex_codec_ok_def)
qed

lemma wrap_i64_id: "- (2 ^ 63) \<le> x \<Longrightarrow> x < 2 ^ 63 \<Longrightarrow> wrap_i64 x = x"
  by (simp add: wrap_i64_def)

text \<open>
  The age check. For clocks in range it is \<open>|now - ts| \<le> tolerance\<close>, but for one timestamp: the
  difference of \<open>now - 2^63\<close> is \<open>i64::MIN\<close>, whose \<open>abs\<close> is itself.
\<close>

lemma too_old_iff:
  assumes "0 \<le> now" "now < 2 ^ 62" "0 \<le> tolerance" "tolerance < 2 ^ 62" "- (2 ^ 63) \<le> ts" "ts < 2 ^ 63"
  shows "\<not> too_old now ts tolerance \<longleftrightarrow> \<bar>now - ts\<bar> \<le> tolerance \<or> ts = now - 2 ^ 63"
proof (cases "now - ts < 2 ^ 63")
  case True
  then have "wrap_i64 (now - ts) = now - ts" "\<bar>now - ts\<bar> < 2 ^ 63"
    using assms by (auto simp: wrap_i64_id)
  then show ?thesis using True assms by (auto simp: too_old_def abs_i64_def wrap_i64_id)
next
  case False
  then have "(now - ts + 2 ^ 63) mod 2 ^ 64 = (now - ts + 2 ^ 63 - 2 ^ 64) mod 2 ^ 64"
    by (simp only: minus_mod_self2)
  also have "\<dots> = now - ts + 2 ^ 63 - 2 ^ 64"
    using False assms by (intro mod_pos_pos_trivial) auto
  finally have w: "wrap_i64 (now - ts) = now - ts - 2 ^ 64"
    by (simp add: wrap_i64_def)
  show ?thesis
  proof (cases "ts = now - 2 ^ 63")
    case True
    then show ?thesis using w assms by (simp add: too_old_def abs_i64_def wrap_i64_def)
  next
    case ne: False
    then have "abs_i64 (now - ts - 2 ^ 64) = 2 ^ 64 - (now - ts)"
      using False assms by (simp add: abs_i64_def wrap_i64_id)
    then show ?thesis using w ne False assms by (simp add: too_old_def)
  qed
qed

section \<open>Webhook targets\<close>

text \<open>A parsed URL, as much of it as the check reads (\<^verbatim>\<open>url::Url\<close> and \<^verbatim>\<open>url::Host\<close>).\<close>

datatype host =
    HostIpv4 byte byte byte byte
  | HostIpv6 "16 word" "16 word" "16 word" "16 word" "16 word" "16 word" "16 word" "16 word"
  | HostDomain string

record url =
  url_username :: string
  url_password :: "string option"
  url_scheme :: string
  url_host :: "host option"

text \<open>The predicates of \<open>std::net::Ipv4Addr\<close>.\<close>

fun v4_is_private :: "byte \<Rightarrow> byte \<Rightarrow> byte \<Rightarrow> byte \<Rightarrow> bool" where
  "v4_is_private a b c d = (a = 10 \<or> a = 172 \<and> 16 \<le> b \<and> b \<le> 31 \<or> a = 192 \<and> b = 168)"

fun v4_is_documentation :: "byte \<Rightarrow> byte \<Rightarrow> byte \<Rightarrow> byte \<Rightarrow> bool" where
  "v4_is_documentation a b c d = (a = 192 \<and> b = 0 \<and> c = 2 \<or> a = 198 \<and> b = 51 \<and> c = 100
     \<or> a = 203 \<and> b = 0 \<and> c = 113)"

fun is_public_v4 :: "byte \<Rightarrow> byte \<Rightarrow> byte \<Rightarrow> byte \<Rightarrow> bool" where
  "is_public_v4 a b c d = (\<not> (v4_is_private a b c d
     \<or> a = 127
     \<or> a = 169 \<and> b = 254
     \<or> a = 255 \<and> b = 255 \<and> c = 255 \<and> d = 255
     \<or> a = 0 \<and> b = 0 \<and> c = 0 \<and> d = 0
     \<or> v4_is_documentation a b c d
     \<or> a = 100 \<and> 64 \<le> b \<and> b \<le> 127
     \<or> a = 0
     \<or> a = 169 \<and> b = 254 \<and> c = 169 \<and> d = 254))"

definition high_byte :: "16 word \<Rightarrow> byte" where
  "high_byte w = of_nat (unat w div 256)"

definition low_byte :: "16 word \<Rightarrow> byte" where
  "low_byte w = of_nat (unat w mod 256)"

unbundle bit_operations_syntax

fun is_public :: "host \<Rightarrow> bool" where
  "is_public (HostIpv4 a b c d) = is_public_v4 a b c d"
| "is_public (HostIpv6 s0 s1 s2 s3 s4 s5 s6 s7) =
     (let upper = (s0 = 0 \<and> s1 = 0 \<and> s2 = 0 \<and> s3 = 0 \<and> s4 = 0) in
      \<not> (upper \<and> s5 = 0 \<and> s6 = 0 \<and> s7 = 1
       \<or> upper \<and> s5 = 0 \<and> s6 = 0 \<and> s7 = 0
       \<or> s0 AND 0xfe00 = 0xfc00
       \<or> s0 AND 0xffc0 = 0xfe80
       \<or> upper \<and> s5 = 0xffff \<and> s6 = 0x7f00 \<and> s7 = 1
       \<or> upper \<and> s5 = 0xffff
         \<and> \<not> is_public_v4 (high_byte s6) (low_byte s6) (high_byte s7) (low_byte s7)))"
| "is_public (HostDomain d) = True"

definition domain_blocked :: "string \<Rightarrow> bool" where
  "domain_blocked d = (eq_ignore_ascii_case d ''localhost'' \<or> ends_with d ''.localhost''
     \<or> ends_with d ''.internal'' \<or> ends_with d ''.local'' \<or> CHR ''.'' \<notin> set d)"

fun host_allowed :: "host \<Rightarrow> bool" where
  "host_allowed (HostDomain d) = (\<not> domain_blocked d)"
| "host_allowed h = is_public h"

definition target_validate :: "(string \<Rightarrow> string + url) \<Rightarrow> string \<Rightarrow> bool \<Rightarrow> string + url" where
  "target_validate url_parse raw allow_insecure =
     (if 2048 < length raw then Inl ''URL is longer than 2048 characters''
      else case url_parse raw of
        Inl e \<Rightarrow> Inl (''not a valid URL: '' @ e)
      | Inr url \<Rightarrow>
          if url_username url \<noteq> [] \<or> url_password url \<noteq> None
          then Inl ''credentials in the URL are not allowed''
          else if url_scheme url = ''http'' \<and> \<not> allow_insecure then Inl ''webhook_url must use https''
          else if url_scheme url \<noteq> ''https'' \<and> url_scheme url \<noteq> ''http''
          then Inl (''unsupported scheme '' @ url_scheme url)
          else case url_host url of
            None \<Rightarrow> Inl ''URL has no host''
          | Some h \<Rightarrow>
              if allow_insecure then Inr url
              else if host_allowed h then Inr url
              else Inl ''webhook_url must be a public address'')"

text \<open>The address blocks the IPv4 rules stand for.\<close>

type_synonym v4 = "byte \<times> byte \<times> byte \<times> byte"

fun v4_value :: "v4 \<Rightarrow> nat" where
  "v4_value (a, b, c, d) = ((unat a * 256 + unat b) * 256 + unat c) * 256 + unat d"

definition in_cidr :: "v4 \<times> nat \<Rightarrow> v4 \<Rightarrow> bool" where
  "in_cidr block ip = (v4_value ip div 2 ^ (32 - snd block) = v4_value (fst block) div 2 ^ (32 - snd block))"

definition non_public_blocks :: "(v4 \<times> nat) list" where
  "non_public_blocks = [((0, 0, 0, 0), 8), ((10, 0, 0, 0), 8), ((100, 64, 0, 0), 10), ((127, 0, 0, 0), 8),
     ((169, 254, 0, 0), 16), ((172, 16, 0, 0), 12), ((192, 0, 2, 0), 24), ((192, 168, 0, 0), 16),
     ((198, 51, 100, 0), 24), ((203, 0, 113, 0), 24), ((255, 255, 255, 255), 32)]"

lemma byte_eq: "(a :: byte) = numeral n \<longleftrightarrow> unat a = unat (numeral n :: byte)"
  by (simp add: word_unat_eq_iff)

lemma pair_div: "y < m \<Longrightarrow> (x * m + y) div m = (x :: nat)"
  by simp

lemma pair_eq:
  assumes "y < m" "y' < m"
  shows "x * m + y = x' * m + y' \<longleftrightarrow> x = x' \<and> y = (y' :: nat)"
proof
  assume *: "x * m + y = x' * m + y'"
  then have "(x * m + y) div m = (x' * m + y') div m" by simp
  then have "x = x'" using assms by (simp only: pair_div)
  with * show "x = x' \<and> y = y'" by simp
qed simp

lemma v4_div:
  "v4_value (a, b, c, d) div 256 = (unat a * 256 + unat b) * 256 + unat c"
  "v4_value (a, b, c, d) div 65536 = unat a * 256 + unat b"
  "v4_value (a, b, c, d) div 1048576 = unat a * 16 + unat b div 16"
  "v4_value (a, b, c, d) div 4194304 = unat a * 4 + unat b div 64"
  "v4_value (a, b, c, d) div 16777216 = unat a"
proof -
  show 8: "v4_value (a, b, c, d) div 256 = (unat a * 256 + unat b) * 256 + unat c"
    unfolding v4_value.simps by (rule pair_div) (rule byte_lt)
  have "v4_value (a, b, c, d) div 65536 = v4_value (a, b, c, d) div 256 div 256"
    by (simp add: div_mult2_eq [symmetric] del: v4_value.simps)
  then show 16: "v4_value (a, b, c, d) div 65536 = unat a * 256 + unat b"
    unfolding 8 by (simp only: pair_div [OF byte_lt])
  have "v4_value (a, b, c, d) div 1048576 = v4_value (a, b, c, d) div 65536 div 16"
      "v4_value (a, b, c, d) div 4194304 = v4_value (a, b, c, d) div 65536 div 64"
      "v4_value (a, b, c, d) div 16777216 = v4_value (a, b, c, d) div 65536 div 256"
    by (simp_all add: div_mult2_eq [symmetric] del: v4_value.simps)
  moreover have "(unat a * 256 + unat b) div 16 = unat a * 16 + unat b div 16"
      "(unat a * 256 + unat b) div 64 = unat a * 4 + unat b div 64"
    using div_mult_self3 [of 16 "unat a * 16" "unat b"] div_mult_self3 [of 64 "unat a * 4" "unat b"]
    by (simp_all add: algebra_simps)
  ultimately show "v4_value (a, b, c, d) div 1048576 = unat a * 16 + unat b div 16"
      "v4_value (a, b, c, d) div 4194304 = unat a * 4 + unat b div 64"
      "v4_value (a, b, c, d) div 16777216 = unat a"
    unfolding 16 by (simp_all only: pair_div [OF byte_lt])
qed

lemma v4_eq: "v4_value (a, b, c, d) = v4_value (a', b', c', d') \<longleftrightarrow> a = a' \<and> b = b' \<and> c = c' \<and> d = d'"
  by (simp only: v4_value.simps pair_eq [OF byte_lt byte_lt] word_unat_eq_iff conj_assoc)

lemma in_cidr_simps:
  "in_cidr ((a', b', c', d'), 8) (a, b, c, d) \<longleftrightarrow> a = a'"
  "in_cidr ((a', b', c', d'), 16) (a, b, c, d) \<longleftrightarrow> a = a' \<and> b = b'"
  "in_cidr ((a', b', c', d'), 24) (a, b, c, d) \<longleftrightarrow> a = a' \<and> b = b' \<and> c = c'"
  "in_cidr ((a', b', c', d'), 32) (a, b, c, d) \<longleftrightarrow> a = a' \<and> b = b' \<and> c = c' \<and> d = d'"
proof -
  have "(unat a * 256 + unat b) * 256 + unat c = (unat a' * 256 + unat b') * 256 + unat c'
      \<longleftrightarrow> a = a' \<and> b = b' \<and> c = c'"
    by (simp only: pair_eq [OF byte_lt byte_lt] word_unat_eq_iff conj_assoc)
  then show "in_cidr ((a', b', c', d'), 24) (a, b, c, d) \<longleftrightarrow> a = a' \<and> b = b' \<and> c = c'"
    by (simp add: in_cidr_def v4_div del: v4_value.simps)
qed (simp_all add: in_cidr_def v4_div v4_eq pair_eq [OF byte_lt byte_lt] word_unat_eq_iff
      del: v4_value.simps)

lemma in_cidr_172_16: "in_cidr ((172, 16, 0, 0), 12) (a, b, c, d) \<longleftrightarrow> a = 172 \<and> 16 \<le> b \<and> b \<le> 31"
proof -
  have "unat b div 16 < 16" using byte_lt [of b] by simp
  then have "unat a * 16 + unat b div 16 = 172 * 16 + 1 \<longleftrightarrow> unat a = 172 \<and> unat b div 16 = 1"
    by (intro pair_eq) simp_all
  moreover have "unat b div 16 = 1 \<longleftrightarrow> 16 \<le> unat b \<and> unat b \<le> 31"
    by (rule iffI) linarith+
  ultimately show ?thesis
    by (simp add: in_cidr_def v4_div word_unat_eq_iff word_le_nat_alt del: v4_value.simps)
qed

lemma in_cidr_100_64: "in_cidr ((100, 64, 0, 0), 10) (a, b, c, d) \<longleftrightarrow> a = 100 \<and> 64 \<le> b \<and> b \<le> 127"
proof -
  have "unat b div 64 < 4" using byte_lt [of b] by simp
  then have "unat a * 4 + unat b div 64 = 100 * 4 + 1 \<longleftrightarrow> unat a = 100 \<and> unat b div 64 = 1"
    by (intro pair_eq) simp_all
  moreover have "unat b div 64 = 1 \<longleftrightarrow> 64 \<le> unat b \<and> unat b \<le> 127"
    by (rule iffI) linarith+
  ultimately show ?thesis
    by (simp add: in_cidr_def v4_div word_unat_eq_iff word_le_nat_alt del: v4_value.simps)
qed

lemma is_public_v4_cidr:
  "is_public_v4 a b c d \<longleftrightarrow> (\<forall>block \<in> set non_public_blocks. \<not> in_cidr block (a, b, c, d))"
  unfolding non_public_blocks_def list.set ball_simps in_cidr_simps in_cidr_172_16 in_cidr_100_64
  by (simp only: is_public_v4.simps v4_is_private.simps v4_is_documentation.simps simp_thms
      de_Morgan_disj) blast

lemma target_validate_strict:
  "target_validate url_parse raw False = Inr url \<longleftrightarrow>
     length raw \<le> 2048 \<and> url_parse raw = Inr url \<and> url_username url = [] \<and> url_password url = None
     \<and> url_scheme url = ''https'' \<and> (\<exists>h. url_host url = Some h \<and> host_allowed h)"
  by (auto simp: target_validate_def split: sum.splits option.splits if_splits)

end
