(* ===== verification/Api_Error.thy ===== *)
theory Api_Error
  imports Gum_Base
begin

text \<open>\<^verbatim>\<open>src/error.rs\<close>: the error every route answers with, and the database errors turned into it.\<close>

record api_error =
  ae_status :: nat
  ae_code :: string
  ae_message :: string

definition api_error_new :: "nat \<Rightarrow> string \<Rightarrow> string \<Rightarrow> api_error" where
  "api_error_new status c message = \<lparr>ae_status = status, ae_code = c, ae_message = message\<rparr>"

definition api_invalid :: "string \<Rightarrow> api_error" where
  "api_invalid message = api_error_new 400 ''invalid_request'' message"

definition api_unauthorized :: "string \<Rightarrow> api_error" where
  "api_unauthorized message = api_error_new 401 ''unauthorized'' message"

definition api_forbidden :: "string \<Rightarrow> api_error" where
  "api_forbidden message = api_error_new 403 ''forbidden'' message"

definition api_not_found :: "string \<Rightarrow> api_error" where
  "api_not_found message = api_error_new 404 ''not_found'' message"

definition api_conflict :: "string \<Rightarrow> string \<Rightarrow> api_error" where
  "api_conflict c message = api_error_new 409 c message"

definition api_unavailable :: "string \<Rightarrow> string \<Rightarrow> api_error" where
  "api_unavailable c message = api_error_new 503 c message"

definition api_internal :: api_error where
  "api_internal = api_error_new 500 ''internal'' ''internal error''"

definition error_body :: "api_error \<Rightarrow> json" where
  "error_body e = JObj [(''error'', JObj [(''code'', JStr (ae_code e)), (''message'', JStr (ae_message e))])]"

fun api_of_sqlx :: "sqlx_error \<Rightarrow> api_error" where
  "api_of_sqlx PoolTimedOut = api_unavailable ''store_unavailable'' ''database unavailable; retry''"
| "api_of_sqlx PoolClosed = api_unavailable ''store_unavailable'' ''database unavailable; retry''"
| "api_of_sqlx Io = api_unavailable ''store_unavailable'' ''database unavailable; retry''"
| "api_of_sqlx _ = api_internal"

lemmas api_defs = api_error_new_def api_invalid_def api_unauthorized_def api_forbidden_def
  api_not_found_def api_conflict_def api_unavailable_def api_internal_def

text \<open>A database error is always a server error: the sender of a webhook delivers again.\<close>

lemma api_of_sqlx_status: "ae_status (api_of_sqlx e) \<in> {500, 503}"
  by (cases e) (simp_all add: api_defs)

end
