(* ===== verification/Deposit_Request.thy ===== *)
theory Deposit_Request
  imports Deposit_Store Webhook_Auth Api_Error
begin

text \<open>
  \<^verbatim>\<open>src/deposit/request.rs\<close>: validation of \<open>POST /v1/deposit\<close>. The URL parser (with \<open>Url::to_string\<close>)
  is an argument of the validator; the random salt is an argument of \<open>validate_request\<close>.
\<close>

section \<open>The request\<close>

record create_deposit_request =
  cr_chain_id :: json
  cr_token :: string
  cr_amount :: json
  cr_receiver :: string
  cr_expires_at :: time
  cr_reference :: "string option"
  cr_webhook_url :: "string option"

record validator =
  v_registry :: registry
  v_min_expiry_lead_secs :: int
  v_max_expiry_secs :: int
  v_allow_insecure_targets :: bool
  v_factory :: address
  v_recovery :: address
  v_url_parse :: "string \<Rightarrow> string + url"
  v_url_string :: "url \<Rightarrow> string"

definition parse_amount :: "lib \<Rightarrow> json \<Rightarrow> api_error + u256" where
  "parse_amount L v = (case v of
       JStr s \<Rightarrow>
        (let t = trim s in
         if t = [] \<or> \<not> list_all is_ascii_digit t then Inl (api_invalid
           ''amount must contain only decimal digits (base units, no sign, no decimal point)'')
         else if 78 < length t then Inl (api_invalid ''amount does not fit uint256'')
         else case l_u256_radix10 L t of
             None \<Rightarrow> Inl (api_invalid ''amount does not fit uint256'')
           | Some amount \<Rightarrow>
               if amount = 0 then Inl (api_invalid ''amount must be greater than zero'') else Inr amount)
     | JInt _ \<Rightarrow> Inl (api_invalid ''amount must be a string of base units, not a JSON number'')
     | JFloat _ \<Rightarrow> Inl (api_invalid ''amount must be a string of base units, not a JSON number'')
     | _ \<Rightarrow> Inl (api_invalid ''amount must be a string of base units''))"

text \<open>\<open>trim_start_matches("0x")\<close> drops every leading \<open>0x\<close>.\<close>

definition mixed_case :: "string \<Rightarrow> bool" where
  "mixed_case raw = (let hex = drop_pieces (length raw) [''0x''] raw in
     list_ex is_ascii_lower hex \<and> list_ex is_ascii_upper hex)"

definition parse_address :: "lib \<Rightarrow> string \<Rightarrow> string \<Rightarrow> api_error + address" where
  "parse_address L field raw0 = (let raw = trim raw0 in
     case l_parse_address L raw of
       None \<Rightarrow> Inl (api_invalid (field @ '' is not a valid EVM address''))
     | Some a \<Rightarrow>
         if a = 0 then Inl (api_invalid (field @ '' must not be the zero address''))
         else if mixed_case raw \<and> l_checksum L a \<noteq> raw
         then Inl (api_invalid (field @ '' has an invalid EIP-55 checksum''))
         else Inr a)"

section \<open>Validation\<close>

fun chain_text :: "json \<Rightarrow> string option" where
  "chain_text (JStr s) = Some (trim s)"
| "chain_text (JInt i) = (if 0 \<le> i \<and> i < 2 ^ 64 then Some (dec_int i) else None)"
| "chain_text _ = None"

definition unsupported_chain :: "lib \<Rightarrow> validator \<Rightarrow> string \<Rightarrow> api_error" where
  "unsupported_chain L V raw = api_error_new 400 ''unsupported_chain''
     (''unsupported chain '' @ l_fmt_debug L raw @ ''; supported: ''
       @ join '', '' (map (\<lambda>c. cs_name c @ '' ('' @ dec_nat (cs_chain_id c) @ '')'')
           (registry_chains (v_registry V))))"

definition unsupported_token :: "lib \<Rightarrow> chain_spec \<Rightarrow> string \<Rightarrow> api_error" where
  "unsupported_token L c token = api_error_new 400 ''unsupported_token''
     (''token '' @ l_fmt_debug L token @ '' is not supported on '' @ cs_name c @ ''; supported: ''
       @ join '', '' (map ts_symbol (cs_tokens c)))"

definition request_chain :: "lib \<Rightarrow> validator \<Rightarrow> json \<Rightarrow> api_error + chain_spec" where
  "request_chain L V j = (case chain_text j of
       None \<Rightarrow> Inl (api_invalid ''chain_id must be a chain id or slug'')
     | Some raw \<Rightarrow> ok_or (filter_option cs_enabled (registry_chain (v_registry V) raw))
         (unsupported_chain L V raw))"

definition check_receiver :: "lib \<Rightarrow> validator \<Rightarrow> token_spec \<Rightarrow> address \<Rightarrow> api_error option" where
  "check_receiver L V token receiver =
     (if receiver = v_recovery V then Some (api_invalid ''receiver must not be the recovery address'')
      else if receiver = ts_address token \<or> receiver = v_factory V
        \<or> receiver = payment_implementation L (v_factory V)
      then Some (api_invalid ''receiver must not be a contract of the payment system'')
      else None)"

definition check_expiry :: "validator \<Rightarrow> time \<Rightarrow> time \<Rightarrow> api_error option" where
  "check_expiry V now expires_at = (let lead = num_seconds (expires_at - now) in
     if lead < v_min_expiry_lead_secs V then Some (api_invalid (''expires_at must be at least ''
       @ dec_int (v_min_expiry_lead_secs V) @ '' seconds in the future''))
     else if v_max_expiry_secs V < lead then Some (api_invalid (''expires_at must be at most ''
       @ dec_int (v_max_expiry_secs V) @ '' seconds in the future''))
     else None)"

definition request_reference :: "lib \<Rightarrow> string option \<Rightarrow> api_error + b256 option" where
  "request_reference L r = (case map_option trim r of
       None \<Rightarrow> Inr None
     | Some raw \<Rightarrow>
         if raw = [] then Inr None
         else case l_parse_b256 L raw of
             None \<Rightarrow> Inl (api_invalid ''reference must be a 0x-prefixed bytes32'')
           | Some b \<Rightarrow> Inr (Some b))"

definition request_webhook_url ::
    "(string \<Rightarrow> string + url) \<Rightarrow> (url \<Rightarrow> string) \<Rightarrow> bool \<Rightarrow> string option \<Rightarrow> api_error + string option" where
  "request_webhook_url url_parse url_string allow_insecure w = (case map_option trim w of
       None \<Rightarrow> Inr None
     | Some raw \<Rightarrow>
         if raw = [] then Inr None
         else case target_validate url_parse raw allow_insecure of
             Inl m \<Rightarrow> Inl (api_invalid (''webhook_url: '' @ m))
           | Inr u \<Rightarrow> Inr (Some (url_string u)))"

definition request_terms ::
    "lib \<Rightarrow> validator \<Rightarrow> chain_spec \<Rightarrow> token_spec \<Rightarrow> u256 \<Rightarrow> address \<Rightarrow> time \<Rightarrow> b256 \<Rightarrow> payment_terms" where
  "request_terms L V chain token amount receiver expires_at salt =
     \<lparr>pt_token = ts_address token, pt_amount = amount,
      pt_calls = [call_transfer L (ts_address token) receiver amount],
      pt_expiration_timestamp = as_u64 (timestamp expires_at), pt_recovery = v_recovery V,
      pt_salt = salt, pt_chain_id = cs_chain_id chain\<rparr>"

definition validate_request ::
    "lib \<Rightarrow> validator \<Rightarrow> create_deposit_request \<Rightarrow> time \<Rightarrow> b256 \<Rightarrow> api_error + new_deposit" where
  "validate_request L V req now salt =
     (case request_chain L V (cr_chain_id req) of Inl e \<Rightarrow> Inl e | Inr chain \<Rightarrow>
      case chain_token L chain (cr_token req) of
        None \<Rightarrow> Inl (unsupported_token L chain (cr_token req)) | Some token \<Rightarrow>
      case parse_amount L (cr_amount req) of Inl e \<Rightarrow> Inl e | Inr amount \<Rightarrow>
      case parse_address L ''receiver'' (cr_receiver req) of Inl e \<Rightarrow> Inl e | Inr receiver \<Rightarrow>
      case check_receiver L V token receiver of Some e \<Rightarrow> Inl e | None \<Rightarrow>
      case check_expiry V now (cr_expires_at req) of Some e \<Rightarrow> Inl e | None \<Rightarrow>
      case request_reference L (cr_reference req) of Inl e \<Rightarrow> Inl e | Inr reference \<Rightarrow>
      case request_webhook_url (v_url_parse V) (v_url_string V) (v_allow_insecure_targets V)
             (cr_webhook_url req) of Inl e \<Rightarrow> Inl e | Inr webhook_url \<Rightarrow>
      let expires_at = from_timestamp (timestamp (cr_expires_at req));
          terms = request_terms L V chain token amount receiver expires_at salt in
      Inr \<lparr>n_chain_id = cs_chain_id chain, n_token_symbol = ts_symbol token,
           n_token_address = ts_address token, n_token_decimals = ts_decimals token,
           n_amount = amount, n_receiver = receiver, n_calls = pt_calls terms,
           n_recovery = v_recovery V, n_salt = salt, n_expires_at = expires_at,
           n_payment_address = payment_address L terms (v_factory V),
           n_reference = reference, n_webhook_url = webhook_url\<rparr>)"

definition canonical_request :: "lib \<Rightarrow> create_deposit_request \<Rightarrow> json" where
  "canonical_request L req = JObj
     [(''chain_id'', JStr (l_json_to_string L (cr_chain_id req))),
      (''token'', JStr (to_ascii_lowercase (trim (cr_token req)))),
      (''amount'', JStr (l_json_to_string L (cr_amount req))),
      (''receiver'', JStr (to_ascii_lowercase (trim (cr_receiver req)))),
      (''expires_at'', JInt (timestamp (cr_expires_at req))),
      (''reference'', jopt JStr (map_option (\<lambda>s. to_ascii_lowercase (trim s)) (cr_reference req))),
      (''webhook_url'', jopt JStr (map_option trim (cr_webhook_url req)))]"

definition request_fingerprint :: "lib \<Rightarrow> create_deposit_request \<Rightarrow> bytes" where
  "request_fingerprint L req = l_sha256 L (ascii_bytes (l_json_to_string L (canonical_request L req)))"

section \<open>What an accepted request says\<close>

lemma parse_amount_iff:
  assumes "u256_radix_ok L"
  shows "parse_amount L (JStr s) = Inr a \<longleftrightarrow>
    all_digits (trim s) \<and> length (trim s) \<le> 78 \<and> 0 < dec_value (trim s) \<and> dec_value (trim s) < 2 ^ 256
      \<and> unat a = dec_value (trim s)"
proof -
  let ?t = "trim s"
  have radix: "l_u256_radix10 L ?t = (if dec_value ?t < 2 ^ 256 then Some (of_nat (dec_value ?t)) else None)"
    if "all_digits ?t" using assms that by (simp add: u256_radix_ok_def)
  have unat: "(of_nat n :: u256) = b \<longleftrightarrow> n = unat b" if "n < 2 ^ 256" for n and b :: u256
    using that by (auto simp: unat_of_nat)
  show ?thesis
  proof (cases "all_digits ?t \<and> length ?t \<le> 78 \<and> dec_value ?t < 2 ^ 256")
    case True
    then have "parse_amount L (JStr s) =
        (if (of_nat (dec_value ?t) :: u256) = 0 then Inl (api_invalid ''amount must be greater than zero'')
         else Inr (of_nat (dec_value ?t)))"
      using radix by (simp add: parse_amount_def all_digits_def Let_def)
    then show ?thesis using True unat [of "dec_value ?t" 0] unat [of "dec_value ?t" a] by auto
  next
    case False
    then show ?thesis using radix by (auto simp: parse_amount_def all_digits_def Let_def split: if_splits)
  qed
qed

lemma parse_amount_only_strings: "parse_amount L v = Inr a \<Longrightarrow> \<exists>s. v = JStr s"
  by (auto simp: parse_amount_def split: json.splits)

lemma request_chain_enabled:
  "request_chain L V j = Inr c \<Longrightarrow> cs_enabled c \<and> (\<exists>raw. registry_chain (v_registry V) raw = Some c)"
  by (auto simp: request_chain_def split: option.splits)

lemma chain_token_listed: "chain_token L c raw = Some t \<Longrightarrow> t \<in> set (cs_tokens c)"
  by (auto simp: chain_token_def Let_def dest: find_SomeD split: option.splits)

lemma check_expiry_bounds:
  "check_expiry V now e = None \<Longrightarrow>
    v_min_expiry_lead_secs V \<le> num_seconds (e - now) \<and> num_seconds (e - now) \<le> v_max_expiry_secs V"
  by (auto simp: check_expiry_def Let_def split: if_splits)

lemma parse_address_nonzero: "parse_address L field raw = Inr a \<Longrightarrow> a \<noteq> 0"
  by (auto simp: parse_address_def Let_def split: option.splits if_splits)

text \<open>Inversion of an accepted request, the shape every property of it starts from.\<close>

lemma validate_requestE:
  assumes "validate_request L V req now salt = Inr n"
  obtains chain token where
    "request_chain L V (cr_chain_id req) = Inr chain"
    "chain_token L chain (cr_token req) = Some token"
    "parse_amount L (cr_amount req) = Inr (n_amount n)"
    "parse_address L ''receiver'' (cr_receiver req) = Inr (n_receiver n)"
    "check_receiver L V token (n_receiver n) = None"
    "check_expiry V now (cr_expires_at req) = None"
    "request_reference L (cr_reference req) = Inr (n_reference n)"
    "request_webhook_url (v_url_parse V) (v_url_string V) (v_allow_insecure_targets V) (cr_webhook_url req)
       = Inr (n_webhook_url n)"
    "n_chain_id n = cs_chain_id chain" "n_token_symbol n = ts_symbol token"
    "n_token_address n = ts_address token" "n_token_decimals n = ts_decimals token"
    "n_expires_at n = from_timestamp (timestamp (cr_expires_at req))"
    "n_recovery n = v_recovery V" "n_salt n = salt"
    "n_calls n = [call_transfer L (n_token_address n) (n_receiver n) (n_amount n)]"
    "n_payment_address n = payment_address L
       (request_terms L V chain token (n_amount n) (n_receiver n) (n_expires_at n) salt) (v_factory V)"
  using assms
  by (auto simp: validate_request_def Let_def request_terms_def split: sum.splits option.splits)

end
