(* ===== verification/Account.thy ===== *)
theory Account
  imports Deposit_Request
begin

text \<open>
  \<^verbatim>\<open>src/auth/\<close>, \<^verbatim>\<open>src/account/mod.rs\<close> and \<open>first_touch\<close> of \<^verbatim>\<open>src/state.rs\<close>: who a request acts for,
  and the account routes. The in-memory caches (\<^verbatim>\<open>moka\<close>), the rate limiter (\<^verbatim>\<open>governor\<close>) and the token
  decoder (\<^verbatim>\<open>jsonwebtoken\<close>) are parameters. Random bytes are arguments, metrics and log lines are left out.

  A route answers with an error or a value. Its statements may fail for reasons outside the tables:
  \<open>f n\<close> is the failure of its statement number \<open>n\<close>, if it has one; a failed statement changes nothing.
\<close>

section \<open>Caches\<close>

record ('c, 'k, 'v) cache_ops =
  co_new :: 'c
  co_get :: "'c \<Rightarrow> time \<Rightarrow> 'k \<Rightarrow> 'v option"
  co_insert :: "'c \<Rightarrow> time \<Rightarrow> 'k \<Rightarrow> 'v \<Rightarrow> 'c"
  co_invalidate :: "'c \<Rightarrow> 'k \<Rightarrow> 'c"

text \<open>
  Documented behaviour of a cache with a time to live: it starts empty, it returns only what was
  inserted last under the key, less than the time to live ago, and nothing that was invalidated. It
  may forget entries at any time.
\<close>

definition cache_ok :: "('c, 'k, 'v) cache_ops \<Rightarrow> time \<Rightarrow> bool" where
  "cache_ok C ttl = ((\<forall>t k. co_get C (co_new C) t k = None)
     \<and> (\<forall>c t k v t' k' w. co_get C (co_insert C c t k v) t' k' = Some w \<longrightarrow>
          (if k' = k then w = v \<and> t' < t + ttl else co_get C c t' k' = Some w))
     \<and> (\<forall>c k t k' w. co_get C (co_invalidate C c k) t k' = Some w \<longrightarrow> k' \<noteq> k \<and> co_get C c t k' = Some w))"

lemma cache_new: "cache_ok C ttl \<Longrightarrow> co_get C (co_new C) t k = None"
  by (simp add: cache_ok_def)

lemma cache_insert:
  assumes "cache_ok C ttl" "co_get C (co_insert C c t k v) t' k' = Some w"
  shows "k' = k \<and> w = v \<and> t' < t + ttl \<or> k' \<noteq> k \<and> co_get C c t' k' = Some w"
proof -
  from assms have "if k' = k then w = v \<and> t' < t + ttl else co_get C c t' k' = Some w"
    unfolding cache_ok_def by blast
  then show ?thesis by (simp split: if_splits)
qed

lemma cache_invalidate:
  "cache_ok C ttl \<Longrightarrow> co_get C (co_invalidate C c k) t k' = Some w \<Longrightarrow> k' \<noteq> k \<and> co_get C c t k' = Some w"
  unfolding cache_ok_def by blast

section \<open>Credentials\<close>

datatype auth_method = ApiKey | Privy

record principal =
  pr_user_id :: string
  pr_method :: auth_method

datatype credential = KeyCredential string | PrivyCredential string

text \<open>A header of the request: text (\<open>to_str\<close> succeeds), or bytes that are not visible ASCII.\<close>

datatype header = HeaderText string | HeaderOpaque

type_synonym headers = "string \<Rightarrow> header option"

fun header_text :: "header option \<Rightarrow> string option" where
  "header_text (Some (HeaderText v)) = Some v"
| "header_text _ = None"

definition key_prefix :: string where "key_prefix = ''gum_sk_''"

definition looks_like_key :: "string \<Rightarrow> bool" where
  "looks_like_key candidate = starts_with candidate key_prefix"

definition bearer_credential :: "string \<Rightarrow> api_error + credential" where
  "bearer_credential raw = (let v = trim raw in
     case (case strip_prefix ''Bearer '' v of Some t \<Rightarrow> Some t | None \<Rightarrow> strip_prefix ''bearer '' v) of
       None \<Rightarrow> Inl (api_unauthorized ''Authorization must be a Bearer credential'')
     | Some rest \<Rightarrow> (let token = trim rest in
         if token = [] then Inl (api_unauthorized ''empty bearer credential'')
         else if looks_like_key token then Inr (KeyCredential token)
         else Inr (PrivyCredential token)))"

definition credential_of :: "headers \<Rightarrow> api_error + credential" where
  "credential_of H =
     (case filter_option (\<lambda>v. v \<noteq> []) (map_option trim (header_text (H ''privy-id-token''))) of
        Some v \<Rightarrow> Inr (PrivyCredential v)
      | None \<Rightarrow>
     (case filter_option (\<lambda>v. v \<noteq> []) (map_option trim (header_text (H ''x-api-key''))) of
        Some v \<Rightarrow> Inr (KeyCredential v)
      | None \<Rightarrow>
     (case header_text (H ''authorization'') of
        Some v \<Rightarrow> bearer_credential v
      | None \<Rightarrow> Inl (api_unauthorized ''missing credentials: send an API key or a Privy token''))))"

section \<open>Keys and secrets\<close>

record generated_key =
  gk_secret :: string
  gk_hash :: bytes
  gk_prefix :: string

definition key_hash :: "lib \<Rightarrow> string \<Rightarrow> bytes" where
  "key_hash L secret = l_sha256 L (ascii_bytes secret)"

text \<open>\<open>random\<close> are the 32 bytes drawn from the generator.\<close>

definition generate_key :: "lib \<Rightarrow> bytes \<Rightarrow> generated_key" where
  "generate_key L random = (let secret = key_prefix @ l_hex_encode L random in
     \<lparr>gk_secret = secret, gk_hash = key_hash L secret, gk_prefix = take (length key_prefix + 8) secret\<rparr>)"

definition generate_webhook_secret :: "lib \<Rightarrow> bytes \<Rightarrow> string" where
  "generate_webhook_secret L random = ''whsec_'' @ l_hex_encode L random"

section \<open>The state of one instance\<close>

record ('c, 'l, 't) instance_state =
  is_keys :: 'c
  is_limiter :: 'l
  is_touched :: 't

text \<open>
  The library functions, and the verifier of Privy tokens: \<open>az_decode\<close> is \<open>None\<close> without a verification
  key, and otherwise checks signature, algorithm, issuer, audience and expiry and returns the subject.
\<close>

record ('c, 'l, 't) auth_env =
  az_keys :: "('c, bytes, string) cache_ops"
  az_touched :: "('t, string, unit) cache_ops"
  az_allow :: "'l \<Rightarrow> time \<Rightarrow> bytes \<Rightarrow> bool \<times> 'l"
  az_decode :: "(string \<Rightarrow> time \<Rightarrow> string + string) option"
  az_admin_token :: string

definition first_touch ::
    "('c, 'l, 't) auth_env \<Rightarrow> time \<Rightarrow> string \<Rightarrow> ('c, 'l, 't) instance_state \<Rightarrow> bool \<times> ('c, 'l, 't) instance_state" where
  "first_touch A now key s =
     (if co_get (az_touched A) (is_touched s) now key \<noteq> None then (False, s)
      else (True, s\<lparr>is_touched := co_insert (az_touched A) (is_touched s) now key ()\<rparr>))"

section \<open>API keys\<close>

type_synonym db_faults = "nat \<Rightarrow> sqlx_error option"

definition select_key :: "bytes \<Rightarrow> db \<Rightarrow> string option" where
  "select_key h db = map_option ak_user_id (find (\<lambda>k. ak_key_hash k = h) (api_keys db))"

text \<open>
  What runs once the owner is known: the rate limit and the throttled note of the last use, whose
  statement is spawned (\<open>touch_key\<close>). The third component says that it is.
\<close>

definition admit_key ::
    "('c, 'l, 't) auth_env \<Rightarrow> lib \<Rightarrow> time \<Rightarrow> bytes \<Rightarrow> string \<Rightarrow> ('c, 'l, 't) instance_state
      \<Rightarrow> (api_error + principal) \<times> ('c, 'l, 't) instance_state \<times> bytes option" where
  "admit_key A L now h owner s =
     (let (allowed, limiter) = az_allow A (is_limiter s) now h; s1 = s\<lparr>is_limiter := limiter\<rparr> in
      if \<not> allowed then (Inl (api_error_new 429 ''rate_limited'' ''API key rate limit exceeded''), s1, None)
      else let (first, s2) = first_touch A now (''key:'' @ l_hex_encode L h) s1 in
        (Inr \<lparr>pr_user_id = owner, pr_method = ApiKey\<rparr>, s2, if first then Some h else None))"

definition remember_key ::
    "('c, 'l, 't) auth_env \<Rightarrow> time \<Rightarrow> bytes \<Rightarrow> string \<Rightarrow> ('c, 'l, 't) instance_state \<Rightarrow> ('c, 'l, 't) instance_state" where
  "remember_key A now h owner s = s\<lparr>is_keys := co_insert (az_keys A) (is_keys s) now h owner\<rparr>"

definition authenticate_api_key ::
    "('c, 'l, 't) auth_env \<Rightarrow> lib \<Rightarrow> db_faults \<Rightarrow> time \<Rightarrow> string \<Rightarrow> db \<Rightarrow> ('c, 'l, 't) instance_state
      \<Rightarrow> (api_error + principal) \<times> ('c, 'l, 't) instance_state \<times> bytes option" where
  "authenticate_api_key A L f now secret db s =
     (let h = key_hash L secret in
      case co_get (az_keys A) (is_keys s) now h of
        Some owner \<Rightarrow> admit_key A L now h owner s
      | None \<Rightarrow>
         (case f 0 of
            Some e \<Rightarrow> (Inl (api_of_sqlx e), s, None)
          | None \<Rightarrow>
             (case select_key h db of
                None \<Rightarrow> (Inl (api_unauthorized ''invalid API key''), s, None)
              | Some owner \<Rightarrow> admit_key A L now h owner (remember_key A now h owner s))))"

definition touch_key :: "time \<Rightarrow> bytes \<Rightarrow> db \<Rightarrow> db" where
  "touch_key now h db =
     db\<lparr>api_keys := upd_rows (\<lambda>k. ak_key_hash k = h) (\<lambda>k. k\<lparr>ak_last_used_at := Some now\<rparr>) (api_keys db)\<rparr>"

section \<open>Privy tokens\<close>

datatype privy_error = PrivyNotConfigured | PrivyInvalid string

definition privy_verify :: "('c, 'l, 't) auth_env \<Rightarrow> string \<Rightarrow> time \<Rightarrow> privy_error + string" where
  "privy_verify A token now = (case az_decode A of
       None \<Rightarrow> Inl PrivyNotConfigured
     | Some decode \<Rightarrow> (case decode token now of
          Inl e \<Rightarrow> Inl (PrivyInvalid e)
        | Inr sub \<Rightarrow>
            if \<not> starts_with sub ''did:privy:'' then Inl (PrivyInvalid ''subject is not a Privy DID'')
            else Inr sub))"

definition upsert_user :: "time \<Rightarrow> string \<Rightarrow> string \<Rightarrow> db \<Rightarrow> db" where
  "upsert_user now user secret db =
     (if \<exists>u \<in> set (users db). u_id u = user
      then db\<lparr>users := upd_rows (\<lambda>u. u_id u = user) (\<lambda>u. u\<lparr>u_last_seen_at := now\<rparr>) (users db)\<rparr>
      else db\<lparr>users := users db @ [\<lparr>u_id = user, u_webhook_secret = secret, u_default_webhook_url = None,
             u_created_at = now, u_last_seen_at = now\<rparr>]\<rparr>)"

definition authenticate_privy ::
    "('c, 'l, 't) auth_env \<Rightarrow> lib \<Rightarrow> db_faults \<Rightarrow> time \<Rightarrow> bytes \<Rightarrow> string \<Rightarrow> db \<Rightarrow> ('c, 'l, 't) instance_state
      \<Rightarrow> (api_error + principal) \<times> ('c, 'l, 't) instance_state \<times> db" where
  "authenticate_privy A L f now random token db s = (case privy_verify A token now of
       Inl PrivyNotConfigured \<Rightarrow>
         (Inl (api_unavailable ''auth_unavailable'' ''Privy authentication is not configured''), s, db)
     | Inl (PrivyInvalid reason) \<Rightarrow> (Inl (api_unauthorized ''invalid Privy token''), s, db)
     | Inr sub \<Rightarrow>
        (let (first, s1) = first_touch A now (''user:'' @ sub) s;
             p = \<lparr>pr_user_id = sub, pr_method = Privy\<rparr> in
         if \<not> first then (Inr p, s1, db)
         else case f 0 of
             Some e \<Rightarrow> (Inl (api_of_sqlx e), s1, db)
           | None \<Rightarrow> (Inr p, s1, upsert_user now sub (generate_webhook_secret L random) db)))"

section \<open>Extractors\<close>

definition principal_of ::
    "('c, 'l, 't) auth_env \<Rightarrow> lib \<Rightarrow> db_faults \<Rightarrow> time \<Rightarrow> bytes \<Rightarrow> headers \<Rightarrow> db \<Rightarrow> ('c, 'l, 't) instance_state
      \<Rightarrow> (api_error + principal) \<times> ('c, 'l, 't) instance_state \<times> db \<times> bytes option" where
  "principal_of A L f now random H db s = (case credential_of H of
       Inl e \<Rightarrow> (Inl e, s, db, None)
     | Inr (KeyCredential secret) \<Rightarrow>
         (let (r, s1, spawned) = authenticate_api_key A L f now secret db s in (r, s1, db, spawned))
     | Inr (PrivyCredential token) \<Rightarrow>
         (let (r, s1, db1) = authenticate_privy A L f now random token db s in (r, s1, db1, None)))"

definition privy_only :: "api_error + principal \<Rightarrow> api_error + principal" where
  "privy_only r = (case r of
       Inl e \<Rightarrow> Inl e
     | Inr p \<Rightarrow> if pr_method p \<noteq> Privy
         then Inl (api_forbidden ''this route requires a Privy session, not an API key'') else Inr p)"

definition admin_of :: "('c, 'l, 't) auth_env \<Rightarrow> headers \<Rightarrow> api_error + unit" where
  "admin_of A H = (let expected = az_admin_token A in
     if expected = [] then Inl (api_not_found ''no such route'')
     else let presented = unwrap_or [] (map_option trim
              (Option.bind (header_text (H ''authorization'')) (strip_prefix ''Bearer '')))
       in if presented \<noteq> expected then Inl (api_unauthorized ''invalid admin token'') else Inr ())"

section \<open>The account routes\<close>

record api_key_info =
  ki_prefix :: string
  ki_created_at :: time
  ki_rotated_at :: "time option"
  ki_last_used_at :: "time option"

record account =
  ac_user_id :: string
  ac_api_key :: "api_key_info option"
  ac_webhook_url :: "string option"
  ac_webhook_secret :: string
  ac_created_at :: time

record issued_key =
  ik_api_key :: string
  ik_prefix :: string
  ik_issued_at :: time
  ik_rotated_at :: "time option"

definition load_user :: "db_faults \<Rightarrow> nat \<Rightarrow> db \<Rightarrow> string \<Rightarrow> api_error + user_row" where
  "load_user f n db user = (case f n of
       Some e \<Rightarrow> Inl (api_of_sqlx e)
     | None \<Rightarrow> ok_or (find (\<lambda>u. u_id u = user) (users db)) (api_not_found ''no such user''))"

definition key_info :: "db \<Rightarrow> string \<Rightarrow> api_key_info option" where
  "key_info db user = map_option (\<lambda>k. \<lparr>ki_prefix = ak_key_prefix k, ki_created_at = ak_created_at k,
       ki_rotated_at = ak_rotated_at k, ki_last_used_at = ak_last_used_at k\<rparr>)
     (find (\<lambda>k. ak_user_id k = user) (api_keys db))"

text \<open>\<open>n\<close> is the number of statements the route ran before.\<close>

definition account_get :: "db_faults \<Rightarrow> nat \<Rightarrow> db \<Rightarrow> principal \<Rightarrow> api_error + account" where
  "account_get f n db p = (case load_user f n db (pr_user_id p) of
       Inl e \<Rightarrow> Inl e
     | Inr user \<Rightarrow> (case f (n + 1) of
          Some e \<Rightarrow> Inl (api_of_sqlx e)
        | None \<Rightarrow> Inr \<lparr>ac_user_id = pr_user_id p, ac_api_key = key_info db (pr_user_id p),
            ac_webhook_url = u_default_webhook_url user, ac_webhook_secret = u_webhook_secret user,
            ac_created_at = u_created_at user\<rparr>))"

text \<open>
  \<open>INSERT INTO api_keys ... ON CONFLICT (user_id) DO NOTHING\<close>: the unique index on the hash and the
  foreign key to \<open>users\<close> are checked for a row that is inserted.
\<close>

definition insert_key :: "time \<Rightarrow> string \<Rightarrow> generated_key \<Rightarrow> time option tx" where
  "insert_key now user k db =
     (if \<exists>r \<in> set (api_keys db). ak_user_id r = user then Inr (None, db)
      else if \<exists>r \<in> set (api_keys db). ak_key_hash r = gk_hash k then Inl UniqueViolation
      else if \<not> (\<exists>u \<in> set (users db). u_id u = user) then Inl (OtherDb ''foreign key'')
      else Inr (Some now, db\<lparr>api_keys := api_keys db @ [\<lparr>ak_user_id = user, ak_key_hash = gk_hash k,
             ak_key_prefix = gk_prefix k, ak_created_at = now, ak_rotated_at = None,
             ak_last_used_at = None\<rparr>]\<rparr>))"

definition create_key :: "lib \<Rightarrow> db_faults \<Rightarrow> time \<Rightarrow> bytes \<Rightarrow> principal \<Rightarrow> db \<Rightarrow> (api_error + issued_key) \<times> db" where
  "create_key L f now random p db = (let k = generate_key L random in
     case f 0 of
       Some e \<Rightarrow> (Inl (api_of_sqlx e), db)
     | None \<Rightarrow> (case run_tx (insert_key now (pr_user_id p) k) db of
          (Inl e, db1) \<Rightarrow> (Inl (api_of_sqlx e), db1)
        | (Inr None, db1) \<Rightarrow> (Inl (api_conflict ''api_key_exists''
             ''this account already has an API key; rotate it instead''), db1)
        | (Inr (Some created_at), db1) \<Rightarrow> (Inr \<lparr>ik_api_key = gk_secret k, ik_prefix = gk_prefix k,
             ik_issued_at = created_at, ik_rotated_at = None\<rparr>, db1)))"

text \<open>The returned row is the one before the update, for \<open>prev.old_hash\<close> and \<open>created_at\<close>.\<close>

definition replace_key :: "time \<Rightarrow> string \<Rightarrow> generated_key \<Rightarrow> api_key_row option tx" where
  "replace_key now user k db =
     (case find (\<lambda>r. ak_user_id r = user) (api_keys db) of
        None \<Rightarrow> Inr (None, db)
      | Some old \<Rightarrow>
          if \<exists>r \<in> set (api_keys db). ak_user_id r \<noteq> user \<and> ak_key_hash r = gk_hash k then Inl UniqueViolation
          else Inr (Some old, db\<lparr>api_keys := upd_rows (\<lambda>r. ak_user_id r = user)
                 (\<lambda>r. r\<lparr>ak_key_hash := gk_hash k, ak_key_prefix := gk_prefix k, ak_rotated_at := Some now\<rparr>)
                 (api_keys db)\<rparr>))"

definition forget_key ::
    "('c, 'l, 't) auth_env \<Rightarrow> bytes \<Rightarrow> ('c, 'l, 't) instance_state \<Rightarrow> ('c, 'l, 't) instance_state" where
  "forget_key A h s = s\<lparr>is_keys := co_invalidate (az_keys A) (is_keys s) h\<rparr>"

definition rotate_key ::
    "('c, 'l, 't) auth_env \<Rightarrow> lib \<Rightarrow> db_faults \<Rightarrow> time \<Rightarrow> bytes \<Rightarrow> principal \<Rightarrow> db \<Rightarrow> ('c, 'l, 't) instance_state
      \<Rightarrow> (api_error + issued_key) \<times> db \<times> ('c, 'l, 't) instance_state" where
  "rotate_key A L f now random p db s = (let k = generate_key L random in
     case f 0 of
       Some e \<Rightarrow> (Inl (api_of_sqlx e), db, s)
     | None \<Rightarrow> (case run_tx (replace_key now (pr_user_id p) k) db of
          (Inl e, db1) \<Rightarrow> (Inl (api_of_sqlx e), db1, s)
        | (Inr None, db1) \<Rightarrow>
            (Inl (api_not_found ''this account has no API key yet; create one first''), db1, s)
        | (Inr (Some old), db1) \<Rightarrow> (Inr \<lparr>ik_api_key = gk_secret k, ik_prefix = gk_prefix k,
             ik_issued_at = ak_created_at old, ik_rotated_at = Some now\<rparr>, db1, forget_key A (ak_key_hash old) s)))"

definition update_user :: "string \<Rightarrow> (user_row \<Rightarrow> user_row) \<Rightarrow> db \<Rightarrow> db" where
  "update_user user g db = db\<lparr>users := upd_rows (\<lambda>u. u_id u = user) g (users db)\<rparr>"

definition account_update ::
    "(string \<Rightarrow> string + url) \<Rightarrow> (url \<Rightarrow> string) \<Rightarrow> bool \<Rightarrow> db_faults \<Rightarrow> principal \<Rightarrow> string option \<Rightarrow> db
      \<Rightarrow> (api_error + account) \<times> db" where
  "account_update url_parse url_string allow_insecure f p webhook_url db =
     (case request_webhook_url url_parse url_string allow_insecure webhook_url of
        Inl e \<Rightarrow> (Inl e, db)
      | Inr url \<Rightarrow> (case f 0 of
          Some e \<Rightarrow> (Inl (api_of_sqlx e), db)
        | None \<Rightarrow> (let db1 = update_user (pr_user_id p) (\<lambda>u. u\<lparr>u_default_webhook_url := url\<rparr>) db
            in (account_get f 1 db1 p, db1))))"

definition rotate_webhook_secret ::
    "lib \<Rightarrow> db_faults \<Rightarrow> bytes \<Rightarrow> principal \<Rightarrow> db \<Rightarrow> (api_error + account) \<times> db" where
  "rotate_webhook_secret L f random p db = (case f 0 of
       Some e \<Rightarrow> (Inl (api_of_sqlx e), db)
     | None \<Rightarrow> (let db1 = update_user (pr_user_id p)
            (\<lambda>u. u\<lparr>u_webhook_secret := generate_webhook_secret L random\<rparr>) db
         in (account_get f 1 db1 p, db1)))"

end
