(* ===== verification/Store_Laws.thy ===== *)
theory Store_Laws
  imports Deposit_Store
begin

text \<open>
  What every guarded transition of \<^verbatim>\<open>src/deposit/store.rs\<close> promises. \<open>moved\<close> says how a
  transition changes the tables, the locale \<open>transition\<close> is the contract the callers rely on, and
  its interpretations discharge the contract for the transitions of the code.
\<close>

section \<open>Well-formed rows\<close>

text \<open>The columns fixed when a deposit is created.\<close>

definition terms_of :: "deposit \<Rightarrow> deposit" where
  "terms_of d = d\<lparr>d_status := Pending, d_confirmed_amount := [], d_watch_id := None,
     d_watch_registered_at := None, d_engine_job_id := None, d_engine_submitted_at := None,
     d_tx_hash := None, d_block_number := None, d_failure_code := None, d_failure_message := None,
     d_failure_revert_data := None, d_event_seq := 0, d_detected_at := None, d_settled_at := None,
     d_failed_at := None, d_expired_at := None, d_updated_at := 0\<rparr>"

text \<open>The status transitions the code allows.\<close>

fun status_step :: "deposit_status \<Rightarrow> deposit_status \<Rightarrow> bool" where
  "status_step Pending t = (t \<in> {Pending, PartialPaid, Paid, Failed, Expired})"
| "status_step PartialPaid t = (t \<in> {PartialPaid, Paid, Failed, Expired})"
| "status_step Paid t = (t \<in> {Paid, Settled, Failed})"
| "status_step Failed t = (t \<in> {Failed, Paid})"
| "status_step Settled t = (t = Settled)"
| "status_step Expired t = (t = Expired)"

lemma status_step_refl [simp]: "status_step s s"
  by (cases s) simp_all

definition stamps_ok :: "deposit \<Rightarrow> bool" where
  "stamps_ok d =
     ((d_settled_at d \<noteq> None) = (d_status d = Settled)
    \<and> (d_failed_at d \<noteq> None) = (d_status d = Failed)
    \<and> (d_expired_at d \<noteq> None) = (d_status d = Expired)
    \<and> (d_failure_code d \<noteq> None) = (d_status d = Failed)
    \<and> (d_failure_message d \<noteq> None) = (d_status d = Failed)
    \<and> (d_failure_revert_data d \<noteq> None \<longrightarrow> d_status d = Failed)
    \<and> (d_status d = Settled \<longrightarrow> d_tx_hash d \<noteq> None)
    \<and> (d_status d = Pending \<longrightarrow> d_detected_at d = None \<and> d_confirmed_amount d = ''0'')
    \<and> (d_status d = PartialPaid \<longrightarrow> d_detected_at d \<noteq> None)
    \<and> (d_engine_job_id d \<noteq> None) = (d_engine_submitted_at d \<noteq> None)
    \<and> (d_engine_job_id d \<noteq> None \<longrightarrow> d_status d \<in> {Paid, Settled, Failed})
    \<and> (d_watch_id d \<noteq> None) = (d_watch_registered_at d \<noteq> None))"

text \<open>
  What a deposit still needs from an upstream service, by the kind of the outbox job that asks for
  it: a \<open>paid\<close> deposit without an engine job has to be submitted, an open one without a watch has to
  be registered.
\<close>

definition needs :: "string \<Rightarrow> deposit \<Rightarrow> bool" where
  "needs kind d =
     (if kind = ''submit_execute'' then d_status d = Paid \<and> d_engine_job_id d = None
      else if kind = ''register_watch'' then is_open (d_status d) \<and> d_watch_id d = None
      else False)"

lemma needs_simps [simp]:
  "needs ''submit_execute'' d = (d_status d = Paid \<and> d_engine_job_id d = None)"
  "needs ''register_watch'' d = (is_open (d_status d) \<and> d_watch_id d = None)"
  by (simp_all add: needs_def)

lemma is_open_simps [simp]:
  "is_open Pending" "is_open PartialPaid" "\<not> is_open Paid" "\<not> is_open Settled" "\<not> is_open Failed"
  "\<not> is_open Expired"
  by (simp_all add: is_open_def)

section \<open>Effect of a transition\<close>

definition ids_ok :: "db \<Rightarrow> bool" where
  "ids_ok db = distinct (map d_id (deposits db))"

text \<open>Ids drawn while the tables went from \<open>db\<close> to \<open>db'\<close>.\<close>

definition drawn :: "lib \<Rightarrow> db \<Rightarrow> db \<Rightarrow> uuid \<Rightarrow> bool" where
  "drawn L db db' i = (\<exists>n. uuid_ctr db \<le> n \<and> n < uuid_ctr db' \<and> i = l_uuid_v7 L n)"

definition upstream :: "string \<Rightarrow> bool" where
  "upstream kind = (kind \<noteq> ''notify_app'')"

definition upstream_kinds :: "outbox_row list \<Rightarrow> string list" where
  "upstream_kinds js = filter upstream (map o_kind js)"

record effect =
  x_change :: "deposit \<Rightarrow> deposit"
  x_events :: "deposit_event list"
  x_jobs :: "outbox_row list"

definition moved :: "lib \<Rightarrow> uuid \<Rightarrow> effect \<Rightarrow> db \<Rightarrow> db \<Rightarrow> bool" where
  "moved L i x db db' =
     (deposits db' = upd_rows (\<lambda>d. d_id d = i) (x_change x) (deposits db)
    \<and> deposit_events db' = deposit_events db @ x_events x
    \<and> outbox db' = outbox db @ x_jobs x
    \<and> idempotency_keys db' = idempotency_keys db \<and> inbound_events db' = inbound_events db
    \<and> users db' = users db \<and> uuid_ctr db \<le> uuid_ctr db'
    \<and> (\<forall>e \<in> set (x_events x). e_deposit_id e = i \<and> drawn L db db' (e_id e))
    \<and> (\<forall>j \<in> set (x_jobs x). o_deposit_id j = i \<and> o_dead_at j = None \<and> drawn L db db' (o_id j))
    \<and> sorted_wrt (<) (map o_id (x_jobs x)))"

definition bump :: "int \<Rightarrow> deposit \<Rightarrow> deposit" where
  "bump n d = d\<lparr>d_event_seq := d_event_seq d + n\<rparr>"

lemma bump_simps [simp]:
  "d_id (bump n d) = d_id d" "d_status (bump n d) = d_status d" "terms_of (bump n d) = terms_of d"
  "stamps_ok (bump n d) = stamps_ok d" "needs k (bump n d) = needs k d"
  "d_event_seq (bump n d) = d_event_seq d + n" "bump 0 d = d"
  by (simp_all add: bump_def terms_of_def stamps_ok_def needs_def)

lemma drawn_mono:
  "drawn L db1 db2 i \<Longrightarrow> uuid_ctr db \<le> uuid_ctr db1 \<Longrightarrow> uuid_ctr db2 \<le> uuid_ctr db' \<Longrightarrow> drawn L db db' i"
  by (auto simp: drawn_def intro: order_trans order_less_le_trans)

lemma drawn_less:
  assumes "uuid_v7_ok L" "drawn L a b i" "drawn L c d j" "uuid_ctr b \<le> uuid_ctr c"
  shows "i < j"
proof -
  obtain m n where mn: "m < uuid_ctr b" "i = l_uuid_v7 L m" "uuid_ctr c \<le> n" "j = l_uuid_v7 L n"
    using assms(2,3) by (auto simp: drawn_def)
  then have "m < n" using assms(4) by simp
  then show ?thesis
    using assms(1) mn by (simp add: uuid_v7_ok_def strict_mono_less)
qed

lemma moved_trans:
  assumes "moved L i x db db1" "moved L i y db1 db2" "\<And>d. d_id (x_change x d) = d_id d"
    and "uuid_v7_ok L"
  shows "moved L i \<lparr>x_change = x_change y \<circ> x_change x, x_events = x_events x @ x_events y,
           x_jobs = x_jobs x @ x_jobs y\<rparr> db db2"
proof -
  have "deposits db2 = upd_rows (\<lambda>d. d_id d = i) (x_change y \<circ> x_change x) (deposits db)"
    using assms by (auto simp: moved_def upd_rows_def)
  moreover have "\<forall>a \<in> set (x_jobs x). \<forall>b \<in> set (x_jobs y). o_id a < o_id b"
    using assms(1,2) drawn_less [OF assms(4)] unfolding moved_def by blast
  ultimately show ?thesis
    using assms(1,2) by (fastforce simp: moved_def sorted_wrt_append intro: drawn_mono)
qed

lemma moved_refl: "moved L i \<lparr>x_change = \<lambda>d. d, x_events = [], x_jobs = []\<rparr> db db"
  by (simp add: moved_def upd_rows_def)

section \<open>Statements and events\<close>

lemma and_then_Inr: "m db = Inr (x, db1) \<Longrightarrow> and_then m f db = f x db1"
  by (simp add: and_then_def)

lemma and_then_eq_Inr:
  "and_then m f db = Inr r \<longleftrightarrow> (\<exists>x db1. m db = Inr (x, db1) \<and> f x db1 = Inr r)"
  by (auto simp: and_then_def split: sum.splits)

lemma enqueue_moved:
  obtains j db' where "enqueue L now kind i payload db = Inr ((), db')"
    and "moved L i \<lparr>x_change = \<lambda>d. d, x_events = [], x_jobs = [j]\<rparr> db db'"
    and "o_kind j = kind" and "o_payload j = payload"
proof -
  let ?j = "outbox_entry now (l_uuid_v7 L (uuid_ctr db)) kind i payload"
  let ?db = "db\<lparr>uuid_ctr := Suc (uuid_ctr db), outbox := outbox db @ [?j]\<rparr>"
  have "enqueue L now kind i payload db = Inr ((), ?db)"
    by (simp add: enqueue_def and_then_def new_uuid_def)
  moreover have "moved L i \<lparr>x_change = \<lambda>d. d, x_events = [], x_jobs = [?j]\<rparr> db ?db"
    by (auto simp: moved_def upd_rows_def drawn_def outbox_entry_def)
  ultimately show thesis
    using that by (simp add: outbox_entry_def)
qed

lemma notify_app_event_moved:
  obtains js db' where "notify_app_event L now d e db = Inr ((), db')"
    and "moved L (d_id d) \<lparr>x_change = \<lambda>d. d, x_events = [], x_jobs = js\<rparr> db db'"
    and "upstream_kinds js = []"
proof (cases "is_app_facing (e_type e) \<and> webhook_url_for db d \<noteq> None")
  case True
  then obtain url where "webhook_url_for db d = Some url" "is_app_facing (e_type e)" by auto
  then have eq: "notify_app_event L now d e db
      = enqueue L now ''notify_app'' (d_id d) (notify_payload L url e d) db"
    by (simp add: notify_app_event_def)
  obtain j db' where "enqueue L now ''notify_app'' (d_id d) (notify_payload L url e d) db = Inr ((), db')"
      "moved L (d_id d) \<lparr>x_change = \<lambda>d. d, x_events = [], x_jobs = [j]\<rparr> db db'" "o_kind j = ''notify_app''"
    by (rule enqueue_moved)
  then show thesis
    using that [of db' "[j]"] eq by (simp add: upstream_kinds_def upstream_def)
next
  case False
  then have "notify_app_event L now d e db = Inr ((), db)"
    by (auto simp: notify_app_event_def split: option.splits)
  then show thesis
    using that [of db "[]"] moved_refl by (simp add: upstream_kinds_def)
qed

lemma find_id:
  "ids_ok db \<Longrightarrow> r \<in> set (deposits db) \<Longrightarrow> d_id r = i \<Longrightarrow> find (\<lambda>x. d_id x = i) (deposits db) = Some r"
  unfolding ids_ok_def by (rule find_unique [where k = d_id and i = i]) auto

text \<open>The event of a transition, on a database whose row of \<open>d\<close> is \<open>r\<close>.\<close>

lemma record_event_moved:
  assumes "ids_ok db" "r \<in> set (deposits db)" "d_id r = d_id d" "uuid_v7_ok L"
  obtains e js db' where "record_event L now d ty data db = Inr (e, db')"
    and "moved L (d_id d) \<lparr>x_change = bump 1, x_events = [e], x_jobs = js\<rparr> db db'"
    and "upstream_kinds js = []"
    and "e_sequence e = d_event_seq r + 1" "e_type e = ty" "e_data e = data"
proof -
  let ?db1 = "db\<lparr>deposits := upd_rows (\<lambda>x. d_id x = d_id d) (bump 1) (deposits db)\<rparr>"
  let ?e = "\<lparr>e_id = l_uuid_v7 L (uuid_ctr db), e_deposit_id = d_id d,
    e_sequence = d_event_seq r + 1, e_type = ty, e_data = data, e_created_at = now\<rparr>"
  let ?db2 = "?db1\<lparr>uuid_ctr := Suc (uuid_ctr db), deposit_events := deposit_events db @ [?e],
    notices := notices db @ [d_id d]\<rparr>"
  have "bump_seq d db = Inr (d_event_seq r + 1, ?db1)"
    using find_id [OF assms(1,2,3)]
    by (simp add: bump_seq_def update_returning_def bump_def [abs_def])
  then have eq: "record_event L now d ty data db
      = and_then (notify_app_event L now d ?e) (\<lambda>_. tx_return ?e) ?db2"
    by (simp add: record_event_def and_then_def new_uuid_def insert_event_def Let_def)
  obtain js db' where n: "notify_app_event L now d ?e ?db2 = Inr ((), db')"
      "moved L (d_id d) \<lparr>x_change = \<lambda>d. d, x_events = [], x_jobs = js\<rparr> ?db2 db'" "upstream_kinds js = []"
    by (rule notify_app_event_moved)
  have m: "moved L (d_id d) \<lparr>x_change = bump 1, x_events = [?e], x_jobs = []\<rparr> db ?db2"
    by (auto simp: moved_def drawn_def)
  have "moved L (d_id d) \<lparr>x_change = (\<lambda>d. d) \<circ> bump 1, x_events = [?e], x_jobs = js\<rparr> db db'"
    using moved_trans [OF m n(2) _ assms(4)] by simp
  then have "moved L (d_id d) \<lparr>x_change = bump 1, x_events = [?e], x_jobs = js\<rparr> db db'"
    by (simp add: o_def)
  then show thesis
    using that [of ?e db' js] n eq by (simp add: and_then_def tx_return_def)
qed

section \<open>The contract\<close>

text \<open>
  \<open>oper\<close> is guarded: without an eligible row it changes nothing. On the row \<open>r\<close> of deposit \<open>i\<close> it
  applies \<open>change\<close>, appends the events \<open>types\<close> with the next sequence numbers and queues the
  upstream jobs \<open>jobs\<close>.
\<close>

definition fires :: "lib \<Rightarrow> uuid \<Rightarrow> 'r tx \<Rightarrow> (deposit \<Rightarrow> deposit) \<Rightarrow> string list \<Rightarrow> string list \<Rightarrow> deposit \<Rightarrow> db \<Rightarrow> bool"
  where
  "fires L i oper change types jobs r db = (\<exists>y es js db'. oper db = Inr (y, db')
     \<and> moved L i \<lparr>x_change = bump (int (length types)) \<circ> change, x_events = es, x_jobs = js\<rparr> db db'
     \<and> upstream_kinds js = jobs \<and> map e_type es = types
     \<and> map e_sequence es = map (\<lambda>n. d_event_seq r + 1 + int n) [0..<length types])"

locale transition =
  fixes L :: lib and i :: uuid and oper :: "'r tx" and missed :: 'r
    and guard :: "deposit \<Rightarrow> bool" and change :: "deposit \<Rightarrow> deposit"
    and types :: "string list" and jobs :: "string list"
  assumes miss: "\<forall>r \<in> set (deposits db). d_id r = i \<longrightarrow> \<not> guard r \<Longrightarrow> oper db = Inr (missed, db)"
    and hit: "ids_ok db \<Longrightarrow> r \<in> set (deposits db) \<Longrightarrow> d_id r = i \<Longrightarrow> guard r \<Longrightarrow> uuid_v7_ok L
      \<Longrightarrow> fires L i oper change types jobs r db"
    and change_terms: "terms_of (change d) = terms_of d"
    and change_seq: "d_event_seq (change d) = d_event_seq d"
    and change_status: "guard d \<Longrightarrow> status_step (d_status d) (d_status (change d))"
    and change_stamps: "guard d \<Longrightarrow> stamps_ok d \<Longrightarrow> stamps_ok (change d)"
    and change_needs: "guard d \<Longrightarrow> needs k (change d) \<Longrightarrow> needs k d \<or> k \<in> set jobs"

definition stamp :: "time \<Rightarrow> (deposit \<Rightarrow> deposit) \<Rightarrow> deposit \<Rightarrow> deposit" where
  "stamp now f d = (f d)\<lparr>d_updated_at := now\<rparr>"

lemma terms_of_id: "terms_of d = terms_of d' \<Longrightarrow> d_id d = d_id d'"
proof -
  assume "terms_of d = terms_of d'"
  then have "d_id (terms_of d) = d_id (terms_of d')" by simp
  then show ?thesis by (simp add: terms_of_def)
qed

lemma update_deposit_miss:
  "\<forall>r \<in> set (deposits db). d_id r = i \<longrightarrow> \<not> guard r \<Longrightarrow>
     update_deposit now f (\<lambda>d. d_id d = i \<and> guard d) db = Inr (None, db)"
proof -
  assume "\<forall>r \<in> set (deposits db). d_id r = i \<longrightarrow> \<not> guard r"
  then have "find (\<lambda>d. d_id d = i \<and> guard d) (deposits db) = None"
    by (auto simp: find_None_iff)
  then show ?thesis
    by (simp add: update_deposit_def update_returning_def find_None_upd_rows)
qed

lemma ids_ok_upd:
  "\<forall>d. d_id (f d) = d_id d \<Longrightarrow> ids_ok (db\<lparr>deposits := upd_rows p f (deposits db)\<rparr>) = ids_ok db"
  by (simp add: ids_ok_def map_upd_rows)

lemma update_deposit_hit:
  assumes "ids_ok db" "r \<in> set (deposits db)" "d_id r = i" "guard r" "\<And>d. d_id (f d) = d_id d"
  obtains db1 where "update_deposit now f (\<lambda>d. d_id d = i \<and> guard d) db = Inr (Some (stamp now f r), db1)"
    and "moved L i \<lparr>x_change = stamp now f, x_events = [], x_jobs = []\<rparr> db db1"
    and "ids_ok db1" and "stamp now f r \<in> set (deposits db1)" and "d_id (stamp now f r) = i"
proof -
  let ?db1 = "db\<lparr>deposits := upd_rows (\<lambda>d. d_id d = i) (stamp now f) (deposits db)\<rparr>"
  have "guard d" if "d \<in> set (deposits db)" "d_id d = i" for d
    using unique_by_key [OF assms(1) [unfolded ids_ok_def] assms(2) that(1)] assms(3,4) that(2)
    by simp
  then have "upd_rows (\<lambda>d. d_id d = i \<and> guard d) (stamp now f) (deposits db)
      = upd_rows (\<lambda>d. d_id d = i) (stamp now f) (deposits db)"
    by (auto simp: upd_rows_def)
  moreover have "find (\<lambda>d. d_id d = i \<and> guard d) (deposits db) = Some r"
    using assms(1-4) unfolding ids_ok_def by (intro find_unique [where k = d_id and i = i]) auto
  ultimately have "update_deposit now f (\<lambda>d. d_id d = i \<and> guard d) db = Inr (Some (stamp now f r), ?db1)"
    by (simp add: update_deposit_def update_returning_def stamp_def [abs_def])
  moreover have "moved L i \<lparr>x_change = stamp now f, x_events = [], x_jobs = []\<rparr> db ?db1"
    by (simp add: moved_def)
  moreover have "d_id (stamp now f d) = d_id d" for d using assms(5) by (simp add: stamp_def)
  moreover from this have "stamp now f r \<in> set (deposits ?db1)"
    using assms(2,3) by (auto simp: upd_rows_def)
  ultimately show thesis
    using that assms by (simp add: ids_ok_upd)
qed

text \<open>The two shapes of a transition: an update with its event, and one that also queues a job.\<close>

lemma fires_event:
  assumes "ids_ok db" "r \<in> set (deposits db)" "d_id r = i" "guard r" "uuid_v7_ok L"
    and "\<And>d. d_id (f d) = d_id d" "\<And>d. d_event_seq (f d) = d_event_seq d"
  shows "fires L i (and_then (update_deposit now f (\<lambda>d. d_id d = i \<and> guard d)) (then_event L now ty data))
           (stamp now f) [ty] [] r db"
proof -
  obtain db1 where u: "update_deposit now f (\<lambda>d. d_id d = i \<and> guard d) db = Inr (Some (stamp now f r), db1)"
      "moved L i \<lparr>x_change = stamp now f, x_events = [], x_jobs = []\<rparr> db db1" "ids_ok db1"
      "stamp now f r \<in> set (deposits db1)" "d_id (stamp now f r) = i"
    by (rule update_deposit_hit [where L = L and now = now and f = f and guard = guard, OF assms(1-4,6)])
  obtain e js db2 where e: "record_event L now (stamp now f r) ty data db1 = Inr (e, db2)"
      "moved L (d_id (stamp now f r)) \<lparr>x_change = bump 1, x_events = [e], x_jobs = js\<rparr> db1 db2"
      "upstream_kinds js = []" "e_sequence e = d_event_seq (stamp now f r) + 1" "e_type e = ty"
    using record_event_moved [OF u(3,4) refl assms(5)] by blast
  have "moved L i \<lparr>x_change = bump 1 \<circ> stamp now f, x_events = [e], x_jobs = js\<rparr> db db2"
    using moved_trans [OF u(2) e(2) [unfolded u(5)] _ assms(5)] assms(6) by (simp add: stamp_def)
  then show ?thesis
    using u(1) e assms(7) unfolding fires_def
    by (fastforce simp: and_then_def then_event_def tx_return_def stamp_def)
qed

lemma fires_event_job:
  assumes "ids_ok db" "r \<in> set (deposits db)" "d_id r = i" "guard r" "uuid_v7_ok L" "upstream kind"
    and "\<And>d. d_id (f d) = d_id d" "\<And>d. d_event_seq (f d) = d_event_seq d"
  shows "fires L i (and_then (update_deposit now f (\<lambda>d. d_id d = i \<and> guard d))
           (\<lambda>x. case x of None \<Rightarrow> tx_return no | Some d \<Rightarrow>
              and_then (record_event L now d ty data) (\<lambda>e.
                and_then (enqueue L now kind (d_id d) (payload d e)) (\<lambda>_. tx_return (yes d)))))
           (stamp now f) [ty] [kind] r db"
proof -
  obtain db1 where u: "update_deposit now f (\<lambda>d. d_id d = i \<and> guard d) db = Inr (Some (stamp now f r), db1)"
      "moved L i \<lparr>x_change = stamp now f, x_events = [], x_jobs = []\<rparr> db db1" "ids_ok db1"
      "stamp now f r \<in> set (deposits db1)" "d_id (stamp now f r) = i"
    by (rule update_deposit_hit [where L = L and now = now and f = f and guard = guard, OF assms(1-4,7)])
  obtain e js db2 where e: "record_event L now (stamp now f r) ty data db1 = Inr (e, db2)"
      "moved L (d_id (stamp now f r)) \<lparr>x_change = bump 1, x_events = [e], x_jobs = js\<rparr> db1 db2"
      "upstream_kinds js = []" "e_sequence e = d_event_seq (stamp now f r) + 1" "e_type e = ty"
    using record_event_moved [OF u(3,4) refl assms(5)] by blast
  obtain j db3 where j: "enqueue L now kind i (payload (stamp now f r) e) db2 = Inr ((), db3)"
      "moved L i \<lparr>x_change = \<lambda>d. d, x_events = [], x_jobs = [j]\<rparr> db2 db3" "o_kind j = kind"
    by (rule enqueue_moved)
  have "moved L i \<lparr>x_change = bump 1 \<circ> stamp now f, x_events = [e], x_jobs = js\<rparr> db db2"
    using moved_trans [OF u(2) e(2) [unfolded u(5)] _ assms(5)] assms(7) by (simp add: stamp_def)
  from moved_trans [OF this j(2) _ assms(5)] assms(7)
  have "moved L i \<lparr>x_change = bump 1 \<circ> stamp now f, x_events = [e], x_jobs = js @ [j]\<rparr> db db3"
    by (simp add: stamp_def o_def)
  moreover have "upstream_kinds (js @ [j]) = [kind]"
    using e(3) j(3) assms(6) by (simp add: upstream_kinds_def)
  ultimately show ?thesis
    using u e j(1) assms(8) unfolding fires_def
    by (fastforce simp: and_then_def tx_return_def stamp_def)
qed

lemma fires_quiet:
  assumes "ids_ok db" "r \<in> set (deposits db)" "d_id r = i" "guard r" "\<And>d. d_id (f d) = d_id d"
    and "\<And>x. tail (Some x) = tx_return (yes x)"
  shows "fires L i (and_then (update_deposit now f (\<lambda>d. d_id d = i \<and> guard d)) tail)
           (stamp now f) [] [] r db"
proof -
  obtain db1 where u: "update_deposit now f (\<lambda>d. d_id d = i \<and> guard d) db = Inr (Some (stamp now f r), db1)"
      "moved L i \<lparr>x_change = stamp now f, x_events = [], x_jobs = []\<rparr> db db1"
    by (rule update_deposit_hit [where L = L and now = now and f = f and guard = guard, OF assms(1-5)])
  then show ?thesis
    using assms(6) unfolding fires_def
    by (fastforce simp: and_then_def tx_return_def upstream_kinds_def o_def)
qed

section \<open>Table invariant\<close>

definition issued :: "lib \<Rightarrow> db \<Rightarrow> uuid \<Rightarrow> bool" where
  "issued L db i = (\<exists>n < uuid_ctr db. i = l_uuid_v7 L n)"

text \<open>The events of a deposit carry the sequence numbers \<open>1, 2, ..., event_seq\<close>, in this order.\<close>

definition timeline_ok :: "db \<Rightarrow> deposit \<Rightarrow> bool" where
  "timeline_ok db d = (0 \<le> d_event_seq d
     \<and> map e_sequence (filter (\<lambda>e. e_deposit_id e = d_id d) (deposit_events db)) = [1..d_event_seq d])"

definition tables_ok :: "lib \<Rightarrow> db \<Rightarrow> bool" where
  "tables_ok L db =
     (ids_ok db
    \<and> (\<forall>d \<in> set (deposits db). stamps_ok d \<and> timeline_ok db d \<and> issued L db (d_id d))
    \<and> (\<forall>e \<in> set (deposit_events db). e_deposit_id e \<in> d_id ` set (deposits db))
    \<and> (\<forall>j \<in> set (outbox db). o_deposit_id j \<in> d_id ` set (deposits db) \<and> issued L db (o_id j))
    \<and> sorted_wrt (<) (map o_id (outbox db)))"

text \<open>
  Every need of a deposit is carried by a live outbox job of its kind that no worker has decided to
  finish; \<open>F\<close> holds the jobs some worker has.
\<close>

definition carried :: "uuid set \<Rightarrow> db \<Rightarrow> string \<Rightarrow> uuid \<Rightarrow> bool" where
  "carried F db k i = (\<exists>j \<in> set (outbox db). o_kind j = k \<and> o_deposit_id j = i
     \<and> o_dead_at j = None \<and> o_id j \<notin> F)"

definition covered :: "uuid set \<Rightarrow> db \<Rightarrow> bool" where
  "covered F db = (\<forall>k. \<forall>d \<in> set (deposits db). needs k d \<longrightarrow> carried F db k (d_id d))"

text \<open>How one transition may change the history of the deposits.\<close>

definition evolves :: "db \<Rightarrow> db \<Rightarrow> bool" where
  "evolves db db' = ((\<forall>d \<in> set (deposits db). \<exists>d' \<in> set (deposits db'). terms_of d' = terms_of d
       \<and> status_step (d_status d) (d_status d') \<and> d_event_seq d \<le> d_event_seq d')
     \<and> (\<exists>es. deposit_events db' = deposit_events db @ es))"

lemma evolves_refl [simp]: "evolves db db"
  by (auto simp: evolves_def)

lemma map_int_upto: "map (\<lambda>n. a + int n) [0..<k] = [a..a + int k - 1]"
proof (induction k)
  case (Suc k)
  have "[a..a + int (Suc k) - 1] = [a..a + int k - 1] @ [a + int k]"
    by (simp add: upto_rec2)
  with Suc show ?case by simp
qed simp

lemma upto_append: "0 \<le> a \<Longrightarrow> [1..a] @ [a + 1..a + int k] = [1..a + int k]"
  using upto_split1 [of 1 "a + 1" "a + int k"] by (cases "k = 0") simp_all

lemma issued_drawn_less:
  assumes "uuid_v7_ok L" "issued L db i" "drawn L db db' j"
  shows "i < j"
proof -
  obtain m n where "m < n" "i = l_uuid_v7 L m" "j = l_uuid_v7 L n"
    using assms(2,3) by (auto simp: issued_def drawn_def intro: order_less_le_trans)
  then show ?thesis
    using assms(1) by (simp add: uuid_v7_ok_def strict_mono_less)
qed

lemma issued_mono: "issued L db i \<Longrightarrow> uuid_ctr db \<le> uuid_ctr db' \<Longrightarrow> issued L db' i"
  by (auto simp: issued_def intro: order_less_le_trans)

lemma drawn_issued: "drawn L db db' i \<Longrightarrow> issued L db' i"
  by (auto simp: drawn_def issued_def)

lemma timeline_moved:
  assumes m: "moved L i \<lparr>x_change = bump (int k) \<circ> f, x_events = es, x_jobs = js\<rparr> db db'"
    and seq: "map e_sequence es = map (\<lambda>n. d_event_seq r + 1 + int n) [0..<k]"
    and r: "d_id r = i" "timeline_ok db r"
    and f: "d_id (f r) = d_id r" "d_event_seq (f r) = d_event_seq r"
  shows "timeline_ok db' (bump (int k) (f r))"
proof -
  have "filter (\<lambda>e. e_deposit_id e = i) es = es" "deposit_events db' = deposit_events db @ es"
    using m by (auto simp: moved_def)
  moreover have "map e_sequence es = [d_event_seq r + 1..d_event_seq r + int k]"
    using seq map_int_upto [of "d_event_seq r + 1" k] by simp
  ultimately show ?thesis
    using r f by (simp add: timeline_ok_def upto_append)
qed

lemma timeline_other:
  assumes "moved L i x db db'" "d_id d \<noteq> i"
  shows "timeline_ok db' d = timeline_ok db d"
proof -
  have "filter (\<lambda>e. e_deposit_id e = d_id d) (x_events x) = []"
    using assms by (auto simp: moved_def filter_empty_conv)
  then show ?thesis
    using assms(1) by (simp add: timeline_ok_def moved_def)
qed

lemma moved_ids:
  assumes "moved L i x db db'" "\<And>d. d_id (x_change x d) = d_id d"
  shows "map d_id (deposits db') = map d_id (deposits db)"
  using assms by (simp add: moved_def map_upd_rows)

lemma moved_tables_ok:
  assumes ok: "tables_ok L db" "uuid_v7_ok L" and r: "r \<in> set (deposits db)" "d_id r = i"
    and m: "moved L i \<lparr>x_change = bump (int k) \<circ> f, x_events = es, x_jobs = js\<rparr> db db'"
    and seq: "map e_sequence es = map (\<lambda>n. d_event_seq r + 1 + int n) [0..<k]"
    and f: "\<And>d. terms_of (f d) = terms_of d" "d_event_seq (f r) = d_event_seq r"
    and st: "stamps_ok (f r)"
  shows "tables_ok L db'"
proof -
  have fid: "d_id (f d) = d_id d" for d using terms_of_id [OF f(1)] by simp
  have ids: "map d_id (deposits db') = map d_id (deposits db)"
    using moved_ids [OF m] fid by simp
  then have ids': "d_id ` set (deposits db') = d_id ` set (deposits db)"
    by (metis list.set_map)
  have ctr: "uuid_ctr db \<le> uuid_ctr db'" using m by (simp add: moved_def)
  have "stamps_ok d \<and> timeline_ok db' d \<and> issued L db' (d_id d)" if "d \<in> set (deposits db')" for d
  proof -
    have "d \<in> set (upd_rows (\<lambda>d. d_id d = i) (bump (int k) \<circ> f) (deposits db))"
      using that m by (simp add: moved_def)
    then show ?thesis
    proof (cases rule: in_upd_rowsE)
      case (hit r')
      then have "r' = r"
        using ok(1) r unique_by_key [of d_id "deposits db" r' r] by (simp add: tables_ok_def ids_ok_def)
      moreover have "timeline_ok db r" "issued L db (d_id r)"
        using ok(1) r(1) by (simp_all add: tables_ok_def)
      ultimately show ?thesis
        using hit st timeline_moved [OF m seq r(2) _ fid f(2)] issued_mono [OF _ ctr] fid by simp
    next
      case miss
      then show ?thesis
        using ok(1) ctr timeline_other [OF m] by (simp add: tables_ok_def issued_mono [of L db _ db'])
    qed
  qed
  moreover have "sorted_wrt (<) (map o_id (outbox db'))"
    using ok m by (auto simp: moved_def tables_ok_def sorted_wrt_append intro: issued_drawn_less)
  moreover have "\<forall>e \<in> set (deposit_events db'). e_deposit_id e \<in> d_id ` set (deposits db')"
    using ok m r ids' by (auto simp: moved_def tables_ok_def)
  moreover have "\<forall>j \<in> set (outbox db'). o_deposit_id j \<in> d_id ` set (deposits db') \<and> issued L db' (o_id j)"
    using ok m r ids' ctr
    by (auto simp: moved_def tables_ok_def intro: drawn_issued issued_mono [of L db _ db'])
  ultimately show ?thesis
    using ok(1) ids by (simp add: tables_ok_def ids_ok_def)
qed

lemma moved_evolves:
  assumes m: "moved L i \<lparr>x_change = bump (int k) \<circ> f, x_events = es, x_jobs = js\<rparr> db db'"
    and f: "\<And>d. terms_of (f d) = terms_of d" "\<And>d. d_event_seq (f d) = d_event_seq d"
    and st: "\<And>d. d \<in> set (deposits db) \<Longrightarrow> d_id d = i \<Longrightarrow> status_step (d_status d) (d_status (f d))"
  shows "evolves db db'"
proof -
  have "\<exists>d' \<in> set (deposits db'). terms_of d' = terms_of d \<and> status_step (d_status d) (d_status d')
      \<and> d_event_seq d \<le> d_event_seq d'" if d: "d \<in> set (deposits db)" for d
  proof (intro bexI)
    let ?d = "if d_id d = i then (bump (int k) \<circ> f) d else d"
    show "?d \<in> set (deposits db')" using m d by (auto simp: moved_def upd_rows_def)
    show "terms_of ?d = terms_of d \<and> status_step (d_status d) (d_status ?d)
        \<and> d_event_seq d \<le> d_event_seq ?d"
      using f st [OF d] by simp
  qed
  then show ?thesis using m by (auto simp: evolves_def moved_def)
qed

lemma moved_covered:
  assumes ok: "covered F db" "uuid_v7_ok L" and F: "\<And>a. a \<in> F \<Longrightarrow> issued L db a"
    and m: "moved L i \<lparr>x_change = bump (int k) \<circ> f, x_events = es, x_jobs = js\<rparr> db db'"
    and f: "\<And>d. terms_of (f d) = terms_of d"
    and nd: "\<And>d k. d \<in> set (deposits db) \<Longrightarrow> d_id d = i \<Longrightarrow> needs k (f d)
      \<Longrightarrow> needs k d \<or> k \<in> set (upstream_kinds js)"
  shows "covered F db'"
  unfolding covered_def
proof (intro allI ballI impI)
  fix kind d
  assume d: "d \<in> set (deposits db')" "needs kind d"
  have keep: "carried F db kind a \<Longrightarrow> carried F db' kind a" for a
    using m by (auto simp: carried_def moved_def)
  have "d \<in> set (upd_rows (\<lambda>d. d_id d = i) (bump (int k) \<circ> f) (deposits db))"
    using d m by (simp add: moved_def)
  then show "carried F db' kind (d_id d)"
  proof (cases rule: in_upd_rowsE)
    case (hit r)
    have id: "d_id d = i" using hit terms_of_id [OF f] by simp
    have "needs kind r \<or> kind \<in> set (upstream_kinds js)"
      using nd [OF hit(1,2)] hit(3) d(2) by simp
    then show ?thesis
    proof
      assume "needs kind r"
      then show ?thesis using ok(1) hit(1,2) id keep by (auto simp: covered_def)
    next
      assume "kind \<in> set (upstream_kinds js)"
      then obtain j where j: "j \<in> set js" "o_kind j = kind" by (auto simp: upstream_kinds_def)
      then have "o_deposit_id j = i" "o_dead_at j = None" "drawn L db db' (o_id j)" "j \<in> set (outbox db')"
        using m by (auto simp: moved_def)
      moreover from this have "o_id j \<notin> F"
        using F issued_drawn_less [OF ok(2)] by blast
      ultimately show ?thesis using j id by (auto simp: carried_def)
    qed
  next
    case miss
    then show ?thesis using ok(1) d keep by (auto simp: covered_def)
  qed
qed

section \<open>What a transaction keeps\<close>

text \<open>
  The composable form of the invariant: \<open>grows\<close> is what every transaction of the service may do to
  the tables, \<open>keeps\<close> says that a piece of a transaction does only that.
\<close>

definition status_path :: "deposit_status \<Rightarrow> deposit_status \<Rightarrow> bool" where
  "status_path s t = (status_step\<^sup>*\<^sup>* s t)"

definition history :: "db \<Rightarrow> db \<Rightarrow> bool" where
  "history db db' = ((\<forall>d \<in> set (deposits db). \<exists>d' \<in> set (deposits db'). terms_of d' = terms_of d
       \<and> status_path (d_status d) (d_status d') \<and> d_event_seq d \<le> d_event_seq d')
     \<and> (\<exists>es. deposit_events db' = deposit_events db @ es))"

definition appends :: "lib \<Rightarrow> db \<Rightarrow> db \<Rightarrow> bool" where
  "appends L db db' = (uuid_ctr db \<le> uuid_ctr db'
     \<and> (\<exists>js. outbox db' = outbox db @ js \<and> (\<forall>j \<in> set js. drawn L db db' (o_id j))))"

definition grows :: "lib \<Rightarrow> db \<Rightarrow> db \<Rightarrow> bool" where
  "grows L db db' = (tables_ok L db' \<and> history db db' \<and> appends L db db'
     \<and> (\<forall>F. (\<forall>a \<in> F. issued L db a) \<longrightarrow> covered F db \<longrightarrow> covered F db'))"

definition keeps :: "lib \<Rightarrow> 'a tx \<Rightarrow> bool" where
  "keeps L m = (\<forall>db y db'. tables_ok L db \<longrightarrow> m db = Inr (y, db') \<longrightarrow> grows L db db')"

lemma history_refl [simp]: "history db db"
  by (auto simp: history_def status_path_def)

lemma history_trans:
  assumes "history a b" "history b c"
  shows "history a c"
proof -
  have "\<exists>z \<in> set (deposits c). terms_of z = terms_of x \<and> status_path (d_status x) (d_status z)
      \<and> d_event_seq x \<le> d_event_seq z" if x: "x \<in> set (deposits a)" for x
  proof -
    obtain y where y: "y \<in> set (deposits b)" "terms_of y = terms_of x"
        "status_path (d_status x) (d_status y)" "d_event_seq x \<le> d_event_seq y"
      using assms(1) x by (auto simp: history_def)
    obtain z where "z \<in> set (deposits c)" "terms_of z = terms_of y"
        "status_path (d_status y) (d_status z)" "d_event_seq y \<le> d_event_seq z"
      using assms(2) y(1) by (auto simp: history_def)
    with y show ?thesis by (intro bexI [of _ z]) (auto simp: status_path_def)
  qed
  then show ?thesis
    using assms by (auto simp: history_def)
qed

lemma history_evolves: "evolves db db' \<Longrightarrow> history db db'"
  unfolding evolves_def history_def status_path_def by blast

lemma appends_refl [simp]: "appends L db db"
  by (simp add: appends_def)

lemma appends_trans:
  assumes "appends L a b" "appends L b c"
  shows "appends L a c"
proof -
  obtain js ks where "outbox b = outbox a @ js" "\<forall>j \<in> set js. drawn L a b (o_id j)"
      "outbox c = outbox b @ ks" "\<forall>j \<in> set ks. drawn L b c (o_id j)"
    using assms by (auto simp: appends_def)
  moreover have "uuid_ctr a \<le> uuid_ctr b" "uuid_ctr b \<le> uuid_ctr c" using assms by (simp_all add: appends_def)
  ultimately show ?thesis
    unfolding appends_def by (intro conjI exI [of _ "js @ ks"]) (auto intro: drawn_mono)
qed

lemma moved_appends: "moved L i x db db' \<Longrightarrow> appends L db db'"
  by (auto simp: moved_def appends_def)

lemma grows_refl: "tables_ok L db \<Longrightarrow> grows L db db"
  by (simp add: grows_def)

lemma grows_trans: "grows L a b \<Longrightarrow> grows L b c \<Longrightarrow> grows L a c"
  unfolding grows_def by (meson history_trans issued_mono appends_trans appends_def)

lemma grows_tables: "grows L db db' \<Longrightarrow> tables_ok L db'"
  by (simp add: grows_def)

lemma keepsD: "keeps L m \<Longrightarrow> tables_ok L db \<Longrightarrow> m db = Inr (y, db') \<Longrightarrow> grows L db db'"
  by (simp add: keeps_def)

named_theorems keeps_intros \<open>transactions that keep the tables\<close>

lemma keeps_return [keeps_intros]: "keeps L (tx_return x)"
  by (simp add: keeps_def tx_return_def grows_refl)

lemma keeps_and_then [keeps_intros]:
  "keeps L m \<Longrightarrow> (\<And>x. keeps L (f x)) \<Longrightarrow> keeps L (and_then m f)"
  unfolding keeps_def and_then_eq_Inr by (meson grows_tables grows_trans)

lemma keeps_if [keeps_intros]: "keeps L m \<Longrightarrow> keeps L n \<Longrightarrow> keeps L (if b then m else n)"
  by simp

lemma keeps_option [keeps_intros]:
  "keeps L m \<Longrightarrow> (\<And>x. keeps L (f x)) \<Longrightarrow> keeps L (case z of None \<Rightarrow> m | Some x \<Rightarrow> f x)"
  by (cases z) simp_all

text \<open>A transaction that leaves deposits, events and outbox alone.\<close>

lemma tables_ok_cong:
  "deposits db' = deposits db \<Longrightarrow> deposit_events db' = deposit_events db \<Longrightarrow> outbox db' = outbox db
     \<Longrightarrow> uuid_ctr db' = uuid_ctr db \<Longrightarrow> tables_ok L db' = tables_ok L db"
  by (simp add: tables_ok_def ids_ok_def timeline_ok_def issued_def)

lemma grows_aside:
  "deposits db' = deposits db \<Longrightarrow> deposit_events db' = deposit_events db \<Longrightarrow> outbox db' = outbox db
     \<Longrightarrow> uuid_ctr db' = uuid_ctr db \<Longrightarrow> tables_ok L db \<Longrightarrow> grows L db db'"
proof -
  assume eq: "deposits db' = deposits db" "deposit_events db' = deposit_events db"
    "outbox db' = outbox db" "uuid_ctr db' = uuid_ctr db" and ok: "tables_ok L db"
  have "history db db' = history db db" "covered F db' = covered F db" for F
    using eq by (simp_all only: history_def covered_def carried_def)
  then show ?thesis
    using ok eq by (simp add: grows_def appends_def tables_ok_cong [OF eq])
qed

lemma keeps_claim_inbound [keeps_intros]: "keeps L (claim_inbound now source e)"
  unfolding keeps_def claim_inbound_def by (auto intro!: grows_aside grows_refl split: if_splits)

lemma keeps_prune [keeps_intros]: "keeps L (prune now ttl)"
  unfolding keeps_def prune_def by (auto intro!: grows_aside)

section \<open>Consequences of the contract\<close>

context transition
begin

lemma outcome:
  assumes "ids_ok db" "uuid_v7_ok L" "oper db = Inr (y, db')"
  obtains (missed) "y = missed" "db' = db"
  | (moved) r es js where "r \<in> set (deposits db)" "d_id r = i" "guard r"
      "moved L i \<lparr>x_change = bump (int (length types)) \<circ> change, x_events = es, x_jobs = js\<rparr> db db'"
      "upstream_kinds js = jobs" "map e_type es = types"
      "map e_sequence es = map (\<lambda>n. d_event_seq r + 1 + int n) [0..<length types]"
proof (cases "\<exists>r \<in> set (deposits db). d_id r = i \<and> guard r")
  case True
  then obtain r where r: "r \<in> set (deposits db)" "d_id r = i" "guard r" by blast
  from hit [OF assms(1) this assms(2)] assms(3) r show thesis
    using moved by (fastforce simp: fires_def)
next
  case False
  then show thesis using miss assms(3) missed by simp
qed

lemma total: "ids_ok db \<Longrightarrow> uuid_v7_ok L \<Longrightarrow> \<exists>y db'. oper db = Inr (y, db')"
  using hit miss unfolding fires_def by blast

lemma unique_row:
  "tables_ok L db \<Longrightarrow> r \<in> set (deposits db) \<Longrightarrow> d_id r = i \<Longrightarrow> d \<in> set (deposits db) \<Longrightarrow> d_id d = i \<Longrightarrow> d = r"
  using unique_by_key [of d_id "deposits db" d r] by (simp add: tables_ok_def ids_ok_def)

lemma keeps_tables:
  assumes "tables_ok L db" "uuid_v7_ok L" "oper db = Inr (y, db')"
  shows "tables_ok L db'"
proof -
  have "ids_ok db" using assms(1) by (simp add: tables_ok_def)
  then show ?thesis
    using assms(2,3)
  proof (cases rule: outcome)
    case (moved r es js)
    moreover have "stamps_ok r" using assms(1) moved(1) by (simp add: tables_ok_def)
    ultimately show ?thesis
      using moved_tables_ok [OF assms(1,2) moved(1,2,4,7) change_terms change_seq] change_stamps by blast
  qed (use assms in simp)
qed

lemma keeps_history:
  assumes "tables_ok L db" "uuid_v7_ok L" "oper db = Inr (y, db')"
  shows "evolves db db'"
proof -
  have "ids_ok db" using assms(1) by (simp add: tables_ok_def)
  then show ?thesis
    using assms(2,3)
  proof (cases rule: outcome)
    case (moved r es js)
    then show ?thesis
      using moved_evolves [OF moved(4) change_terms change_seq] unique_row [OF assms(1) moved(1,2)]
        change_status by blast
  qed simp
qed

lemma keeps_covered:
  assumes "tables_ok L db" "uuid_v7_ok L" "oper db = Inr (y, db')"
    and "covered F db" and F: "\<And>a. a \<in> F \<Longrightarrow> issued L db a"
  shows "covered F db'"
proof -
  have "ids_ok db" using assms(1) by (simp add: tables_ok_def)
  then show ?thesis
    using assms(2,3)
  proof (cases rule: outcome)
    case (moved r es js)
    then have "d \<in> set (deposits db) \<Longrightarrow> d_id d = i \<Longrightarrow> needs k (change d)
        \<Longrightarrow> needs k d \<or> k \<in> set (upstream_kinds js)" for d k
      using unique_row [OF assms(1) moved(1,2)] change_needs by blast
    then show ?thesis
      using moved_covered [OF assms(4,2) F moved(4) change_terms] by blast
  qed (use assms in simp)
qed

text \<open>After the operation no row of deposit \<open>i\<close> has a need that neither side of the guard has.\<close>

lemma clears:
  assumes ok: "tables_ok L db" "uuid_v7_ok L" "oper db = Inr (y, db')"
    and "\<And>r. guard r \<Longrightarrow> \<not> needs k (change r)" and "\<And>r. \<not> guard r \<Longrightarrow> \<not> needs k r"
    and d: "d \<in> set (deposits db')" "d_id d = i"
  shows "\<not> needs k d"
proof -
  have ids: "ids_ok db" using ok(1) by (simp add: tables_ok_def)
  show ?thesis
  proof (cases "\<exists>r \<in> set (deposits db). d_id r = i \<and> guard r")
    case True
    then obtain r where r: "r \<in> set (deposits db)" "d_id r = i" "guard r" by blast
    then obtain es js where "moved L i \<lparr>x_change = bump (int (length types)) \<circ> change, x_events = es, x_jobs = js\<rparr> db db'"
      using hit [OF ids r ok(2)] ok(3) by (auto simp: fires_def)
    then have "d \<in> set (upd_rows (\<lambda>d. d_id d = i) (bump (int (length types)) \<circ> change) (deposits db))"
      using d(1) by (simp add: moved_def)
    then show ?thesis
    proof (cases rule: in_upd_rowsE)
      case (hit r')
      then have "guard r'" using unique_row [OF ok(1) r(1,2) hit(1,2)] r(3) by simp
      then show ?thesis using assms(4) hit(3) by simp
    next
      case miss
      then show ?thesis using d(2) by simp
    qed
  next
    case False
    then have "oper db = Inr (missed, db)" using miss by simp
    then show ?thesis using ok(3) d False assms(5) by auto
  qed
qed

lemma keeps_jobs:
  assumes "ids_ok db" "uuid_v7_ok L" "oper db = Inr (y, db')"
  shows "appends L db db'"
  using assms by (cases rule: outcome) (auto intro: moved_appends)

lemma keeps_oper:
  assumes "uuid_v7_ok L"
  shows "keeps L oper"
  unfolding keeps_def
proof (intro allI impI)
  fix db y db'
  assume ok: "tables_ok L db" and o: "oper db = Inr (y, db')"
  have "ids_ok db" using ok by (simp add: tables_ok_def)
  then show "grows L db db'"
    unfolding grows_def
    using keeps_tables [OF ok assms o] history_evolves [OF keeps_history [OF ok assms o]]
      keeps_jobs [OF _ assms o] keeps_covered [OF ok assms o] by blast
qed

end

section \<open>The transitions of the store\<close>

lemmas transition_defs = mark_watch_registered_def apply_payment_pending_def
  apply_payment_confirmed_def apply_threshold_reached_def apply_expired_def
  apply_settlement_included_def apply_settled_def apply_failed_def retry_settlement_def
  reregister_watch_def enqueue_execute_def

lemmas change_defs = stamp_def terms_of_def stamps_ok_def needs_def

lemma then_event_None [simp]: "then_event L now ty data None = tx_return None"
  by (simp add: then_event_def)

lemma miss_None:
  assumes "\<forall>r \<in> set (deposits db). d_id r = i \<longrightarrow> \<not> guard r" "tail None = tx_return y"
  shows "and_then (update_deposit now f (\<lambda>d. d_id d = i \<and> guard d)) tail db = Inr (y, db)"
  using assms(2) by (simp add: update_deposit_miss [OF assms(1)] and_then_def tx_return_def)

lemma is_open_cases: "is_open s \<longleftrightarrow> s = Pending \<or> s = PartialPaid"
  by (simp add: is_open_def)

text \<open>What an update of a row has to respect, apart from the statement it is part of.\<close>

definition lawful :: "(deposit \<Rightarrow> bool) \<Rightarrow> (deposit \<Rightarrow> deposit) \<Rightarrow> string list \<Rightarrow> bool" where
  "lawful guard f jobs = (\<forall>d. terms_of (f d) = terms_of d \<and> d_event_seq (f d) = d_event_seq d
     \<and> (guard d \<longrightarrow> status_step (d_status d) (d_status (f d)) \<and> (stamps_ok d \<longrightarrow> stamps_ok (f d))
        \<and> (\<forall>k. needs k (f d) \<longrightarrow> needs k d \<or> k \<in> set jobs)))"

lemma stamp_simps [simp]:
  "terms_of (stamp now f d) = terms_of (f d)" "d_event_seq (stamp now f d) = d_event_seq (f d)"
  "d_status (stamp now f d) = d_status (f d)" "stamps_ok (stamp now f d) = stamps_ok (f d)"
  "needs k (stamp now f d) = needs k (f d)" "d_id (stamp now f d) = d_id (f d)"
  by (simp_all add: stamp_def terms_of_def stamps_ok_def needs_def)

lemma lawful_stamp [simp]: "lawful guard (stamp now f) jobs = lawful guard f jobs"
  by (simp add: lawful_def)

lemma lawful_id: "lawful guard f jobs \<Longrightarrow> d_id (f d) = d_id d"
  by (rule terms_of_id) (simp add: lawful_def)

lemma transition_lawful:
  assumes "lawful guard f jobs"
    and "\<And>db. \<forall>r \<in> set (deposits db). d_id r = i \<longrightarrow> \<not> guard r \<Longrightarrow> oper db = Inr (missed, db)"
    and "\<And>db r. ids_ok db \<Longrightarrow> r \<in> set (deposits db) \<Longrightarrow> d_id r = i \<Longrightarrow> guard r \<Longrightarrow> uuid_v7_ok L
      \<Longrightarrow> fires L i oper f types jobs r db"
  shows "transition L i oper missed guard f types jobs"
  using assms by unfold_locales (auto simp: lawful_def)

lemma transition_event:
  assumes "lawful guard f []"
  shows "transition L i (and_then (update_deposit now f (\<lambda>d. d_id d = i \<and> guard d)) (then_event L now ty data))
           None guard (stamp now f) [ty] []"
proof (rule transition_lawful)
  fix db r
  assume "ids_ok db" "r \<in> set (deposits db)" "d_id r = i" "guard r" "uuid_v7_ok L"
  then show "fires L i (and_then (update_deposit now f (\<lambda>d. d_id d = i \<and> guard d)) (then_event L now ty data))
      (stamp now f) [ty] [] r db"
    using fires_event [where guard = guard and f = f] lawful_id [OF assms] assms
    by (simp add: lawful_def)
next
  show "lawful guard (stamp now f) []" using assms by simp
next
  fix db :: db
  assume "\<forall>r \<in> set (deposits db). d_id r = i \<longrightarrow> \<not> guard r"
  then show "and_then (update_deposit now f (\<lambda>d. d_id d = i \<and> guard d)) (then_event L now ty data) db = Inr (None, db)"
    by (rule miss_None) simp
qed

lemma transition_event_job:
  assumes "lawful guard f [kind]" "upstream kind"
  shows "transition L i (and_then (update_deposit now f (\<lambda>d. d_id d = i \<and> guard d))
           (\<lambda>x. case x of None \<Rightarrow> tx_return no | Some d \<Rightarrow>
              and_then (record_event L now d ty data) (\<lambda>e.
                and_then (enqueue L now kind (d_id d) (payload d e)) (\<lambda>_. tx_return (yes d)))))
           no guard (stamp now f) [ty] [kind]"
proof (rule transition_lawful)
  fix db r
  assume "ids_ok db" "r \<in> set (deposits db)" "d_id r = i" "guard r" "uuid_v7_ok L"
  then show "fires L i (and_then (update_deposit now f (\<lambda>d. d_id d = i \<and> guard d))
           (\<lambda>x. case x of None \<Rightarrow> tx_return no | Some d \<Rightarrow>
              and_then (record_event L now d ty data) (\<lambda>e.
                and_then (enqueue L now kind (d_id d) (payload d e)) (\<lambda>_. tx_return (yes d)))))
      (stamp now f) [ty] [kind] r db"
    using fires_event_job [where guard = guard and f = f] lawful_id [OF assms(1)] assms
    by (simp add: lawful_def)
next
  show "lawful guard (stamp now f) [kind]" using assms by simp
next
  fix db :: db
  assume "\<forall>r \<in> set (deposits db). d_id r = i \<longrightarrow> \<not> guard r"
  then show "and_then (update_deposit now f (\<lambda>d. d_id d = i \<and> guard d))
           (\<lambda>x. case x of None \<Rightarrow> tx_return no | Some d \<Rightarrow>
              and_then (record_event L now d ty data) (\<lambda>e.
                and_then (enqueue L now kind (d_id d) (payload d e)) (\<lambda>_. tx_return (yes d)))) db = Inr (no, db)"
    by (rule miss_None) simp
qed

lemma lawful_open:
  "lawful (\<lambda>d. is_open (d_status d))
     (\<lambda>d. d\<lparr>d_status := PartialPaid, d_detected_at := coalesce (d_detected_at d) (Some now)\<rparr>) []"
  "lawful (\<lambda>d. is_open (d_status d))
     (\<lambda>d. d\<lparr>d_status := PartialPaid, d_detected_at := coalesce (d_detected_at d) (Some now),
        d_confirmed_amount := amount\<rparr>) []"
  "lawful (\<lambda>d. is_open (d_status d))
     (\<lambda>d. d\<lparr>d_status := Paid, d_detected_at := coalesce (d_detected_at d) (Some now),
        d_confirmed_amount := amount\<rparr>) [''submit_execute'']"
  "lawful (\<lambda>d. is_open (d_status d)) (\<lambda>d. d\<lparr>d_status := Expired, d_expired_at := Some now\<rparr>) []"
  "lawful (\<lambda>d. is_open (d_status d)) (\<lambda>d. d\<lparr>d_watch_id := None, d_watch_registered_at := None\<rparr>)
     [''register_watch'']"
  "lawful (\<lambda>d. d_watch_id d = None)
     (\<lambda>d. d\<lparr>d_watch_id := Some w, d_watch_registered_at := Some now\<rparr>) []"
  by (auto simp: lawful_def terms_of_def stamps_ok_def needs_def is_open_cases)

lemma lawful_paid:
  "lawful (\<lambda>d. d_status d = Paid \<and> (d_engine_job_id d = None \<or> d_engine_job_id d = Some job))
     (\<lambda>d. d\<lparr>d_engine_job_id := Some job, d_engine_submitted_at := Some now\<rparr>) []"
  "lawful (\<lambda>d. d_status d = Paid) (\<lambda>d. d\<lparr>d_tx_hash := Some h, d_block_number := block\<rparr>) []"
  "lawful (\<lambda>d. d_status d = Paid)
     (\<lambda>d. d\<lparr>d_status := Settled, d_settled_at := Some now, d_tx_hash := Some h,
        d_block_number := coalesce block (d_block_number d)\<rparr>) []"
  "lawful (\<lambda>d. d_status d = Paid)
     (\<lambda>d. d\<lparr>d_status := Failed, d_failed_at := Some now, d_failure_code := Some c,
        d_failure_message := Some message, d_tx_hash := coalesce tx_hash (d_tx_hash d),
        d_failure_revert_data := revert\<rparr>) []"
  "lawful (\<lambda>d. d_status d = Failed)
     (\<lambda>d. d\<lparr>d_status := Paid, d_engine_job_id := None, d_engine_submitted_at := None,
        d_failure_code := None, d_failure_message := None, d_failure_revert_data := None,
        d_failed_at := None\<rparr>) [''submit_execute'']"
  "lawful (\<lambda>_. True) (\<lambda>d. d) []"
  by (auto simp: lawful_def terms_of_def stamps_ok_def needs_def is_open_cases)

lemma upstream_kinds_upstream [simp]: "upstream ''submit_execute''" "upstream ''register_watch''"
  by (simp_all add: upstream_def)

interpretation watch_registered: transition L i "mark_watch_registered L now i w" None
  "\<lambda>d. d_watch_id d = None"
  "stamp now (\<lambda>d. d\<lparr>d_watch_id := Some w, d_watch_registered_at := Some now\<rparr>)"
  "[ev_watch_registered]" "[]" for L now i w
  unfolding mark_watch_registered_def by (rule transition_event [OF lawful_open(6)])

interpretation payment_pending: transition L i "apply_payment_pending L now i data" None
  "\<lambda>d. is_open (d_status d)"
  "stamp now (\<lambda>d. d\<lparr>d_status := PartialPaid, d_detected_at := coalesce (d_detected_at d) (Some now)\<rparr>)"
  "[ev_detected]" "[]" for L now i data
  unfolding apply_payment_pending_def by (rule transition_event [OF lawful_open(1)])

interpretation payment_confirmed: transition L i "apply_payment_confirmed L now i confirmed data" None
  "\<lambda>d. is_open (d_status d)"
  "stamp now (\<lambda>d. d\<lparr>d_status := PartialPaid, d_detected_at := coalesce (d_detected_at d) (Some now),
     d_confirmed_amount := u256_to_string confirmed\<rparr>)"
  "[ev_payment_confirmed]" "[]" for L now i confirmed data
  unfolding apply_payment_confirmed_def by (rule transition_event [OF lawful_open(2)])

interpretation threshold_reached: transition L i "apply_threshold_reached L now i confirmed data" None
  "\<lambda>d. is_open (d_status d)"
  "stamp now (\<lambda>d. d\<lparr>d_status := Paid, d_detected_at := coalesce (d_detected_at d) (Some now),
     d_confirmed_amount := u256_to_string confirmed\<rparr>)"
  "[ev_ready]" "[''submit_execute'']" for L now i confirmed data
  unfolding apply_threshold_reached_def enqueue_execute_def
  by (rule transition_event_job [OF lawful_open(3)]) simp

interpretation deposit_expired: transition L i "apply_expired L now i data" None
  "\<lambda>d. is_open (d_status d)"
  "stamp now (\<lambda>d. d\<lparr>d_status := Expired, d_expired_at := Some now\<rparr>)"
  "[ev_expired]" "[]" for L now i data
  unfolding apply_expired_def by (rule transition_event [OF lawful_open(4)])

interpretation settlement_included: transition L i "apply_settlement_included L now i h block data" None
  "\<lambda>d. d_status d = Paid" "stamp now (\<lambda>d. d\<lparr>d_tx_hash := Some h, d_block_number := block\<rparr>)"
  "[ev_settlement_included]" "[]" for L now i h block data
  unfolding apply_settlement_included_def by (rule transition_event [OF lawful_paid(2)])

interpretation deposit_settled: transition L i "apply_settled L now i h block data" None
  "\<lambda>d. d_status d = Paid"
  "stamp now (\<lambda>d. d\<lparr>d_status := Settled, d_settled_at := Some now, d_tx_hash := Some h,
     d_block_number := coalesce block (d_block_number d)\<rparr>)"
  "[ev_settled]" "[]" for L now i h block data
  unfolding apply_settled_def by (rule transition_event [OF lawful_paid(3)])

interpretation deposit_failed: transition L i "apply_failed L now i c message tx_hash revert data" None
  "\<lambda>d. d_status d = Paid"
  "stamp now (\<lambda>d. d\<lparr>d_status := Failed, d_failed_at := Some now, d_failure_code := Some c,
     d_failure_message := Some message, d_tx_hash := coalesce tx_hash (d_tx_hash d),
     d_failure_revert_data := map_option (l_fmt_bytes L) revert\<rparr>)"
  "[ev_failed]" "[]" for L now i c message tx_hash revert data
  unfolding apply_failed_def by (rule transition_event [OF lawful_paid(4)])

interpretation settlement_retried: transition L i "retry_settlement L now i" None
  "\<lambda>d. d_status d = Failed"
  "stamp now (\<lambda>d. d\<lparr>d_status := Paid, d_engine_job_id := None, d_engine_submitted_at := None,
     d_failure_code := None, d_failure_message := None, d_failure_revert_data := None,
     d_failed_at := None\<rparr>)"
  "[ev_settlement_retried]" "[''submit_execute'']" for L now i
  unfolding retry_settlement_def enqueue_execute_def
  by (rule transition_event_job [OF lawful_paid(5)]) simp

interpretation watch_lost: transition L i "reregister_watch L now i" False
  "\<lambda>d. is_open (d_status d)"
  "stamp now (\<lambda>d. d\<lparr>d_watch_id := None, d_watch_registered_at := None\<rparr>)"
  "[ev_watch_lost]" "[''register_watch'']" for L now i
  unfolding reregister_watch_def by (rule transition_event_job [OF lawful_open(5)]) simp

interpretation engine_submitted: transition L i "mark_engine_submitted L now i job replayed" None
  "\<lambda>d. d_status d = Paid \<and> (d_engine_job_id d = None \<or> d_engine_job_id d = Some job)"
  "stamp now (\<lambda>d. d\<lparr>d_engine_job_id := Some job, d_engine_submitted_at := Some now\<rparr>)"
  "if replayed then [] else [ev_settlement_submitted]" "[]" for L now i job replayed
proof (cases replayed)
  case True
  show "transition L i (mark_engine_submitted L now i job replayed) None
      (\<lambda>d. d_status d = Paid \<and> (d_engine_job_id d = None \<or> d_engine_job_id d = Some job))
      (stamp now (\<lambda>d. d\<lparr>d_engine_job_id := Some job, d_engine_submitted_at := Some now\<rparr>))
      (if replayed then [] else [ev_settlement_submitted]) []"
    unfolding mark_engine_submitted_def using True
    by (auto intro!: transition_lawful miss_None fires_quiet [where yes = Some] lawful_paid(1))
next
  case False
  show "transition L i (mark_engine_submitted L now i job replayed) None
      (\<lambda>d. d_status d = Paid \<and> (d_engine_job_id d = None \<or> d_engine_job_id d = Some job))
      (stamp now (\<lambda>d. d\<lparr>d_engine_job_id := Some job, d_engine_submitted_at := Some now\<rparr>))
      (if replayed then [] else [ev_settlement_submitted]) []"
    unfolding mark_engine_submitted_def using False
    by (simp add: transition_event [OF lawful_paid(1)])
qed

interpretation payment_orphaned: transition L i "apply_payment_orphaned L now i data" None
  "\<lambda>_. True" "\<lambda>d. d" "[ev_payment_orphaned]" "[]" for L now i data
proof (rule transition_lawful)
  fix db r
  assume r: "ids_ok db" "r \<in> set (deposits db)" "d_id r = i" "uuid_v7_ok L"
  obtain e js db' where e: "record_event L now r ev_payment_orphaned data db = Inr (e, db')"
      "moved L (d_id r) \<lparr>x_change = bump 1, x_events = [e], x_jobs = js\<rparr> db db'"
      "upstream_kinds js = []" "e_sequence e = d_event_seq r + 1" "e_type e = ev_payment_orphaned"
    using record_event_moved [OF r(1,2) refl r(4)] by blast
  have "apply_payment_orphaned L now i data db = Inr (Some r, db')"
    using e(1) find_id [OF r(1-3)]
    by (simp add: apply_payment_orphaned_def select_deposit_def then_event_def and_then_def tx_return_def)
  moreover have "bump (int (length [ev_payment_orphaned])) \<circ> (\<lambda>d. d) = bump 1"
    by (simp add: fun_eq_iff)
  ultimately show "fires L i (apply_payment_orphaned L now i data) (\<lambda>d. d) [ev_payment_orphaned] [] r db"
    unfolding fires_def using e(2-5) r(3)
    by (intro exI [of _ "Some r"] exI [of _ "[e]"] exI [of _ js] exI [of _ db']) simp
next
  fix db :: db
  assume "\<forall>r \<in> set (deposits db). d_id r = i \<longrightarrow> \<not> True"
  then have "find (\<lambda>d. d_id d = i) (deposits db) = None" by (auto simp: find_None_iff)
  then show "apply_payment_orphaned L now i data db = Inr (None, db)"
    by (simp add: apply_payment_orphaned_def select_deposit_def tx_return_def)
qed (rule lawful_paid(6))

lemma touch_stamp:
  "touch now i db = Inr ((), db\<lparr>deposits := upd_rows (\<lambda>d. d_id d = i) (stamp now (\<lambda>d. d)) (deposits db)\<rparr>)"
  by (simp add: touch_def stamp_def [abs_def])

interpretation touched: transition L i "touch now i" "()" "\<lambda>_. True" "stamp now (\<lambda>d. d)" "[]" "[]"
  for L now i
proof (rule transition_lawful)
  show "lawful (\<lambda>_. True) (stamp now (\<lambda>d. d)) []" by (simp add: lawful_paid(6))
next
  fix db r
  have "moved L i \<lparr>x_change = bump (int (length [])) \<circ> stamp now (\<lambda>d. d), x_events = [], x_jobs = []\<rparr> db
      (db\<lparr>deposits := upd_rows (\<lambda>d. d_id d = i) (stamp now (\<lambda>d. d)) (deposits db)\<rparr>)"
    by (simp add: moved_def o_def)
  then show "fires L i (touch now i) (stamp now (\<lambda>d. d)) [] [] r db"
    unfolding fires_def touch_stamp by (fastforce simp: upstream_kinds_def)
next
  fix db :: db
  assume "\<forall>r \<in> set (deposits db). d_id r = i \<longrightarrow> \<not> True"
  then show "touch now i db = Inr ((), db)"
    by (auto simp: touch_stamp upd_rows_none)
qed

lemmas keeps_transitions = watch_registered.keeps_oper payment_pending.keeps_oper
  payment_confirmed.keeps_oper threshold_reached.keeps_oper deposit_expired.keeps_oper
  settlement_included.keeps_oper deposit_settled.keeps_oper deposit_failed.keeps_oper
  settlement_retried.keeps_oper watch_lost.keeps_oper engine_submitted.keeps_oper
  payment_orphaned.keeps_oper touched.keeps_oper

declare keeps_transitions [keeps_intros]

end
