(* ===== verification/Create_Laws.thy ===== *)
theory Create_Laws
  imports Store_Laws
begin

text \<open>
  Creating a deposit: the transaction of \<open>create_deposit\<close> keeps the tables, and an idempotency key
  answers every repetition of a request with the deposit of the first.
\<close>

section \<open>The new row\<close>

lemma new_row_simps [simp]:
  "d_id (new_row L now i user n) = i" "d_status (new_row L now i user n) = Pending"
  "d_event_seq (new_row L now i user n) = 0" "d_watch_id (new_row L now i user n) = None"
  "d_engine_job_id (new_row L now i user n) = None"
  by (simp_all add: new_row_def)

lemma stamps_ok_new_row: "stamps_ok (new_row L now i user n)"
  by (simp add: stamps_ok_def new_row_def)

lemma fresh_id:
  assumes "tables_ok L db" "uuid_v7_ok L"
  shows "l_uuid_v7 L (uuid_ctr db) \<notin> d_id ` set (deposits db)"
proof
  assume "l_uuid_v7 L (uuid_ctr db) \<in> d_id ` set (deposits db)"
  then have "issued L db (l_uuid_v7 L (uuid_ctr db))" using assms(1) by (auto simp: tables_ok_def)
  then obtain m where "m < uuid_ctr db" "l_uuid_v7 L (uuid_ctr db) = l_uuid_v7 L m"
    by (auto simp: issued_def)
  then show False
    using assms(2) by (simp add: uuid_v7_ok_def strict_mono_eq)
qed

lemma in_upstream_kinds:
  assumes "k \<in> set (upstream_kinds js)"
  obtains j where "j \<in> set js" "o_kind j = k"
  using assms that by (auto simp: upstream_kinds_def)

text \<open>The tables right after the insert, before the first event.\<close>

definition with_row :: "lib \<Rightarrow> time \<Rightarrow> string \<Rightarrow> new_deposit \<Rightarrow> db \<Rightarrow> db" where
  "with_row L now user n db = db\<lparr>uuid_ctr := Suc (uuid_ctr db),
     deposits := deposits db @ [new_row L now (l_uuid_v7 L (uuid_ctr db)) user n]\<rparr>"

lemma tables_ok_with_row:
  assumes "tables_ok L db" "uuid_v7_ok L"
  shows "tables_ok L (with_row L now user n db)"
proof -
  let ?i = "l_uuid_v7 L (uuid_ctr db)" and ?db = "with_row L now user n db"
  have fresh: "?i \<notin> d_id ` set (deposits db)" by (rule fresh_id [OF assms])
  have iss: "issued L db a \<Longrightarrow> issued L ?db a" for a
    by (auto simp: issued_def with_row_def less_Suc_eq)
  have "filter (\<lambda>e. e_deposit_id e = ?i) (deposit_events db) = []"
    using assms(1) fresh unfolding tables_ok_def filter_empty_conv by metis
  then have "timeline_ok ?db (new_row L now ?i user n)"
    by (simp add: timeline_ok_def with_row_def)
  moreover have "issued L ?db ?i" by (auto simp: issued_def with_row_def)
  moreover have "timeline_ok ?db d = timeline_ok db d" for d
    by (simp add: timeline_ok_def with_row_def)
  ultimately show ?thesis
    using assms(1) fresh iss stamps_ok_new_row
    by (auto simp: tables_ok_def ids_ok_def with_row_def)
qed

lemma insert_deposit_eq:
  "insert_deposit L now user n db = Inr (d, db') \<Longrightarrow>
     d = new_row L now (l_uuid_v7 L (uuid_ctr db)) user n \<and> db' = with_row L now user n db"
  by (auto simp: insert_deposit_def and_then_def new_uuid_def Let_def with_row_def split: if_splits)

lemma claim_key_eq:
  "claim_key now user idem i db = Inr (b, db') \<Longrightarrow>
     deposits db' = deposits db \<and> deposit_events db' = deposit_events db \<and> outbox db' = outbox db
     \<and> uuid_ctr db' = uuid_ctr db"
  by (auto simp: claim_key_def split: option.splits if_splits)

text \<open>The transaction either rolled back, or appended the row, its first event and its first job.\<close>

lemma create_tx_cases:
  assumes "tables_ok L db" "uuid_v7_ok L" "create_tx L now user n idem db = Inr (r, db')"
  obtains (lost) "r = None" "db' = db"
  | (made) d db1 e js where "r = Some d" "d = new_row L now (l_uuid_v7 L (uuid_ctr db)) user n"
      "deposits db1 = deposits db @ [d]" "deposit_events db1 = deposit_events db"
      "outbox db1 = outbox db" "uuid_ctr db1 = Suc (uuid_ctr db)" "tables_ok L db1"
      "moved L (d_id d) \<lparr>x_change = bump 1, x_events = [e], x_jobs = js\<rparr> db1 db'"
      "e_sequence e = 1" "e_type e = ev_created" "upstream_kinds js = [''register_watch'']"
proof -
  obtain d db0 b db1 where i: "insert_deposit L now user n db = Inr (d, db0)"
      and c: "claim_key now user idem (d_id d) db0 = Inr (b, db1)"
      and rest: "(if \<not> b then (\<lambda>_. Inr (None, db))
        else and_then (record_event L now d ev_created (JObj [])) (\<lambda>_.
             and_then (enqueue L now ''register_watch'' (d_id d) (JObj [])) (\<lambda>_. tx_return (Some d)))) db1
        = Inr (r, db')"
    using assms(3) by (auto simp: create_tx_def and_then_eq_Inr)
  have d: "d = new_row L now (l_uuid_v7 L (uuid_ctr db)) user n" "db0 = with_row L now user n db"
    using insert_deposit_eq [OF i] by simp_all
  have db1: "deposits db1 = deposits db @ [d]" "deposit_events db1 = deposit_events db"
      "outbox db1 = outbox db" "uuid_ctr db1 = Suc (uuid_ctr db)"
    using claim_key_eq [OF c] d by (simp_all add: with_row_def)
  have ok1: "tables_ok L db1"
    using tables_ok_with_row [OF assms(1,2), of now user n] claim_key_eq [OF c] d(2)
    by (simp add: tables_ok_cong [of db1 db0])
  show thesis
  proof (cases b)
    case False
    then show thesis using rest lost by simp
  next
    case True
    have row: "d \<in> set (deposits db1)" "ids_ok db1" using db1 ok1 by (simp_all add: tables_ok_def)
    obtain e js db2 where e: "record_event L now d ev_created (JObj []) db1 = Inr (e, db2)"
        "moved L (d_id d) \<lparr>x_change = bump 1, x_events = [e], x_jobs = js\<rparr> db1 db2"
        "upstream_kinds js = []" "e_sequence e = d_event_seq d + 1" "e_type e = ev_created"
      using record_event_moved [OF row(2,1) refl assms(2)] by blast
    obtain j db3 where j: "enqueue L now ''register_watch'' (d_id d) (JObj []) db2 = Inr ((), db3)"
        "moved L (d_id d) \<lparr>x_change = \<lambda>d. d, x_events = [], x_jobs = [j]\<rparr> db2 db3"
        "o_kind j = ''register_watch''"
      by (rule enqueue_moved)
    have "r = Some d" "db' = db3"
      using rest True e(1) j(1) by (auto simp: and_then_def tx_return_def)
    moreover have "moved L (d_id d) \<lparr>x_change = bump 1, x_events = [e], x_jobs = js @ [j]\<rparr> db1 db3"
      using moved_trans [OF e(2) j(2) _ assms(2)] by (simp add: o_def)
    ultimately show thesis
      using made [of d db1 e "js @ [j]"] d db1 ok1 e j(3) by (simp add: upstream_kinds_def)
  qed
qed

lemma keeps_create_tx [keeps_intros]:
  assumes "uuid_v7_ok L"
  shows "keeps L (create_tx L now user n idem)"
  unfolding keeps_def
proof (intro allI impI)
  fix db r db'
  assume ok: "tables_ok L db" and c: "create_tx L now user n idem db = Inr (r, db')"
  from ok assms c show "grows L db db'"
  proof (cases rule: create_tx_cases)
    case lost
    then show ?thesis using ok by (simp add: grows_refl)
  next
    case (made d db1 e js)
    have old: "x \<in> set (deposits db')" "d_id x \<noteq> d_id d" if "x \<in> set (deposits db)" for x
    proof -
      show ne: "d_id x \<noteq> d_id d" using fresh_id [OF ok assms] that made(2) by force
      show "x \<in> set (deposits db')"
        using made(3,8) that ne by (auto simp: moved_def in_upd_rows intro!: bexI [of _ x])
    qed
    have "tables_ok L db'"
      using moved_tables_ok [of L db1 d "d_id d" 1 "\<lambda>d. d" "[e]" js db'] made assms stamps_ok_new_row
      by (simp add: o_def)
    moreover have "history db db'"
    proof -
      have "\<exists>x' \<in> set (deposits db'). terms_of x' = terms_of x \<and> status_path (d_status x) (d_status x')
          \<and> d_event_seq x \<le> d_event_seq x'" if "x \<in> set (deposits db)" for x
        using old [OF that] by (intro bexI [of _ x]) (simp_all add: status_path_def)
      then show ?thesis using made by (simp add: history_def moved_def)
    qed
    moreover have "covered F db'" if F: "\<forall>a \<in> F. issued L db a" and cov: "covered F db" for F
      unfolding covered_def
    proof (intro allI ballI impI)
      fix k x
      assume x: "x \<in> set (deposits db')" "needs k x"
      then have "x \<in> set (upd_rows (\<lambda>r. d_id r = d_id d) (bump 1) (deposits db1))"
        using made(8) by (simp add: moved_def)
      then show "carried F db' k (d_id x)"
      proof (cases rule: in_upd_rowsE)
        case (hit r)
        then have "r = d" using made(3) old(2) [of r] by auto
        then have "needs k d" using hit(3) x(2) by simp
        then have "k = ''register_watch''" using made(2) by (simp add: needs_def split: if_splits)
        moreover obtain j where j: "j \<in> set js" "o_kind j = ''register_watch''"
          using in_upstream_kinds [of "''register_watch''" js] made(11) by auto
        moreover have "drawn L db1 db' (o_id j)" using made(8) j by (simp add: moved_def)
        then have "drawn L db db' (o_id j)" by (rule drawn_mono) (simp_all add: made(6))
        then have "o_id j \<notin> F" using F issued_drawn_less [OF assms] by blast
        ultimately show ?thesis using made(8) hit(2,3) by (auto simp: carried_def moved_def)
      next
        case miss
        then have "x \<in> set (deposits db)" using made(3) by auto
        then have "carried F db k (d_id x)" using cov x(2) by (auto simp: covered_def)
        then show ?thesis using made(5,8) by (auto simp: carried_def moved_def)
      qed
    qed
    moreover have "appends L db db1" using made(5,6) by (simp add: appends_def)
    then have "appends L db db'" using appends_trans moved_appends [OF made(8)] by blast
    ultimately show ?thesis by (simp add: grows_def)
  qed
qed

end
