(* ===== verification/Inbound.thy ===== *)
theory Inbound
  imports Create_Laws Webhook_Auth Api_Error
begin

text \<open>
  \<^verbatim>\<open>src/webhooks/inbound.rs\<close>: the two webhook routes gum-indexer and gum-engine deliver to, with
  \<open>EngineError\<close> of \<^verbatim>\<open>src/clients/engine.rs\<close>. Metrics and log lines are left out.
\<close>

section \<open>Events\<close>

record indexer_watch =
  iw_id :: uuid
  iw_chain_id :: nat
  iw_payment_address :: address
  iw_confirmed_amount :: "string option"
  iw_status :: "string option"

record indexer_event =
  ix_id :: string
  ix_type :: string
  ix_sequence :: "int option"
  ix_watch :: indexer_watch
  ix_transfer :: "json option"

record engine_error =
  ee_code :: string
  ee_message :: string
  ee_revert_data :: "string option"

record engine_event =
  en_event_id :: string
  en_event :: string
  en_job_id :: uuid
  en_sequence :: "int option"
  en_status :: "string option"
  en_outcome :: "string option"
  en_tx_hash :: "b256 option"
  en_block_number :: "nat option"
  en_receipt :: "json option"
  en_reincluded :: bool
  en_error :: "engine_error option"

text \<open>
  Configuration, and \<^verbatim>\<open>serde\<close>'s readers of the request bodies and of a receipt's logs (a parameter:
  derived code).
\<close>

record inbound_env =
  ie_indexer_secret :: string
  ie_engine_secret :: string
  ie_tolerance_secs :: int
  ie_parse_indexer :: "bytes \<Rightarrow> string + indexer_event"
  ie_parse_engine :: "bytes \<Rightarrow> string + engine_event"
  ie_parse_logs :: "json \<Rightarrow> receipt_log list option"

definition revert_bytes :: "lib \<Rightarrow> engine_error \<Rightarrow> bytes option" where
  "revert_bytes L e = Option.bind (ee_revert_data e) (l_parse_bytes L)"

definition confirmed_of :: "lib \<Rightarrow> string option \<Rightarrow> u256" where
  "confirmed_of L amount = unwrap_or 0 (Option.bind amount (l_u256_radix10 L))"

definition retryable_engine_errors :: "string list" where
  "retryable_engine_errors = [''expired'', ''stuck_cancelled'', ''internal'']"

definition max_auto_retries :: nat where "max_auto_retries = 3"

definition unknown_job_grace_secs :: nat where "unknown_job_grace_secs = 600"

section \<open>Verification\<close>

text \<open>\<open>header\<close> is the text of \<open>x-gum-signature\<close>, if the request has one that is visible ASCII.\<close>

definition inbound_verify ::
    "lib \<Rightarrow> inbound_env \<Rightarrow> time \<Rightarrow> string \<Rightarrow> string option \<Rightarrow> bytes \<Rightarrow> api_error + unit" where
  "inbound_verify L E now secret header body =
     (if secret = [] then
        Inl (api_unavailable ''webhook_unconfigured'' ''inbound webhook secret is not configured'')
      else if \<not> sign_verify L secret (unwrap_or [] header) body (timestamp now) (ie_tolerance_secs E)
      then Inl (api_unauthorized ''invalid webhook signature'')
      else Inr ())"

definition parse_event :: "(bytes \<Rightarrow> string + 'e) \<Rightarrow> string \<Rightarrow> bytes \<Rightarrow> api_error + 'e" where
  "parse_event from_slice source body = (case from_slice body of
       Inl e \<Rightarrow> Inl (api_invalid (''malformed '' @ source @ '' event: '' @ e))
     | Inr event \<Rightarrow> Inr event)"

section \<open>How a handler ends\<close>

text \<open>
  A handler runs in one transaction. \<open>CommitWith\<close> commits and answers; \<open>DropWith\<close> answers and drops
  the transaction, which rolls it back.
\<close>

datatype 'r ending = CommitWith 'r | DropWith 'r

type_synonym response = "api_error + nat"

definition run_handler :: "tx_fault \<Rightarrow> response ending tx \<Rightarrow> db \<Rightarrow> response \<times> db" where
  "run_handler f m db = (case f of
       BeginFault e \<Rightarrow> (Inl (api_of_sqlx e), db)
     | StatementFault e \<Rightarrow> (Inl (api_of_sqlx e), db)
     | CommitFault e committed \<Rightarrow>
        (case m db of
           Inl e' \<Rightarrow> (Inl (api_of_sqlx e'), db)
         | Inr (DropWith r, _) \<Rightarrow> (r, db)
         | Inr (CommitWith r, db') \<Rightarrow> (Inl (api_of_sqlx e), if committed then db' else db))
     | NoFault \<Rightarrow>
        (case m db of
           Inl e \<Rightarrow> (Inl (api_of_sqlx e), db)
         | Inr (DropWith r, _) \<Rightarrow> (r, db)
         | Inr (CommitWith r, db') \<Rightarrow> (r, db')))"

section \<open>gum-indexer\<close>

definition adopt_watch :: "time \<Rightarrow> uuid \<Rightarrow> uuid \<Rightarrow> unit tx" where
  "adopt_watch now i w db = Inr ((), db\<lparr>deposits := upd_rows (\<lambda>d. d_id d = i \<and> d_watch_id d = None)
     (\<lambda>d. d\<lparr>d_watch_id := Some w, d_watch_registered_at := coalesce (d_watch_registered_at d) (Some now)\<rparr>)
     (deposits db)\<rparr>)"

definition lookup_watch :: "lib \<Rightarrow> db \<Rightarrow> indexer_watch \<Rightarrow> deposit option" where
  "lookup_watch L db w = (case get_by_watch db (iw_id w) of
       Some d \<Rightarrow> Some d
     | None \<Rightarrow> get_by_payment_address L db (iw_chain_id w) (iw_payment_address w))"

definition indexer_data :: "lib \<Rightarrow> indexer_event \<Rightarrow> json" where
  "indexer_data L event = JObj [(''indexer_event_id'', JStr (ix_id event)),
     (''transfer'', jopt (\<lambda>t. t) (ix_transfer event)),
     (''confirmed_amount'', JStr (u256_to_string (confirmed_of L (iw_confirmed_amount (ix_watch event)))))]"

definition indexer_transition :: "lib \<Rightarrow> time \<Rightarrow> indexer_event \<Rightarrow> uuid \<Rightarrow> deposit option tx" where
  "indexer_transition L now event i =
     (let data = indexer_data L event; confirmed = confirmed_of L (iw_confirmed_amount (ix_watch event)) in
      if ix_type event = ''payment.pending'' then apply_payment_pending L now i data
      else if ix_type event = ''payment.confirmed'' then apply_payment_confirmed L now i confirmed data
      else if ix_type event = ''payment.orphaned'' then apply_payment_orphaned L now i data
      else if ix_type event = ''threshold.reached'' then apply_threshold_reached L now i confirmed data
      else if ix_type event = ''watch.expired'' then apply_expired L now i data
      else tx_return None)"

definition apply_indexer_event :: "lib \<Rightarrow> time \<Rightarrow> indexer_event \<Rightarrow> response ending tx" where
  "apply_indexer_event L now event =
     and_then (claim_inbound now ''indexer'' (ix_id event)) (\<lambda>fresh.
       if \<not> fresh then tx_return (DropWith (Inr 200))
       else (\<lambda>db. case lookup_watch L db (ix_watch event) of
           None \<Rightarrow> Inr (CommitWith (Inr 200), db)
         | Some d \<Rightarrow>
             and_then (if d_watch_id d = None then adopt_watch now (d_id d) (iw_id (ix_watch event))
                       else tx_return ()) (\<lambda>_.
             and_then (indexer_transition L now event (d_id d)) (\<lambda>_.
               tx_return (CommitWith (Inr 200)))) db))"

definition indexer_route ::
    "lib \<Rightarrow> inbound_env \<Rightarrow> tx_fault \<Rightarrow> time \<Rightarrow> string option \<Rightarrow> bytes \<Rightarrow> db \<Rightarrow> response \<times> db" where
  "indexer_route L E f now header body db =
     (case inbound_verify L E now (ie_indexer_secret E) header body of
        Inl e \<Rightarrow> (Inl e, db)
      | Inr _ \<Rightarrow> (case parse_event (ie_parse_indexer E) ''indexer'' body of
           Inl e \<Rightarrow> (Inl e, db)
         | Inr event \<Rightarrow> run_handler f (apply_indexer_event L now event) db))"

section \<open>What an engine event means\<close>

definition job_is_recent :: "lib \<Rightarrow> time \<Rightarrow> uuid \<Rightarrow> bool" where
  "job_is_recent L now job = (case l_uuid_unix L job of
       None \<Rightarrow> False
     | Some created \<Rightarrow> nat (max 0 (timestamp now)) - created < unknown_job_grace_secs)"

datatype settlement_outcome =
    SIncluded string "int option" json
  | SSettled string "int option" json
  | SFailed string string "string option" "bytes option" json
  | SPending

definition engine_failure ::
    "lib \<Rightarrow> engine_error option \<Rightarrow> string option \<Rightarrow> deposit \<Rightarrow> json \<Rightarrow> settlement_outcome option" where
  "engine_failure L err tx_hash d data =
     (let (default_code, default_message) = (if tx_hash \<noteq> None
            then (''execution_reverted'', ''PaymentFactory.execute reverted'')
            else (''failed'', ''the engine could not execute the transaction''));
          c = (case err of None \<Rightarrow> default_code | Some e \<Rightarrow> ee_code e);
          engine_message = unwrap_or default_message
            (filter_option (\<lambda>m. m \<noteq> []) (map_option ee_message err));
          revert_data = Option.bind err (revert_bytes L);
          data = jset ''engine_message'' (JStr engine_message) data
      in case revert_data of
           None \<Rightarrow> Some (SFailed (''engine_'' @ c) engine_message tx_hash revert_data data)
         | Some raw \<Rightarrow> (case deposit_calls L d of
             None \<Rightarrow> None
           | Some cs \<Rightarrow> Some (SFailed (''engine_'' @ c) (describe L (decode_execute L raw) cs) tx_hash
               revert_data (jset ''revert'' (json_of_revert (of_execute L raw cs)) data))))"

text \<open>The outcome of a successful \<open>execute\<close>, by the logs of the payment address.\<close>

fun settled_outcome :: "exec_outcome \<Rightarrow> string \<Rightarrow> int option \<Rightarrow> json \<Rightarrow> settlement_outcome" where
  "settled_outcome OSettled h block data = SSettled h block data"
| "settled_outcome ORecoveredOnly h block data = SFailed ''expired_on_chain''
     ''the payment expired before it was executed; the balance was forwarded to recovery'' (Some h) None data"
| "settled_outcome OWrongChain h block data = SFailed ''wrong_chain''
     (''Payment was deployed on a chain other than the deposit'' @ [CHR 0x27] @ ''s'') (Some h) None data"
| "settled_outcome ONoEvents h block data = SFailed ''unexpected_outcome''
     ''execute succeeded but the payment address emitted no Settled event'' (Some h) None data"

definition receipt_logs :: "inbound_env \<Rightarrow> json option \<Rightarrow> receipt_log list" where
  "receipt_logs E receipt = unwrap_or []
     (Option.bind (Option.bind receipt (\<lambda>r. jget r ''logs'')) (ie_parse_logs E))"

text \<open>\<open>None\<close> stands for the panic of \<open>expect\<close> on a stored row that does not parse.\<close>

definition from_receipt ::
    "lib \<Rightarrow> inbound_env \<Rightarrow> string option \<Rightarrow> string option \<Rightarrow> int option \<Rightarrow> json option
      \<Rightarrow> engine_error option \<Rightarrow> deposit \<Rightarrow> json \<Rightarrow> settlement_outcome option" where
  "from_receipt L E outcome tx_hash block receipt err d data =
     (case tx_hash of
        None \<Rightarrow> Some SPending
      | Some h \<Rightarrow>
         (let data = jset ''receipt'' (jopt (\<lambda>r. r) receipt) data in
          if outcome = Some ''success'' then
            map_option (\<lambda>addr. settled_outcome (execution_outcome L (receipt_logs E receipt) addr) h block data)
              (deposit_payment_address L d)
          else if outcome = Some ''reverted'' then engine_failure L err (Some h) d data
          else Some SPending))"

definition engine_data :: "lib \<Rightarrow> engine_event \<Rightarrow> json" where
  "engine_data L event = JObj [(''engine_event_id'', JStr (en_event_id event)),
     (''engine_job_id'', JStr (l_fmt_uuid L (en_job_id event))),
     (''tx_hash'', jopt JStr (map_option (l_fmt_b256 L) (en_tx_hash event))),
     (''block_number'', jopt (\<lambda>n. JInt (int n)) (en_block_number event)),
     (''outcome'', jopt JStr (en_outcome event)), (''reincluded'', JBool (en_reincluded event))]"

definition from_event :: "lib \<Rightarrow> inbound_env \<Rightarrow> engine_event \<Rightarrow> deposit \<Rightarrow> settlement_outcome option" where
  "from_event L E event d =
     (let tx_hash = map_option (l_fmt_b256 L) (en_tx_hash event);
          block = map_option as_i64 (en_block_number event);
          data = engine_data L event in
      if en_event event = ''transaction.included'' then
        Some (case tx_hash of None \<Rightarrow> SPending | Some h \<Rightarrow> SIncluded h block data)
      else if en_event event = ''transaction.confirmed'' then
        from_receipt L E (en_outcome event) tx_hash block (en_receipt event) (en_error event) d data
      else if en_event event = ''transaction.failed'' then
        engine_failure L (en_error event) tx_hash d data
      else Some SPending)"

section \<open>Applying a settlement outcome\<close>

definition resubmit :: "lib \<Rightarrow> time \<Rightarrow> uuid \<Rightarrow> json \<Rightarrow> bool tx" where
  "resubmit L now i data =
     and_then (update_deposit now (\<lambda>d. d\<lparr>d_engine_job_id := None, d_engine_submitted_at := None\<rparr>)
         (\<lambda>d. d_id d = i \<and> d_status d = Paid))
       (\<lambda>r. case r of
          None \<Rightarrow> tx_return False
        | Some d \<Rightarrow> and_then (record_event L now d ev_settlement_retried data) (\<lambda>event.
            and_then (enqueue_execute L now (d_id d) (e_sequence event)) (\<lambda>_. tx_return True)))"

definition retry_count :: "db \<Rightarrow> uuid \<Rightarrow> nat" where
  "retry_count db i = length (filter (\<lambda>e. e_deposit_id e = i \<and> e_type e = ev_settlement_retried)
     (deposit_events db))"

definition retry_data :: "string \<Rightarrow> string \<Rightarrow> json" where
  "retry_data c message = JObj [(''automatic'', JBool True), (''reason'', JStr c), (''detail'', JStr message)]"

definition auto_retryable :: "string \<Rightarrow> string option \<Rightarrow> bool" where
  "auto_retryable c tx_hash =
     (unwrap_or c (strip_prefix ''engine_'' c) \<in> set retryable_engine_errors \<and> tx_hash = None)"

definition is_changed :: "deposit option \<Rightarrow> bool tx" where
  "is_changed r = tx_return (r \<noteq> None)"

fun apply_settlement :: "lib \<Rightarrow> time \<Rightarrow> uuid \<Rightarrow> settlement_outcome \<Rightarrow> bool tx" where
  "apply_settlement L now i (SIncluded h block data) =
     and_then (apply_settlement_included L now i h block data) is_changed"
| "apply_settlement L now i (SSettled h block data) =
     and_then (apply_settled L now i h block data) is_changed"
| "apply_settlement L now i (SFailed c message tx_hash revert_data data) =
     (\<lambda>db. if auto_retryable c tx_hash \<and> retry_count db i < max_auto_retries
        then resubmit L now i (retry_data c message) db
        else and_then (apply_failed L now i c message tx_hash revert_data data) is_changed db)"
| "apply_settlement L now i SPending = tx_return False"

definition apply_engine_event :: "lib \<Rightarrow> inbound_env \<Rightarrow> time \<Rightarrow> engine_event \<Rightarrow> response ending tx" where
  "apply_engine_event L E now event =
     and_then (claim_inbound now ''engine'' (en_event_id event)) (\<lambda>fresh.
       if \<not> fresh then tx_return (DropWith (Inr 200))
       else (\<lambda>db. case get_by_engine_job db (en_job_id event) of
           None \<Rightarrow>
             (if job_is_recent L now (en_job_id event) then
               tx_return (DropWith (Inl (api_unavailable ''job_not_recorded_yet'' ''job not recorded yet; retry'')))
             else tx_return (CommitWith (Inr 200))) db
         | Some d \<Rightarrow>
            (case from_event L E event d of
               None \<Rightarrow> tx_return (DropWith (Inl api_internal))
             | Some outcome \<Rightarrow>
                 and_then (apply_settlement L now (d_id d) outcome) (\<lambda>_.
                   tx_return (CommitWith (Inr 200)))) db))"

definition engine_route ::
    "lib \<Rightarrow> inbound_env \<Rightarrow> tx_fault \<Rightarrow> time \<Rightarrow> string option \<Rightarrow> bytes \<Rightarrow> db \<Rightarrow> response \<times> db" where
  "engine_route L E f now header body db =
     (case inbound_verify L E now (ie_engine_secret E) header body of
        Inl e \<Rightarrow> (Inl e, db)
      | Inr _ \<Rightarrow> (case parse_event (ie_parse_engine E) ''engine'' body of
           Inl e \<Rightarrow> (Inl e, db)
         | Inr event \<Rightarrow> run_handler f (apply_engine_event L E now event) db))"

section \<open>Contracts\<close>

lemma lawful_adopt:
  "lawful (\<lambda>d. d_watch_id d = None) (\<lambda>d. d\<lparr>d_watch_id := Some w,
     d_watch_registered_at := coalesce (d_watch_registered_at d) (Some now)\<rparr>) []"
  by (auto simp: lawful_def terms_of_def stamps_ok_def needs_def is_open_cases)

lemma lawful_detach:
  "lawful (\<lambda>d. d_status d = Paid) (\<lambda>d. d\<lparr>d_engine_job_id := None, d_engine_submitted_at := None\<rparr>)
     [''submit_execute'']"
  by (auto simp: lawful_def terms_of_def stamps_ok_def needs_def is_open_cases)

interpretation watch_adopted: transition L i "adopt_watch now i w" "()" "\<lambda>d. d_watch_id d = None"
  "\<lambda>d. d\<lparr>d_watch_id := Some w, d_watch_registered_at := coalesce (d_watch_registered_at d) (Some now)\<rparr>"
  "[]" "[]" for L now i w
proof (rule transition_lawful [OF lawful_adopt])
  let ?f = "\<lambda>d. d\<lparr>d_watch_id := Some w, d_watch_registered_at := coalesce (d_watch_registered_at d) (Some now)\<rparr>"
  fix db :: db
  show "adopt_watch now i w db = Inr ((), db)"
    if "\<forall>r \<in> set (deposits db). d_id r = i \<longrightarrow> d_watch_id r \<noteq> None"
    using that by (simp add: adopt_watch_def upd_rows_none)
  fix r
  assume r: "ids_ok db" "r \<in> set (deposits db)" "d_id r = i" "d_watch_id r = None"
  then have "d \<in> set (deposits db) \<Longrightarrow> d_id d = i \<Longrightarrow> d = r" for d
    using unique_by_key [of d_id "deposits db" d r] by (simp add: ids_ok_def)
  then have "upd_rows (\<lambda>d. d_id d = i \<and> d_watch_id d = None) ?f (deposits db)
      = upd_rows (\<lambda>d. d_id d = i) ?f (deposits db)"
    using r(4) by (auto simp: upd_rows_def)
  then have "adopt_watch now i w db = Inr ((), db\<lparr>deposits := upd_rows (\<lambda>d. d_id d = i) ?f (deposits db)\<rparr>)"
    by (simp add: adopt_watch_def)
  then show "fires L i (adopt_watch now i w) ?f [] [] r db"
    unfolding fires_def by (auto simp: moved_def o_def upstream_kinds_def)
qed

interpretation settlement_resubmitted: transition L i "resubmit L now i data" False
  "\<lambda>d. d_status d = Paid"
  "stamp now (\<lambda>d. d\<lparr>d_engine_job_id := None, d_engine_submitted_at := None\<rparr>)"
  "[ev_settlement_retried]" "[''submit_execute'']" for L now i data
  unfolding resubmit_def enqueue_execute_def
  by (rule transition_event_job [OF lawful_detach]) simp

declare watch_adopted.keeps_oper [keeps_intros] settlement_resubmitted.keeps_oper [keeps_intros]

lemma keeps_db_option:
  assumes "\<And>db. keeps L (case q db of None \<Rightarrow> m | Some d \<Rightarrow> n d)"
  shows "keeps L (\<lambda>db. case q db of None \<Rightarrow> m db | Some d \<Rightarrow> n d db)"
  unfolding keeps_def
proof (intro allI impI)
  fix db y db'
  assume "tables_ok L db" "(case q db of None \<Rightarrow> m db | Some d \<Rightarrow> n d db) = Inr (y, db')"
  then show "grows L db db'"
    using assms [of db] by (cases "q db") (auto simp: keeps_def)
qed

lemma keeps_Inr [keeps_intros]: "keeps L (\<lambda>db. Inr (x, db))"
  by (simp add: keeps_def grows_refl)

lemma keeps_is_changed [keeps_intros]: "keeps L (is_changed r)"
  by (simp add: is_changed_def keeps_return)

lemma keeps_indexer_transition [keeps_intros]:
  "uuid_v7_ok L \<Longrightarrow> keeps L (indexer_transition L now event i)"
  unfolding indexer_transition_def Let_def by (intro keeps_intros)

lemma keeps_apply_indexer_event [keeps_intros]:
  "uuid_v7_ok L \<Longrightarrow> keeps L (apply_indexer_event L now event)"
  unfolding apply_indexer_event_def by (intro keeps_intros keeps_db_option)

lemma keeps_apply_settlement [keeps_intros]:
  assumes "uuid_v7_ok L"
  shows "keeps L (apply_settlement L now i outcome)"
proof (cases outcome)
  case (SFailed c message tx_hash revert_data data)
  have "keeps L (resubmit L now i (retry_data c message))"
      "keeps L (and_then (apply_failed L now i c message tx_hash revert_data data) is_changed)"
    using assms by (auto intro!: keeps_intros)
  then show ?thesis by (auto simp: SFailed keeps_def)
qed (use assms in \<open>auto intro!: keeps_intros\<close>)

lemma keeps_apply_engine_event [keeps_intros]:
  "uuid_v7_ok L \<Longrightarrow> keeps L (apply_engine_event L E now event)"
  unfolding apply_engine_event_def by (intro keeps_intros keeps_db_option)

lemma run_handler_grows:
  assumes "keeps L m" "tables_ok L db" "run_handler f m db = (resp, db')"
  shows "grows L db db'"
  using assms
  by (auto simp: run_handler_def intro: keepsD grows_refl
      split: tx_fault.splits sum.splits prod.splits ending.splits if_splits)

lemma indexer_route_grows:
  "uuid_v7_ok L \<Longrightarrow> tables_ok L db \<Longrightarrow> indexer_route L E f now header body db = (resp, db') \<Longrightarrow> grows L db db'"
  by (auto simp: indexer_route_def intro: grows_refl run_handler_grows keeps_apply_indexer_event
      split: sum.splits)

lemma engine_route_grows:
  "uuid_v7_ok L \<Longrightarrow> tables_ok L db \<Longrightarrow> engine_route L E f now header body db = (resp, db') \<Longrightarrow> grows L db db'"
  by (auto simp: engine_route_def intro: grows_refl run_handler_grows keeps_apply_engine_event
      split: sum.splits)

end
