(* ===== verification/Clients.thy ===== *)
theory Clients
  imports Inbound
begin

text \<open>
  \<^verbatim>\<open>src/clients/\<close>: how the answers of gum-engine and gum-indexer are classified. The HTTP exchange
  and \<^verbatim>\<open>serde\<close>'s body readers are parameters; what happened on the wire is a \<open>http_result\<close>.
\<close>

section \<open>Errors\<close>

datatype upstream_error =
    NotConfigured string
  | Transport string string
  | Rejected string nat string string
  | Unavailable string nat string string
  | Malformed string string

fun upstream_message :: "upstream_error \<Rightarrow> string" where
  "upstream_message (NotConfigured service) = service @ '' is not configured''"
| "upstream_message (Transport service source) = service @ '' transport error: '' @ source"
| "upstream_message (Rejected service status c message) =
     service @ '' rejected the request ('' @ dec_nat status @ ''): '' @ c @ '': '' @ message"
| "upstream_message (Unavailable service status c message) =
     service @ '' unavailable ('' @ dec_nat status @ ''): '' @ c @ '': '' @ message"
| "upstream_message (Malformed service detail) = service @ '' returned an unexpected body: '' @ detail"

fun is_rejected :: "upstream_error \<Rightarrow> bool" where
  "is_rejected (Rejected service status c message) = True"
| "is_rejected _ = False"

definition is_retryable :: "upstream_error \<Rightarrow> bool" where
  "is_retryable e = (\<not> is_rejected e)"

text \<open>\<open>chars().take(n)\<close> on UTF-8: \<open>n\<close> code points with their continuation bytes.\<close>

definition is_continuation :: "char \<Rightarrow> bool" where
  "is_continuation c = (128 \<le> char_code c \<and> char_code c < 192)"

fun take_chars :: "nat \<Rightarrow> string \<Rightarrow> string" where
  "take_chars n [] = []"
| "take_chars n (c # cs) =
     (if is_continuation c then c # take_chars n cs
      else case n of 0 \<Rightarrow> [] | Suc m \<Rightarrow> c # take_chars m cs)"

text \<open>\<open>read_error\<close> reads the \<open>{"error":{"code","message"}}\<close> body.\<close>

definition from_response ::
    "(string \<Rightarrow> (string \<times> string) option) \<Rightarrow> string \<Rightarrow> nat \<Rightarrow> string \<Rightarrow> upstream_error" where
  "from_response read_error service status body =
     (let (c, message) = (case read_error body of
            Some b \<Rightarrow> b
          | None \<Rightarrow> (''http_error'', take_chars 512 body))
      in if status = 429 \<or> 500 \<le> status then Unavailable service status c message
         else Rejected service status c message)"

definition trim_end_slash :: "string \<Rightarrow> string" where
  "trim_end_slash s = rev (dropWhile (\<lambda>c. c = CHR ''/'') (rev s))"

definition base_url :: "string \<Rightarrow> string option" where
  "base_url raw = (let trimmed = trim_end_slash (trim raw) in if trimmed = [] then None else Some trimmed)"

section \<open>Requests\<close>

datatype http_result = HttpFailed string | HttpAnswer nat string

definition is_success :: "nat \<Rightarrow> bool" where
  "is_success status = (200 \<le> status \<and> status < 300)"

text \<open>
  One exchange: \<open>send url\<close> performs it, \<open>read\<close> reads the body of a success. \<open>missing\<close> is the answer to
  a \<open>404\<close> where the call has one.
\<close>

record wire =
  w_send :: "string \<Rightarrow> http_result"
  w_error_body :: "string \<Rightarrow> (string \<times> string) option"

definition exchange ::
    "wire \<Rightarrow> string \<Rightarrow> string option \<Rightarrow> string \<Rightarrow> 'a option \<Rightarrow> (string \<Rightarrow> string + 'a) \<Rightarrow> upstream_error + 'a" where
  "exchange W service base path missing read = (case base of
       None \<Rightarrow> Inl (NotConfigured service)
     | Some b \<Rightarrow> (case w_send W (b @ path) of
          HttpFailed source \<Rightarrow> Inl (Transport service source)
        | HttpAnswer status body \<Rightarrow>
           (case (status = 404, missing) of
              (True, Some m) \<Rightarrow> Inr m
            | _ \<Rightarrow>
               if \<not> is_success status then Inl (from_response (w_error_body W) service status body)
               else (case read body of
                   Inl e \<Rightarrow> Inl (Malformed service e)
                 | Inr x \<Rightarrow> Inr x))))"

record submitted =
  s_job_id :: uuid
  s_replayed :: bool

record job =
  jb_job_id :: uuid
  jb_status :: string
  jb_outcome :: "string option"
  jb_tx_hash :: "b256 option"
  jb_block_number :: "nat option"
  jb_receipt :: "json option"
  jb_error :: "engine_error option"

record watch =
  wt_id :: uuid
  wt_chain_id :: nat
  wt_payment_address :: address
  wt_status :: string
  wt_confirmed_amount :: "string option"

record watch_detail =
  wd_id :: uuid
  wd_status :: string
  wd_confirmed_amount :: "string option"
  wd_completed_at :: "time option"

definition engine_submit ::
    "wire \<Rightarrow> string option \<Rightarrow> (string \<Rightarrow> string + submitted) \<Rightarrow> upstream_error + submitted" where
  "engine_submit W base read = exchange W ''engine'' base ''/v1/transactions'' None read"

definition engine_get_job ::
    "lib \<Rightarrow> wire \<Rightarrow> string option \<Rightarrow> (string \<Rightarrow> string + job) \<Rightarrow> uuid \<Rightarrow> upstream_error + job option" where
  "engine_get_job L W base read i =
     exchange W ''engine'' base (''/v1/transactions/'' @ l_fmt_uuid L i) (Some None) (map_sum id Some \<circ> read)"

definition indexer_create_watch ::
    "wire \<Rightarrow> string option \<Rightarrow> (string \<Rightarrow> string + watch) \<Rightarrow> upstream_error + watch" where
  "indexer_create_watch W base read = exchange W ''indexer'' base ''/v1/watches'' None read"

definition indexer_get_watch ::
    "lib \<Rightarrow> wire \<Rightarrow> string option \<Rightarrow> (string \<Rightarrow> string + watch_detail) \<Rightarrow> uuid
      \<Rightarrow> upstream_error + watch_detail option" where
  "indexer_get_watch L W base read i =
     exchange W ''indexer'' base (''/v1/watches/'' @ l_fmt_uuid L i) (Some None) (map_sum id Some \<circ> read)"

definition healthy :: "wire \<Rightarrow> string option \<Rightarrow> bool" where
  "healthy W base = (case base of
       None \<Rightarrow> False
     | Some b \<Rightarrow> (case w_send W (b @ ''/healthz'') of
          HttpFailed _ \<Rightarrow> False
        | HttpAnswer status _ \<Rightarrow> is_success status))"

section \<open>Lemmas\<close>

lemma from_response_rejected:
  "is_rejected (from_response eb service status body) \<longleftrightarrow> status \<noteq> 429 \<and> status < 500"
  by (auto simp: from_response_def split: option.splits prod.splits)

text \<open>The only answers that are never retried are client errors other than \<open>429\<close>.\<close>

lemma exchange_rejected:
  assumes "exchange W service base path missing read = Inl e" "is_rejected e"
  obtains b status body where "base = Some b" "w_send W (b @ path) = HttpAnswer status body"
    "\<not> is_success status" "status \<noteq> 429" "status < 500"
  using assms
  by (auto simp: exchange_def from_response_rejected is_success_def
      split: option.splits http_result.splits if_splits sum.splits bool.splits)

lemma exchange_missing:
  "base = Some b \<Longrightarrow> w_send W (b @ path) = HttpAnswer 404 body \<Longrightarrow>
     exchange W service base path (Some m) read = Inr m"
  by (simp add: exchange_def)

end
