(* ===== verification/Outbox.thy ===== *)
theory Outbox
  imports Clients
begin

text \<open>
  \<^verbatim>\<open>src/outbox/mod.rs\<close>: claiming jobs, running them against gum-indexer, gum-engine and the app, and
  finishing, rescheduling or burying them.

  A job is worked on in phases, because other connections commit in between: \<open>load\<close> reads the
  deposit, \<open>settle\<close> (here \<open>register_watch_after\<close>, \<open>submit_execute_after\<close>, \<open>notify_app_after\<close>) gets
  the answer of the upstream service and records it, \<open>finalise\<close> ends the attempt. The times passed
  to a phase are the clock readings it takes. \<open>None\<close> instead of an attempt is a panic of the task:
  nothing is finalised and the lock expires. Durations computed in \<open>f64\<close> are exact reals here.
\<close>

section \<open>Rows and configuration\<close>

record outbox_job =
  j_id :: uuid
  j_kind :: string
  j_deposit_id :: uuid
  j_payload :: json
  j_attempts :: int
  j_created_at :: time

datatype attempt = ADone | ARetry string | ADead string

record outbox_cfg =
  oc_retry_base_ms :: nat
  oc_retry_cap_ms :: nat
  oc_max_age_secs :: int
  oc_upstream_retry_cap_ms :: nat
  oc_callback_base_url :: string
  oc_factory :: address

section \<open>Claiming\<close>

definition live :: "outbox_row \<Rightarrow> bool" where
  "live r = (o_dead_at r = None)"

definition same_queue :: "outbox_row \<Rightarrow> outbox_row \<Rightarrow> bool" where
  "same_queue p r = (o_deposit_id p = o_deposit_id r \<and> o_kind p = o_kind r)"

definition claimable :: "time \<Rightarrow> outbox_row list \<Rightarrow> outbox_row \<Rightarrow> bool" where
  "claimable now rows r = (live r \<and> o_next_attempt_at r \<le> now
     \<and> (case o_locked_until r of None \<Rightarrow> True | Some t \<Rightarrow> t < now)
     \<and> \<not> (\<exists>p \<in> set rows. same_queue p r \<and> o_id p < o_id r \<and> live p))"

definition job_of :: "outbox_row \<Rightarrow> outbox_job" where
  "job_of r = \<lparr>j_id = o_id r, j_kind = o_kind r, j_deposit_id = o_deposit_id r, j_payload = o_payload r,
     j_attempts = o_attempts r, j_created_at = o_created_at r\<rparr>"

text \<open>
  \<open>busy\<close> are the rows another transaction holds, which \<open>SKIP LOCKED\<close> passes over.
\<close>

definition due_rows :: "time \<Rightarrow> nat \<Rightarrow> (uuid \<Rightarrow> bool) \<Rightarrow> outbox_row list \<Rightarrow> outbox_row list" where
  "due_rows now batch busy rows = take batch (sort_key o_next_attempt_at
     (filter (\<lambda>r. claimable now rows r \<and> \<not> busy (o_id r)) rows))"

definition claim :: "time \<Rightarrow> nat \<Rightarrow> int \<Rightarrow> (uuid \<Rightarrow> bool) \<Rightarrow> outbox_job list tx" where
  "claim now batch lock_ttl_secs busy db =
     (let due = map o_id (due_rows now batch busy (outbox db));
          lock = (\<lambda>r. r\<lparr>o_locked_until := Some (now + make_interval lock_ttl_secs), o_attempts := o_attempts r + 1\<rparr>)
      in Inr (map (job_of \<circ> lock) (filter (\<lambda>r. o_id r \<in> set due) (outbox db)),
              db\<lparr>outbox := upd_rows (\<lambda>r. o_id r \<in> set due) lock (outbox db)\<rparr>))"

section \<open>Scheduling\<close>

datatype schedule_result = SRetry nat | SDead

text \<open>\<open>base * 2f64.powi(attempts.saturating_sub(1).min(30))\<close>.\<close>

definition backoff :: "real \<Rightarrow> int \<Rightarrow> real" where
  "backoff base attempts = base * 2 powi (min (max (attempts - 1) (- (2 ^ 31))) 30)"

definition schedule :: "outbox_cfg \<Rightarrow> string \<Rightarrow> int \<Rightarrow> int \<Rightarrow> real \<Rightarrow> schedule_result" where
  "schedule cfg kind attempts age jitter =
     (let (cap_ms, max_age) = (if kind = ''notify_app'' then (oc_retry_cap_ms cfg, Some (oc_max_age_secs cfg))
            else (oc_upstream_retry_cap_ms cfg, None))
      in if (case max_age of None \<Rightarrow> False | Some m \<Rightarrow> m < age) then SDead
         else let base = real (oc_retry_base_ms cfg);
                  upper = min (backoff base attempts) (real cap_ms)
              in SRetry (nat \<lfloor>base + jitter * max (upper - base) 0\<rfloor>))"

definition update_job :: "uuid \<Rightarrow> (outbox_row \<Rightarrow> outbox_row) \<Rightarrow> unit tx" where
  "update_job i f db = Inr ((), db\<lparr>outbox := upd_rows (\<lambda>r. o_id r = i) f (outbox db)\<rparr>)"

definition mark_dead :: "time \<Rightarrow> uuid \<Rightarrow> string \<Rightarrow> unit tx" where
  "mark_dead now i error =
     update_job i (\<lambda>r. r\<lparr>o_dead_at := Some now, o_locked_until := None, o_last_error := Some error\<rparr>)"

definition millis :: "nat \<Rightarrow> int" where
  "millis ms = int ms * 1000000"

definition retry_later :: "outbox_cfg \<Rightarrow> time \<Rightarrow> real \<Rightarrow> outbox_job \<Rightarrow> string \<Rightarrow> unit tx" where
  "retry_later cfg now jitter job error =
     (case schedule cfg (j_kind job) (j_attempts job) (num_seconds (now - j_created_at job)) jitter of
        SDead \<Rightarrow> mark_dead now (j_id job) error
      | SRetry delay \<Rightarrow> update_job (j_id job)
          (\<lambda>r. r\<lparr>o_next_attempt_at := now + millis delay, o_locked_until := None, o_last_error := Some error\<rparr>))"

definition delete_job :: "uuid \<Rightarrow> unit tx" where
  "delete_job i db = Inr ((), db\<lparr>outbox := filter (\<lambda>r. o_id r \<noteq> i) (outbox db)\<rparr>)"

fun finalise :: "outbox_cfg \<Rightarrow> time \<Rightarrow> real \<Rightarrow> outbox_job \<Rightarrow> attempt \<Rightarrow> unit tx" where
  "finalise cfg now jitter job ADone = delete_job (j_id job)"
| "finalise cfg now jitter job (ARetry error) = retry_later cfg now jitter job error"
| "finalise cfg now jitter job (ADead error) = mark_dead now (j_id job) error"

text \<open>\<open>admin_requeue\<close> of \<^verbatim>\<open>src/app.rs\<close>: whether a row was there.\<close>

definition requeue :: "time \<Rightarrow> uuid \<Rightarrow> bool tx" where
  "requeue now i db = Inr (\<exists>r \<in> set (outbox db). o_id r = i, db\<lparr>outbox := upd_rows (\<lambda>r. o_id r = i)
     (\<lambda>r. r\<lparr>o_dead_at := None, o_next_attempt_at := now, o_locked_until := None, o_created_at := now\<rparr>)
     (outbox db)\<rparr>)"

section \<open>Jobs\<close>

definition webhook_url :: "outbox_cfg \<Rightarrow> string \<Rightarrow> string" where
  "webhook_url cfg path = trim_end_slash (oc_callback_base_url cfg) @ path"

text \<open>The read every upstream job starts with; \<open>fault\<close> is a database error it may meet.\<close>

definition load_deposit ::
    "lib \<Rightarrow> sqlx_error option \<Rightarrow> (deposit \<Rightarrow> bool) \<Rightarrow> outbox_job \<Rightarrow> db \<Rightarrow> attempt + deposit" where
  "load_deposit L fault finished job db = (case fault of
       Some e \<Rightarrow> Inl (ARetry (''load deposit: '' @ l_fmt_sqlx L e))
     | None \<Rightarrow> (case get db (j_deposit_id job) of
          None \<Rightarrow> Inl (ADead ''deposit no longer exists'')
        | Some d \<Rightarrow> if finished d then Inl ADone else Inr d))"

definition register_watch_load :: "lib \<Rightarrow> sqlx_error option \<Rightarrow> outbox_job \<Rightarrow> db \<Rightarrow> attempt + deposit" where
  "register_watch_load L fault job db =
     load_deposit L fault (\<lambda>d. d_watch_id d \<noteq> None \<or> is_terminal (d_status d)) job db"

definition submit_execute_load :: "lib \<Rightarrow> sqlx_error option \<Rightarrow> outbox_job \<Rightarrow> db \<Rightarrow> attempt + deposit" where
  "submit_execute_load L fault job db =
     load_deposit L fault (\<lambda>d. d_status d \<noteq> Paid \<or> d_engine_job_id d \<noteq> None) job db"

record create_watch =
  cw_payment_address :: address
  cw_chain :: string
  cw_token :: address
  cw_balance_threshold :: string
  cw_webhook_endpoint :: string
  cw_expires_at :: time
  cw_payments_since :: time

definition watch_request :: "lib \<Rightarrow> outbox_cfg \<Rightarrow> deposit \<Rightarrow> create_watch option" where
  "watch_request L cfg d = (case (deposit_payment_address L d, l_parse_address L (d_token_address d)) of
       (Some addr, Some token) \<Rightarrow> Some \<lparr>cw_payment_address = addr, cw_chain = dec_int (d_chain_id d),
          cw_token = token, cw_balance_threshold = d_amount d,
          cw_webhook_endpoint = webhook_url cfg ''/v1/webhooks/indexer'', cw_expires_at = d_expires_at d,
          cw_payments_since = d_created_at d\<rparr>
     | _ \<Rightarrow> None)"

definition fail_open :: "lib \<Rightarrow> time \<Rightarrow> uuid \<Rightarrow> string \<Rightarrow> string \<Rightarrow> deposit option tx" where
  "fail_open L now i c message =
     and_then (update_deposit now
         (\<lambda>d. d\<lparr>d_status := Failed, d_failed_at := Some now, d_failure_code := Some c,
            d_failure_message := Some message\<rparr>)
         (\<lambda>d. d_id d = i \<and> is_open (d_status d)))
       (then_event L now ev_failed (JObj [(''code'', JStr c), (''message'', JStr message)]))"

definition register_watch_after ::
    "lib \<Rightarrow> outbox_cfg \<Rightarrow> tx_fault \<Rightarrow> time \<Rightarrow> time \<Rightarrow> bool \<Rightarrow> (create_watch \<Rightarrow> upstream_error + watch)
      \<Rightarrow> outbox_job \<Rightarrow> deposit \<Rightarrow> db \<Rightarrow> attempt option \<times> db" where
  "register_watch_after L cfg f checked_at now configured call job d db =
     (if d_expires_at d \<le> checked_at then
        (case run_faulty f (apply_expired L now (d_id d)
                (JObj [(''reason'', JStr ''expired before the watch was registered'')])) db of
           (Inl (AtBegin, e), db') \<Rightarrow> (Some (ARetry (''begin: '' @ l_fmt_sqlx L e)), db')
         | (Inl (_, e), db') \<Rightarrow> (Some (ARetry (''record expiry: '' @ l_fmt_sqlx L e)), db')
         | (Inr _, db') \<Rightarrow> (Some ADone, db'))
      else if \<not> configured then (Some (ARetry ''indexer is not configured''), db)
      else case watch_request L cfg d of
        None \<Rightarrow> (None, db)
      | Some req \<Rightarrow> (case call req of
          Inr w \<Rightarrow>
           (case run_faulty f (mark_watch_registered L now (d_id d) (wt_id w)) db of
              (Inl (_, e), db') \<Rightarrow> (Some (ARetry (''record watch: '' @ l_fmt_sqlx L e)), db')
            | (Inr _, db') \<Rightarrow> (Some ADone, db'))
        | Inl err \<Rightarrow>
            if is_rejected err then
             (case run_faulty f (fail_open L now (j_deposit_id job) ''watch_rejected'' (upstream_message err)) db of
                (Inl (_, e), db') \<Rightarrow> (Some (ARetry (''record failure: '' @ l_fmt_sqlx L e)), db')
              | (Inr _, db') \<Rightarrow> (Some (ADead (upstream_message err)), db'))
            else (Some (ARetry (upstream_message err)), db)))"

record submit_transaction =
  st_chain_id :: nat
  st_to :: address
  st_data :: bytes
  st_webhook_url :: string

definition idempotency_key_of :: "lib \<Rightarrow> outbox_job \<Rightarrow> deposit \<Rightarrow> string" where
  "idempotency_key_of L job d =
     unwrap_or (''deposit:'' @ l_fmt_uuid L (d_id d) @ '':execute'')
       (Option.bind (jget (j_payload job) ''idempotency_key'') as_str)"

definition submit_request :: "lib \<Rightarrow> outbox_cfg \<Rightarrow> deposit \<Rightarrow> submit_transaction option" where
  "submit_request L cfg d = map_option (\<lambda>terms. \<lparr>st_chain_id = as_u64 (d_chain_id d), st_to = oc_factory cfg,
       st_data = execute_calldata L terms, st_webhook_url = webhook_url cfg ''/v1/webhooks/engine''\<rparr>)
     (deposit_terms L d)"

definition submit_execute_after ::
    "lib \<Rightarrow> outbox_cfg \<Rightarrow> tx_fault \<Rightarrow> time \<Rightarrow> bool
      \<Rightarrow> (submit_transaction \<Rightarrow> string \<Rightarrow> upstream_error + submitted)
      \<Rightarrow> outbox_job \<Rightarrow> deposit \<Rightarrow> db \<Rightarrow> attempt option \<times> db" where
  "submit_execute_after L cfg f now configured call job d db =
     (if \<not> configured then (Some (ARetry ''engine is not configured''), db)
      else case submit_request L cfg d of
        None \<Rightarrow> (None, db)
      | Some req \<Rightarrow> (case call req (idempotency_key_of L job d) of
          Inr s \<Rightarrow>
           (case run_faulty f (mark_engine_submitted L now (d_id d) (s_job_id s) (s_replayed s)) db of
              (Inl (_, e), db') \<Rightarrow> (Some (ARetry (''record job: '' @ l_fmt_sqlx L e)), db')
            | (Inr _, db') \<Rightarrow> (Some ADone, db'))
        | Inl err \<Rightarrow>
            if is_rejected err then
             (let message = upstream_message err in
              case run_faulty f (apply_failed L now (d_id d) ''engine_rejected'' message None None
                     (JObj [(''error'', JStr message)])) db of
                (Inl (AtBegin, e), db') \<Rightarrow> (Some (ARetry (''begin: '' @ l_fmt_sqlx L e)), db')
              | (Inl (AtCommit, e), db') \<Rightarrow> (Some (ARetry (''commit: '' @ l_fmt_sqlx L e)), db')
              | (Inl (AtStatement, e), db') \<Rightarrow> (Some (ARetry (''record failure: '' @ l_fmt_sqlx L e)), db')
              | (Inr _, db') \<Rightarrow> (Some (ADead message), db'))
            else (Some (ARetry (upstream_message err)), db)))"

record app_request =
  ar_url :: string
  ar_event_id :: string
  ar_event_type :: string
  ar_deposit_id :: string
  ar_attempt :: string
  ar_signature :: string
  ar_body :: bytes

definition payload_str :: "outbox_job \<Rightarrow> string \<Rightarrow> string option" where
  "payload_str job k = Option.bind (jget (j_payload job) k) as_str"

definition owner_secret :: "db \<Rightarrow> uuid \<Rightarrow> string option" where
  "owner_secret db i = Option.bind (get db i)
     (\<lambda>d. map_option u_webhook_secret (find (\<lambda>u. u_id u = d_user_id d) (users db)))"

definition app_delivery ::
    "lib \<Rightarrow> time \<Rightarrow> outbox_job \<Rightarrow> string \<Rightarrow> json \<Rightarrow> string \<Rightarrow> app_request" where
  "app_delivery L sent_at job url body secret =
     (let raw = ascii_bytes (l_json_to_string L body) in
      \<lparr>ar_url = url, ar_event_id = unwrap_or [] (payload_str job ''event_id''),
       ar_event_type = unwrap_or [] (payload_str job ''event_type''),
       ar_deposit_id = l_fmt_uuid L (j_deposit_id job), ar_attempt = dec_int (j_attempts job),
       ar_signature = signature_header L secret (timestamp sent_at) raw, ar_body = raw\<rparr>)"

text \<open>\<open>notify_app\<close> writes nothing; \<open>post\<close> is the app's answer, \<open>fmt_status\<close> prints a status code.\<close>

definition notify_app ::
    "lib \<Rightarrow> (nat \<Rightarrow> string) \<Rightarrow> sqlx_error option \<Rightarrow> time \<Rightarrow> (app_request \<Rightarrow> http_result) \<Rightarrow> outbox_job \<Rightarrow> db
      \<Rightarrow> attempt" where
  "notify_app L fmt_status fault sent_at post job db =
     (case payload_str job ''url'' of
        None \<Rightarrow> ADead ''notify_app job without url''
      | Some url \<Rightarrow> (case jget (j_payload job) ''body'' of
          None \<Rightarrow> ADead ''notify_app job without body''
        | Some body \<Rightarrow> (case fault of
            Some e \<Rightarrow> ARetry (''load secret: '' @ l_fmt_sqlx L e)
          | None \<Rightarrow> (case owner_secret db (j_deposit_id job) of
              None \<Rightarrow> ADead ''deposit owner not found''
            | Some secret \<Rightarrow> (case post (app_delivery L sent_at job url body secret) of
                HttpAnswer status _ \<Rightarrow>
                  if is_success status then ADone
                  else ARetry (''app webhook responded '' @ fmt_status status)
              | HttpFailed e \<Rightarrow> ARetry (''app webhook unreachable: '' @ e))))))"

section \<open>Running a job\<close>

text \<open>What a run meets outside the tables: clocks, faults, the answers of the services, randomness.\<close>

record job_env =
  je_load_fault :: "sqlx_error option"
  je_tx_fault :: tx_fault
  je_checked_at :: time
  je_now :: time
  je_indexer_configured :: bool
  je_engine_configured :: bool
  je_create_watch :: "create_watch \<Rightarrow> upstream_error + watch"
  je_submit :: "submit_transaction \<Rightarrow> string \<Rightarrow> upstream_error + submitted"
  je_post :: "app_request \<Rightarrow> http_result"
  je_fmt_status :: "nat \<Rightarrow> string"

definition load_job :: "lib \<Rightarrow> job_env \<Rightarrow> outbox_job \<Rightarrow> db \<Rightarrow> attempt + deposit" where
  "load_job L V job db =
     (if j_kind job = ''register_watch'' then register_watch_load L (je_load_fault V) job db
      else if j_kind job = ''submit_execute'' then submit_execute_load L (je_load_fault V) job db
      else if j_kind job = ''notify_app''
      then Inl (notify_app L (je_fmt_status V) (je_load_fault V) (je_now V) (je_post V) job db)
      else Inl (ADead (''unknown job kind '' @ j_kind job)))"

definition after_job :: "lib \<Rightarrow> outbox_cfg \<Rightarrow> job_env \<Rightarrow> outbox_job \<Rightarrow> deposit \<Rightarrow> db \<Rightarrow> attempt option \<times> db" where
  "after_job L cfg V job d db =
     (if j_kind job = ''register_watch''
      then register_watch_after L cfg (je_tx_fault V) (je_checked_at V) (je_now V)
             (je_indexer_configured V) (je_create_watch V) job d db
      else submit_execute_after L cfg (je_tx_fault V) (je_now V) (je_engine_configured V) (je_submit V) job d db)"

text \<open>
  \<open>execute_job\<close> from end to end. \<open>others\<close> is what other connections commit between its phases; an
  error while finalising leaves the row as it is.
\<close>

definition execute_job ::
    "lib \<Rightarrow> outbox_cfg \<Rightarrow> job_env \<Rightarrow> (db \<Rightarrow> db) \<Rightarrow> sqlx_error option \<Rightarrow> time \<Rightarrow> real \<Rightarrow> outbox_job \<Rightarrow> db \<Rightarrow> db" where
  "execute_job L cfg V others final_fault ended_at jitter job db =
     (let finish = (\<lambda>a db. if final_fault = None then snd (run_tx (finalise cfg ended_at jitter job a) db) else db)
      in case load_job L V job db of
           Inl a \<Rightarrow> finish a (others db)
         | Inr d \<Rightarrow> (case after_job L cfg V job d (others db) of
             (None, db') \<Rightarrow> db'
           | (Some a, db') \<Rightarrow> finish a (others db')))"

section \<open>Contracts\<close>

lemma lawful_fail_open:
  "lawful (\<lambda>d. is_open (d_status d)) (\<lambda>d. d\<lparr>d_status := Failed, d_failed_at := Some now,
     d_failure_code := Some c, d_failure_message := Some message\<rparr>) []"
  by (auto simp: lawful_def terms_of_def stamps_ok_def needs_def is_open_cases)

interpretation open_failed: transition L i "fail_open L now i c message" None
  "\<lambda>d. is_open (d_status d)"
  "stamp now (\<lambda>d. d\<lparr>d_status := Failed, d_failed_at := Some now, d_failure_code := Some c,
     d_failure_message := Some message\<rparr>)"
  "[ev_failed]" "[]" for L now i c message
  unfolding fail_open_def by (rule transition_event [OF lawful_fail_open])

declare open_failed.keeps_oper [keeps_intros]

lemma run_faulty_grows:
  assumes "keeps L m" "tables_ok L db" "run_faulty f m db = (r, db')"
  shows "grows L db db'"
  using assms
  by (auto simp: run_faulty_def intro: keepsD grows_refl
      split: tx_fault.splits sum.splits prod.splits if_splits)

lemma run_tx_grows:
  assumes "keeps L m" "tables_ok L db" "run_tx m db = (r, db')"
  shows "grows L db db'"
  using assms by (auto simp: run_tx_def intro: keepsD grows_refl split: sum.splits prod.splits)

lemma run_faulty_Inr: "run_faulty f m db = (Inr r, db') \<Longrightarrow> m db = Inr (r, db')"
  by (auto simp: run_faulty_def split: tx_fault.splits sum.splits prod.splits if_splits)

lemmas job_grows = run_faulty_grows [OF watch_registered.keeps_oper]
  run_faulty_grows [OF deposit_expired.keeps_oper] run_faulty_grows [OF open_failed.keeps_oper]
  run_faulty_grows [OF engine_submitted.keeps_oper] run_faulty_grows [OF deposit_failed.keeps_oper]

lemma register_watch_after_grows:
  assumes "uuid_v7_ok L" "tables_ok L db"
    "register_watch_after L cfg f checked_at now configured call job d db = (a, db')"
  shows "grows L db db'"
  using assms unfolding register_watch_after_def
  by (auto intro: grows_refl dest: job_grows
      split: if_splits prod.splits sum.splits option.splits tx_stage.splits)

lemma submit_execute_after_grows:
  assumes "uuid_v7_ok L" "tables_ok L db"
    "submit_execute_after L cfg f now configured call job d db = (a, db')"
  shows "grows L db db'"
  using assms unfolding submit_execute_after_def Let_def
  by (auto intro: grows_refl dest: job_grows
      split: if_splits prod.splits sum.splits option.splits tx_stage.splits)

lemma after_job_grows:
  "uuid_v7_ok L \<Longrightarrow> tables_ok L db \<Longrightarrow> after_job L cfg V job d db = (a, db') \<Longrightarrow> grows L db db'"
  unfolding after_job_def
  by (auto dest: register_watch_after_grows submit_execute_after_grows split: if_splits)

section \<open>A finished job is not needed any more\<close>

text \<open>\<open>ADone\<close> and \<open>ADead\<close> remove the job from the queue.\<close>

fun is_final :: "attempt \<Rightarrow> bool" where
  "is_final (ARetry e) = False"
| "is_final _ = True"

definition unneeded :: "db \<Rightarrow> outbox_job \<Rightarrow> bool" where
  "unneeded db job = (\<forall>d \<in> set (deposits db). d_id d = j_deposit_id job \<longrightarrow> \<not> needs (j_kind job) d)"

lemma open_not_terminal: "is_terminal s \<Longrightarrow> \<not> is_open s"
  by (auto simp: is_terminal_def is_open_def)

lemma load_deposit_unneeded:
  assumes "tables_ok L db" "load_deposit L fault finished job db = Inl a" "is_final a"
    and "\<And>d. finished d \<Longrightarrow> \<not> needs (j_kind job) d"
  shows "unneeded db job"
  unfolding unneeded_def
proof (intro ballI impI)
  fix d
  assume d: "d \<in> set (deposits db)" "d_id d = j_deposit_id job"
  then have "get db (j_deposit_id job) = Some d"
    using assms(1) find_id [of db d] by (simp add: tables_ok_def get_def select_deposit_def)
  then show "\<not> needs (j_kind job) d"
    using assms(2-4) by (auto simp: load_deposit_def split: option.splits if_splits)
qed

lemma load_job_unneeded:
  assumes "tables_ok L db" "load_job L V job db = Inl a" "is_final a"
  shows "unneeded db job"
proof -
  consider "j_kind job = ''register_watch''" | "j_kind job = ''submit_execute''"
    | "j_kind job \<noteq> ''register_watch''" "j_kind job \<noteq> ''submit_execute''" by blast
  then show ?thesis
  proof cases
    case 1
    then have "load_deposit L (je_load_fault V) (\<lambda>d. d_watch_id d \<noteq> None \<or> is_terminal (d_status d)) job db = Inl a"
      using assms(2) by (simp add: load_job_def register_watch_load_def)
    from load_deposit_unneeded [OF assms(1) this assms(3)] show ?thesis
      using 1 open_not_terminal by auto
  next
    case 2
    then have "load_deposit L (je_load_fault V) (\<lambda>d. d_status d \<noteq> Paid \<or> d_engine_job_id d \<noteq> None) job db = Inl a"
      using assms(2) by (simp add: load_job_def submit_execute_load_def)
    from load_deposit_unneeded [OF assms(1) this assms(3)] show ?thesis
      using 2 by auto
  next
    case 3
    then show ?thesis by (simp add: unneeded_def needs_def)
  qed
qed

lemma load_deposit_id: "load_deposit L fault finished job db = Inr d \<Longrightarrow> d_id d = j_deposit_id job"
  by (auto simp: load_deposit_def get_def select_deposit_def dest: find_SomeD
      split: option.splits if_splits)

lemma load_job_kind:
  "load_job L V job db = Inr d \<Longrightarrow>
     d_id d = j_deposit_id job \<and> j_kind job \<in> {''register_watch'', ''submit_execute''}"
  by (auto simp: load_job_def register_watch_load_def submit_execute_load_def
      dest: load_deposit_id split: if_splits)

lemma register_watch_clears:
  assumes "tables_ok L db" "uuid_v7_ok L" "d \<in> set (deposits db')" "d_id d = i"
  shows "apply_expired L now i data db = Inr (r, db') \<Longrightarrow> \<not> needs ''register_watch'' d"
    and "mark_watch_registered L now i w db = Inr (r, db') \<Longrightarrow> \<not> needs ''register_watch'' d"
    and "fail_open L now i c message db = Inr (r, db') \<Longrightarrow> \<not> needs ''register_watch'' d"
  using deposit_expired.clears [OF assms(1,2) _ _ _ assms(3,4), of now data r "''register_watch''"]
    watch_registered.clears [OF assms(1,2) _ _ _ assms(3,4), of now w r "''register_watch''"]
    open_failed.clears [OF assms(1,2) _ _ _ assms(3,4), of now c message r "''register_watch''"]
  by (auto simp: stamp_def)

lemma submit_execute_clears:
  assumes "tables_ok L db" "uuid_v7_ok L" "d \<in> set (deposits db')" "d_id d = i"
  shows "mark_engine_submitted L now i job replayed db = Inr (r, db') \<Longrightarrow> \<not> needs ''submit_execute'' d"
    and "apply_failed L now i c message h revert data db = Inr (r, db') \<Longrightarrow> \<not> needs ''submit_execute'' d"
  using engine_submitted.clears [OF assms(1,2) _ _ _ assms(3,4), of now job replayed r "''submit_execute''"]
    deposit_failed.clears [OF assms(1,2) _ _ _ assms(3,4), of now c message h revert data r "''submit_execute''"]
  by (auto simp: stamp_def)

lemma after_job_unneeded:
  assumes "tables_ok L db" "uuid_v7_ok L" "after_job L cfg V job d db = (Some a, db')" "is_final a"
    and "d_id d = j_deposit_id job" "j_kind job \<in> {''register_watch'', ''submit_execute''}"
  shows "unneeded db' job"
  unfolding unneeded_def
proof (intro ballI impI)
  fix x
  assume x: "x \<in> set (deposits db')" "d_id x = j_deposit_id job"
  show "\<not> needs (j_kind job) x"
  proof (cases "j_kind job = ''register_watch''")
    case True
    then have "register_watch_after L cfg (je_tx_fault V) (je_checked_at V) (je_now V)
        (je_indexer_configured V) (je_create_watch V) job d db = (Some a, db')"
      using assms(3) by (simp add: after_job_def)
    then show ?thesis
      using True assms(4,5) register_watch_clears [OF assms(1,2) x]
      by (auto simp: register_watch_after_def dest!: run_faulty_Inr simp del: needs_simps
          split: if_splits prod.splits sum.splits option.splits tx_stage.splits)
  next
    case False
    then have "submit_execute_after L cfg (je_tx_fault V) (je_now V) (je_engine_configured V)
        (je_submit V) job d db = (Some a, db')"
      using assms(3) by (simp add: after_job_def)
    then show ?thesis
      using False assms(4-6) submit_execute_clears [OF assms(1,2) x]
      by (auto simp: submit_execute_after_def Let_def dest!: run_faulty_Inr simp del: needs_simps
          split: if_splits prod.splits sum.splits option.splits tx_stage.splits)
  qed
qed

section \<open>Claims and schedules\<close>

lemma due_rows_claimable:
  "r \<in> set (due_rows now batch busy rows) \<Longrightarrow> r \<in> set rows \<and> claimable now rows r \<and> \<not> busy (o_id r)"
  by (auto simp: due_rows_def dest: in_set_takeD)

lemma claim_job:
  assumes "claim now batch ttl busy db = Inr (jobs, db')" "job \<in> set jobs"
    and "distinct (map o_id (outbox db))"
  obtains r where "r \<in> set (outbox db)" "claimable now (outbox db) r" "\<not> busy (o_id r)"
    "j_id job = o_id r" "j_kind job = o_kind r" "j_deposit_id job = o_deposit_id r"
proof -
  obtain r where r: "r \<in> set (outbox db)" "o_id r \<in> o_id ` set (due_rows now batch busy (outbox db))"
      "j_id job = o_id r" "j_kind job = o_kind r" "j_deposit_id job = o_deposit_id r"
    using assms(1,2) by (auto simp: claim_def Let_def job_of_def)
  then obtain r' where r': "r' \<in> set (due_rows now batch busy (outbox db))" "o_id r' = o_id r" by auto
  note due = due_rows_claimable [OF r'(1)]
  then have "r' = r" using unique_by_key [OF assms(3) _ r(1) r'(2)] by simp
  then show thesis using that [OF r(1)] r(3-5) due by simp
qed

lemma claimable_first:
  assumes "claimable now rows r" "claimable now rows s" "r \<in> set rows" "s \<in> set rows" "same_queue r s"
  shows "o_id r = o_id s"
proof -
  have "\<not> o_id r < o_id s" using assms unfolding claimable_def by blast
  moreover have "same_queue s r" using assms(5) by (simp add: same_queue_def)
  then have "\<not> o_id s < o_id r" using assms unfolding claimable_def by blast
  ultimately show ?thesis by simp
qed

lemma schedule_upstream: "kind \<noteq> ''notify_app'' \<Longrightarrow> schedule cfg kind attempts age jitter \<noteq> SDead"
  by (simp add: schedule_def Let_def)

lemma schedule_bounds:
  assumes "schedule cfg kind attempts age jitter = SRetry delay" "0 \<le> jitter" "jitter \<le> 1"
  shows "oc_retry_base_ms cfg \<le> delay"
    and "delay \<le> max (oc_retry_base_ms cfg)
      (if kind = ''notify_app'' then oc_retry_cap_ms cfg else oc_upstream_retry_cap_ms cfg)"
proof -
  let ?base = "real (oc_retry_base_ms cfg)"
  let ?cap = "if kind = ''notify_app'' then oc_retry_cap_ms cfg else oc_upstream_retry_cap_ms cfg"
  define upper where "upper = min (backoff ?base attempts) (real ?cap)"
  have upper: "upper \<le> real ?cap" by (simp add: upper_def)
  have d: "delay = nat \<lfloor>?base + jitter * max (upper - ?base) 0\<rfloor>"
    using assms(1) by (simp add: schedule_def Let_def upper_def split: if_splits)
  have lo: "?base \<le> ?base + jitter * max (upper - ?base) 0" using assms(2) by simp
  then show "oc_retry_base_ms cfg \<le> delay" unfolding d by (rule le_nat_floor)
  have "jitter * max (upper - ?base) 0 \<le> 1 * max (upper - ?base) 0"
    by (rule mult_right_mono) (use assms(3) in auto)
  also have "\<dots> \<le> max (real ?cap - ?base) 0" using upper by simp
  finally have "?base + jitter * max (upper - ?base) 0 \<le> real (max (oc_retry_base_ms cfg) ?cap)" by simp
  then have "\<lfloor>?base + jitter * max (upper - ?base) 0\<rfloor> \<le> \<lfloor>real (max (oc_retry_base_ms cfg) ?cap)\<rfloor>"
    by (rule floor_mono)
  then show "delay \<le> max (oc_retry_base_ms cfg) ?cap" unfolding d by (simp only: floor_of_nat nat_le_iff)
qed

text \<open>A live job is not starved: the head of its queue is claimed once it is due and unlocked.\<close>

lemma claim_reaches:
  assumes r: "r \<in> set (outbox db)" "live r"
  obtains T where "\<And>now batch ttl. T \<le> now \<Longrightarrow> length (outbox db) \<le> batch \<Longrightarrow>
    \<exists>jobs db'. claim now batch ttl (\<lambda>_. False) db = Inr (jobs, db')
      \<and> (\<exists>job \<in> set jobs. j_kind job = o_kind r \<and> j_deposit_id job = o_deposit_id r)"
proof -
  define P where "P n = (\<exists>p \<in> set (outbox db). same_queue p r \<and> live p \<and> o_id p = n)" for n
  have "P (o_id r)" using r by (auto simp: P_def same_queue_def)
  then have "P (LEAST n. P n)" by (rule LeastI)
  then obtain m where m: "m \<in> set (outbox db)" "same_queue m r" "live m" "o_id m = (LEAST n. P n)"
    by (auto simp: P_def)
  have first: "\<not> (\<exists>p \<in> set (outbox db). same_queue p m \<and> o_id p < o_id m \<and> live p)"
  proof
    assume "\<exists>p \<in> set (outbox db). same_queue p m \<and> o_id p < o_id m \<and> live p"
    then obtain p where p: "p \<in> set (outbox db)" "same_queue p m" "o_id p < o_id m" "live p" by blast
    then have "same_queue p r" using m(2) by (simp add: same_queue_def)
    then have "P (o_id p)" using p by (auto simp: P_def)
    then show False using p(3) m(4) not_less_Least by metis
  qed
  let ?T = "max (o_next_attempt_at m) (case o_locked_until m of None \<Rightarrow> 0 | Some t \<Rightarrow> t + 1)"
  have "\<exists>jobs db'. claim now batch ttl (\<lambda>_. False) db = Inr (jobs, db')
      \<and> (\<exists>job \<in> set jobs. j_kind job = o_kind r \<and> j_deposit_id job = o_deposit_id r)"
    if now: "?T \<le> now" and batch: "length (outbox db) \<le> batch" for now batch ttl
  proof -
    have "claimable now (outbox db) m"
      using m(3) first now by (auto simp: claimable_def split: option.splits)
    moreover have "length (filter (\<lambda>r. claimable now (outbox db) r \<and> \<not> False) (outbox db)) \<le> batch"
      using length_filter_le batch le_trans by blast
    ultimately have "m \<in> set (due_rows now batch (\<lambda>_. False) (outbox db))"
      using m(1) by (simp add: due_rows_def)
    then have "o_id m \<in> o_id ` set (due_rows now batch (\<lambda>_. False) (outbox db))" by blast
    then show ?thesis
      using m(1,2) unfolding claim_def Let_def
      by (auto simp: job_of_def same_queue_def intro!: bexI [of _ m])
  qed
  then show thesis using that by blast
qed

end
