(* ===== verification/Config.thy ===== *)
theory Config
  imports Account Outbox
begin

text \<open>
  \<^verbatim>\<open>src/config.rs\<close>, \<open>PrivyVerifier::new\<close> of \<^verbatim>\<open>src/auth/privy.rs\<close> and \<open>AppState::new\<close> of
  \<^verbatim>\<open>src/state.rs\<close>: the configuration, what \<open>Config::validate\<close> requires of it, and the parts of the
  application state that are computed from it. Reading files and variables and merging the layers is
  the work of \<^verbatim>\<open>figment\<close>, a parameter: \<open>load_unchecked\<close> is the list of layers the code asks for.
\<close>

section \<open>The configuration\<close>

record server_config =
  sc_bind :: string
  sc_port :: nat
  sc_callback_base_url :: string
  sc_request_timeout_ms :: nat
  sc_max_body_bytes :: nat
  sc_max_in_flight :: nat
  sc_shutdown_grace_secs :: nat
  sc_cors_origins :: "string list"

record database_config =
  dc_url :: string
  dc_max_connections :: nat
  dc_min_connections :: nat
  dc_acquire_timeout_ms :: nat
  dc_auto_migrate :: bool
  dc_statement_timeout_ms :: nat
  dc_lock_timeout_ms :: nat
  dc_idle_in_transaction_timeout_ms :: nat

record privy_config =
  pc_app_id :: string
  pc_verification_key :: string
  pc_clock_skew_secs :: nat

record api_keys_config =
  kc_cache_ttl_secs :: nat
  kc_rate_limit_per_second :: nat
  kc_rate_limit_burst :: nat

record payments_config =
  pm_factory_address :: string
  pm_recovery_address :: string
  pm_min_expiry_lead_secs :: int
  pm_max_expiry_secs :: int

record upstream_config =
  up_base_url :: string
  up_webhook_secret :: string
  up_timeout_ms :: nat

record webhooks_config =
  wc_inbound_tolerance_secs :: int
  wc_allow_insecure_targets :: bool
  wc_connect_timeout_ms :: nat
  wc_request_timeout_ms :: nat
  wc_retry_base_ms :: nat
  wc_retry_cap_ms :: nat
  wc_max_age_secs :: int

record outbox_config =
  ob_workers :: nat
  ob_poll_interval_ms :: nat
  ob_batch_size :: int
  ob_lock_ttl_secs :: int
  ob_upstream_retry_cap_ms :: nat
  ob_job_timeout_ms :: nat

record reconciler_config =
  rc_interval_secs :: nat
  rc_paid_stale_secs :: int
  rc_paid_repoll_secs :: int
  rc_open_stale_secs :: int
  rc_idempotency_ttl_secs :: int

record relay_config =
  rl_base_url :: string
  rl_api_key :: string
  rl_timeout_ms :: nat
  rl_referrer :: string
  rl_chains_ttl_secs :: nat
  rl_min_time_left_secs :: int
  rl_quotes_per_minute :: nat
  rl_quotes_per_deposit_per_minute :: nat
  rl_reads_per_minute :: nat
  rl_reads_per_deposit_per_minute :: nat
  rl_probe_unlisted_tokens :: bool

record config =
  cf_server :: server_config
  cf_database :: database_config
  cf_privy :: privy_config
  cf_api_keys :: api_keys_config
  cf_payments :: payments_config
  cf_indexer :: upstream_config
  cf_engine :: upstream_config
  cf_webhooks :: webhooks_config
  cf_outbox :: outbox_config
  cf_reconciler :: reconciler_config
  cf_admin_token :: string
  cf_relay :: relay_config
  cf_chains :: "(string \<times> chain_config) list"

text \<open>The defaults of fields that a configuration file may leave out.\<close>

definition default_paid_repoll_secs :: int where "default_paid_repoll_secs = 30"
definition default_statement_timeout_ms :: nat where "default_statement_timeout_ms = 30000"
definition default_lock_timeout_ms :: nat where "default_lock_timeout_ms = 5000"
definition default_idle_in_transaction_timeout_ms :: nat where "default_idle_in_transaction_timeout_ms = 60000"
definition default_job_timeout_ms :: nat where "default_job_timeout_ms = 30000"

section \<open>Loading\<close>

datatype config_layer =
    TomlFile string
  | EnvPrefixed
  | PortLayer nat
  | DatabaseUrlLayer string
  | RelayKeyLayer string

record process_env =
  pe_profile :: "string option"
  pe_port :: "string option"
  pe_database_url :: "string option"
  pe_relay_api_key :: "string option"
  pe_file_exists :: "string \<Rightarrow> bool"

definition parse_u16 :: "string \<Rightarrow> nat option" where
  "parse_u16 s = filter_option (\<lambda>n. n < 2 ^ 16) (parse_u64 s)"

text \<open>\<open>str::replace\<close> of the two characters backslash and n by a newline.\<close>

fun unescape_newlines :: "string \<Rightarrow> string" where
  "unescape_newlines (c # d # cs) =
     (if c = CHR 0x5C \<and> d = CHR ''n'' then CHR 0x0A # unescape_newlines cs else c # unescape_newlines (d # cs))"
| "unescape_newlines cs = cs"

text \<open>\<open>dir\<close> is the configuration directory; \<open>join\<close> puts a slash after it.\<close>

definition join_path :: "string \<Rightarrow> string \<Rightarrow> string" where
  "join_path dir file = dir @ ''/'' @ file"

definition profile_layer :: "string \<Rightarrow> process_env \<Rightarrow> string + config_layer list" where
  "profile_layer dir P = (case pe_profile P of
       None \<Rightarrow> Inr []
     | Some profile \<Rightarrow> (let path = join_path dir (profile @ ''.toml'') in
         if \<not> pe_file_exists P path then Inl (''GUM_PROFILE='' @ profile @ '' but '' @ path @ '' does not exist'')
         else Inr [TomlFile path]))"

definition port_layer :: "process_env \<Rightarrow> string + config_layer list" where
  "port_layer P = (case pe_port P of
       None \<Rightarrow> Inr []
     | Some raw \<Rightarrow> (case parse_u16 raw of
          None \<Rightarrow> Inl ''PORT is not a valid port''
        | Some port \<Rightarrow> Inr [PortLayer port]))"

definition optional_layer :: "('a \<Rightarrow> config_layer) \<Rightarrow> 'a option \<Rightarrow> config_layer list" where
  "optional_layer f x = (case x of None \<Rightarrow> [] | Some v \<Rightarrow> [f v])"

definition load_unchecked ::
    "(config_layer list \<Rightarrow> config option) \<Rightarrow> string \<Rightarrow> process_env \<Rightarrow> string + config" where
  "load_unchecked extract dir P =
     (case profile_layer dir P of Inl e \<Rightarrow> Inl e | Inr profile \<Rightarrow>
      case port_layer P of Inl e \<Rightarrow> Inl e | Inr port \<Rightarrow>
      case extract (TomlFile (join_path dir ''default.toml'') # profile @ [EnvPrefixed] @ port
             @ optional_layer DatabaseUrlLayer (pe_database_url P)
             @ optional_layer (\<lambda>k. RelayKeyLayer (trim k)) (pe_relay_api_key P)) of
        None \<Rightarrow> Inl ''invalid configuration''
      | Some c \<Rightarrow> Inr (c\<lparr>cf_privy := (cf_privy c)\<lparr>pc_verification_key :=
            unescape_newlines (pc_verification_key (cf_privy c))\<rparr>\<rparr>))"

section \<open>Validation\<close>

definition parse_nonzero_address :: "lib \<Rightarrow> string \<Rightarrow> string + address" where
  "parse_nonzero_address L raw = (case l_parse_address L (trim raw) of
       None \<Rightarrow> Inl ''not a valid EVM address''
     | Some a \<Rightarrow> if a = 0 then Inl ''must not be the zero address'' else Inr a)"

definition factory_address :: "lib \<Rightarrow> config \<Rightarrow> string + address" where
  "factory_address L c = parse_nonzero_address L (pm_factory_address (cf_payments c))"

definition recovery_address :: "lib \<Rightarrow> config \<Rightarrow> string + address" where
  "recovery_address L c = parse_nonzero_address L (pm_recovery_address (cf_payments c))"

fun check_tokens :: "string \<Rightarrow> string set \<Rightarrow> address set \<Rightarrow> token_config list \<Rightarrow> string + unit" where
  "check_tokens name symbols addresses [] = Inr ()"
| "check_tokens name symbols addresses (t # ts) =
     (if to_ascii_uppercase (tc_symbol t) \<in> symbols \<or> tc_address t \<in> addresses
      then Inl (''chain '' @ name @ '': duplicate token '' @ tc_symbol t)
      else check_tokens name (insert (to_ascii_uppercase (tc_symbol t)) symbols)
             (insert (tc_address t) addresses) ts)"

text \<open>\<open>seen\<close> is the map from the chain ids so far to the names that have them.\<close>

fun check_chains :: "(nat \<times> string) list \<Rightarrow> (string \<times> chain_config) list \<Rightarrow> string + unit" where
  "check_chains seen [] = Inr ()"
| "check_chains seen ((name, chain) # rest) =
     (case map_of seen (cc_chain_id chain) of
        Some other \<Rightarrow> Inl (''chains '' @ other @ '' and '' @ name @ '' share chain_id '' @ dec_nat (cc_chain_id chain))
      | None \<Rightarrow>
          if cc_tokens chain = [] then Inl (''chain '' @ name @ '' has no tokens'')
          else case check_tokens name {} {} (cc_tokens chain) of
              Inl e \<Rightarrow> Inl e
            | Inr _ \<Rightarrow> check_chains (bt_insert (cc_chain_id chain) name seen) rest)"

text \<open>\<open>lock_ttl_secs.max(0) as u64 * 1000\<close>, which wraps in a release build.\<close>

definition lock_ttl_ms :: "config \<Rightarrow> nat" where
  "lock_ttl_ms c = (nat (max (ob_lock_ttl_secs (cf_outbox c)) 0) * 1000) mod 2 ^ 64"

definition config_validate :: "lib \<Rightarrow> config \<Rightarrow> string + unit" where
  "config_validate L c =
     (if dc_url (cf_database c) = [] then Inl ''DATABASE_URL is required''
      else if \<not> list_ex (\<lambda>(_, chain). cc_enabled chain) (cf_chains c) then Inl ''at least one chain must be enabled''
      else case check_chains [] (cf_chains c) of Inl e \<Rightarrow> Inl e | Inr _ \<Rightarrow>
      case factory_address L c of Inl e \<Rightarrow> Inl ''payments.factory_address'' | Inr _ \<Rightarrow>
      case recovery_address L c of Inl e \<Rightarrow> Inl ''payments.recovery_address'' | Inr _ \<Rightarrow>
      if ob_workers (cf_outbox c) = 0 then Inl ''outbox.workers must be at least 1''
      else if ob_job_timeout_ms (cf_outbox c) = 0 \<or> lock_ttl_ms c \<le> ob_job_timeout_ms (cf_outbox c)
      then Inl ''outbox.job_timeout_ms must be above 0 and below outbox.lock_ttl_secs''
      else Inr ())"

definition config_load ::
    "lib \<Rightarrow> (config_layer list \<Rightarrow> config option) \<Rightarrow> string \<Rightarrow> process_env \<Rightarrow> string + config" where
  "config_load L extract dir P = (case load_unchecked extract dir P of
       Inl e \<Rightarrow> Inl e
     | Inr c \<Rightarrow> (case config_validate L c of Inl e \<Rightarrow> Inl e | Inr _ \<Rightarrow> Inr c))"

definition production_warnings :: "config \<Rightarrow> string list" where
  "production_warnings c =
     (if sc_callback_base_url (cf_server c) = []
      then [''server.callback_base_url is empty: gum-indexer / gum-engine cannot call back''] else [])
     @ (if pc_app_id (cf_privy c) = [] \<or> pc_verification_key (cf_privy c) = []
        then [''privy.app_id / privy.verification_key are empty: Privy-authenticated routes will refuse everything'']
        else [])
     @ (if up_base_url (cf_indexer c) = []
        then [''indexer.base_url is empty: watches cannot be registered''] else [])
     @ (if up_base_url (cf_engine c) = []
        then [''engine.base_url is empty: settlements cannot be submitted''] else [])
     @ (if up_webhook_secret (cf_indexer c) = [] \<or> up_webhook_secret (cf_engine c) = []
        then [''indexer.webhook_secret / engine.webhook_secret are empty: inbound webhooks will be rejected''] else [])
     @ (if rl_api_key (cf_relay c) = []
        then [''RELAY_API_KEY is empty: payers can only pay in the deposit's own token and chain''] else [])
     @ (if wc_allow_insecure_targets (cf_webhooks c)
        then [''webhooks.allow_insecure_targets is on: app webhooks may target private hosts''] else [])"


section \<open>The application state\<close>

text \<open>What \<open>PrivyVerifier::new\<close> asks of \<^verbatim>\<open>jsonwebtoken\<close>.\<close>

record jwt_validation =
  jv_algorithm :: string
  jv_issuers :: "string list"
  jv_audiences :: "string list"
  jv_required_claims :: "string list"
  jv_leeway :: nat

definition privy_validation :: "privy_config \<Rightarrow> jwt_validation" where
  "privy_validation c = \<lparr>jv_algorithm = ''ES256'', jv_issuers = [''privy.io''], jv_audiences = [pc_app_id c],
     jv_required_claims = [''exp'', ''sub'', ''aud'', ''iss''], jv_leeway = pc_clock_skew_secs c\<rparr>"

definition privy_new :: "(string \<Rightarrow> string + 'key) \<Rightarrow> privy_config \<Rightarrow> string + ('key option \<times> jwt_validation)" where
  "privy_new from_ec_pem c =
     (if trim (pc_verification_key c) = [] \<or> trim (pc_app_id c) = [] then Inr (None, privy_validation c)
      else case from_ec_pem (pc_verification_key c) of
          Inl e \<Rightarrow> Inl (''privy.verification_key is not a PEM-encoded ES256 public key: '' @ e)
        | Inr key \<Rightarrow> Inr (Some key, privy_validation c))"

record 'key app_state =
  as_config :: config
  as_registry :: registry
  as_privy :: "'key option \<times> jwt_validation"
  as_indexer_base :: "string option"
  as_engine_base :: "string option"
  as_factory :: address
  as_recovery :: address

text \<open>\<open>http\<close> is whether \<^verbatim>\<open>reqwest\<close> builds the clients.\<close>

definition app_state_new ::
    "lib \<Rightarrow> (string \<Rightarrow> string + 'key) \<Rightarrow> string + unit \<Rightarrow> config \<Rightarrow> string + 'key app_state" where
  "app_state_new L from_ec_pem http c =
     (case privy_new from_ec_pem (cf_privy c) of Inl e \<Rightarrow> Inl e | Inr privy \<Rightarrow>
      case http of Inl e \<Rightarrow> Inl e | Inr _ \<Rightarrow>
      case factory_address L c of Inl e \<Rightarrow> Inl e | Inr factory \<Rightarrow>
      case recovery_address L c of Inl e \<Rightarrow> Inl e | Inr recovery \<Rightarrow>
      Inr \<lparr>as_config = c, as_registry = from_config (cf_chains c), as_privy = privy,
           as_indexer_base = base_url (up_base_url (cf_indexer c)),
           as_engine_base = base_url (up_base_url (cf_engine c)), as_factory = factory, as_recovery = recovery\<rparr>)"

text \<open>The parts of the state the components take as arguments.\<close>

definition state_validator :: "(string \<Rightarrow> string + url) \<Rightarrow> (url \<Rightarrow> string) \<Rightarrow> 'key app_state \<Rightarrow> validator" where
  "state_validator url_parse url_string S = \<lparr>v_registry = as_registry S,
     v_min_expiry_lead_secs = pm_min_expiry_lead_secs (cf_payments (as_config S)),
     v_max_expiry_secs = pm_max_expiry_secs (cf_payments (as_config S)),
     v_allow_insecure_targets = wc_allow_insecure_targets (cf_webhooks (as_config S)),
     v_factory = as_factory S, v_recovery = as_recovery S, v_url_parse = url_parse, v_url_string = url_string\<rparr>"

definition state_outbox_cfg :: "'key app_state \<Rightarrow> outbox_cfg" where
  "state_outbox_cfg S = \<lparr>oc_retry_base_ms = wc_retry_base_ms (cf_webhooks (as_config S)),
     oc_retry_cap_ms = wc_retry_cap_ms (cf_webhooks (as_config S)),
     oc_max_age_secs = wc_max_age_secs (cf_webhooks (as_config S)),
     oc_upstream_retry_cap_ms = ob_upstream_retry_cap_ms (cf_outbox (as_config S)),
     oc_callback_base_url = sc_callback_base_url (cf_server (as_config S)), oc_factory = as_factory S\<rparr>"

section \<open>What a validated configuration guarantees\<close>

lemma check_tokens_ok:
  "check_tokens name S A ts = Inr u \<Longrightarrow>
     distinct (map (\<lambda>t. to_ascii_uppercase (tc_symbol t)) ts) \<and> distinct (map tc_address ts)
     \<and> (\<lambda>t. to_ascii_uppercase (tc_symbol t)) ` set ts \<inter> S = {} \<and> tc_address ` set ts \<inter> A = {}"
  by (induction name S A ts rule: check_tokens.induct) (auto split: if_splits)

lemma check_chains_ok:
  "check_chains seen cs = Inr u \<Longrightarrow> bt_sorted seen \<Longrightarrow>
     distinct (map (cc_chain_id \<circ> snd) cs) \<and> (cc_chain_id \<circ> snd) ` set cs \<inter> dom (map_of seen) = {}
     \<and> (\<forall>(name, chain) \<in> set cs. cc_tokens chain \<noteq> []
         \<and> distinct (map (\<lambda>t. to_ascii_uppercase (tc_symbol t)) (cc_tokens chain)) \<and> distinct (map tc_address (cc_tokens chain)))"
proof (induction seen cs rule: check_chains.induct)
  case (2 seen name chain rest)
  from 2(2) have here: "map_of seen (cc_chain_id chain) = None" "cc_tokens chain \<noteq> []"
      "check_tokens name {} {} (cc_tokens chain) = Inr ()"
      "check_chains (bt_insert (cc_chain_id chain) name seen) rest = Inr u"
    by (auto split: option.splits if_splits sum.splits)
  note IH = 2(1) [OF here(1,2,3,4) bt_sorted_insert [OF 2(3)]]
  have "dom (map_of (bt_insert (cc_chain_id chain) name seen)) = insert (cc_chain_id chain) (dom (map_of seen))"
    by (simp add: map_of_bt_insert [OF 2(3)])
  with IH have rest: "distinct (map (cc_chain_id \<circ> snd) rest)" "cc_chain_id chain \<notin> (cc_chain_id \<circ> snd) ` set rest"
      "(cc_chain_id \<circ> snd) ` set rest \<inter> dom (map_of seen) = {}" by (auto simp: comp_def)
  moreover have "cc_chain_id chain \<notin> dom (map_of seen)" using here(1) by (simp add: domIff)
  ultimately show ?case using IH here(2) check_tokens_ok [OF here(3)] by (simp add: case_prod_beta comp_def)
qed simp


lemma char_code_char_of [simp]: "n < 256 \<Longrightarrow> char_code (char_of n) = n"
  by (simp add: char_code_def)

lemma ascii_lower_upper_char: "ascii_lower_char (ascii_upper_char c) = ascii_lower_char c"
proof (cases "is_ascii_lower c")
  case True
  then have "char_code (ascii_upper_char c) = char_code c - 32" "65 \<le> char_code c - 32" "char_code c - 32 \<le> 90"
    by (auto simp: is_ascii_lower_def ascii_upper_char_def)
  then have "ascii_lower_char (ascii_upper_char c) = char_of (char_code c)"
    using True by (simp add: ascii_lower_char_def is_ascii_upper_def is_ascii_lower_def)
  moreover have "ascii_lower_char c = c"
    using True by (simp add: ascii_lower_char_def is_ascii_upper_def is_ascii_lower_def)
  ultimately show ?thesis by (simp add: char_code_def)
qed (simp add: ascii_upper_char_def)

lemma ascii_upper_lower_char: "ascii_upper_char (ascii_lower_char c) = ascii_upper_char c"
proof (cases "is_ascii_upper c")
  case True
  then have "char_code (ascii_lower_char c) = char_code c + 32" "97 \<le> char_code c + 32" "char_code c + 32 \<le> 122"
    by (auto simp: is_ascii_upper_def ascii_lower_char_def)
  then have "ascii_upper_char (ascii_lower_char c) = char_of (char_code c)"
    using True by (simp add: ascii_upper_char_def is_ascii_lower_def)
  moreover have "ascii_upper_char c = c"
    using True by (simp add: ascii_upper_char_def is_ascii_upper_def is_ascii_lower_def)
  ultimately show ?thesis by (simp add: char_code_def)
qed (simp add: ascii_lower_char_def)

lemma to_ascii_lower_upper [simp]: "to_ascii_lowercase (to_ascii_uppercase s) = to_ascii_lowercase s"
  by (simp add: to_ascii_lowercase_def to_ascii_uppercase_def ascii_lower_upper_char)

lemma eq_ignore_upper: "eq_ignore_ascii_case a b \<longleftrightarrow> to_ascii_uppercase a = to_ascii_uppercase b"
proof -
  have "to_ascii_uppercase (to_ascii_lowercase s) = to_ascii_uppercase s" for s
    by (simp add: to_ascii_lowercase_def to_ascii_uppercase_def ascii_upper_lower_char)
  then show ?thesis unfolding eq_ignore_ascii_case_def by (metis to_ascii_lower_upper)
qed

lemma find_map_key:
  assumes "distinct (map k xs)" "x \<in> set xs" "\<And>y. y \<in> set xs \<Longrightarrow> q (f y) \<longleftrightarrow> k y = k x"
  shows "find q (map f xs) = Some (f x)"
  using assms
proof (induction xs)
  case (Cons y ys)
  show ?case
  proof (cases "y = x")
    case False
    then have "x \<in> set ys" "k y \<noteq> k x" using Cons.prems(1,2) by (auto simp: image_iff)
    with Cons show ?thesis by simp
  qed (use Cons.prems(3) in simp)
qed simp

lemma chain_token_found:
  assumes "distinct (map (\<lambda>t. to_ascii_uppercase (tc_symbol t)) (cc_tokens chain))" "distinct (map tc_address (cc_tokens chain))"
    and "t \<in> set (cc_tokens chain)"
  shows "l_parse_address L (trim raw) = Some (tc_address t) \<Longrightarrow>
      chain_token L (spec_of_config name chain) raw = Some (token_of_config t)"
    and "l_parse_address L (trim raw) = None \<Longrightarrow> eq_ignore_ascii_case (tc_symbol t) (trim raw) \<Longrightarrow>
      chain_token L (spec_of_config name chain) raw = Some (token_of_config t)"
proof -
  assume "l_parse_address L (trim raw) = Some (tc_address t)"
  then show "chain_token L (spec_of_config name chain) raw = Some (token_of_config t)"
    using find_map_key [OF assms(2,3), of "\<lambda>s. ts_address s = tc_address t" token_of_config]
    by (simp add: chain_token_def spec_of_config_def token_of_config_def)
next
  assume *: "l_parse_address L (trim raw) = None" "eq_ignore_ascii_case (tc_symbol t) (trim raw)"
  have "eq_ignore_ascii_case (ts_symbol (token_of_config u)) (trim raw)
      \<longleftrightarrow> to_ascii_uppercase (tc_symbol u) = to_ascii_uppercase (tc_symbol t)" for u
  proof -
    have "eq_ignore_ascii_case (ts_symbol (token_of_config u)) (trim raw) \<longleftrightarrow> eq_ignore_ascii_case (tc_symbol u) (trim raw)"
      by (simp add: eq_ignore_ascii_case_def token_of_config_def)
    then show ?thesis using *(2) by (auto simp: eq_ignore_upper)
  qed
  from find_map_key [OF assms(1,3), of "\<lambda>s. eq_ignore_ascii_case (ts_symbol s) (trim raw)" token_of_config, OF this]
  show "chain_token L (spec_of_config name chain) raw = Some (token_of_config t)"
    using *(1) by (simp add: chain_token_def spec_of_config_def)
qed

lemma parse_nonzero_address_nonzero: "parse_nonzero_address L raw = Inr a \<Longrightarrow> a \<noteq> 0"
  by (auto simp: parse_nonzero_address_def split: option.splits if_splits)

lemma config_loadE:
  assumes "config_load L extract dir P = Inr c"
  obtains factory recovery where "check_chains [] (cf_chains c) = Inr ()" "\<exists>(name, chain) \<in> set (cf_chains c). cc_enabled chain"
    "factory_address L c = Inr factory" "recovery_address L c = Inr recovery"
    "0 < ob_workers (cf_outbox c)" "0 < ob_job_timeout_ms (cf_outbox c)" "ob_job_timeout_ms (cf_outbox c) < lock_ttl_ms c"
    "dc_url (cf_database c) \<noteq> []"
  using assms
  by (auto simp: config_load_def config_validate_def list_ex_iff split: sum.splits if_splits)

lemma lock_ttl_ms_le:
  assumes "ob_job_timeout_ms (cf_outbox c) < lock_ttl_ms c"
  shows "millis (ob_job_timeout_ms (cf_outbox c)) < make_interval (ob_lock_ttl_secs (cf_outbox c))"
proof -
  have "lock_ttl_ms c \<le> nat (max (ob_lock_ttl_secs (cf_outbox c)) 0) * 1000"
    unfolding lock_ttl_ms_def by (rule mod_less_eq_dividend)
  with assms have "int (ob_job_timeout_ms (cf_outbox c)) < ob_lock_ttl_secs (cf_outbox c) * 1000"
    by (cases "0 \<le> ob_lock_ttl_secs (cf_outbox c)") (auto simp: max_def)
  then show ?thesis by (simp add: millis_def make_interval_def nanos_per_sec_def)
qed

end
