(* ===== verification/Relay_Client.thy ===== *)
theory Relay_Client
  imports Relay_Quote Config
begin

text \<open>
  \<open>RelayClient\<close> of \<^verbatim>\<open>src/clients/relay.rs\<close>: the calls to Relay, the cached chain list with its backoff, and
  the short-lived caches of searches, prices, statuses and logos. The caches (\<^verbatim>\<open>moka\<close>), the rate limiters
  (\<^verbatim>\<open>governor\<close>), the HTTP exchange, the URL builder, \<^verbatim>\<open>serde\<close>'s readers and \<^verbatim>\<open>chrono\<close>'s
  \<open>from_timestamp_millis\<close> are parameters. The client's
  state also holds the requests it has sent, in order: what Relay sees of the service. Metrics and log
  lines are left out.
\<close>

section \<open>Operations that may fail and change the state\<close>

type_synonym ('s, 'e, 'a) act = "'s \<Rightarrow> ('e + 'a) \<times> 's"

definition act_return :: "'a \<Rightarrow> ('s, 'e, 'a) act" where
  "act_return x s = (Inr x, s)"

definition act_fail :: "'e \<Rightarrow> ('s, 'e, 'a) act" where
  "act_fail e s = (Inl e, s)"

definition act_bind :: "('s, 'e, 'a) act \<Rightarrow> ('a \<Rightarrow> ('s, 'e, 'b) act) \<Rightarrow> ('s, 'e, 'b) act" where
  "act_bind m k s = (case m s of (Inl e, s') \<Rightarrow> (Inl e, s') | (Inr x, s') \<Rightarrow> k x s')"

text \<open>A value that may be an error, and \<open>map_err\<close>.\<close>

definition act_lift :: "'e + 'a \<Rightarrow> ('s, 'e, 'a) act" where
  "act_lift r s = (r, s)"

definition act_map_err :: "('e \<Rightarrow> 'f) \<Rightarrow> ('s, 'e, 'a) act \<Rightarrow> ('s, 'f, 'a) act" where
  "act_map_err f m s = (case m s of (r, s') \<Rightarrow> (map_sum f id r, s'))"

section \<open>State\<close>

record http_request =
  hr_method :: string
  hr_url :: string
  hr_headers :: "(string \<times> string) list"
  hr_body :: "json option"

definition http_get :: "string \<Rightarrow> http_request" where
  "http_get url = \<lparr>hr_method = ''GET'', hr_url = url, hr_headers = [], hr_body = None\<rparr>"

definition http_post :: "string \<Rightarrow> json \<Rightarrow> http_request" where
  "http_post url body = \<lparr>hr_method = ''POST'', hr_url = url, hr_headers = [], hr_body = Some body\<rparr>"

record chains_cache =
  ch_fetched :: "(time \<times> relay_chain list) option"
  ch_failed_at :: "time option"

definition no_chains :: chains_cache where
  "no_chains = \<lparr>ch_fetched = None, ch_failed_at = None\<rparr>"

record ('s, 'p, 'u, 'o, 'g) relay_client =
  cl_base_url :: "string option"
  cl_api_key :: string
  cl_chains_ttl :: time
  cl_chains :: chains_cache
  cl_searches :: 's
  cl_prices :: 'p
  cl_statuses :: 'u
  cl_logos :: 'o
  cl_reads :: 'g
  cl_sent :: "http_request list"

text \<open>
  \<open>lo_direct n\<close> and \<open>lo_keyed n\<close> are new limiters with a quota of \<open>n\<close> a minute; a check says whether the
  call is admitted.
\<close>

record ('g, 'k) limiter_ops =
  lo_direct :: "nat \<Rightarrow> 'g"
  lo_keyed :: "nat \<Rightarrow> 'k"
  lo_check :: "'g \<Rightarrow> time \<Rightarrow> bool \<times> 'g"
  lo_check_key :: "'k \<Rightarrow> time \<Rightarrow> uuid \<Rightarrow> bool \<times> 'k"
  lo_retain_recent :: "'k \<Rightarrow> time \<Rightarrow> 'k"

record ('s, 'p, 'u, 'o, 'g, 'k) relay_env =
  re_searches :: "('s, string, relay_currency list) cache_ops"
  re_prices :: "('p, string, 64 word option) cache_ops"
  re_statuses :: "('u, string, intent_status) cache_ops"
  re_logos :: "('o, string, string option) cache_ops"
  re_limiter :: "('g, 'k) limiter_ops"
  re_send :: "http_request \<Rightarrow> http_result"
  re_error_body :: "string \<Rightarrow> (string \<times> string option) option"
  re_with_params :: "string \<Rightarrow> (string \<times> string) list \<Rightarrow> string + string"
  re_read_chains :: "string \<Rightarrow> string + relay_chain list"
  re_read_currencies :: "string \<Rightarrow> string + relay_currency list"
  re_read_price :: "string \<Rightarrow> string + 64 word option"
  re_read_quote :: "string \<Rightarrow> string + quote"
  re_read_status :: "string \<Rightarrow> string + intent_status"
  re_read_value :: "string \<Rightarrow> string + json"
  re_from_millis :: "int \<Rightarrow> time option"

text \<open>The quota of a limiter is at least one a minute.\<close>

definition per_min :: "nat \<Rightarrow> nat" where
  "per_min n = max n 1"

definition relay_client_new ::
    "('s, 'p, 'u, 'o, 'g, 'k) relay_env \<Rightarrow> relay_config \<Rightarrow> ('s, 'p, 'u, 'o, 'g) relay_client" where
  "relay_client_new E cfg =
     \<lparr>cl_base_url = (if trim (rl_api_key cfg) = [] then None else base_url (rl_base_url cfg)),
      cl_api_key = trim (rl_api_key cfg),
      cl_chains_ttl = make_interval (int (rl_chains_ttl_secs cfg)),
      cl_chains = no_chains, cl_searches = co_new (re_searches E), cl_prices = co_new (re_prices E),
      cl_statuses = co_new (re_statuses E), cl_logos = co_new (re_logos E),
      cl_reads = lo_direct (re_limiter E) (per_min (rl_reads_per_minute cfg)), cl_sent = []\<rparr>"

definition is_configured :: "('s, 'p, 'u, 'o, 'g) relay_client \<Rightarrow> bool" where
  "is_configured c = (cl_base_url c \<noteq> None)"

section \<open>Requests\<close>

definition relay_url :: "string \<Rightarrow> (('s, 'p, 'u, 'o, 'g) relay_client, upstream_error, string) act" where
  "relay_url path c = (case cl_base_url c of
       None \<Rightarrow> act_fail (NotConfigured ''relay'') c
     | Some b \<Rightarrow> act_return (b @ path) c)"

definition relay_url_with ::
    "('s, 'p, 'u, 'o, 'g, 'k) relay_env \<Rightarrow> string \<Rightarrow> (string \<times> string) list
      \<Rightarrow> (('s, 'p, 'u, 'o, 'g) relay_client, upstream_error, string) act" where
  "relay_url_with E path query = act_bind (relay_url path) (\<lambda>raw.
     case re_with_params E raw query of
       Inl e \<Rightarrow> act_fail (Malformed ''relay'' (''url '' @ raw @ '': '' @ e))
     | Inr url \<Rightarrow> act_return url)"

text \<open>Relay's error body: a message, and a code or \<open>http_error\<close>.\<close>

definition relay_error_body ::
    "('s, 'p, 'u, 'o, 'g, 'k) relay_env \<Rightarrow> string \<Rightarrow> (string \<times> string) option" where
  "relay_error_body E text = map_option (\<lambda>(message, c). (unwrap_or ''http_error'' c, message)) (re_error_body E text)"

definition relay_answer ::
    "('s, 'p, 'u, 'o, 'g, 'k) relay_env \<Rightarrow> (string \<Rightarrow> string + 'a) \<Rightarrow> http_result \<Rightarrow> upstream_error + 'a" where
  "relay_answer E read r = (case r of
       HttpFailed source \<Rightarrow> Inl (Transport ''relay'' source)
     | HttpAnswer status body \<Rightarrow>
         if \<not> is_success status then Inl (from_response (relay_error_body E) ''relay'' status body)
         else (case read body of Inl e \<Rightarrow> Inl (Malformed ''relay'' e) | Inr x \<Rightarrow> Inr x))"

text \<open>Every call but a quote draws on the replica's read budget.\<close>

definition relay_send ::
    "('s, 'p, 'u, 'o, 'g, 'k) relay_env \<Rightarrow> time \<Rightarrow> string \<Rightarrow> (string \<Rightarrow> string + 'a) \<Rightarrow> http_request
      \<Rightarrow> (('s, 'p, 'u, 'o, 'g) relay_client, upstream_error, 'a) act" where
  "relay_send E now operation read request c =
     (let (admitted, reads) = (if operation \<noteq> ''quote'' then lo_check (re_limiter E) (cl_reads c) now
          else (True, cl_reads c));
          c1 = c\<lparr>cl_reads := reads\<rparr>;
          signed = request\<lparr>hr_headers := [(''x-api-key'', cl_api_key c)]\<rparr> in
      if \<not> admitted
      then (Inl (Unavailable ''relay'' 429 ''rate_limited'' ''relay read budget exhausted on this replica''), c1)
      else (relay_answer E read (re_send E signed), c1\<lparr>cl_sent := cl_sent c1 @ [signed]\<rparr>))"

section \<open>The chain list\<close>

definition chains_backoff :: time where "chains_backoff = make_interval 30"
definition status_ttl :: time where "status_ttl = make_interval 2"

text \<open>Here and below \<open>now\<close> is when the caches are read, \<open>done\<close> when Relay's answer is there.\<close>

definition relay_chains ::
    "('s, 'p, 'u, 'o, 'g, 'k) relay_env \<Rightarrow> time \<Rightarrow> time
      \<Rightarrow> (('s, 'p, 'u, 'o, 'g) relay_client, upstream_error, relay_chain list) act" where
  "relay_chains E now done c =
     (let cache = cl_chains c; stale = map_option snd (ch_fetched cache) in
      case filter_option (\<lambda>(t, known). now - t < cl_chains_ttl c) (ch_fetched cache) of
        Some (t, known) \<Rightarrow> (Inr known, c)
      | None \<Rightarrow>
        if filter_option (\<lambda>t. now - t < chains_backoff) (ch_failed_at cache) \<noteq> None
        then (ok_or stale (Unavailable ''relay'' 503 ''backoff'' ''relay chains unavailable; retrying shortly''), c)
        else
          (case relay_url ''/chains'' c of
             (Inl e, c') \<Rightarrow> (Inl e, c')
           | (Inr url, c') \<Rightarrow>
             (case relay_send E now ''chains'' (re_read_chains E) (http_get url) c' of
                (Inr fresh, c1) \<Rightarrow>
                  (Inr fresh, c1\<lparr>cl_chains := \<lparr>ch_fetched = Some (done, fresh), ch_failed_at = None\<rparr>\<rparr>)
              | (Inl err, c1) \<Rightarrow> (ok_or stale err, c1\<lparr>cl_chains := (cl_chains c1)\<lparr>ch_failed_at := Some done\<rparr>\<rparr>))))"

section \<open>Tokens\<close>

text \<open>\<open>format!("{:?}")\<close> of a list of numbers.\<close>

definition fmt_ids :: "nat list \<Rightarrow> string" where
  "fmt_ids ids = ''['' @ join '', '' (map dec_nat ids) @ '']''"

definition search_key :: "nat list \<Rightarrow> string \<Rightarrow> nat \<Rightarrow> string" where
  "search_key ids word limit = fmt_ids ids @ ''|'' @ to_ascii_lowercase word @ ''|'' @ dec_nat limit"

definition search_body :: "nat list \<Rightarrow> string \<Rightarrow> nat \<Rightarrow> json" where
  "search_body ids word limit =
     (let body = JObj [(''chainIds'', JArr (map (\<lambda>i. JInt (int i)) ids)), (''verified'', JBool True),
          (''limit'', JInt (int limit))] in
      if word = [] then jset ''defaultList'' (JBool True) body else jset ''term'' (JStr word) body)"

definition search_currencies ::
    "('s, 'p, 'u, 'o, 'g, 'k) relay_env \<Rightarrow> time \<Rightarrow> time \<Rightarrow> nat list \<Rightarrow> string \<Rightarrow> nat
      \<Rightarrow> (('s, 'p, 'u, 'o, 'g) relay_client, upstream_error, relay_currency list) act" where
  "search_currencies E now done ids word limit c =
     (let key = search_key ids word limit in
      case co_get (re_searches E) (cl_searches c) now key of
        Some hit \<Rightarrow> (Inr hit, c)
      | None \<Rightarrow>
         act_bind (relay_url ''/currencies/v2'') (\<lambda>url.
         act_bind (relay_send E now ''currencies'' (re_read_currencies E) (http_post url (search_body ids word limit)))
         (\<lambda>found c1. (Inr found, c1\<lparr>cl_searches := co_insert (re_searches E) (cl_searches c1) done key found\<rparr>))) c)"

function chunks :: "nat \<Rightarrow> 'a list \<Rightarrow> 'a list list" where
  "chunks n xs = (if n = 0 \<or> xs = [] then [] else take n xs # chunks n (drop n xs))"
  by pat_completeness auto
termination by (relation "measure (length \<circ> snd)") auto

declare chunks.simps [simp del]

text \<open>What the cache knows of the keys, and the keys it does not know.\<close>

definition known_logos ::
    "('s, 'p, 'u, 'o, 'g, 'k) relay_env \<Rightarrow> time \<Rightarrow> 'o \<Rightarrow> string list \<Rightarrow> (string \<times> string) list" where
  "known_logos E now cache keys = List.map_filter
     (\<lambda>key. map_option (\<lambda>url. (key, url)) (Option.bind (co_get (re_logos E) cache now key) id)) keys"

definition missing_logos ::
    "('s, 'p, 'u, 'o, 'g, 'k) relay_env \<Rightarrow> time \<Rightarrow> 'o \<Rightarrow> string list \<Rightarrow> string list" where
  "missing_logos E now cache keys = filter (\<lambda>key. co_get (re_logos E) cache now key = None) keys"

definition token_key :: "nat \<Rightarrow> string \<Rightarrow> string" where
  "token_key chain address = dec_nat chain @ '':'' @ address"

definition found_logo :: "relay_currency list \<Rightarrow> string \<Rightarrow> string option" where
  "found_logo found key = Option.bind (Option.bind
     (find (\<lambda>c. key = token_key (rcu_chain_id c) (to_ascii_lowercase (rcu_address c))) found) rcu_metadata) rm_logo_uri"

fun remember_logos ::
    "('s, 'p, 'u, 'o, 'g, 'k) relay_env \<Rightarrow> time \<Rightarrow> relay_currency list \<Rightarrow> string list \<Rightarrow> (string \<rightharpoonup> string)
      \<Rightarrow> 'o \<Rightarrow> (string \<rightharpoonup> string) \<times> 'o" where
  "remember_logos E done found [] out cache = (out, cache)"
| "remember_logos E done found (key # keys) out cache =
     (let l = found_logo found key in
      remember_logos E done found keys (case l of Some url \<Rightarrow> out(key \<mapsto> url) | None \<Rightarrow> out)
        (co_insert (re_logos E) cache done key l))"

fun logo_batches ::
    "('s, 'p, 'u, 'o, 'g, 'k) relay_env \<Rightarrow> time \<Rightarrow> time \<Rightarrow> string list list \<Rightarrow> (string \<rightharpoonup> string)
      \<Rightarrow> ('s, 'p, 'u, 'o, 'g) relay_client \<Rightarrow> (string \<rightharpoonup> string) \<times> ('s, 'p, 'u, 'o, 'g) relay_client" where
  "logo_batches E now done [] out c = (out, c)"
| "logo_batches E now done (batch # batches) out c =
     (case relay_url ''/currencies/v2'' c of
        (Inl e, c') \<Rightarrow> (out, c')
      | (Inr url, c') \<Rightarrow>
        (case relay_send E now ''logos'' (re_read_currencies E) (http_post url
              (JObj [(''tokens'', JArr (map JStr batch)), (''limit'', JInt (int (length batch)))])) c' of
           (Inl e, c1) \<Rightarrow> logo_batches E now done batches out c1
         | (Inr found, c1) \<Rightarrow>
             (let (out1, cache) = remember_logos E done found batch out (cl_logos c1) in
              logo_batches E now done batches out1 (c1\<lparr>cl_logos := cache\<rparr>))))"

definition relay_logos ::
    "('s, 'p, 'u, 'o, 'g, 'k) relay_env \<Rightarrow> time \<Rightarrow> time \<Rightarrow> string list \<Rightarrow> ('s, 'p, 'u, 'o, 'g) relay_client
      \<Rightarrow> (string \<rightharpoonup> string) \<times> ('s, 'p, 'u, 'o, 'g) relay_client" where
  "relay_logos E now done keys c = logo_batches E now done (chunks 50 (missing_logos E now (cl_logos c) keys))
     (map_of (known_logos E now (cl_logos c) keys)) c"

text \<open>\<open>is_finite() && p > 0.0\<close> on the bits of an \<open>f64\<close>.\<close>

definition finite_positive :: "64 word \<Rightarrow> bool" where
  "finite_positive w = (0 < unat w \<and> unat w < 0x7FF0000000000000)"

definition relay_price ::
    "('s, 'p, 'u, 'o, 'g, 'k) relay_env \<Rightarrow> time \<Rightarrow> time \<Rightarrow> nat \<Rightarrow> string
      \<Rightarrow> (('s, 'p, 'u, 'o, 'g) relay_client, upstream_error, 64 word option) act" where
  "relay_price E now done chain address c =
     (let key = token_key chain (to_ascii_lowercase address) in
      case co_get (re_prices E) (cl_prices c) now key of
        Some hit \<Rightarrow> (Inr hit, c)
      | None \<Rightarrow>
         act_bind (relay_url_with E ''/currencies/token/price'' [(''address'', address), (''chainId'', dec_nat chain)])
         (\<lambda>url c1.
           let keep = (\<lambda>price c2. (Inr price, c2\<lparr>cl_prices := co_insert (re_prices E) (cl_prices c2) done key price\<rparr>)) in
           case relay_send E now ''price'' (re_read_price E) (http_get url) c1 of
             (Inr p, c2) \<Rightarrow> keep (filter_option finite_positive p) c2
           | (Inl (Rejected _ _ _ _), c2) \<Rightarrow> keep None c2
           | (Inl err, c2) \<Rightarrow> (Inl err, c2)) c)"

section \<open>Routes\<close>

definition json_of_quote_request :: "quote_request \<Rightarrow> json" where
  "json_of_quote_request r = JObj
     ([(''user'', JStr (qr_user r)), (''recipient'', JStr (qr_recipient r)), (''refundTo'', JStr (qr_refund_to r)),
       (''refundOnOrigin'', JBool (qr_refund_on_origin r)), (''originChainId'', JInt (int (qr_origin_chain_id r))),
       (''originCurrency'', JStr (qr_origin_currency r)),
       (''destinationChainId'', JInt (int (qr_destination_chain_id r))),
       (''destinationCurrency'', JStr (qr_destination_currency r)), (''amount'', JStr (qr_amount r)),
       (''tradeType'', JStr (qr_trade_type r)), (''referrer'', JStr (qr_referrer r)),
       (''enableTrueExactOutput'', JBool (qr_enable_true_exact_output r))]
      @ (if qr_force_solver_execution r then [(''forceSolverExecution'', JBool True)] else []))"

definition relay_quote ::
    "('s, 'p, 'u, 'o, 'g, 'k) relay_env \<Rightarrow> time \<Rightarrow> quote_request
      \<Rightarrow> (('s, 'p, 'u, 'o, 'g) relay_client, upstream_error, quote) act" where
  "relay_quote E now r = act_bind (relay_url ''/quote/v2'') (\<lambda>url.
     relay_send E now ''quote'' (re_read_quote E) (http_post url (json_of_quote_request r)))"

definition relay_status ::
    "('s, 'p, 'u, 'o, 'g, 'k) relay_env \<Rightarrow> time \<Rightarrow> time \<Rightarrow> string
      \<Rightarrow> (('s, 'p, 'u, 'o, 'g) relay_client, upstream_error, intent_status) act" where
  "relay_status E now done request_id c =
     (let key = to_ascii_lowercase request_id in
      case co_get (re_statuses E) (cl_statuses c) now key of
        Some hit \<Rightarrow> (Inr hit, c)
      | None \<Rightarrow>
         act_bind (relay_url_with E ''/intents/status/v3'' [(''requestId'', request_id)]) (\<lambda>url.
         act_bind (relay_send E now ''status'' (re_read_status E) (http_get url))
         (\<lambda>status c1. (Inr status, c1\<lparr>cl_statuses := co_insert (re_statuses E) (cl_statuses c1) done key status\<rparr>))) c)"

definition index_transaction ::
    "('s, 'p, 'u, 'o, 'g, 'k) relay_env \<Rightarrow> time \<Rightarrow> string \<Rightarrow> nat
      \<Rightarrow> (('s, 'p, 'u, 'o, 'g) relay_client, upstream_error, unit) act" where
  "index_transaction E now tx_hash chain = act_bind (relay_url ''/transactions/index'') (\<lambda>url.
     act_bind (relay_send E now ''index'' (re_read_value E)
       (http_post url (JObj [(''txHash'', JStr tx_hash), (''chainId'', JStr (dec_nat chain))])))
     (\<lambda>_. act_return ()))"

end
