(* ===== verification/Relay_Tokens.thy ===== *)
theory Relay_Tokens
  imports Gum_Base
begin

text \<open>
  \<^verbatim>\<open>src/deposit/relay_tokens.rs\<close>: the tokens that route in one step, as the source lists them. Texts are UTF-8.
\<close>

record direct_token =
  dt_chain_id :: nat
  dt_address :: string
  dt_symbol :: string

abbreviation direct :: "nat \<Rightarrow> string \<Rightarrow> string \<Rightarrow> direct_token" where
  "direct chain address symbol \<equiv> \<lparr>dt_chain_id = chain, dt_address = address, dt_symbol = symbol\<rparr>"

definition direct_tokens :: "direct_token list" where
  "direct_tokens =
     [direct 2741 ''0x0000000000000000000000000000000000000000'' ''ETH'',
      direct 2741 ''0x84a71ccd554cc1b02749b35d22f684cc8ec987e1'' ''USDC'',
      direct 33139 ''0x0000000000000000000000000000000000000000'' ''APE'',
      direct 42161 ''0x0000000000000000000000000000000000000000'' ''ETH'',
      direct 42161 ''0x7f9fbf9bdd3f4105c478b996b648fe6e828a1e98'' ''APE'',
      direct 42161 ''0xaf88d065e77c8cc2239327c5edb3a432268e5831'' ''USDC'',
      direct 42161 ''0xfd086bc7cd5c481dcc9c85ebe478a1c0b69fcbb9'' ''USDT'',
      direct 5042 ''0x0000000000000000000000000000000000000000'' ''USDC'',
      direct 5042 ''0x3600000000000000000000000000000000000000'' ''USDC'',
      direct 43114 ''0xb97ef9ef8734c71904d8002f8b6bc66dd9c48a6e'' ''USDC'',
      direct 43114 ''0x5d3a1ff2b6bab83b63cd9ad0787074081a52ef34'' ''USDe'',
      direct 8453 ''0x0000000000000000000000000000000000000000'' ''ETH'',
      direct 8453 ''0xcbb7c0000ab88b473b1f5afd9ef808440eed33bf'' ''cbBTC'',
      direct 8453 ''0x833589fcd6edb6e08f4c7c32d4f71b54bda02913'' ''USDC'',
      direct 8453 ''0xfde4c96c8593536e31f229ea8f37b2ada2699bb2'' ''USDT'',
      direct 80094 ''0x549943e04f40284185054145c6e4e9568c1d3241'' ''USDC'',
      direct 80094 ''0x2f6f07cdcf3588944bf4c42ac74ff24bf56e7590'' ''WETH'',
      direct 81457 ''0x4300000000000000000000000000000000000004'' ''WETH'',
      direct 56 ''0x0000000000000000000000000000000000000000'' ''BNB'',
      direct 56 ''0xa9616e5e23ec1582c2828b025becf3ef610e266f'' ''SOMI'',
      direct 56 ''0x8ac76a51cc950d9822d68b83fe1ad97b32cd580d'' ''USDC'',
      direct 56 ''0x5d3a1ff2b6bab83b63cd9ad0787074081a52ef34'' ''USDe'',
      direct 56 ''0x55d398326f99059ff775485246999027b3197955'' ''USDT'',
      direct 60808 ''0x0000000000000000000000000000000000000000'' ''ETH'',
      direct 288 ''0x0000000000000000000000000000000000000000'' ''ETH'',
      direct 42220 ''0xceba9300f2b948710d2653dd7b07f33a8b32118c'' ''USDC'',
      direct 25 ''0x0000000000000000000000000000000000000000'' ''CRO'',
      direct 25 ''0x3d7f2c478aafdb65542bcb44bceec05849999d2d'' ''USDC'',
      direct 25 ''0xc21223249ca28397b4b6541dffaecc539bff0c59'' ''USDC.e'',
      direct 97477 ''0x0000000000000000000000000000000000000000'' ''ETH'',
      direct 97477 ''0x31eef89d5215c305304a2fa5376a1f1b6c5dc477'' ''USDC.e'',
      direct 5064014 ''0x0000000000000000000000000000000000000000'' ''USDe'',
      direct 1 ''0x0000000000000000000000000000000000000000'' ''ETH'',
      direct 1 ''0x4d224452801aced8b2f0aebe155379bb5d594381'' ''APE'',
      direct 1 ''0x00000000efe302beaa2b3e6e1b18d08d69a9012a'' ''AUSD'',
      direct 1 ''0x6b175474e89094c44da98b954eedeac495271d0f'' ''DAI'',
      direct 1 ''0xaca92e438df0b2401ff60da7e4337b687a2435da'' ''mUSD'',
      direct 1 ''0x6c3ea9036406852006290770bedfcaba0e23a0e8'' ''PYUSD'',
      direct 1 ''0xa0b86991c6218b36c1d19d4a2e9eb0ce3606eb48'' ''USDC'',
      direct 1 ''0x4c9edd5852cd905f086c759e8383e09bff1e68b3'' ''USDe'',
      direct 1 ''0xe343167631d89b6ffc58b88d6b7fb0228795491d'' ''USDG'',
      direct 1 ''0xec2af1c8b110a61fd9c3fa6a554a031ca9943926'' ''USDm'',
      direct 1 ''0xdac17f958d2ee523a2206206994597c13d831ec7'' ''USDT'',
      direct 747 ''0xf1815bd50389c46847f0bda824ec8da914045d14'' ''USDC'',
      direct 685689 ''0x0000000000000000000000000000000000000000'' ''ETH'',
      direct 685689 ''0x5b32c997211621d55a89cc5abaf1cc21f3a6ddf5'' ''USDC'',
      direct 100 ''0x2a22f9c3b484c3629090feed35f17ff8f88f76f0'' ''USDC'',
      direct 999 ''0x0000000000000000000000000000000000000000'' ''HYPE'',
      direct 999 ''0xb88339cb7199b77e23db6e890353e22632ba630f'' ''USDC'',
      direct 999 ''0x5d3a1ff2b6bab83b63cd9ad0787074081a52ef34'' ''USDe'',
      direct 999 ''0xb8ce59fc3717ada4c02eadf9682a9e934f625ebb'' [CHR ''U'', CHR ''S'', CHR ''D'', CHR 0xE2, CHR 0x82, CHR 0xAE, CHR ''0''],
      direct 57073 ''0x0000000000000000000000000000000000000000'' ''ETH'',
      direct 57073 ''0x2d270e6886d130d724215a266106e6832161eaed'' ''USDC'',
      direct 57073 ''0x0200c29006150606b650577bbe7b6248f58470c1'' ''USDT0'',
      direct 747474 ''0x0000000000000000000000000000000000000000'' ''ETH'',
      direct 747474 ''0x203a662b0bd271a6ed5a60edfbd04bfce608fd36'' ''USDC'',
      direct 747474 ''0x2dca96907fde857dd3d816880a0df407eeb2d2f2'' ''USDT'',
      direct 59144 ''0x0000000000000000000000000000000000000000'' ''ETH'',
      direct 59144 ''0xaca92e438df0b2401ff60da7e4337b687a2435da'' ''mUSD'',
      direct 59144 ''0x176211869ca2b568f2a7d4ee941e073a821ee1ff'' ''USDC'',
      direct 1135 ''0x0000000000000000000000000000000000000000'' ''ETH'',
      direct 169 ''0x0000000000000000000000000000000000000000'' ''ETH'',
      direct 5000 ''0x09bc4e0d864854c6afb6eb9a9cdf58ac190d0df9'' ''USDC'',
      direct 4326 ''0x0000000000000000000000000000000000000000'' ''ETH'',
      direct 4326 ''0xfafddbb3fc7688494971a79cc65dca3ef82079e7'' ''USDm'',
      direct 4326 ''0xb8ce59fc3717ada4c02eadf9682a9e934f625ebb'' ''USDT'',
      direct 1088 ''0x420000000000000000000000000000000000000a'' ''WETH'',
      direct 34443 ''0x0000000000000000000000000000000000000000'' ''ETH'',
      direct 143 ''0x0000000000000000000000000000000000000000'' ''MON'',
      direct 143 ''0x00000000efe302beaa2b3e6e1b18d08d69a9012a'' ''AUSD'',
      direct 143 ''0xaca92e438df0b2401ff60da7e4337b687a2435da'' ''mUSD'',
      direct 143 ''0x754704bc059f8c67012fed69bc8a327a5aafb603'' ''USDC'',
      direct 2818 ''0x0000000000000000000000000000000000000000'' ''ETH'',
      direct 42018 ''0x0000000000000000000000000000000000000000'' ''ETH'',
      direct 42018 ''0x0685b38c8228f595688dec1d7c69d036b3ee52d7'' ''USDC.e'',
      direct 10 ''0x0000000000000000000000000000000000000000'' ''ETH'',
      direct 10 ''0x0b2c639c533813f4aa9d7837caf62653d097ff85'' ''USDC'',
      direct 10 ''0x94b008aa00579c1307b0ef2c499ad98a8ce58e58'' ''USDT'',
      direct 9745 ''0xb8ce59fc3717ada4c02eadf9682a9e934f625ebb'' [CHR ''U'', CHR ''S'', CHR ''D'', CHR 0xE2, CHR 0x82, CHR 0xAE, CHR ''0''],
      direct 98866 ''0xdddd73f5df1f0dc31373357beac77545dc5a6f3f'' ''pUSD'',
      direct 98866 ''0xca59ca09e5602fae8b629dee83ffa819741f14be'' ''WETH'',
      direct 137 ''0xc011a7e12a19f7b1f670d46f03b03f3342e82dfb'' ''pUSD'',
      direct 137 ''0x3c499c542cef5e3811e1192ce70d8cc03d5c3359'' ''USDC'',
      direct 137 ''0x2791bca1f2de4661ed88a30c99a7a9449aa84174'' ''USDC.e'',
      direct 137 ''0xc2132d05d31c914a87c6611c10748aeb04b58e8f'' ''USDT'',
      direct 4663 ''0x0000000000000000000000000000000000000000'' ''ETH'',
      direct 4663 ''0x5fc5360d0400a0fd4f2af552add042d716f1d168'' ''USDG'',
      direct 2020 ''0x0b7007c13325c48911f73a2dad5fa5dcbf808adc'' ''USDC'',
      direct 534352 ''0x0000000000000000000000000000000000000000'' ''ETH'',
      direct 360 ''0x0000000000000000000000000000000000000000'' ''ETH'',
      direct 5031 ''0x0000000000000000000000000000000000000000'' ''SOMI'',
      direct 1868 ''0xba9986d2381edf1da03b0b9c1f8b00dc4aacc369'' ''USDC.e'',
      direct 146 ''0x29219dd400f2bf60e5a23d13be72b486d4038894'' ''USDC'',
      direct 988 ''0x779ded0c9e1022225f8e0630b35a9b54be713736'' ''USDT0'',
      direct 5330 ''0x0000000000000000000000000000000000000000'' ''ETH'',
      direct 4217 ''0x20c000000000000000000000b9537d11c60e8b50'' ''USDC'',
      direct 4217 ''0x20c00000000000000000000014f22ca97301eb73'' ''USDT0'',
      direct 130 ''0x0000000000000000000000000000000000000000'' ''ETH'',
      direct 130 ''0x078d782b760474a361dda0af3839290b0ef57ad6'' ''USDC'',
      direct 480 ''0x0000000000000000000000000000000000000000'' ''ETH'',
      direct 480 ''0x79a02482a880bce3f13e09da970dc34db4cd24d1'' ''USDC'',
      direct 196 ''0xb6ceceab302e2e4948951ee7843fc24e92933061'' ''USDC'',
      direct 196 ''0x4ae46a509f6b1d9056937ba4500cb143933d2dc8'' ''USDG'',
      direct 324 ''0x0000000000000000000000000000000000000000'' ''ETH'']"

definition is_direct :: "nat \<Rightarrow> string \<Rightarrow> bool" where
  "is_direct chain address =
     list_ex (\<lambda>t. dt_chain_id t = chain \<and> eq_ignore_ascii_case (dt_address t) address) direct_tokens"

lemma to_ascii_lowercase_idem [simp]: "to_ascii_lowercase (to_ascii_lowercase s) = to_ascii_lowercase s"
proof -
  have "\<not> is_ascii_upper (ascii_lower_char c)" for c
    by (auto simp: ascii_lower_char_def is_ascii_upper_def char_code_def)
  then have "ascii_lower_char (ascii_lower_char c) = ascii_lower_char c" for c
    by (simp add: ascii_lower_char_def [of "ascii_lower_char c"])
  then show ?thesis by (simp add: to_ascii_lowercase_def)
qed

text \<open>The test ignores the case of the address.\<close>

lemma is_direct_lowercase: "is_direct chain (to_ascii_lowercase address) = is_direct chain address"
  by (simp add: is_direct_def eq_ignore_ascii_case_def)

end
