(* ===== verification/Routes.thy ===== *)
theory Routes
  imports Config
begin

text \<open>
  \<^verbatim>\<open>src/deposit/routes.rs\<close> and the operational and admin routes of \<^verbatim>\<open>src/app.rs\<close>. A handler gets what
  axum's extractors hand it (the principal, the path, the query, the body or its rejection) and answers
  with an error or with a status, headers and a value. The middleware stack is not modelled; metrics,
  log lines and the wake-up of the workers are left out.
\<close>

record 'a answer =
  an_status :: nat
  an_headers :: "(string \<times> string) list"
  an_value :: 'a

definition json_answer :: "'a \<Rightarrow> 'a answer" where
  "json_answer v = \<lparr>an_status = 200, an_headers = [], an_value = v\<rparr>"

section \<open>Creating a deposit\<close>

definition max_idempotency_key_len :: nat where "max_idempotency_key_len = 128"
definition default_page :: int where "default_page = 50"
definition max_page :: int where "max_page = 200"

definition idempotency_key :: "headers \<Rightarrow> api_error + string option" where
  "idempotency_key H = (case H ''idempotency-key'' of
       None \<Rightarrow> Inr None
     | Some HeaderOpaque \<Rightarrow> Inl (api_invalid ''Idempotency-Key must be ASCII'')
     | Some (HeaderText v) \<Rightarrow> (let key = trim v in
         if key = [] then Inr None
         else if max_idempotency_key_len < length key then Inl (api_invalid
           (''Idempotency-Key must be at most '' @ dec_nat max_idempotency_key_len @ '' characters''))
         else Inr (Some key)))"

text \<open>\<open>body\<close> is the rejected body's text, or the request; \<open>others\<close> as in \<open>create_deposit\<close>.\<close>

definition create_route ::
    "lib \<Rightarrow> validator \<Rightarrow> time \<Rightarrow> time \<Rightarrow> (db \<Rightarrow> db) \<Rightarrow> b256 \<Rightarrow> principal \<Rightarrow> headers \<Rightarrow> string + create_deposit_request
      \<Rightarrow> db \<Rightarrow> (api_error + deposit_view answer) \<times> db" where
  "create_route L V utc_now now others salt p H body db = (case body of
       Inl rejection \<Rightarrow> (Inl (api_invalid rejection), db)
     | Inr req \<Rightarrow>
      (case idempotency_key H of
         Inl e \<Rightarrow> (Inl e, db)
       | Inr key \<Rightarrow>
        (case validate_request L V req utc_now salt of
           Inl e \<Rightarrow> (Inl e, db)
         | Inr new \<Rightarrow>
            (let idem = map_option (\<lambda>k. \<lparr>idem_key = k, idem_fingerprint = request_fingerprint L req\<rparr>) key in
             case create_deposit L now others (pr_user_id p) new idem db of
               (Inl e, db1) \<Rightarrow> (Inl (api_of_sqlx e), db1)
             | (Inr (Created d), db1) \<Rightarrow>
                 (Inr \<lparr>an_status = 201, an_headers = [], an_value = deposit_view_of L d\<rparr>, db1)
             | (Inr (Replayed d), db1) \<Rightarrow>
                 (Inr \<lparr>an_status = 200, an_headers = [(''idempotent-replayed'', ''true'')],
                       an_value = deposit_view_of L d\<rparr>, db1)
             | (Inr Conflict, db1) \<Rightarrow> (Inl (api_conflict ''idempotency_conflict''
                 ''this Idempotency-Key was already used with a different request''), db1)))))"

section \<open>Reading deposits\<close>

text \<open>The two statements may see different states of the tables: \<open>db\<close>, then \<open>db'\<close>.\<close>

definition get_by_id ::
    "lib \<Rightarrow> db_faults \<Rightarrow> principal \<Rightarrow> uuid \<Rightarrow> db \<Rightarrow> db \<Rightarrow> api_error + deposit_view answer" where
  "get_by_id L f p i db db' = (case f 0 of
       Some e \<Rightarrow> Inl (api_of_sqlx e)
     | None \<Rightarrow> (case filter_option (\<lambda>d. d_user_id d = pr_user_id p) (get db i) of
          None \<Rightarrow> Inl (api_not_found ''no such deposit'')
        | Some d \<Rightarrow> (case f 1 of
             Some e \<Rightarrow> Inl (api_of_sqlx e)
           | None \<Rightarrow> Inr (json_answer ((deposit_view_of L d)\<lparr>v_events :=
               Some (map event_view (events db' (d_id d)))\<rparr>)))))"

record list_query =
  lq_status :: "string option"
  lq_chain_id :: "string option"
  lq_token :: "string option"
  lq_reference :: "string option"
  lq_payment_address :: "string option"
  lq_receiver :: "string option"
  lq_created_after :: "time option"
  lq_created_before :: "time option"
  lq_cursor :: "string option"
  lq_limit :: "int option"

record list_response =
  lr_items :: "deposit_view list"
  lr_next_cursor :: "string option"

definition non_empty :: "string option \<Rightarrow> string option" where
  "non_empty v = filter_option (\<lambda>s. s \<noteq> []) (map_option trim v)"

definition parse_param :: "string option \<Rightarrow> (string \<Rightarrow> 'a option) \<Rightarrow> string \<Rightarrow> api_error + 'a option" where
  "parse_param v parse message = (case non_empty v of
       None \<Rightarrow> Inr None
     | Some raw \<Rightarrow> (case parse raw of None \<Rightarrow> Inl (api_invalid message) | Some x \<Rightarrow> Inr (Some x)))"

definition into_filter :: "lib \<Rightarrow> registry \<Rightarrow> list_query \<Rightarrow> api_error + list_filter" where
  "into_filter L R q =
     (case parse_param (lq_status q) status_parse
        ''status must be one of pending, partial_paid, paid, settled, failed, expired'' of Inl e \<Rightarrow> Inl e | Inr status \<Rightarrow>
      case parse_param (lq_chain_id q) (\<lambda>raw. map_option (\<lambda>c. as_i64 (cs_chain_id c)) (registry_chain R raw))
        ''unsupported chain_id'' of Inl e \<Rightarrow> Inl e | Inr chain_id \<Rightarrow>
      let limit = unwrap_or default_page (lq_limit q) in
      if \<not> (1 \<le> limit \<and> limit \<le> max_page)
      then Inl (api_invalid (''limit must be between 1 and '' @ dec_int max_page))
      else case parse_param (lq_cursor q) (cursor_decode L) ''invalid cursor'' of Inl e \<Rightarrow> Inl e | Inr cursor \<Rightarrow>
      Inr \<lparr>lf_status = status, lf_chain_id = chain_id, lf_token = non_empty (lq_token q),
           lf_reference = non_empty (lq_reference q), lf_payment_address = non_empty (lq_payment_address q),
           lf_receiver = non_empty (lq_receiver q), lf_created_after = lq_created_after q,
           lf_created_before = lq_created_before q, lf_cursor = cursor, lf_limit = nat limit\<rparr>)"

definition list_deposits ::
    "lib \<Rightarrow> registry \<Rightarrow> db_faults \<Rightarrow> principal \<Rightarrow> list_query \<Rightarrow> db \<Rightarrow> api_error + list_response answer" where
  "list_deposits L R f p q db = (case into_filter L R q of
       Inl e \<Rightarrow> Inl e
     | Inr fl \<Rightarrow> (case f 0 of
          Some e \<Rightarrow> Inl (api_of_sqlx e)
        | None \<Rightarrow> (let page = list L db (pr_user_id p) fl in
            Inr (json_answer \<lparr>lr_items = map (deposit_view_of L) (pg_items page),
              lr_next_cursor = pg_next_cursor page\<rparr>))))"

definition list_mine ::
    "lib \<Rightarrow> registry \<Rightarrow> db_faults \<Rightarrow> principal \<Rightarrow> list_query \<Rightarrow> db \<Rightarrow> api_error + list_response answer" where
  "list_mine L R f p q db = list_deposits L R f p q db"

definition list_for_user ::
    "lib \<Rightarrow> registry \<Rightarrow> db_faults \<Rightarrow> principal \<Rightarrow> string \<Rightarrow> list_query \<Rightarrow> db \<Rightarrow> api_error + list_response answer" where
  "list_for_user L R f p user q db =
     (if user \<noteq> pr_user_id p then Inl (api_forbidden ''you can only list your own deposits'')
      else list_deposits L R f p q db)"

section \<open>Reference data and health\<close>

definition json_of_token :: "lib \<Rightarrow> token_spec \<Rightarrow> json" where
  "json_of_token L t = JObj [(''symbol'', JStr (ts_symbol t)), (''address'', JStr (l_fmt_address L (ts_address t))),
     (''decimals'', JInt (int (ts_decimals t)))]"

definition json_of_chain :: "lib \<Rightarrow> address \<Rightarrow> chain_spec \<Rightarrow> json" where
  "json_of_chain L factory c = JObj [(''name'', JStr (cs_name c)), (''chain_id'', JInt (int (cs_chain_id c))),
     (''factory'', JStr (l_fmt_address L factory)), (''tokens'', JArr (map (json_of_token L) (cs_tokens c)))]"

definition list_chains :: "lib \<Rightarrow> registry \<Rightarrow> address \<Rightarrow> json" where
  "list_chains L R factory = JObj [(''chains'', JArr (map (json_of_chain L factory) (registry_chains R)))]"

definition healthz :: json where
  "healthz = JObj [(''status'', JStr ''ok'')]"

definition readyz :: "bool \<Rightarrow> wire \<Rightarrow> 'key app_state \<Rightarrow> bool \<Rightarrow> json answer" where
  "readyz db_ok W S relay_configured = \<lparr>an_status = (if db_ok then 200 else 503), an_headers = [],
     an_value = JObj [(''db'', JBool db_ok), (''indexer'', JBool (healthy W (as_indexer_base S))),
       (''engine'', JBool (healthy W (as_engine_base S))), (''privy'', JBool (fst (as_privy S) \<noteq> None)),
       (''relay'', JBool relay_configured)]\<rparr>"

definition route_not_found :: api_error where
  "route_not_found = api_not_found ''no such route''"

definition method_not_allowed :: api_error where
  "method_not_allowed = api_error_new 405 ''method_not_allowed'' ''method not allowed''"

section \<open>Admin\<close>

definition admin_retry_settlement ::
    "lib \<Rightarrow> tx_fault \<Rightarrow> time \<Rightarrow> api_error + unit \<Rightarrow> uuid \<Rightarrow> db \<Rightarrow> (api_error + deposit_view answer) \<times> db" where
  "admin_retry_settlement L f now admin i db = (case admin of
       Inl e \<Rightarrow> (Inl e, db)
     | Inr _ \<Rightarrow> (case run_faulty f (retry_settlement L now i) db of
          (Inl (_, e), db1) \<Rightarrow> (Inl (api_of_sqlx e), db1)
        | (Inr None, db1) \<Rightarrow> (Inl (api_conflict ''not_retryable'' ''deposit is not in the failed state''), db1)
        | (Inr (Some d), db1) \<Rightarrow> (Inr (json_answer (deposit_view_of L d)), db1)))"

record outbox_listing =
  ol_id :: uuid
  ol_kind :: string
  ol_deposit_id :: uuid
  ol_attempts :: int
  ol_last_error :: "string option"
  ol_dead_at :: "time option"
  ol_created_at :: time

definition listing_of :: "outbox_row \<Rightarrow> outbox_listing" where
  "listing_of r = \<lparr>ol_id = o_id r, ol_kind = o_kind r, ol_deposit_id = o_deposit_id r, ol_attempts = o_attempts r,
     ol_last_error = o_last_error r, ol_dead_at = o_dead_at r, ol_created_at = o_created_at r\<rparr>"

definition admin_outbox :: "db_faults \<Rightarrow> api_error + unit \<Rightarrow> db \<Rightarrow> api_error + outbox_listing list answer" where
  "admin_outbox f admin db = (case admin of
       Inl e \<Rightarrow> Inl e
     | Inr _ \<Rightarrow> (case f 0 of
          Some e \<Rightarrow> Inl (api_of_sqlx e)
        | None \<Rightarrow> Inr (json_answer (map listing_of (take 200 (rev (sort_key o_created_at
            (filter (\<lambda>r. 1 < o_attempts r \<or> o_dead_at r \<noteq> None) (outbox db)))))))))"

definition admin_requeue :: "db_faults \<Rightarrow> time \<Rightarrow> api_error + unit \<Rightarrow> uuid \<Rightarrow> db \<Rightarrow> (api_error + nat) \<times> db" where
  "admin_requeue f now admin i db = (case admin of
       Inl e \<Rightarrow> (Inl e, db)
     | Inr _ \<Rightarrow> (case f 0 of
          Some e \<Rightarrow> (Inl (api_of_sqlx e), db)
        | None \<Rightarrow> (case run_tx (requeue now i) db of
             (Inl e, db1) \<Rightarrow> (Inl (api_of_sqlx e), db1)
           | (Inr False, db1) \<Rightarrow> (Inl (api_not_found ''no such outbox job''), db1)
           | (Inr True, db1) \<Rightarrow> (Inr 202, db1))))"

end
