(* ===== verification/Pay.thy ===== *)
theory Pay
  imports Routes
begin

text \<open>
  \<^verbatim>\<open>src/deposit/pay.rs\<close> and \<^verbatim>\<open>src/deposit/feed.rs\<close>: the payer's view of a deposit, its long polling, and
  the relay of Postgres notifications to the requests that wait. What the broadcast channel delivers to
  a request, and when, is an argument; so are the rows its statements read.
\<close>

section \<open>The feed\<close>

text \<open>\<open>Uuid::nil()\<close>: every reader reads again.\<close>

definition resync :: uuid where "resync = 0"

datatype listener_event = Notified string | Reconnected

definition relay_event :: "lib \<Rightarrow> listener_event \<Rightarrow> uuid option" where
  "relay_event L e = (case e of Notified payload \<Rightarrow> l_parse_uuid L payload | Reconnected \<Rightarrow> Some resync)"

text \<open>What one connection of the listener sends: \<open>resync\<close> when it listens, then an id per notification.\<close>

definition listen :: "lib \<Rightarrow> listener_event list \<Rightarrow> uuid list" where
  "listen L es = resync # List.map_filter (relay_event L) es"

section \<open>The view\<close>

definition max_wait_secs :: int where "max_wait_secs = 25"
definition timeout_headroom_ms :: nat where "timeout_headroom_ms = 1000"

definition payer_events :: "string list" where
  "payer_events = [ev_created, ev_detected, ev_payment_confirmed, ev_payment_orphaned, ev_ready,
     ev_settlement_submitted, ev_settlement_included, ev_settled, ev_failed, ev_expired]"

definition transfer_fields :: "string list" where
  "transfer_fields = [''tx_hash'', ''log_index'', ''block_number'', ''block_hash'', ''from'', ''amount'', ''status'']"

definition data_fields :: "string list" where
  "data_fields = [''confirmed_amount'', ''tx_hash'', ''block_number'']"

record pay_query =
  pq_after :: "int option"
  pq_wait :: "int option"

record payer_event =
  pe_id :: uuid
  pe_sequence :: int
  pe_type :: string
  pe_created_at :: time
  pe_data :: json

record payer_view =
  pv_id :: uuid
  pv_status :: deposit_status
  pv_sequence :: int
  pv_payment_address :: string
  pv_chain_id :: nat
  pv_token :: string
  pv_token_address :: string
  pv_token_decimals :: nat
  pv_amount :: string
  pv_confirmed_amount :: string
  pv_expires_at :: time
  pv_tx_hash :: "string option"
  pv_block_number :: "nat option"
  pv_failure :: "string option"
  pv_timestamps :: timestamps
  pv_server_time :: string
  pv_events :: "payer_event list"

fun pick :: "(string \<times> json) list \<Rightarrow> string list \<Rightarrow> (string \<times> json) list \<Rightarrow> (string \<times> json) list" where
  "pick from [] into = into"
| "pick from (field # fs) into = pick from fs
     (case filter_option (\<lambda>v. \<not> is_null v) (map_of from field) of
        None \<Rightarrow> into
      | Some v \<Rightarrow> obj_insert field v into)"

definition payer_data :: "string \<Rightarrow> json \<Rightarrow> json" where
  "payer_data event_type data = (case as_object data of
       None \<Rightarrow> JObj []
     | Some kvs \<Rightarrow>
        (let out = (case map_of kvs ''transfer'' of
               Some (JObj transfer) \<Rightarrow> obj_insert ''transfer'' (JObj (pick transfer transfer_fields [])) []
             | _ \<Rightarrow> []);
             out = pick kvs data_fields out;
             out = (if event_type = ev_failed then pick kvs [''code''] out else out)
         in JObj out))"

definition payer_event_of :: "deposit_event \<Rightarrow> payer_event" where
  "payer_event_of e = \<lparr>pe_id = e_id e, pe_sequence = e_sequence e, pe_type = e_type e,
     pe_created_at = e_created_at e, pe_data = payer_data (e_type e) (e_data e)\<rparr>"

definition payer_view_of :: "lib \<Rightarrow> deposit \<Rightarrow> deposit_event list \<Rightarrow> time \<Rightarrow> payer_view" where
  "payer_view_of L d es now = \<lparr>pv_id = d_id d, pv_status = d_status d, pv_sequence = d_event_seq d,
     pv_payment_address = d_payment_address d, pv_chain_id = as_u64 (d_chain_id d), pv_token = d_token_symbol d,
     pv_token_address = d_token_address d, pv_token_decimals = as_u8 (d_token_decimals d), pv_amount = d_amount d,
     pv_confirmed_amount = d_confirmed_amount d, pv_expires_at = d_expires_at d, pv_tx_hash = d_tx_hash d,
     pv_block_number = map_option as_u64 (d_block_number d), pv_failure = d_failure_code d,
     pv_timestamps = timestamps_of d, pv_server_time = l_fmt_time_millis L now,
     pv_events = map payer_event_of es\<rparr>"

section \<open>Long polling\<close>

text \<open>In milliseconds.\<close>

definition hold_for :: "int option \<Rightarrow> nat \<Rightarrow> nat" where
  "hold_for requested request_timeout_ms =
     min (nat (max 0 (min (unwrap_or 0 requested) max_wait_secs)) * 1000) (request_timeout_ms - timeout_headroom_ms)"

datatype recv = Changed uuid | Lagged | Closed

text \<open>\<open>timeout_at\<close>: the outcome of a future that completes at \<open>t\<close>; \<open>None\<close> is \<open>Elapsed\<close>.\<close>

definition timeout_at :: "time \<Rightarrow> time \<times> 'a \<Rightarrow> 'a option" where
  "timeout_at deadline c = (if fst c < deadline then Some (snd c) else None)"

text \<open>
  The loop of \<open>view\<close> and one round of it. \<open>received n\<close> is when the message number \<open>n\<close> is there, and which; \<open>row t\<close> is what the
  deposit's \<open>SELECT\<close> gives at time \<open>t\<close>. The result is the row to answer with and the time of the answer.
\<close>

datatype round = Answer "api_error + deposit \<times> time" | Again deposit

definition hold_round ::
    "time \<times> recv \<Rightarrow> (time \<Rightarrow> api_error + deposit) \<Rightarrow> uuid \<Rightarrow> int \<Rightarrow> time \<Rightarrow> deposit \<Rightarrow> round" where
  "hold_round message row i after deadline d =
     (case timeout_at deadline message of
        None \<Rightarrow> Answer (Inr (d, deadline))
      | Some Closed \<Rightarrow> Answer (Inr (d, fst message))
      | Some m \<Rightarrow>
          if (case m of Changed c \<Rightarrow> c \<noteq> i \<and> c \<noteq> resync | _ \<Rightarrow> False) then Again d
          else (case row (fst message) of
              Inl e \<Rightarrow> Answer (Inl e)
            | Inr d' \<Rightarrow> if after < d_event_seq d' then Answer (Inr (d', fst message)) else Again d'))"

partial_function (option) hold_loop ::
    "(nat \<Rightarrow> time \<times> recv) \<Rightarrow> (time \<Rightarrow> api_error + deposit) \<Rightarrow> uuid \<Rightarrow> int \<Rightarrow> time \<Rightarrow> nat \<Rightarrow> deposit
      \<Rightarrow> (api_error + deposit \<times> time) option" where
  "hold_loop received row i after deadline n d =
     (case hold_round (received n) row i after deadline d of
        Answer r \<Rightarrow> Some r
      | Again d' \<Rightarrow> hold_loop received row i after deadline (n + 1) d')"

definition no_such_deposit :: api_error where
  "no_such_deposit = api_not_found ''no such deposit''"

text \<open>
  \<open>row_of L f get_row i t\<close> is \<open>store::get(..).await?.ok_or_else(no_such_deposit)?\<close> at time \<open>t\<close>: \<open>db_at t\<close> are
  the tables then, \<open>fault t\<close> the failure of the statement.
\<close>

definition row_of :: "(time \<Rightarrow> db) \<Rightarrow> (time \<Rightarrow> sqlx_error option) \<Rightarrow> uuid \<Rightarrow> time \<Rightarrow> api_error + deposit" where
  "row_of db_at fault i t = (case fault t of
       Some e \<Rightarrow> Inl (api_of_sqlx e)
     | None \<Rightarrow> ok_or (get (db_at t) i) no_such_deposit)"

definition pay_read ::
    "nat \<Rightarrow> (time \<Rightarrow> db) \<Rightarrow> (time \<Rightarrow> sqlx_error option) \<Rightarrow> (nat \<Rightarrow> time \<times> recv) \<Rightarrow> time \<Rightarrow> pay_query \<Rightarrow> uuid \<Rightarrow> deposit
      \<Rightarrow> (api_error + deposit \<times> time) option" where
  "pay_read request_timeout_ms db_at fault received start q i d =
     (let hold = hold_for (pq_wait q) request_timeout_ms in
      case pq_after q of
        Some after \<Rightarrow> if hold \<noteq> 0 \<and> d_event_seq d \<le> after
          then hold_loop received (row_of db_at fault i) i after (start + millis hold) 0 d
          else Some (Inr (d, start))
      | None \<Rightarrow> Some (Inr (d, start)))"

definition pay_answer ::
    "lib \<Rightarrow> (time \<Rightarrow> db) \<Rightarrow> (time \<Rightarrow> sqlx_error option) \<Rightarrow> time \<Rightarrow> uuid \<Rightarrow> api_error + deposit \<times> time \<Rightarrow> api_error + payer_view" where
  "pay_answer L db_at fault delay i r = (case r of
       Inl e \<Rightarrow> Inl e
     | Inr (d, t) \<Rightarrow> (case fault (t + delay) of
          Some e \<Rightarrow> Inl (api_of_sqlx e)
        | None \<Rightarrow> Inr (payer_view_of L d
            (events_through (db_at (t + delay)) i (d_event_seq d) payer_events) (t + delay))))"

text \<open>\<open>start\<close> is the time of the first read, \<open>delay\<close> what passes until the events are read.\<close>

definition pay_view ::
    "lib \<Rightarrow> nat \<Rightarrow> (time \<Rightarrow> db) \<Rightarrow> (time \<Rightarrow> sqlx_error option) \<Rightarrow> (nat \<Rightarrow> time \<times> recv) \<Rightarrow> time \<Rightarrow> time \<Rightarrow> string
      \<Rightarrow> string + pay_query \<Rightarrow> (api_error + payer_view) option" where
  "pay_view L request_timeout_ms db_at fault received start delay raw_id query = (case query of
       Inl rejection \<Rightarrow> Some (Inl (api_invalid rejection))
     | Inr q \<Rightarrow> (case l_parse_uuid L raw_id of
          None \<Rightarrow> Some (Inl no_such_deposit)
        | Some i \<Rightarrow> (case row_of db_at fault i start of
             Inl e \<Rightarrow> Some (Inl e)
           | Inr d \<Rightarrow> map_option (pay_answer L db_at fault delay i)
               (pay_read request_timeout_ms db_at fault received start q i d))))"

definition pay_get ::
    "lib \<Rightarrow> nat \<Rightarrow> (time \<Rightarrow> db) \<Rightarrow> (time \<Rightarrow> sqlx_error option) \<Rightarrow> (nat \<Rightarrow> time \<times> recv) \<Rightarrow> time \<Rightarrow> time \<Rightarrow> string
      \<Rightarrow> string + pay_query \<Rightarrow> ((api_error + payer_view) \<times> (string \<times> string) list) option" where
  "pay_get L request_timeout_ms db_at fault received start delay raw_id query =
     map_option (\<lambda>r. (r, [(''cache-control'', ''no-store'')]))
       (pay_view L request_timeout_ms db_at fault received start delay raw_id query)"

end
