(* ===== verification/Relay_Routes.thy ===== *)
theory Relay_Routes
  imports Relay_Client Relay_Tokens Pay
begin

text \<open>
  The payer's routes of \<^verbatim>\<open>src/deposit/relay.rs\<close>: what to pay with, prices, a checked quote, where the
  route is. A handler reads the clock and the tables: \<open>t n\<close> is its clock reading number \<open>n\<close>, \<open>f\<close> the failure
  of its statement. A panic of \<open>expect\<close> is the \<open>500\<close> that the router's \<open>CatchPanicLayer\<close> turns it into.
  The price lookups, which the source runs as concurrent tasks, are made in the order of their keys.
\<close>

section \<open>Quote budget\<close>

definition native :: string where
  "native = ''0x0000000000000000000000000000000000000000''"

definition native_aliases :: "(nat \<times> string) list" where
  "native_aliases = [(5042, ''0x3600000000000000000000000000000000000000'')]"

definition max_priced_tokens :: nat where "max_priced_tokens = 40"
definition max_search_len :: nat where "max_search_len = 64"

record ('g, 'k) route_limits =
  li_quotes :: 'g
  li_quotes_per_deposit :: 'k
  li_reads_per_deposit :: 'k
  li_checks :: "64 word"

record ('s, 'p, 'u, 'o, 'g, 'k) relay_state =
  ra_client :: "('s, 'p, 'u, 'o, 'g) relay_client"
  ra_limits :: "('g, 'k) route_limits"

definition route_limits_new :: "('g, 'k) limiter_ops \<Rightarrow> relay_config \<Rightarrow> ('g, 'k) route_limits" where
  "route_limits_new G cfg = \<lparr>li_quotes = lo_direct G (per_min (rl_quotes_per_minute cfg)),
     li_quotes_per_deposit = lo_keyed G (per_min (rl_quotes_per_deposit_per_minute cfg)),
     li_reads_per_deposit = lo_keyed G (per_min (rl_reads_per_deposit_per_minute cfg)), li_checks = 0\<rparr>"

definition rate_limited :: "string \<Rightarrow> api_error" where
  "rate_limited message = api_error_new 429 ''rate_limited'' message"

definition forget_idle :: "('g, 'k) limiter_ops \<Rightarrow> time \<Rightarrow> ('g, 'k) route_limits \<Rightarrow> ('g, 'k) route_limits" where
  "forget_idle G now l =
     (let l1 = l\<lparr>li_checks := li_checks l + 1\<rparr> in
      if li_checks l mod 1024 = 1023
      then l1\<lparr>li_quotes_per_deposit := lo_retain_recent G (li_quotes_per_deposit l) now,
              li_reads_per_deposit := lo_retain_recent G (li_reads_per_deposit l) now\<rparr>
      else l1)"

definition limits_quote ::
    "('g, 'k) limiter_ops \<Rightarrow> time \<Rightarrow> uuid \<Rightarrow> (('g, 'k) route_limits, api_error, unit) act" where
  "limits_quote G now deposit l =
     (let l1 = forget_idle G now l;
          (mine, k) = lo_check_key G (li_quotes_per_deposit l1) now deposit;
          l2 = l1\<lparr>li_quotes_per_deposit := k\<rparr> in
      if \<not> mine then (Inl (rate_limited ''too many quotes for this payment; wait a few seconds''), l2)
      else let (all, g) = lo_check G (li_quotes l2) now; l3 = l2\<lparr>li_quotes := g\<rparr> in
        if \<not> all then (Inl (rate_limited ''quotes are busy; try again in a few seconds''), l3)
        else (Inr (), l3))"

definition limits_read ::
    "('g, 'k) limiter_ops \<Rightarrow> time \<Rightarrow> uuid \<Rightarrow> (('g, 'k) route_limits, api_error, unit) act" where
  "limits_read G now deposit l =
     (let l1 = forget_idle G now l; (mine, k) = lo_check_key G (li_reads_per_deposit l1) now deposit;
          l2 = l1\<lparr>li_reads_per_deposit := k\<rparr> in
      if mine then (Inr (), l2)
      else (Inl (rate_limited ''too many requests for this payment; wait a few seconds''), l2))"

text \<open>The parts of the state that an operation works on.\<close>

definition on_client ::
    "(('s, 'p, 'u, 'o, 'g) relay_client, 'e, 'a) act \<Rightarrow> (('s, 'p, 'u, 'o, 'g, 'k) relay_state, 'e, 'a) act" where
  "on_client m s = (case m (ra_client s) of (r, c) \<Rightarrow> (r, s\<lparr>ra_client := c\<rparr>))"

definition on_limits ::
    "(('g, 'k) route_limits, 'e, 'a) act \<Rightarrow> (('s, 'p, 'u, 'o, 'g, 'k) relay_state, 'e, 'a) act" where
  "on_limits m s = (case m (ra_limits s) of (r, l) \<Rightarrow> (r, s\<lparr>ra_limits := l\<rparr>))"

definition act_check :: "bool \<Rightarrow> 'e \<Rightarrow> ('s, 'e, unit) act" where
  "act_check b e = (if b then act_return () else act_fail e)"

section \<open>Errors\<close>

definition relay_error :: "upstream_error \<Rightarrow> api_error" where
  "relay_error err = (case err of
       NotConfigured _ \<Rightarrow> api_unavailable ''relay_disabled'' ''paying with other tokens is not available''
     | _ \<Rightarrow> api_unavailable ''relay_unavailable'' ''routing is unavailable right now; try again shortly'')"

definition quote_error :: "upstream_error \<Rightarrow> api_error" where
  "quote_error err = (case err of
       Rejected service status c message \<Rightarrow>
        (let unprocessable = api_error_new 422 in
         if c = ''AMOUNT_TOO_LOW''
         then unprocessable ''amount_too_low'' ''this amount is too small to route from that token''
         else if c = ''AMOUNT_TOO_HIGH'' \<or> c = ''INSUFFICIENT_LIQUIDITY''
         then unprocessable ''insufficient_liquidity'' message
         else if c = ''SWAP_IMPACT_TOO_HIGH''
         then unprocessable ''price_impact_too_high'' ''that token's price impact is too high for this amount''
         else if c = ''SANCTIONED_WALLET_ADDRESS'' \<or> c = ''SANCTIONED_CURRENCY''
         then unprocessable ''blocked'' ''Relay can't route from this wallet or token''
         else if c = ''CHAIN_DISABLED'' \<or> c = ''ROUTE_TEMPORARILY_RESTRICTED''
         then unprocessable ''route_unavailable'' ''this route is paused right now; try another token or chain''
         else unprocessable ''no_route'' ''no route from that token right now; try another'')
     | _ \<Rightarrow> relay_error err)"

section \<open>Sources\<close>

record source_chain =
  sc_id :: nat
  sc_name :: string
  sc_icon_url :: "string option"
  sc_explorer_url :: string
  sc_rpc_url :: string
  sc_multicall3 :: "string option"
  sc_native :: source_token
  sc_native_payable :: bool
  sc_native_alias :: "string option"
  sc_tokens :: "source_token list"

record sources =
  so_available :: bool
  so_reason :: "string option"
  so_chains :: "source_chain list"

definition source_token_of :: "relay_chain_currency \<Rightarrow> source_token" where
  "source_token_of c = \<lparr>st_address = to_ascii_lowercase (rcc_address c), st_symbol = rcc_symbol c,
     st_name = rcc_name c, st_decimals = rcc_decimals c, st_logo_uri = logo (rcc_metadata c)\<rparr>"

definition is_https :: "string \<Rightarrow> bool" where
  "is_https u = starts_with u ''https://''"

definition usable :: "relay_chain \<Rightarrow> bool" where
  "usable c = (rc_vm_type c = ''evm'' \<and> \<not> rc_disabled c \<and> is_https (rc_http_rpc_url c))"

definition can_receive :: "relay_chain list \<Rightarrow> nat \<Rightarrow> bool" where
  "can_receive cs chain = list_ex
     (\<lambda>c. rc_id c = chain \<and> rc_vm_type c = ''evm'' \<and> \<not> rc_disabled c \<and> rc_deposit_enabled c) cs"

definition pays_directly :: "relay_chain \<Rightarrow> string \<Rightarrow> bool" where
  "pays_directly c address = (is_direct (rc_id c) address
     \<and> list_ex (\<lambda>t. eq_ignore_ascii_case (rcc_address t) address) (rc_solver_currencies c))"

definition featured_logo :: "relay_chain \<Rightarrow> string \<Rightarrow> string option" where
  "featured_logo c address = Option.bind
     (find (\<lambda>t. eq_ignore_ascii_case (rcc_address t) address) (rc_featured_tokens c)) (\<lambda>t. logo (rcc_metadata t))"

definition native_token :: "relay_chain \<Rightarrow> source_token" where
  "native_token c =
     (let n = (case rc_currency c of
          Some cur \<Rightarrow> source_token_of cur
        | None \<Rightarrow> \<lparr>st_address = native, st_symbol = ''ETH'', st_name = ''Ether'', st_decimals = 18,
            st_logo_uri = None\<rparr>) in
      if st_logo_uri n = None then n\<lparr>st_logo_uri := featured_logo c native\<rparr> else n)"

text \<open>\<open>filter(|t| seen.insert(..))\<close>: the entries whose lowercased address is new, and what was seen.\<close>

fun fresh_tokens :: "string list \<Rightarrow> relay_chain_currency list \<Rightarrow> relay_chain_currency list \<times> string list" where
  "fresh_tokens seen [] = ([], seen)"
| "fresh_tokens seen (c # cs) =
     (let a = to_ascii_lowercase (rcc_address c) in
      if a \<in> set seen then fresh_tokens seen cs
      else let (kept, seen') = fresh_tokens (a # seen) cs in (c # kept, seen'))"

definition deposit_token :: "deposit \<Rightarrow> source_token" where
  "deposit_token d = \<lparr>st_address = d_token_address d, st_symbol = d_token_symbol d, st_name = d_token_symbol d,
     st_decimals = as_u8 (d_token_decimals d), st_logo_uri = None\<rparr>"

definition source_tokens :: "relay_chain \<Rightarrow> deposit \<Rightarrow> source_token list" where
  "source_tokens c d =
     (let (kept, seen) = fresh_tokens [native]
          (filter (\<lambda>x. is_direct (rc_id c) (rcc_address x)) (rc_solver_currencies c));
          tokens = map (\<lambda>x. (source_token_of x)\<lparr>st_logo_uri :=
            coalesce (logo (rcc_metadata x)) (featured_logo c (rcc_address x))\<rparr>) kept in
      if as_i64 (rc_id c) = d_chain_id d \<and> d_token_address d \<notin> set seen then deposit_token d # tokens else tokens)"

definition source_chain_of :: "lib \<Rightarrow> relay_chain \<Rightarrow> deposit \<Rightarrow> source_chain" where
  "source_chain_of L c d =
     \<lparr>sc_id = rc_id c,
      sc_name = (if rc_display_name c = [] then rc_name c else rc_display_name c),
      sc_icon_url = filter_option is_https (rc_icon_url c),
      sc_explorer_url = trim_end_slash (rc_explorer_url c),
      sc_rpc_url = rc_http_rpc_url c,
      sc_multicall3 = filter_option (\<lambda>a. case l_parse_address L a of Some x \<Rightarrow> x \<noteq> 0 | None \<Rightarrow> False)
        (Option.bind (rc_contracts c) rk_multicall3),
      sc_native = native_token c,
      sc_native_payable = pays_directly c native,
      sc_native_alias = map_of native_aliases (rc_id c),
      sc_tokens = source_tokens c d\<rparr>"

definition fill_logo :: "(string \<rightharpoonup> string) \<Rightarrow> nat \<Rightarrow> source_token \<Rightarrow> source_token" where
  "fill_logo found chain x = (if st_logo_uri x = None
     then x\<lparr>st_logo_uri := filter_option is_https (found (token_key chain (st_address x)))\<rparr> else x)"

definition without_logo :: "source_chain \<Rightarrow> string list" where
  "without_logo c = map (\<lambda>x. token_key (sc_id c) (st_address x))
     (filter (\<lambda>x. st_logo_uri x = None) (sc_native c # sc_tokens c))"

definition fill_logos ::
    "('s, 'p, 'u, 'o, 'g, 'k) relay_env \<Rightarrow> time \<Rightarrow> time \<Rightarrow> source_chain list
      \<Rightarrow> (('s, 'p, 'u, 'o, 'g) relay_client, api_error, source_chain list) act" where
  "fill_logos E now done cs c =
     (let missing = concat (map without_logo cs) in
      if missing = [] then (Inr cs, c)
      else let (found, c1) = relay_logos E now done missing c in
        (Inr (map (\<lambda>x. x\<lparr>sc_native := fill_logo found (sc_id x) (sc_native x),
            sc_tokens := map (fill_logo found (sc_id x)) (sc_tokens x)\<rparr>) cs), c1))"

definition open_deposit :: "lib \<Rightarrow> sqlx_error option \<Rightarrow> db \<Rightarrow> string \<Rightarrow> api_error + deposit" where
  "open_deposit L f db raw = (case l_parse_uuid L raw of
       None \<Rightarrow> Inl no_such_deposit
     | Some i \<Rightarrow> (case f of
          Some e \<Rightarrow> Inl (api_of_sqlx e)
        | None \<Rightarrow> ok_or (get db i) no_such_deposit))"

definition accepts_payment :: "deposit \<Rightarrow> bool" where
  "accepts_payment d = (d_status d = Pending \<or> d_status d = PartialPaid)"

definition unavailable :: "string \<Rightarrow> sources" where
  "unavailable reason = \<lparr>so_available = False, so_reason = Some reason, so_chains = []\<rparr>"

text \<open>The chains to pay from, the deposit's own first.\<close>

definition source_list :: "lib \<Rightarrow> relay_chain list \<Rightarrow> deposit \<Rightarrow> source_chain list" where
  "source_list L cs d = sort_key (\<lambda>c. as_i64 (sc_id c) \<noteq> d_chain_id d)
     (filter (\<lambda>c. as_i64 (sc_id c) = d_chain_id d \<or> sc_native_payable c \<or> sc_tokens c \<noteq> [])
       (map (\<lambda>c. source_chain_of L c d) (filter usable cs)))"

definition sources_body ::
    "('s, 'p, 'u, 'o, 'g, 'k) relay_env \<Rightarrow> lib \<Rightarrow> (nat \<Rightarrow> time) \<Rightarrow> deposit
      \<Rightarrow> (('s, 'p, 'u, 'o, 'g) relay_client, api_error, sources) act" where
  "sources_body E L t d c =
     (if \<not> is_configured c then (Inr (unavailable ''disabled''), c)
      else if \<not> accepts_payment d then (Inr (unavailable ''closed''), c)
      else act_bind (act_map_err relay_error (relay_chains E (t 0) (t 1))) (\<lambda>cs.
        if \<not> can_receive cs (as_u64 (d_chain_id d)) then act_return (unavailable ''destination_unsupported'')
        else act_bind (fill_logos E (t 2) (t 3) (source_list L cs d)) (\<lambda>filled.
          act_return \<lparr>so_available = True, so_reason = None, so_chains = filled\<rparr>)) c)"

definition cached_answer :: "string \<Rightarrow> 'a \<Rightarrow> 'a answer" where
  "cached_answer control v = \<lparr>an_status = 200, an_headers = [(''cache-control'', control)], an_value = v\<rparr>"

definition sources_route ::
    "('s, 'p, 'u, 'o, 'g, 'k) relay_env \<Rightarrow> lib \<Rightarrow> sqlx_error option \<Rightarrow> db \<Rightarrow> (nat \<Rightarrow> time) \<Rightarrow> string
      \<Rightarrow> (('s, 'p, 'u, 'o, 'g, 'k) relay_state, api_error, sources answer) act" where
  "sources_route E L f db t raw =
     act_bind (act_lift (open_deposit L f db raw)) (\<lambda>d.
     act_bind (on_client (sources_body E L t d)) (\<lambda>body.
     act_return (cached_answer ''private, max-age=60'' body)))"

section \<open>Token search and prices\<close>

record token_search =
  ts_q :: string
  ts_chain_id :: "nat option"

record found_token =
  ft_chain_id :: nat
  ft_token :: source_token

definition unsupported_origin :: api_error where
  "unsupported_origin = api_error_new 400 ''unsupported_chain'' ''Relay does not route from this chain''"

definition search_chains :: "nat list \<Rightarrow> nat option \<Rightarrow> api_error + nat list" where
  "search_chains ids chosen = (case chosen of
       Some i \<Rightarrow> if i \<in> set ids then Inr [i] else Inl unsupported_origin
     | None \<Rightarrow> Inr ids)"

definition found_tokens :: "lib \<Rightarrow> relay_chain list \<Rightarrow> relay_currency list \<Rightarrow> found_token list" where
  "found_tokens L cs found =
     map (\<lambda>x. \<lparr>ft_chain_id = rcu_chain_id x, ft_token = \<lparr>st_address = to_ascii_lowercase (rcu_address x),
         st_symbol = rcu_symbol x, st_name = rcu_name x, st_decimals = rcu_decimals x,
         st_logo_uri = logo (rcu_metadata x)\<rparr>\<rparr>)
       (filter (\<lambda>x. list_ex (\<lambda>c. rc_id c = rcu_chain_id x \<and> pays_directly c (rcu_address x)) cs)
         (filter (\<lambda>x. rcu_chain_id x \<in> set (map rc_id (filter usable cs)) \<and> l_parse_address L (rcu_address x) \<noteq> None)
           (filter (\<lambda>x. rcu_vm_type x = [] \<or> rcu_vm_type x = ''evm'') found)))"

definition search_tokens ::
    "('s, 'p, 'u, 'o, 'g, 'k) relay_env \<Rightarrow> lib \<Rightarrow> sqlx_error option \<Rightarrow> db \<Rightarrow> (nat \<Rightarrow> time) \<Rightarrow> string \<Rightarrow> string + token_search
      \<Rightarrow> (('s, 'p, 'u, 'o, 'g, 'k) relay_state, api_error, found_token list answer) act" where
  "search_tokens E L f db t raw query = (case query of
       Inl rejection \<Rightarrow> act_fail (api_invalid rejection)
     | Inr q \<Rightarrow>
       act_bind (act_lift (open_deposit L f db raw)) (\<lambda>d.
       act_bind (on_limits (limits_read (re_limiter E) (t 0) (d_id d))) (\<lambda>_.
       let word = trim (ts_q q) in
       act_bind (act_check (length word \<le> max_search_len)
         (api_invalid (''q must be at most '' @ dec_nat max_search_len @ '' characters''))) (\<lambda>_.
       act_bind (on_client (act_map_err relay_error (relay_chains E (t 1) (t 2)))) (\<lambda>cs.
       act_bind (act_lift (search_chains (map rc_id (filter usable cs)) (ts_chain_id q))) (\<lambda>ids.
       act_bind (on_client (act_map_err relay_error (search_currencies E (t 3) (t 4) ids word 30))) (\<lambda>found.
       act_return (json_answer (found_tokens L cs found)))))))))"

definition priced_token :: "lib \<Rightarrow> string \<Rightarrow> (nat \<times> address) option" where
  "priced_token L raw = Option.bind (split_once CHR '':'' raw) (\<lambda>(chain, address).
     Option.bind (parse_u64 chain) (\<lambda>c. map_option (\<lambda>a. (c, a)) (l_parse_address L address)))"

text \<open>The tokens asked for, in a \<open>BTreeMap\<close> by their normalised spelling.\<close>

fun wanted_tokens ::
    "lib \<Rightarrow> string list \<Rightarrow> (string \<times> nat \<times> string) list \<Rightarrow> api_error + (string \<times> nat \<times> string) list" where
  "wanted_tokens L [] wanted = Inr wanted"
| "wanted_tokens L (raw # raws) wanted = (case priced_token L raw of
       None \<Rightarrow> Inl (api_invalid (raw @ '' is not <chain_id>:<address>''))
     | Some (chain, a) \<Rightarrow> wanted_tokens L raws
         (bt_insert (token_key chain (l_fmt_address L a)) (chain, l_fmt_address L a) wanted))"

text \<open>A token that Relay cannot price, or whose lookup fails, has the price \<open>null\<close>.\<close>

fun price_all ::
    "('s, 'p, 'u, 'o, 'g, 'k) relay_env \<Rightarrow> time \<Rightarrow> time \<Rightarrow> (string \<times> nat \<times> string) list
      \<Rightarrow> ('s, 'p, 'u, 'o, 'g) relay_client
      \<Rightarrow> (string \<times> 64 word option) list \<times> ('s, 'p, 'u, 'o, 'g) relay_client" where
  "price_all E now done [] c = ([], c)"
| "price_all E now done ((key, chain, address) # wanted) c =
     (let (r, c1) = relay_price E now done chain address c;
          (rest, c2) = price_all E now done wanted c1 in
      ((key, case r of Inr p \<Rightarrow> p | Inl e \<Rightarrow> None) # rest, c2))"

definition prices_route ::
    "('s, 'p, 'u, 'o, 'g, 'k) relay_env \<Rightarrow> lib \<Rightarrow> sqlx_error option \<Rightarrow> db \<Rightarrow> (nat \<Rightarrow> time) \<Rightarrow> string \<Rightarrow> string + string list
      \<Rightarrow> (('s, 'p, 'u, 'o, 'g, 'k) relay_state, api_error, (string \<times> 64 word option) list answer) act" where
  "prices_route E L f db t raw body = (case body of
       Inl rejection \<Rightarrow> act_fail (api_invalid rejection)
     | Inr tokens \<Rightarrow>
       act_bind (act_lift (open_deposit L f db raw)) (\<lambda>d.
       act_bind (on_limits (limits_read (re_limiter E) (t 0) (d_id d))) (\<lambda>_.
       act_bind (act_check (length tokens \<le> max_priced_tokens)
         (api_invalid (''at most '' @ dec_nat max_priced_tokens @ '' tokens''))) (\<lambda>_.
       act_bind (act_lift (wanted_tokens L tokens [])) (\<lambda>wanted.
       act_bind (on_client (\<lambda>c. case price_all E (t 1) (t 2) wanted c of (prices, c1) \<Rightarrow> (Inr prices, c1)))
         (\<lambda>prices. act_return (json_answer prices)))))))"

section \<open>Quote\<close>

record quote_body =
  qb_user :: string
  qb_origin_chain_id :: nat
  qb_origin_currency :: string
  qb_amount :: string

definition quote_amount_of :: "lib \<Rightarrow> deposit \<Rightarrow> string \<Rightarrow> api_error + u256" where
  "quote_amount_of L d raw =
     (let amount = trim raw in
      if amount = [] \<or> \<not> list_all is_ascii_digit amount
      then Inl (api_invalid ''amount must be a whole number of base units'')
      else case l_u256_radix10 L amount of
          None \<Rightarrow> Inl (api_invalid ''amount does not fit uint256'')
        | Some n \<Rightarrow>
          (let total = unwrap_or 0 (l_u256_radix10 L (d_amount d));
               confirmed = unwrap_or 0 (l_u256_radix10 L (d_confirmed_amount d));
               owed = saturating_sub total confirmed in
           if n = 0 \<or> owed < n
           then Inl (api_invalid (''amount must be between 1 and '' @ fmt_u256 owed @ '', what is still owed''))
           else Inr n))"

definition expected_of :: "lib \<Rightarrow> deposit \<Rightarrow> quote_body \<Rightarrow> api_error + expected" where
  "expected_of L d body = (case l_parse_address L (trim (qb_user body)) of
       None \<Rightarrow> Inl (api_invalid ''user is not an address'')
     | Some user \<Rightarrow>
       if user = 0 then Inl (api_invalid ''user must not be the zero address'')
       else (case l_parse_address L (trim (qb_origin_currency body)) of
          None \<Rightarrow> Inl (api_invalid ''origin_currency is not an address'')
        | Some currency \<Rightarrow>
          (case quote_amount_of L d (qb_amount body) of
             Inl e \<Rightarrow> Inl e
           | Inr amount \<Rightarrow>
             (case (l_parse_address L (d_token_address d), deposit_payment_address L d) of
                (Some token, Some recipient) \<Rightarrow> Inr
                  \<lparr>ex_user = user, ex_origin_chain_id = qb_origin_chain_id body, ex_origin_currency = currency,
                   ex_destination_chain_id = as_u64 (d_chain_id d), ex_token = token, ex_recipient = recipient,
                   ex_amount = amount, ex_relay_roles = no_roles, ex_origin_decimals = 0,
                   ex_token_decimals = as_u8 (d_token_decimals d), ex_origin_chain_names = [],
                   ex_destination_chain_names = []\<rparr>
              | _ \<Rightarrow> Inl api_internal))))"

definition chain_names :: "relay_chain \<Rightarrow> string list" where
  "chain_names c = sorted_once
     ([to_ascii_lowercase (rc_name c)]
      @ (if rc_display_name c = [] then [] else [to_ascii_lowercase (rc_display_name c)])
      @ (case Option.bind (Option.bind (rc_protocol c) rp_v2) rp_chain_id of
           None \<Rightarrow> [] | Some n \<Rightarrow> [to_ascii_lowercase n]))"

definition chain_token_decimals :: "lib \<Rightarrow> relay_chain \<Rightarrow> address \<Rightarrow> nat option" where
  "chain_token_decimals L c currency =
     (if currency = 0 then map_option rcc_decimals (rc_currency c)
      else map_option rcc_decimals (find (\<lambda>x. eq_ignore_ascii_case (rcc_address x) (l_fmt_address L currency))
        (rc_featured_tokens c @ rc_erc20_currencies c @ rc_solver_currencies c)))"

definition find_origin :: "relay_chain list \<Rightarrow> nat \<Rightarrow> api_error + relay_chain" where
  "find_origin cs chain = ok_or (find (\<lambda>c. rc_id c = chain \<and> usable c) cs) unsupported_origin"

definition check_origin_token :: "relay_config \<Rightarrow> relay_chain \<Rightarrow> string \<Rightarrow> api_error + unit" where
  "check_origin_token cfg origin currency =
     (let probing = (rl_probe_unlisted_tokens cfg
          \<and> list_ex (\<lambda>x. eq_ignore_ascii_case (rcc_address x) currency) (rc_solver_currencies origin)) in
      if \<not> probing \<and> \<not> pays_directly origin currency
      then Inl (api_error_new 400 ''unsupported_token'' ''that token can't pay this directly; pick one from the list'')
      else Inr ())"

definition with_chains :: "lib \<Rightarrow> relay_chain list \<Rightarrow> relay_chain \<Rightarrow> expected \<Rightarrow> expected" where
  "with_chains L cs origin want = want\<lparr>ex_relay_roles := relay_roles_of L origin,
     ex_origin_chain_names := chain_names origin,
     ex_destination_chain_names := unwrap_or []
       (map_option chain_names (find (\<lambda>c. rc_id c = ex_destination_chain_id want) cs))\<rparr>"

definition found_decimals :: "nat \<Rightarrow> string \<Rightarrow> relay_currency list \<Rightarrow> nat option" where
  "found_decimals chain word found = map_option rcu_decimals
     (find (\<lambda>x. rcu_chain_id x = chain \<and> eq_ignore_ascii_case (rcu_address x) word) found)"

definition origin_decimals ::
    "('s, 'p, 'u, 'o, 'g, 'k) relay_env \<Rightarrow> lib \<Rightarrow> (nat \<Rightarrow> time) \<Rightarrow> uuid \<Rightarrow> relay_chain \<Rightarrow> expected
      \<Rightarrow> (('s, 'p, 'u, 'o, 'g, 'k) relay_state, api_error, nat) act" where
  "origin_decimals E L t i origin want = (case chain_token_decimals L origin (ex_origin_currency want) of
       Some n \<Rightarrow> act_return n
     | None \<Rightarrow>
       (let word = l_fmt_address L (ex_origin_currency want); chain = ex_origin_chain_id want in
        act_bind (on_limits (limits_read (re_limiter E) (t 3) i)) (\<lambda>_.
        act_bind (on_client (act_map_err relay_error (search_currencies E (t 4) (t 5) [chain] word 5))) (\<lambda>found.
        act_lift (ok_or (found_decimals chain word found)
          (api_invalid ''that token is not known to Relay on this chain; it can't be quoted safely''))))))"

definition quote_request_of :: "lib \<Rightarrow> relay_config \<Rightarrow> uuid \<Rightarrow> expected \<Rightarrow> quote_request" where
  "quote_request_of L cfg i want =
     \<lparr>qr_user = l_fmt_address L (ex_user want), qr_recipient = l_fmt_address L (ex_recipient want),
      qr_refund_to = l_fmt_address L (ex_user want), qr_refund_on_origin = True,
      qr_origin_chain_id = ex_origin_chain_id want,
      qr_origin_currency = l_fmt_address L (ex_origin_currency want),
      qr_destination_chain_id = ex_destination_chain_id want,
      qr_destination_currency = l_fmt_address L (ex_token want), qr_amount = fmt_u256 (ex_amount want),
      qr_trade_type = ''EXACT_OUTPUT'', qr_referrer = rl_referrer cfg @ ''|'' @ l_fmt_uuid L i,
      qr_enable_true_exact_output = True,
      qr_force_solver_execution = (ex_origin_chain_id want = ex_destination_chain_id want)\<rparr>"

text \<open>The terms a route must meet: everything the handler decides before it asks for a quote.\<close>

definition quote_terms ::
    "('s, 'p, 'u, 'o, 'g, 'k) relay_env \<Rightarrow> lib \<Rightarrow> relay_config \<Rightarrow> (nat \<Rightarrow> time) \<Rightarrow> deposit \<Rightarrow> quote_body
      \<Rightarrow> (('s, 'p, 'u, 'o, 'g, 'k) relay_state, api_error, expected) act" where
  "quote_terms E L cfg t d body =
     act_bind (act_check (accepts_payment d) (api_conflict ''closed'' ''this payment is no longer accepting funds'')) (\<lambda>_.
     act_bind (act_check (rl_min_time_left_secs cfg \<le> num_seconds (d_expires_at d - t 0))
       (api_conflict ''closing''
         ''this payment closes too soon for a route to land; pay in the requested token instead'')) (\<lambda>_.
     act_bind (act_lift (expected_of L d body)) (\<lambda>want.
     act_bind (act_check (\<not> (ex_origin_chain_id want = ex_destination_chain_id want
         \<and> ex_origin_currency want = ex_token want))
       (api_invalid ''that is the requested token itself: send it with a plain transfer'')) (\<lambda>_.
     act_bind (on_client (act_map_err relay_error (relay_chains E (t 1) (t 2)))) (\<lambda>cs.
     act_bind (act_lift (find_origin cs (ex_origin_chain_id want))) (\<lambda>origin.
     act_bind (act_lift (check_origin_token cfg origin (l_fmt_address L (ex_origin_currency want)))) (\<lambda>_.
     act_bind (origin_decimals E L t (d_id d) origin want) (\<lambda>decimals.
     act_bind (act_check (can_receive cs (ex_destination_chain_id want))
       (api_conflict ''route_unavailable'' ''Relay does not route to this payment's chain right now'')) (\<lambda>_.
     act_return ((with_chains L cs origin want)\<lparr>ex_origin_decimals := decimals\<rparr>))))))))))"

definition quote_route ::
    "('s, 'p, 'u, 'o, 'g, 'k) relay_env \<Rightarrow> lib \<Rightarrow> relay_config \<Rightarrow> sqlx_error option \<Rightarrow> db \<Rightarrow> (nat \<Rightarrow> time) \<Rightarrow> string
      \<Rightarrow> string + quote_body \<Rightarrow> (('s, 'p, 'u, 'o, 'g, 'k) relay_state, api_error, route_quote answer) act" where
  "quote_route E L cfg f db t raw body s = (case body of
       Inl rejection \<Rightarrow> act_fail (api_invalid rejection) s
     | Inr b \<Rightarrow>
       act_bind (act_check (is_configured (ra_client s))
         (api_unavailable ''relay_disabled'' ''paying with other tokens is not available'')) (\<lambda>_.
       act_bind (act_lift (open_deposit L f db raw)) (\<lambda>d.
       act_bind (quote_terms E L cfg t d b) (\<lambda>want.
       act_bind (on_limits (limits_quote (re_limiter E) (t 6) (d_id d))) (\<lambda>_.
       act_bind (on_client (act_map_err quote_error (relay_quote E (t 7) (quote_request_of L cfg (d_id d) want)))) (\<lambda>q.
       act_bind (act_map_err (\<lambda>problem. api_error_new 502 ''route_rejected''
           ''the route did not match this payment; try another token'') (act_lift (check_quote L (t 8) q want))) (\<lambda>r.
       act_return (cached_answer ''no-store'' r))))))) s)"

section \<open>Route status\<close>

record route_status =
  rst_request_id :: string
  rst_status :: string
  rst_in_tx_hashes :: "string list"
  rst_tx_hashes :: "string list"
  rst_fail_reason :: "string option"
  rst_updated_at :: "time option"

definition route_status_route ::
    "('s, 'p, 'u, 'o, 'g, 'k) relay_env \<Rightarrow> lib \<Rightarrow> sqlx_error option \<Rightarrow> db \<Rightarrow> (nat \<Rightarrow> time) \<Rightarrow> string \<Rightarrow> string
      \<Rightarrow> (('s, 'p, 'u, 'o, 'g, 'k) relay_state, api_error, route_status answer) act" where
  "route_status_route E L f db t raw request_id =
     act_bind (act_lift (open_deposit L f db raw)) (\<lambda>d.
     act_bind (act_check (is_hash request_id) (api_not_found ''no such route'')) (\<lambda>_.
     act_bind (on_limits (limits_read (re_limiter E) (t 0) (d_id d))) (\<lambda>_.
     act_bind (on_client (act_map_err relay_error (relay_status E (t 1) (t 2) request_id))) (\<lambda>st.
     act_return (cached_answer ''no-store''
       \<lparr>rst_request_id = to_ascii_lowercase request_id, rst_status = is_status st,
        rst_in_tx_hashes = is_in_tx_hashes st, rst_tx_hashes = is_tx_hashes st,
        rst_fail_reason = filter_option (\<lambda>r. r \<noteq> ''N/A'') (is_fail_reason st),
        rst_updated_at = Option.bind (is_updated_at st) (re_from_millis E)\<rparr>)))))"

record sent_transaction =
  sn_tx_hash :: string
  sn_chain_id :: nat

text \<open>Relay is told, best effort; the answer is \<open>202\<close> whatever it says.\<close>

definition route_transaction ::
    "('s, 'p, 'u, 'o, 'g, 'k) relay_env \<Rightarrow> lib \<Rightarrow> sqlx_error option \<Rightarrow> db \<Rightarrow> (nat \<Rightarrow> time) \<Rightarrow> string \<Rightarrow> string
      \<Rightarrow> string + sent_transaction \<Rightarrow> (('s, 'p, 'u, 'o, 'g, 'k) relay_state, api_error, unit answer) act" where
  "route_transaction E L f db t raw request_id body = (case body of
       Inl rejection \<Rightarrow> act_fail (api_invalid rejection)
     | Inr b \<Rightarrow>
       act_bind (act_lift (open_deposit L f db raw)) (\<lambda>d.
       act_bind (act_check (is_hash request_id) (api_not_found ''no such route'')) (\<lambda>_.
       act_bind (act_check (is_hash (sn_tx_hash b)) (api_invalid ''tx_hash is not a transaction hash'')) (\<lambda>_.
       act_bind (on_limits (limits_read (re_limiter E) (t 0) (d_id d))) (\<lambda>_.
       act_bind (on_client (\<lambda>c. case index_transaction E (t 1) (sn_tx_hash b) (sn_chain_id b) c of
           (_, c1) \<Rightarrow> (Inr (), c1))) (\<lambda>_.
       act_return \<lparr>an_status = 202, an_headers = [], an_value = ()\<rparr>))))))"

end
