(* ===== verification/Relay_Wallet.thy ===== *)
theory Relay_Wallet
  imports Relay_Quote
begin

text \<open>
  What the transactions of a route can take from the payer's wallet, stated without the checks: a
  small semantics of the payer's token (\<open>approve\<close>, \<open>transfer\<close>, a draw on an allowance) and the
  operations a transaction stands for. The tab the checks keep (\<open>Spend\<close>) refines it.
\<close>

section \<open>The payer's token\<close>

datatype wallet_op =
    Approve address u256
  | Transfer address u256
  | Pull address u256

record wallet =
  w_taken :: nat
  w_allow :: "address \<Rightarrow> nat"

definition fresh_wallet :: wallet where
  "fresh_wallet = \<lparr>w_taken = 0, w_allow = (\<lambda>_. 0)\<rparr>"

text \<open>
  \<open>w_allow\<close> holds what this route allowed and nobody has drawn yet; a draw past it uses an allowance
  the payer granted before and still takes the whole amount.
\<close>

fun wallet_step :: "wallet_op \<Rightarrow> wallet \<Rightarrow> wallet" where
  "wallet_step (Approve s a) w = w\<lparr>w_allow := (w_allow w)(s := unat a)\<rparr>"
| "wallet_step (Transfer to a) w = w\<lparr>w_taken := w_taken w + unat a\<rparr>"
| "wallet_step (Pull s a) w = w\<lparr>w_taken := w_taken w + unat a,
     w_allow := (w_allow w)(s := w_allow w s - unat a)\<rparr>"

definition wallet_run :: "wallet_op list \<Rightarrow> wallet" where
  "wallet_run ops = fold wallet_step ops fresh_wallet"

section \<open>What a transaction does to it\<close>

text \<open>
  A call on the token is an approval or a transfer; a \<open>depositErc20\<close> draws its third argument;
  \<open>transferAndMulticall\<close> draws every amount it lists. Everything else a route may call takes value only.
\<close>

definition token_ops :: "bytes \<Rightarrow> wallet_op list" where
  "token_ops bs = (let a = from_be_slice (take 20 (drop 16 bs)); n = from_be_slice (take 32 (drop 36 bs)) in
     if take 4 bs = sel_approve then [Approve a n]
     else if take 4 bs = sel_transfer then [Transfer a n] else [])"

definition relay_ops :: "address \<Rightarrow> bytes \<Rightarrow> wallet_op list" where
  "relay_ops to bs =
     (if take 4 bs = sel_deposit_erc20 then [Pull to (from_be_slice (take 32 (drop 68 bs)))]
      else if is_pull (take 4 bs) then
       (case static_items abi_address (abi_new (drop 4 bs)) of None \<Rightarrow> [] | Some (_, r) \<Rightarrow>
        case static_items abi_uint r of None \<Rightarrow> [] | Some (amounts, _) \<Rightarrow> map (Pull to) amounts)
      else [])"

definition call_ops :: "expected \<Rightarrow> address \<Rightarrow> bytes \<Rightarrow> wallet_op list" where
  "call_ops want to bs = (if ex_origin_currency want \<noteq> 0 \<and> to = ex_origin_currency want
     then token_ops bs else relay_ops to bs)"

definition step_ops :: "lib \<Rightarrow> expected \<Rightarrow> route_step \<Rightarrow> wallet_op list" where
  "step_ops L want st = (case (l_parse_address L (rs_to st), l_hex_decode L (drop 2 (rs_data st))) of
       (Some to, Some bs) \<Rightarrow> call_ops want to bs
     | _ \<Rightarrow> [])"

definition route_ops :: "lib \<Rightarrow> expected \<Rightarrow> route_step list \<Rightarrow> wallet_op list" where
  "route_ops L want sts = concat (map (step_ops L want) sts)"

section \<open>The tab\<close>

definition slot_of :: "spend \<Rightarrow> address \<Rightarrow> nat" where
  "slot_of s a = unat (unwrap_or 0 (map_of (sp_allowances s) a))"

definition exposure_value :: "spend \<Rightarrow> nat" where
  "exposure_value s = unat (sp_pulled s) + (\<Sum>x\<leftarrow>bt_values (sp_allowances s). unat x)"

definition tab_ok :: "spend \<Rightarrow> bool" where
  "tab_ok s = bt_sorted (sp_allowances s)"

fun tab_step :: "wallet_op \<Rightarrow> spend \<Rightarrow> string + spend" where
  "tab_step (Approve a n) s = Inr (spend_grant a n s)"
| "tab_step (Transfer a n) s = spend_transfer n s"
| "tab_step (Pull a n) s = spend_pull a n s"

fun tab_run :: "wallet_op list \<Rightarrow> spend \<Rightarrow> string + spend" where
  "tab_run [] s = Inr s"
| "tab_run (x # ops) s = (case tab_step x s of Inl e \<Rightarrow> Inl e | Inr s' \<Rightarrow> tab_run ops s')"

lemma tab_run_append: "tab_run (xs @ ys) s = (case tab_run xs s of Inl e \<Rightarrow> Inl e | Inr s' \<Rightarrow> tab_run ys s')"
  by (induction xs arbitrary: s) (auto split: sum.splits)

lemma sum_bt_insert:
  "bt_sorted m \<Longrightarrow> (\<Sum>x\<leftarrow>bt_values (bt_insert k v m). unat x) + unat (unwrap_or 0 (map_of m k))
    = (\<Sum>x\<leftarrow>bt_values m. unat x) + unat v"
proof (induction k v m rule: bt_insert.induct)
  case (2 k v k' v' m)
  then have m: "bt_sorted m" "\<forall>k'' \<in> fst ` set m. k' < k''" by (auto simp: bt_sorted_def)
  then have "k < k' \<Longrightarrow> map_of m k = None"
    by (metis map_of_eq_None_iff order_less_asym order_less_trans)
  then show ?case using 2 m(1) by (auto simp: bt_values_def)
qed (simp add: bt_values_def)

lemma bt_values_map_of:
  assumes "bt_sorted m"
  shows "(\<Sum>x\<leftarrow>bt_values m. unat x) = (\<Sum>k\<in>fst ` set m. unat (unwrap_or 0 (map_of m k)))"
  using assms
proof (induction m)
  case (Cons kv m)
  obtain k v where kv: "kv = (k, v)" by force
  have m: "bt_sorted m" "\<forall>k'' \<in> fst ` set m. k < k''" using Cons.prems kv by (auto simp: bt_sorted_def)
  then have k: "k \<notin> fst ` set m" by auto
  have "(\<Sum>j\<in>fst ` set m. unat (unwrap_or 0 (map_of (kv # m) j)))
      = (\<Sum>j\<in>fst ` set m. unat (unwrap_or 0 (map_of m j)))"
    by (rule sum.cong) (use k kv in auto)
  then show ?case using Cons.IH [OF m(1)] k by (simp add: kv bt_values_def)
qed (simp add: bt_values_def)

lemma exposure_value_eq: "spend_exposure s = Inr t \<Longrightarrow> unat t = exposure_value s"
  by (auto simp: spend_exposure_def exposure_value_def dest: checked_sum_eq_Some split: option.splits)

section \<open>The tab refines the wallet\<close>

definition tab_covers :: "spend \<Rightarrow> wallet \<Rightarrow> bool" where
  "tab_covers s w = (tab_ok s \<and> w_taken w = unat (sp_pulled s) \<and> (\<forall>a. w_allow w a \<le> slot_of s a))"

lemma tab_covers_start: "tab_covers no_spend fresh_wallet"
  by (simp add: tab_covers_def no_spend_def fresh_wallet_def tab_ok_def bt_sorted_def slot_of_def)

lemma slot_of_insert:
  "bt_sorted m \<Longrightarrow> slot_of \<lparr>sp_pulled = p, sp_allowances = bt_insert a v m\<rparr> b
    = (if a = b then unat v else slot_of \<lparr>sp_pulled = p, sp_allowances = m\<rparr> b)"
  by (auto simp: slot_of_def map_of_bt_insert)

lemma unat_sub_min: "unat (x - min x y) = unat x - unat (y :: u256)"
proof (cases "x \<le> y")
  case True
  then show ?thesis by (simp add: min_def word_le_nat_alt)
next
  case False
  then show ?thesis by (simp add: min_def unat_sub word_le_nat_alt)
qed

lemma spend_transferD:
  assumes "spend_transfer n s = Inr s'"
  shows "unat (sp_pulled s') = unat (sp_pulled s) + unat n" "sp_allowances s' = sp_allowances s"
proof -
  obtain t where t: "checked_add (sp_pulled s) n = Some t" "s' = s\<lparr>sp_pulled := t\<rparr>"
    using assms by (auto simp: spend_transfer_def split: option.splits)
  then show "unat (sp_pulled s') = unat (sp_pulled s) + unat n" by (simp add: checked_add_eq_Some)
  show "sp_allowances s' = sp_allowances s" using t(2) by simp
qed

lemma spend_pullD:
  assumes "spend_pull a n s = Inr s'"
  defines "v \<equiv> unwrap_or 0 (map_of (sp_allowances s) a)"
  shows "unat (sp_pulled s') = unat (sp_pulled s) + unat n"
    "sp_allowances s' = (if map_of (sp_allowances s) a = None then sp_allowances s
       else bt_insert a (v - min v n) (sp_allowances s))"
  using assms(1) spend_transferD unfolding v_def spend_pull_def
  by (fastforce split: option.splits)+

lemma tab_step_covers:
  assumes "tab_step x s = Inr s'" "tab_covers s w"
  shows "tab_covers s' (wallet_step x w)"
proof (cases x)
  case (Approve a n)
  then show ?thesis
    using assms
    by (cases s) (auto simp: tab_covers_def tab_ok_def spend_grant_def Let_def bt_sorted_insert slot_of_insert
        slot_of_def map_of_bt_insert word_less_nat_alt)
next
  case (Transfer a n)
  then show ?thesis
    using assms spend_transferD [of n s s'] by (simp add: tab_covers_def tab_ok_def slot_of_def)
next
  case (Pull a n)
  define m where "m = sp_allowances s"
  define v where "v = unwrap_or 0 (map_of m a)"
  have sorted: "bt_sorted m" using assms(2) by (simp add: tab_covers_def tab_ok_def m_def)
  have w: "w_taken w = unat (sp_pulled s)" "\<And>b. w_allow w b \<le> unat (unwrap_or 0 (map_of m b))"
    using assms(2) by (simp_all add: tab_covers_def slot_of_def m_def)
  have s': "unat (sp_pulled s') = unat (sp_pulled s) + unat n"
      "sp_allowances s' = (if map_of m a = None then m else bt_insert a (v - min v n) m)"
    using spend_pullD [of a n s s'] assms(1) Pull by (simp_all add: m_def v_def)
  have "bt_sorted (sp_allowances s')" using sorted by (simp add: s' bt_sorted_insert)
  moreover have "w_allow (wallet_step x w) b \<le> unat (unwrap_or 0 (map_of (sp_allowances s') b))" for b
    using w(2) [of b] sorted
    by (auto simp: s' Pull map_of_bt_insert v_def unat_sub_min diff_le_mono)
  ultimately show ?thesis using w(1) s'(1) Pull by (simp add: tab_covers_def tab_ok_def slot_of_def)
qed

lemma tab_step_grows:
  assumes "tab_step x s = Inr s'" "tab_ok s"
  shows "exposure_value s \<le> exposure_value s'"
proof (cases x)
  case (Approve a n)
  define m where "m = sp_allowances s"
  define v where "v = unwrap_or 0 (map_of m a)"
  have s': "s' = s\<lparr>sp_allowances := bt_insert a (if v < n then n else v) m\<rparr>"
    using assms(1) Approve by (auto simp: spend_grant_def m_def v_def Let_def)
  have "(\<Sum>x\<leftarrow>bt_values (bt_insert a (if v < n then n else v) m). unat x) + unat v
      = (\<Sum>x\<leftarrow>bt_values m. unat x) + unat (if v < n then n else v)"
    unfolding v_def by (rule sum_bt_insert) (use assms(2) in \<open>simp add: tab_ok_def m_def\<close>)
  moreover have "unat v \<le> unat (if v < n then n else v)" by (simp add: word_less_nat_alt)
  ultimately show ?thesis unfolding s' exposure_value_def m_def by simp
next
  case (Transfer a n)
  then show ?thesis using assms spend_transferD [of n s s'] by (simp add: exposure_value_def)
next
  case (Pull a n)
  define m where "m = sp_allowances s"
  define v where "v = unwrap_or 0 (map_of m a)"
  have s': "unat (sp_pulled s') = unat (sp_pulled s) + unat n"
      "sp_allowances s' = (if map_of m a = None then m else bt_insert a (v - min v n) m)"
    using spend_pullD [of a n s s'] assms(1) Pull by (simp_all add: m_def v_def)
  have "(\<Sum>x\<leftarrow>bt_values (bt_insert a (v - min v n) m). unat x) + unat v
      = (\<Sum>x\<leftarrow>bt_values m. unat x) + unat (v - min v n)"
    unfolding v_def by (rule sum_bt_insert) (use assms(2) in \<open>simp add: tab_ok_def m_def\<close>)
  then show ?thesis using s' by (simp add: exposure_value_def m_def [symmetric] unat_sub_min split: if_splits)
qed

lemma tab_run_bounds:
  assumes "tab_run ops s = Inr s'" "tab_covers s w"
  shows "tab_covers s' (fold wallet_step ops w) \<and> exposure_value s \<le> exposure_value s'"
  using assms
proof (induction ops arbitrary: s w)
  case (Cons x ops)
  obtain s1 where s1: "tab_step x s = Inr s1" "tab_run ops s1 = Inr s'"
    using Cons.prems(1) by (auto split: sum.splits)
  have "tab_covers s1 (wallet_step x w)" by (rule tab_step_covers [OF s1(1) Cons.prems(2)])
  from Cons.IH [OF s1(2) this] show ?case
    using tab_step_grows [OF s1(1)] Cons.prems(2) by (force simp: tab_covers_def)
qed simp

text \<open>What is gone and what may still be drawn, over any finite set of spenders, is within the tab.\<close>

lemma covered_exposure:
  assumes "tab_covers s w" "finite A"
  shows "w_taken w + (\<Sum>a\<in>A. w_allow w a) \<le> exposure_value s"
proof -
  let ?K = "fst ` set (sp_allowances s)"
  have zero: "slot_of s a = 0" if "a \<notin> ?K" for a
  proof -
    have "map_of (sp_allowances s) a = None" using that by (simp add: map_of_eq_None_iff)
    then show ?thesis by (simp add: slot_of_def)
  qed
  have "(\<Sum>a\<in>A. w_allow w a) \<le> (\<Sum>a\<in>A. slot_of s a)"
    using assms(1) by (intro sum_mono) (simp add: tab_covers_def)
  also have "\<dots> \<le> (\<Sum>a\<in>A \<union> ?K. slot_of s a)" using assms(2) by (intro sum_mono2) auto
  also have "\<dots> = (\<Sum>a\<in>?K. slot_of s a)"
    using assms(2) by (intro sum.mono_neutral_right) (auto simp: zero)
  also have "\<dots> = (\<Sum>x\<leftarrow>bt_values (sp_allowances s). unat x)"
    using assms(1) bt_values_map_of [of "sp_allowances s"] by (simp add: tab_covers_def tab_ok_def slot_of_def)
  finally show ?thesis using assms(1) by (simp add: tab_covers_def exposure_value_def)
qed

section \<open>Accepted calls keep the tab\<close>

lemma abi_wordD:
  assumes "abi_word r = Some (w, r')"
  shows "w = take 32 (drop (ab_pos r) (ab_bytes r))" "r' = r\<lparr>ab_pos := ab_pos r + 32\<rparr>"
    "ab_pos r + 32 \<le> length (ab_bytes r)"
  using assms by (auto simp: abi_word_def usize_add_def slice_def split: option.splits if_splits)

lemma abi_addressD: "abi_address r = Some (a, r') \<Longrightarrow> r' = r\<lparr>ab_pos := ab_pos r + 32\<rparr>"
  by (auto simp: abi_address_def split: option.splits if_splits dest: abi_wordD(2))

lemma abi_uintD:
  "abi_uint r = Some (n, r') \<Longrightarrow> n = from_be_slice (take 32 (drop (ab_pos r) (ab_bytes r)))"
  by (auto simp: abi_uint_def dest: abi_wordD(1))

lemma split_at_4_Some: "split_at_4 bs = Some (sel, args) \<longleftrightarrow> 4 \<le> length bs \<and> sel = take 4 bs \<and> args = drop 4 bs"
  by (auto simp: split_at_4_def)

lemma check_token_call_ops:
  assumes "check_token_call L i want input bs s = Inr s'"
  shows "tab_run (token_ops bs) s = Inr s'"
  using assms
  by (auto simp: check_token_call_def Let_def token_ops_def split_at_4_Some sel_approve_def sel_transfer_def
      split: option.splits if_splits sum.splits)

lemma check_deposit_erc20_ops:
  assumes "check_deposit_erc20 L R to (drop 4 bs) (Some s) = Inr s'"
  shows "\<exists>s1. s' = Some s1 \<and> spend_pull to (from_be_slice (take 32 (drop 68 bs))) s = Inr s1"
proof -
  obtain depositor r1 token r2 amount r3 w where
    r: "abi_address (abi_new (drop 4 bs)) = Some (depositor, r1)" "abi_address r1 = Some (token, r2)"
      "abi_uint r2 = Some (amount, r3)" "abi_word r3 = Some w" "spend_via R (spend_pull to amount) (Some s) = Inr s'"
    using assms by (auto simp: check_deposit_erc20_def Let_def split: option.splits if_splits)
  have "ab_bytes r2 = drop 4 bs" "ab_pos r2 = 64"
    using abi_addressD [OF r(1)] abi_addressD [OF r(2)] by (simp_all add: abi_new_def abi_at_def)
  then have "amount = from_be_slice (take 32 (drop 68 bs))" using abi_uintD [OF r(3)] by simp
  then show ?thesis using r(5) by (auto simp: spend_via_def split: sum.splits)
qed

lemma check_pulls_ops:
  assumes "check_pulls L R to ps (Some s) t = Inr (s', t')"
  shows "\<exists>s1. s' = Some s1 \<and> tab_run (map (\<lambda>p. Pull to (snd p)) ps) s = Inr s1"
  using assms
proof (induction ps arbitrary: s t)
  case (Cons p ps)
  obtain token amount where p: "p = (token, amount)" by force
  obtain s1 t1 where "spend_pull to amount s = Inr s1" "check_pulls L R to ps (Some s1) t1 = Inr (s', t')"
    using Cons.prems by (auto simp: p Let_def spend_via_def split: if_splits sum.splits option.splits)
  then show ?case using Cons.IH by (auto simp: p)
qed simp

lemma check_pulls_total:
  assumes "check_pulls L R to ps s t = Inr (s', t')"
  shows "unat t' = unat t + (\<Sum>p\<leftarrow>ps. unat (snd p))"
  using assms
proof (induction ps arbitrary: s t)
  case (Cons p ps)
  obtain token amount where p: "p = (token, amount)" by force
  obtain s1 t1 where "checked_add t amount = Some t1" "check_pulls L R to ps s1 t1 = Inr (s', t')"
    using Cons.prems by (auto simp: p Let_def split: if_splits sum.splits option.splits)
  then show ?case using Cons.IH by (auto simp: p checked_add_eq_Some)
qed simp

lemma multicall_args_pulls:
  assumes "multicall_args_of R sel args = Inr m"
  shows "ma_pulls m = (if is_pull sel then Some (fst (the (static_items abi_address (abi_new args))),
      fst (the (static_items abi_uint (snd (the (static_items abi_address (abi_new args)))))))
    else None)"
    and "is_pull sel \<Longrightarrow> static_items abi_address (abi_new args) \<noteq> None
      \<and> static_items abi_uint (snd (the (static_items abi_address (abi_new args)))) \<noteq> None"
  using assms by (auto simp: multicall_args_of_def Let_def split: option.splits if_splits)

lemma relay_ops_pull:
  assumes "multicall_args_of R (take 4 bs) (drop 4 bs) = Inr m" "is_pull (take 4 bs)"
    and "ma_pulls m = Some (tokens, amounts)"
  shows "relay_ops to bs = map (Pull to) amounts"
proof -
  have "take 4 bs \<noteq> sel_deposit_erc20" using assms(2) by (auto simp: is_pull_def selectors)
  then show ?thesis
    using multicall_args_pulls [OF assms(1)] assms(2,3) by (auto simp: relay_ops_def)
qed

lemma check_multicall_terms_ops:
  assumes "check_multicall_terms L R to m (Some s) = Inr (s', t)"
  shows "\<exists>s1. s' = Some s1 \<and> tab_run (case ma_pulls m of None \<Rightarrow> [] | Some (tokens, amounts) \<Rightarrow>
    map (Pull to) amounts) s = Inr s1"
proof (cases "ma_pulls m")
  case None
  then show ?thesis using assms by (auto simp: check_multicall_terms_def Let_def split: if_splits)
next
  case (Some p)
  obtain tokens amounts where p: "p = (tokens, amounts)" by force
  have *: "length tokens = length amounts" "check_pulls L R to (zip tokens amounts) (Some s) 0 = Inr (s', t)"
    using assms Some p by (auto simp: check_multicall_terms_def Let_def split: if_splits)
  have "map (\<lambda>p. Pull to (snd p)) (zip tokens amounts) = map (Pull to) (map snd (zip tokens amounts))"
    by simp
  also have "\<dots> = map (Pull to) amounts" using *(1) by simp
  finally show ?thesis using check_pulls_ops [OF *(2)] Some p by simp
qed

lemma check_relay_call_ops:
  assumes "check_relay_call L R call (Some s) = Inr s'"
  shows "\<exists>s1. s' = Some s1 \<and> tab_run (relay_ops (wc_to call) (wc_calldata call)) s = Inr s1"
proof -
  let ?bs = "wc_calldata call"
  have len: "4 \<le> length ?bs"
    using assms by (simp add: check_relay_call.simps split_at_4_def split: if_splits)
  note body = assms [unfolded check_relay_call.simps]
  consider (deposit) "take 4 ?bs = sel_deposit_erc20"
    | (call) "is_multicall (take 4 ?bs) \<or> is_pull (take 4 ?bs)" "take 4 ?bs \<noteq> sel_deposit_erc20"
    | (other) "\<not> is_pull (take 4 ?bs)" "\<not> is_multicall (take 4 ?bs)" "take 4 ?bs \<noteq> sel_deposit_erc20"
    by blast
  then show ?thesis
  proof cases
    case deposit
    then have "check_deposit_erc20 L R (wc_to call) (drop 4 ?bs) (Some s) = Inr s'"
      using body len by (auto simp: split_at_4_def split: option.splits)
    from check_deposit_erc20_ops [OF this] deposit show ?thesis by (auto simp: relay_ops_def)
  next
    case call
    then have ne: "take 4 ?bs \<noteq> sel_deposit_erc20_all" "take 4 ?bs \<noteq> sel_deposit_native"
      by (auto simp: is_multicall_def is_pull_def selectors)
    obtain m s1 t where m: "multicall_args_of R (take 4 ?bs) (drop 4 ?bs) = Inr m"
        "check_multicall_terms L R (wc_to call) m (Some s) = Inr (s1, t)" "s' = s1"
      using body len call ne by (auto simp: split_at_4_def split: option.splits sum.splits if_splits)
    have "relay_ops (wc_to call) ?bs = (case ma_pulls m of None \<Rightarrow> [] | Some (tokens, amounts) \<Rightarrow>
        map (Pull (wc_to call)) amounts)"
    proof (cases "is_pull (take 4 ?bs)")
      case True
      then show ?thesis using relay_ops_pull [OF m(1) True] multicall_args_pulls(1) [OF m(1)] by simp
    next
      case False
      then show ?thesis using multicall_args_pulls(1) [OF m(1)] call(2) by (simp add: relay_ops_def)
    qed
    then show ?thesis using check_multicall_terms_ops [OF m(2)] m(3) by simp
  next
    case other
    then have "s' = Some s"
      using body len by (auto simp: split_at_4_def split: option.splits sum.splits if_splits)
    then show ?thesis using other by (simp add: relay_ops_def)
  qed
qed

lemma check_call_ops:
  assumes "check_call L i want input to bs v s = Inr s'"
  shows "tab_run (call_ops want to bs) s = Inr s'"
proof (cases "ex_origin_currency want \<noteq> 0 \<and> to = ex_origin_currency want")
  case True
  then show ?thesis using assms check_token_call_ops by (simp add: check_call_def call_ops_def)
next
  case False
  let ?R = "\<lparr>rt_id = i, rt_want = want, rt_input_amount = input, rt_depth = 0\<rparr>"
  obtain s1 where s1: "check_relay_call L ?R \<lparr>wc_to = to, wc_calldata = bs, wc_value = v\<rparr> (Some s) = Inr s1"
      "s' = unwrap_or s s1"
    using assms False by (auto simp: check_call_def split: if_splits sum.splits)
  have "call_ops want to bs = relay_ops to bs" using False by (auto simp: call_ops_def)
  then show ?thesis using check_relay_call_ops [OF s1(1)] s1(2) by auto
qed

section \<open>Who may take\<close>

text \<open>Only a depository or an approval proxy gets an allowance or draws on one, only a depository a transfer.\<close>

fun op_ok :: "expected \<Rightarrow> wallet_op \<Rightarrow> bool" where
  "op_ok want (Approve a n) = may_hold_allowance (ex_relay_roles want) a"
| "op_ok want (Transfer a n) = (a \<in> set (rr_depositories (ex_relay_roles want)))"
| "op_ok want (Pull a n) = may_hold_allowance (ex_relay_roles want) a"

lemma check_token_call_ok:
  "check_token_call L i want input bs s = Inr s' \<Longrightarrow> list_all (op_ok want) (token_ops bs)"
  by (auto simp: check_token_call_def Let_def token_ops_def split_at_4_Some sel_approve_def sel_transfer_def
      split: option.splits if_splits sum.splits)

lemma list_all_Pull: "list_all (op_ok want) (map (Pull to) ns) \<longleftrightarrow> ns = [] \<or> may_hold_allowance (ex_relay_roles want) to"
  by (cases ns) (auto simp: list_all_iff)

lemma relay_ops_ok:
  assumes "role_refusal L R to (take 4 bs) = None"
  shows "list_all (op_ok (rt_want R)) (relay_ops to bs)"
proof -
  have "may_hold_allowance (ex_relay_roles (rt_want R)) to"
    if "take 4 bs = sel_deposit_erc20 \<or> is_pull (take 4 bs)"
    using assms that by (auto simp: role_refusal_def may_hold_allowance_def Let_def split: if_splits)
  then show ?thesis by (auto simp: relay_ops_def list_all_Pull split: option.splits)
qed

lemma check_call_ok:
  assumes "check_call L i want input to bs v s = Inr s'"
  shows "list_all (op_ok want) (call_ops want to bs)"
    "(ex_origin_currency want \<noteq> 0 \<and> to = ex_origin_currency want) \<or> roles_contains (ex_relay_roles want) to"
proof -
  let ?R = "\<lparr>rt_id = i, rt_want = want, rt_input_amount = input, rt_depth = 0\<rparr>"
  show "list_all (op_ok want) (call_ops want to bs)"
  proof (cases "ex_origin_currency want \<noteq> 0 \<and> to = ex_origin_currency want")
    case True
    then show ?thesis using assms check_token_call_ok by (simp add: check_call_def call_ops_def)
  next
    case False
    then obtain s1 where "check_relay_call L ?R \<lparr>wc_to = to, wc_calldata = bs, wc_value = v\<rparr> (Some s) = Inr s1"
      using assms by (auto simp: check_call_def split: if_splits sum.splits)
    then have "role_refusal L ?R to (take 4 bs) = None"
      by (auto simp: check_relay_call.simps split_at_4_def split: option.splits if_splits)
    from relay_ops_ok [OF this] False show ?thesis by (auto simp: call_ops_def)
  qed
  show "(ex_origin_currency want \<noteq> 0 \<and> to = ex_origin_currency want) \<or> roles_contains (ex_relay_roles want) to"
    using assms by (auto simp: check_call_def split: if_splits)
qed

section \<open>Accepted steps\<close>

definition step_target_ok :: "lib \<Rightarrow> expected \<Rightarrow> route_step \<Rightarrow> bool" where
  "step_target_ok L want st = (rs_chain_id st = ex_origin_chain_id want
     \<and> (\<exists>to. l_parse_address L (rs_to st) = Some to
        \<and> (ex_origin_currency want \<noteq> 0 \<and> to = ex_origin_currency want
           \<or> roles_contains (ex_relay_roles want) to)))"

definition approves :: "lib \<Rightarrow> expected \<Rightarrow> route_step \<Rightarrow> bool" where
  "approves L want st = (ex_origin_currency want \<noteq> 0
     \<and> l_parse_address L (rs_to st) = Some (ex_origin_currency want)
     \<and> 8 \<le> length (drop 2 (rs_data st))
     \<and> l_hex_decode L (take 8 (drop 2 (rs_data st))) = Some sel_approve)"

lemma check_stepE:
  assumes "check_step L i desc data want input s = Inr (rs, s')"
  obtains to bs v where "l_parse_address L (str_or_empty data ''to'') = Some to"
    "calldata_ok (str_or_empty data ''data'')" "l_hex_decode L (drop 2 (str_or_empty data ''data'')) = Some bs"
    "check_call L i want input to bs v s = Inr s'" "rs_to rs = l_fmt_address L to"
    "rs_data rs = to_ascii_lowercase (str_or_empty data ''data'')" "rs_chain_id rs = ex_origin_chain_id want"
    "same_address L (str_or_empty data ''from'') (ex_user want)"
  using assms by (auto simp: check_step_def Let_def split: if_splits option.splits sum.splits)

lemma check_step_ops:
  assumes "check_step L i desc data want input s = Inr (rs, s')" "address_codec_ok L" "hex_case_ok L"
  shows "tab_run (step_ops L want rs) s = Inr s'" "list_all (op_ok want) (step_ops L want rs)"
    "step_target_ok L want rs"
proof -
  from assms(1) obtain to bs v where *: "l_parse_address L (str_or_empty data ''to'') = Some to"
    "calldata_ok (str_or_empty data ''data'')" "l_hex_decode L (drop 2 (str_or_empty data ''data'')) = Some bs"
    "check_call L i want input to bs v s = Inr s'" "rs_to rs = l_fmt_address L to"
    "rs_data rs = to_ascii_lowercase (str_or_empty data ''data'')" "rs_chain_id rs = ex_origin_chain_id want"
    by (rule check_stepE)
  have to: "l_parse_address L (rs_to rs) = Some to" using *(5) assms(2) by (simp add: address_codec_ok_def)
  moreover have "l_hex_decode L (drop 2 (rs_data rs)) = Some bs"
    using *(3) assms(3) unfolding *(6) hex_case_ok_def to_ascii_lowercase_def drop_map by metis
  ultimately have "step_ops L want rs = call_ops want to bs" by (simp add: step_ops_def)
  then show "tab_run (step_ops L want rs) s = Inr s'" "list_all (op_ok want) (step_ops L want rs)"
    using check_call_ops [OF *(4)] check_call_ok(1) [OF *(4)] by simp_all
  show "step_target_ok L want rs" using check_call_ok(2) [OF *(4)] *(7) to by (simp add: step_target_ok_def)
qed

lemma check_step_approves:
  assumes "check_step L i desc data want input s = Inr (rs, s')" "address_codec_ok L" "hex_case_ok L"
  shows "is_approval L data want = approves L want rs"
proof -
  from assms(1) obtain to bs where *: "l_parse_address L (str_or_empty data ''to'') = Some to"
    "calldata_ok (str_or_empty data ''data'')"
    "rs_to rs = l_fmt_address L to" "rs_data rs = to_ascii_lowercase (str_or_empty data ''data'')"
    by (rule check_stepE)
  let ?c = "str_or_empty data ''data''"
  have c: "str_field data ''data'' = Some ?c"
    using *(2) by (cases "str_field data ''data''") (auto simp: str_or_empty_def calldata_ok_def starts_with_def)
  have sp: "strip_prefix ''0x'' ?c = Some (drop 2 ?c)" using *(2) by (simp add: strip_prefix_def calldata_ok_def numeral_2_eq_2)
  have low: "drop 2 (rs_data rs) = to_ascii_lowercase (drop 2 ?c)"
    "take 8 (to_ascii_lowercase (drop 2 ?c)) = to_ascii_lowercase (take 8 (drop 2 ?c))"
    "length (to_ascii_lowercase (drop 2 ?c)) = length (drop 2 ?c)"
    by (simp_all add: *(4) to_ascii_lowercase_def drop_map take_map)
  have a: "l_parse_address L (rs_to rs) = Some to" using *(3) assms(2) by (simp add: address_codec_ok_def)
  have dec: "l_hex_decode L (to_ascii_lowercase x) = l_hex_decode L x" for x
    using assms(3) by (simp add: hex_case_ok_def)
  show ?thesis
  proof (cases "str_field data ''to''")
    case None
    then have "l_parse_address L [] = Some to" using *(1) by (simp add: str_or_empty_def)
    then show ?thesis using assms(2) by (simp add: address_codec_ok_def)
  next
    case (Some t)
    then have "l_parse_address L t = Some to" using *(1) by (simp add: str_or_empty_def)
    then show ?thesis
      using Some c sp a low dec
      by (auto simp: is_approval_def approves_def Let_def filter_option_def split: option.splits)
  qed
qed

section \<open>Accepted routes\<close>

text \<open>
  What the loop over the steps keeps: the tab is that of the steps accepted so far, every one of them
  but a funding last step is an approval.
\<close>

definition progress_ok :: "lib \<Rightarrow> expected \<Rightarrow> progress \<Rightarrow> bool" where
  "progress_ok L want p =
     (tab_run (route_ops L want (pr_steps p)) no_spend = Inr (pr_spend p)
    \<and> list_all (op_ok want) (route_ops L want (pr_steps p))
    \<and> list_all (step_target_ok L want) (pr_steps p)
    \<and> (if pr_funded p then pr_steps p \<noteq> [] \<and> \<not> approves L want (last (pr_steps p))
         \<and> list_all (approves L want) (butlast (pr_steps p))
       else list_all (approves L want) (pr_steps p)))"

lemma progress_ok_start: "progress_ok L want start"
  by (simp add: progress_ok_def start_def route_ops_def)

lemma check_items_ok:
  assumes "check_items L want input st items p = Inr p'" "progress_ok L want p"
    and "address_codec_ok L" "hex_case_ok L"
  shows "progress_ok L want p'"
  using assms(1,2)
proof (induction items arbitrary: p)
  case (Cons item items)
  obtain rs s' where rs: "\<not> pr_funded p"
      "check_step L (qs_id st) (qs_description st) (qi_data item) want input (pr_spend p) = Inr (rs, s')"
      "check_items L want input st items
         \<lparr>pr_steps = pr_steps p @ [rs], pr_spend = s', pr_funded = \<not> is_approval L (qi_data item) want\<rparr> = Inr p'"
    using Cons.prems(1) by (auto split: if_splits sum.splits)
  note step = check_step_ops [OF rs(2) assms(3,4)] check_step_approves [OF rs(2) assms(3,4)]
  have "progress_ok L want
      \<lparr>pr_steps = pr_steps p @ [rs], pr_spend = s', pr_funded = \<not> is_approval L (qi_data item) want\<rparr>"
    using Cons.prems(2) rs(1) step by (auto simp: progress_ok_def route_ops_def tab_run_append)
  from Cons.IH [OF rs(3) this] show ?case .
qed simp

lemma check_steps_ok:
  assumes "check_steps L want input sts p = Inr p'" "progress_ok L want p"
    and "address_codec_ok L" "hex_case_ok L"
  shows "progress_ok L want p'"
  using assms(1,2)
proof (induction sts arbitrary: p)
  case (Cons st sts)
  then show ?case using check_items_ok [OF _ _ assms(3,4)] by (auto split: if_splits sum.splits)
qed simp

lemma route_prefix_bounded:
  assumes "tab_run ops no_spend = Inr s" "exposure_value s \<le> n" "finite A"
  shows "w_taken (wallet_run (take k ops)) + (\<Sum>a\<in>A. w_allow (wallet_run (take k ops)) a) \<le> n"
proof -
  obtain s1 where s1: "tab_run (take k ops) no_spend = Inr s1" "tab_run (drop k ops) s1 = Inr s"
    using assms(1) tab_run_append [of "take k ops" "drop k ops"] by (auto split: sum.splits)
  have "tab_covers s1 (wallet_run (take k ops))"
    using tab_run_bounds [OF s1(1) tab_covers_start] by (simp add: wallet_run_def)
  moreover from this have "exposure_value s1 \<le> exposure_value s" using tab_run_bounds [OF s1(2)] by blast
  ultimately show ?thesis using covered_exposure [OF _ assms(3)] assms(2) by fastforce
qed

lemma check_routeE:
  assumes "check_route L want input sts = Inr steps" "address_codec_ok L" "hex_case_ok L"
  obtains p v where "progress_ok L want p" "pr_funded p" "steps = pr_steps p" "exposure_value (pr_spend p) \<le> unat input"
    "total_value L steps = Some v" "unat v \<le> (if ex_origin_currency want = 0 then unat input else 0)"
proof -
  obtain p v taken where p: "check_steps L want input sts start = Inr p" "pr_funded p" "steps = pr_steps p"
      "total_value L (pr_steps p) = Some v" "\<not> (if ex_origin_currency want = 0 then input else 0) < v"
      "spend_exposure (pr_spend p) = Inr taken" "\<not> input < taken"
    using assms(1) by (auto simp: check_route_def Let_def split: sum.splits option.splits if_splits)
  have "progress_ok L want p" by (rule check_steps_ok [OF p(1) progress_ok_start assms(2,3)])
  moreover have "exposure_value (pr_spend p) \<le> unat input"
    using exposure_value_eq [OF p(6)] p(7) by (simp add: word_less_nat_alt)
  moreover have "unat v \<le> (if ex_origin_currency want = 0 then unat input else 0)"
    using p(5) by (auto simp: word_less_nat_alt split: if_splits)
  ultimately show ?thesis using that [of p v] p(2,3,4) by simp
qed

lemma check_quoteE:
  assumes "check_quote L now q want = Inr r"
  obtains input order where "check_parties L q want = None"
    "check_output L (qd_currency_out (q_details q)) want = None"
    "check_input L (qd_currency_in (q_details q)) want = Inr input"
    "order_data q = Some order" "check_order L order want input = Inr ()"
    "check_route L want input (q_steps q) = Inr (rq_steps r)"
    "rq_origin r = route_amount_of (qd_currency_in (q_details q))"
    "rq_destination r = (route_amount_of (qd_currency_out (q_details q)))\<lparr>ra_amount := fmt_u256 (ex_amount want)\<rparr>"
  using assms
  by (auto simp: check_quote_def Let_def route_quote_of_def split: option.splits sum.splits)

lemma check_input_amount: "check_input L a want = Inr n \<Longrightarrow> base_units L (Some (qa_amount a)) = Some n"
  by (auto simp: check_input_def Let_def split: if_splits option.splits)

section \<open>The signed order\<close>

definition payment_minimum :: "lib \<Rightarrow> json \<Rightarrow> u256 option" where
  "payment_minimum L p = base_units L (str_field p ''minimumAmount'')"

lemma base_units_bind: "Option.bind x (\<lambda>s. base_units L (Some s)) = base_units L x"
  by (cases x) (simp_all add: base_units_def)

lemma order_payments_sum:
  assumes "order_payments L want t ps = Inr t'"
  shows "list_all (\<lambda>p. same_address L (str_or_empty p ''recipient'') (ex_recipient want)
      \<and> same_address L (str_or_empty p ''currency'') (ex_token want) \<and> payment_minimum L p \<noteq> None) ps
    \<and> unat t' = unat t + (\<Sum>p\<leftarrow>ps. unat (the (payment_minimum L p)))"
  using assms
proof (induction ps arbitrary: t)
  case (Cons p ps)
  obtain n t1 where "same_address L (str_or_empty p ''recipient'') (ex_recipient want)"
      "same_address L (str_or_empty p ''currency'') (ex_token want)" "payment_minimum L p = Some n"
      "checked_add t n = Some t1" "order_payments L want t1 ps = Inr t'"
    using Cons.prems
    by (auto simp: Let_def payment_minimum_def base_units_bind split: if_splits option.splits)
  then show ?case using Cons.IH [of t1] by (simp add: checked_add_eq_Some)
qed simp

lemma order_refunds_all: "order_refunds L want rs = Inr () \<Longrightarrow> list_all (refund_ok L want) rs"
  by (induction rs) (auto split: if_splits)

definition input_amount_of :: "lib \<Rightarrow> json \<Rightarrow> u256 option" where
  "input_amount_of L i = base_units L (Option.bind (jget i ''payment'') (\<lambda>p. str_field p ''amount''))"

lemma order_input_ok:
  assumes "order_input L want t i = Inr t'"
  shows "\<exists>n refunds. input_amount_of L i = Some n \<and> unat t' = unat t + unat n
    \<and> Option.bind (jget i ''refunds'') as_array = Some refunds \<and> refunds \<noteq> [] \<and> list_all (refund_ok L want) refunds"
  using assms
  by (auto simp: order_input_def Let_def input_amount_of_def checked_add_eq_Some dest!: order_refunds_all
      split: option.splits if_splits sum.splits)

lemma order_inputs_sum:
  assumes "order_inputs L want t is = Inr t'"
  shows "unat t' = unat t + (\<Sum>i\<leftarrow>is. unat (the (input_amount_of L i)))
    \<and> list_all (\<lambda>i. \<exists>refunds. Option.bind (jget i ''refunds'') as_array = Some refunds \<and> refunds \<noteq> []
        \<and> list_all (refund_ok L want) refunds) is"
  using assms
proof (induction "is" arbitrary: t)
  case (Cons i "is")
  obtain t1 where "order_input L want t i = Inr t1" "order_inputs L want t1 is = Inr t'"
    using Cons.prems by (auto split: sum.splits)
  then show ?case using order_input_ok Cons.IH by fastforce
qed simp

section \<open>Nothing is left in the router\<close>

text \<open>What a nested call moves into the depository: the third argument of a \<open>depositErc20\<close> there.\<close>

definition deposited :: "expected \<Rightarrow> nested_call \<Rightarrow> nat" where
  "deposited want c =
     (if \<not> (ex_origin_currency want \<noteq> 0 \<and> nc_target c = ex_origin_currency want)
        \<and> nc_target c \<in> set (rr_depositories (ex_relay_roles want)) \<and> take 4 (nc_data c) = sel_deposit_erc20
      then be_value (unwrap_or [] (slice (nc_data c) 68 100)) else 0)"

lemma nested_erc20_flow:
  "nested_erc20 L R v data (Some f) = Inr fl' \<Longrightarrow> \<exists>f'. fl' = Some f' \<and> fl_consumed f' = fl_consumed f"
  by (auto simp: nested_erc20_def Let_def split: if_splits option.splits)

lemma unat_slice_word: "unat (from_be_slice (unwrap_or [] (slice bs 68 100)) :: u256) = be_value (unwrap_or [] (slice bs 68 100))"
  by (rule unat_from_be_slice) (auto simp: slice_def)

lemma draw_down_flow:
  assumes "draw_down R target data f = Inr f'"
  shows "unat (fl_consumed f') = unat (fl_consumed f) + be_value (unwrap_or [] (slice data 68 100))"
  using assms
  by (auto simp: draw_down_def Let_def checked_add_eq_Some unat_slice_word split: option.splits if_splits)

lemma check_nested_call_flow:
  assumes "check_nested_call L R c (Some f) = Inr fl'"
  shows "\<exists>f'. fl' = Some f' \<and> unat (fl_consumed f') = unat (fl_consumed f) + deposited (rt_want R) c"
proof (cases "ex_origin_currency (rt_want R) \<noteq> 0 \<and> nc_target c = ex_origin_currency (rt_want R)")
  case True
  then have "nested_erc20 L R (nc_value c) (nc_data c) (Some f) = Inr fl'"
    using assms by (auto simp: check_nested_call.simps Let_def split: if_splits)
  from nested_erc20_flow [OF this] True show ?thesis by (auto simp: deposited_def)
next
  case False
  then show ?thesis
    using assms
    by (auto simp: check_nested_call.simps Let_def deposited_def dest: draw_down_flow
        split: if_splits sum.splits)
qed

lemma check_nested_list_flow:
  assumes "check_nested_list L R tv nv cs (Some f) = Inr fl'"
  shows "\<exists>f'. fl' = Some f' \<and> unat (fl_consumed f') = unat (fl_consumed f) + (\<Sum>c\<leftarrow>cs. deposited (rt_want R) c)"
  using assms
proof (induction cs arbitrary: nv f)
  case (Cons c cs)
  obtain nv' fl1 where c: "check_nested_call L R c (Some f) = Inr fl1"
      "check_nested_list L R tv nv' cs fl1 = Inr fl'"
    using Cons.prems by (auto split: if_splits option.splits sum.splits)
  then show ?case using check_nested_call_flow [OF c(1)] Cons.IH by fastforce
qed auto

lemma check_relay_call_pull:
  assumes "check_relay_call L R call (Some s) = Inr s'" "is_pull (take 4 (wc_calldata call))"
  obtains m tokens amounts where
    "multicall_args_of R (take 4 (wc_calldata call)) (drop 4 (wc_calldata call)) = Inr m"
    "ma_pulls m = Some (tokens, amounts)"
    "(\<Sum>n\<leftarrow>amounts. unat n) = (\<Sum>c\<leftarrow>ma_calls m. deposited (rt_want R) c)"
    "\<not> foreign (rt_want R) (ma_refund_to m)" "list_all (\<lambda>t. t = ex_origin_currency (rt_want R)) tokens"
proof -
  let ?bs = "wc_calldata call"
  have len: "4 \<le> length ?bs"
    using assms by (simp add: check_relay_call.simps split_at_4_def split: if_splits)
  have ne: "take 4 ?bs \<noteq> sel_deposit_erc20" "take 4 ?bs \<noteq> sel_deposit_erc20_all" "take 4 ?bs \<noteq> sel_deposit_native"
    using assms(2) by (auto simp: is_pull_def selectors)
  obtain m s1 t fl where m: "multicall_args_of R (take 4 ?bs) (drop 4 ?bs) = Inr m"
      "check_multicall_terms L R (wc_to call) m (Some s) = Inr (s1, t)"
      "check_nested_list L (nested_route R) (wc_value call) 0 (ma_calls m) (Some no_flow) = Inr fl"
      "flow_settled R t fl = None"
    using assms len ne
    by (auto simp: check_relay_call.simps split_at_4_def split: option.splits sum.splits if_splits)
  obtain tokens amounts where p: "ma_pulls m = Some (tokens, amounts)"
    using multicall_args_pulls(1) [OF m(1)] assms(2) by simp
  have pulls: "length tokens = length amounts"
      "check_pulls L R (wc_to call) (zip tokens amounts) (Some s) 0 = Inr (s1, t)"
      "\<not> foreign (rt_want R) (ma_refund_to m)"
    using m(2) p by (auto simp: check_multicall_terms_def Let_def split: if_splits)
  obtain f where f: "fl = Some f"
      "unat (fl_consumed f) = unat (fl_consumed no_flow) + (\<Sum>c\<leftarrow>ma_calls m. deposited (rt_want (nested_route R)) c)"
    using check_nested_list_flow [OF m(3)] by blast
  have "unat t = (\<Sum>p\<leftarrow>zip tokens amounts. unat (snd p))" using check_pulls_total [OF pulls(2)] by simp
  also have "(\<Sum>p\<leftarrow>zip tokens amounts. unat (snd p)) = (\<Sum>n\<leftarrow>map snd (zip tokens amounts). unat n)"
    by (simp add: comp_def)
  also have "\<dots> = (\<Sum>n\<leftarrow>amounts. unat n)" using pulls(1) by simp
  finally have "(\<Sum>n\<leftarrow>amounts. unat n) = (\<Sum>c\<leftarrow>ma_calls m. deposited (rt_want R) c)"
    using m(4) f by (simp add: flow_settled_def no_flow_def nested_route_def split: if_splits)
  moreover have "list_all (\<lambda>p. fst p = ex_origin_currency (rt_want R)) ps"
    if "check_pulls L R to ps s0 t0 = Inr (s2, t2)" for to ps s0 t0 s2 t2
    using that by (induction ps arbitrary: s0 t0) (auto simp: Let_def split: if_splits sum.splits option.splits)
  from this [OF pulls(2)] have "list_all (\<lambda>t. t = ex_origin_currency (rt_want R)) (map fst (zip tokens amounts))"
    by (simp add: list_all_iff)
  then have "list_all (\<lambda>t. t = ex_origin_currency (rt_want R)) tokens" using pulls(1) by simp
  ultimately show ?thesis using that m(1) p pulls(3) by blast
qed

end
