(* ===== verification/Example_Lib.thy ===== *)
theory Example_Lib
  imports Chain_Payment
begin

text \<open>
  A concrete instance of the third-party functions, used to show that the hypotheses of the theorems
  can hold together: addresses, hashes and ids are printed in decimal, bytes in hexadecimal, the
  hashes are simple checksums. It stands for no real library.
\<close>

section \<open>Codecs\<close>

definition ex_parse_word :: "string \<Rightarrow> 'a::len word option" where
  "ex_parse_word s = (if all_digits s \<and> dec_value s < 2 ^ LENGTH('a) then Some (of_nat (dec_value s)) else None)"

definition ex_fmt_word :: "'a::len word \<Rightarrow> string" where
  "ex_fmt_word w = dec_nat (unat w)"

definition ex_parse_nat :: "string \<Rightarrow> nat option" where
  "ex_parse_nat s = (if all_digits s then Some (dec_value s) else None)"

definition nibble :: "nat \<Rightarrow> char" where
  "nibble n = (if n < 10 then char_of (48 + n) else char_of (87 + n))"

definition nibble_value :: "char \<Rightarrow> nat" where
  "nibble_value c = (if char_code c < 58 then char_code c - 48 else if char_code c < 71 then char_code c - 55
     else char_code c - 87)"

definition hex_byte :: "byte \<Rightarrow> string" where
  "hex_byte b = [nibble (unat b div 16), nibble (unat b mod 16)]"

definition ex_hex_encode :: "bytes \<Rightarrow> string" where
  "ex_hex_encode bs = concat (map hex_byte bs)"

fun ex_hex_decode :: "string \<Rightarrow> bytes option" where
  "ex_hex_decode [] = Some []"
| "ex_hex_decode [c] = None"
| "ex_hex_decode (c # d # s) = (if is_ascii_hexdigit c \<and> is_ascii_hexdigit d
     then map_option ((#) (of_nat (nibble_value c * 16 + nibble_value d))) (ex_hex_decode s) else None)"

lemma ex_word_codec [simp]: "ex_parse_word (ex_fmt_word w) = Some w"
  by (simp add: ex_parse_word_def ex_fmt_word_def)

lemma nibble_digit:
  assumes "n < 16"
  shows "is_ascii_hexdigit (nibble n) \<and> nibble_value (nibble n) = n"
  using assms
  by (simp add: nibble_def nibble_value_def is_ascii_hexdigit_def is_ascii_digit_def char_code_def)

lemma hex_byte_decode: "ex_hex_decode (hex_byte b @ s) = map_option ((#) b) (ex_hex_decode s)"
proof -
  have "unat b div 16 < 16" "unat b mod 16 < 16" using byte_lt [of b] by simp_all
  moreover have "(of_nat (unat b div 16 * 16 + unat b mod 16) :: byte) = b"
    by (simp only: div_mult_mod_eq of_nat_unat ucast_id)
  ultimately show ?thesis
    using nibble_digit [of "unat b div 16"] nibble_digit [of "unat b mod 16"]
    by (simp add: hex_byte_def)
qed

lemma ex_hex_codec [simp]: "ex_hex_decode (ex_hex_encode bs) = Some bs"
  by (induction bs) (simp_all add: ex_hex_encode_def hex_byte_decode)

lemma ex_hex_alphabet: "list_all is_ascii_hexdigit (ex_hex_encode bs)"
proof (induction bs)
  case (Cons b bs)
  have "unat b div 16 < 16" "unat b mod 16 < 16" using byte_lt [of b] by simp_all
  then show ?case using Cons nibble_digit by (simp add: ex_hex_encode_def hex_byte_def)
qed (simp add: ex_hex_encode_def)

lemma lower_hexdigit:
  "is_ascii_hexdigit (ascii_lower_char c) = is_ascii_hexdigit c"
  "is_ascii_hexdigit c \<Longrightarrow> nibble_value (ascii_lower_char c) = nibble_value c"
proof -
  have b: "char_code c < 256"
    by (simp add: char_code_def of_char_def horner_sum_bit_eq_take_bit [symmetric] take_bit_nat_less_exp)
  have u: "is_ascii_upper c \<Longrightarrow> char_code (ascii_lower_char c) = char_code c + 32"
    using b by (simp add: ascii_lower_char_def is_ascii_upper_def char_code_def)
  have l: "\<not> is_ascii_upper c \<Longrightarrow> ascii_lower_char c = c" by (simp add: ascii_lower_char_def)
  show "is_ascii_hexdigit (ascii_lower_char c) = is_ascii_hexdigit c"
    using u l by (cases "is_ascii_upper c") (auto simp: is_ascii_hexdigit_def is_ascii_digit_def is_ascii_upper_def)
  show "is_ascii_hexdigit c \<Longrightarrow> nibble_value (ascii_lower_char c) = nibble_value c"
    using u l by (cases "is_ascii_upper c")
      (auto simp: is_ascii_hexdigit_def is_ascii_digit_def is_ascii_upper_def nibble_value_def)
qed

lemma ex_hex_case: "ex_hex_decode (to_ascii_lowercase s) = ex_hex_decode s"
  by (induction s rule: ex_hex_decode.induct) (simp_all add: to_ascii_lowercase_def lower_hexdigit)

section \<open>An injective ABI encoding\<close>

definition enc_word :: "'a::len word \<Rightarrow> bytes" where
  "enc_word w = map (\<lambda>n. if bit w n then 1 else 0) [0..<LENGTH('a)]"

fun enc_list :: "('a \<Rightarrow> bytes) \<Rightarrow> 'a list \<Rightarrow> bytes" where
  "enc_list f [] = [0]"
| "enc_list f (x # xs) = 1 # f x @ enc_list f xs"

fun enc_value :: "abi_value \<Rightarrow> bytes" and enc_values :: "abi_value list \<Rightarrow> bytes" where
  "enc_value (AUint w) = 0 # enc_word w"
| "enc_value (AAddr w) = 1 # enc_word w"
| "enc_value (AB256 w) = 2 # enc_word w"
| "enc_value (ABytes b) = 3 # enc_list (\<lambda>x. [x]) b"
| "enc_value (AStr s) = 4 # enc_list (\<lambda>c. [of_nat (char_code c)]) s"
| "enc_value (ATuple vs) = 5 # enc_values vs"
| "enc_value (AArray vs) = 6 # enc_values vs"
| "enc_values [] = [0]"
| "enc_values (v # vs) = 1 # enc_value v @ enc_values vs"

lemma enc_word_inj: "enc_word w @ s = enc_word w' @ s' \<Longrightarrow> w = w' \<and> s = s'"
proof -
  assume *: "enc_word w @ s = enc_word w' @ s'"
  have "length (enc_word w) = length (enc_word w')" by (simp add: enc_word_def)
  with * have eq: "enc_word w = enc_word w'" "s = s'" by simp_all
  have "bit w n = bit w' n" if "n < LENGTH('a)" for n
  proof -
    have "enc_word w ! n = enc_word w' ! n" using eq by simp
    then show ?thesis using that by (simp add: enc_word_def split: if_splits)
  qed
  then have "w = w'" by (intro bit_word_eqI) simp
  with eq show ?thesis by simp
qed

lemma enc_list_inj:
  assumes "\<And>x x' s s'. f x @ s = f x' @ s' \<Longrightarrow> x = x' \<and> s = s'"
  shows "enc_list f xs @ s = enc_list f xs' @ s' \<Longrightarrow> xs = xs' \<and> s = s'"
proof (induction xs arbitrary: xs' s s')
  case Nil
  then show ?case by (cases xs') auto
next
  case (Cons x xs)
  then obtain y ys where xs': "xs' = y # ys" by (cases xs') auto
  then have "f x @ enc_list f xs @ s = f y @ enc_list f ys @ s'" using Cons.prems by simp
  from assms [OF this] Cons.IH xs' show ?case by auto
qed

lemma char_byte_inj: "(of_nat (char_code c) :: byte) = of_nat (char_code d) \<Longrightarrow> c = d"
proof -
  assume "(of_nat (char_code c) :: byte) = of_nat (char_code d)"
  then have "unat (of_nat (char_code c) :: byte) = unat (of_nat (char_code d) :: byte)" by simp
  moreover have "char_code c < 256" "char_code d < 256"
    by (simp_all add: char_code_def of_char_def horner_sum_bit_eq_take_bit [symmetric] take_bit_nat_less_exp)
  ultimately have "char_code c = char_code d" by (simp add: unat_of_nat)
  then show "c = d" by (simp add: char_code_def)
qed

lemma enc_inj:
  "enc_value v @ s = enc_value v' @ s' \<Longrightarrow> v = v' \<and> s = s'"
  "enc_values vs @ s = enc_values vs' @ s' \<Longrightarrow> vs = vs' \<and> s = s'"
proof (induction v and vs arbitrary: v' s s' and vs' s s' rule: enc_value_enc_values.induct)
  case (1 w) then show ?case by (cases v') (auto dest: enc_word_inj)
next
  case (2 w) then show ?case by (cases v') (auto dest: enc_word_inj)
next
  case (3 w) then show ?case by (cases v') (auto dest: enc_word_inj)
next
  case (4 b) then show ?case by (cases v') (auto dest: enc_list_inj [rotated])
next
  case (5 t) then show ?case
    by (cases v') (auto dest!: enc_list_inj [rotated] char_byte_inj)
next
  case (6 vs) then show ?case by (cases v') auto
next
  case (7 vs) then show ?case by (cases v') auto
next
  case 8 then show ?case by (cases vs') auto
next
  case (9 v vs)
  obtain y ys where vs': "vs' = y # ys" using 9(3) by (cases vs') auto
  then have "enc_value v @ enc_values vs @ s = enc_value y @ enc_values ys @ s'" using 9(3) by simp
  from 9(1) [OF this] have v: "v = y" and rest: "enc_values vs @ s = enc_values ys @ s'" by simp_all
  from 9(2) [OF rest] v vs' show ?case by simp
qed

section \<open>The instance\<close>

definition ex_selector :: "string \<Rightarrow> bytes" where
  "ex_selector sig = (let n = (\<Sum>c\<leftarrow>sig. char_code c) in [of_nat n, of_nat (n div 256), 0, 0])"

definition ex_sum :: "bytes \<Rightarrow> nat" where
  "ex_sum bs = foldl (\<lambda>acc b. acc * 31 + unat b) 7 bs"

definition ex_lib :: lib where
  "ex_lib = \<lparr>l_parse_address = ex_parse_word, l_parse_b256 = ex_parse_word, l_parse_bytes = ex_hex_decode,
     l_parse_u256 = ex_parse_word, l_u256_radix10 = ex_parse_word, l_parse_uuid = ex_parse_nat,
     l_fmt_address = ex_fmt_word, l_fmt_b256 = ex_fmt_word, l_fmt_bytes = ex_hex_encode,
     l_fmt_uuid = dec_nat, l_fmt_time = dec_int, l_checksum = ex_fmt_word, l_hex_encode = ex_hex_encode,
     l_hex_decode = ex_hex_decode, l_uuid_v7 = (\<lambda>n. n), l_uuid_unix = (\<lambda>i. Some i),
     l_keccak256 = (\<lambda>bs. of_nat (ex_sum bs)), l_sha256 = (\<lambda>bs. [of_nat (ex_sum bs)]),
     l_hmac_sha256 = (\<lambda>key bs. [of_nat (ex_sum key), of_nat (ex_sum bs)]),
     l_create = (\<lambda>a n. a + of_nat n), l_create2 = (\<lambda>a salt h. ucast h),
     l_abi_decode = (\<lambda>sig data. None), l_abi_encode_call = (\<lambda>sig args. ex_selector sig @ enc_values args),
     l_abi_encode_params = enc_values, l_fmt_u256_hex = ex_fmt_word, l_panic_kind = (\<lambda>n. None),
     l_payment_creation_code = [], l_fmt_sqlx = (\<lambda>e. ''database error''),
     l_json_to_string = (\<lambda>j. ''{}''), l_fmt_debug = (\<lambda>s. s), l_fmt_debug_json = (\<lambda>j. ''''),
     l_fmt_time_millis = dec_int, l_fmt_usd_cost = (\<lambda>s. None)\<rparr>"

lemma ex_lib_ok:
  "u256_parser_ok ex_lib" "u256_radix_ok ex_lib" "address_codec_ok ex_lib" "b256_codec_ok ex_lib"
  "bytes_codec_ok ex_lib" "uuid_codec_ok ex_lib" "hex_codec_ok ex_lib" "hex_alphabet_ok ex_lib"
  "uuid_v7_ok ex_lib" "hex_case_ok ex_lib"
proof -
  have "(ex_parse_word [] :: address option) = None" by (simp add: ex_parse_word_def all_digits_def)
  then show "address_codec_ok ex_lib" by (simp add: ex_lib_def address_codec_ok_def)
  show "hex_case_ok ex_lib" by (simp add: ex_lib_def hex_case_ok_def ex_hex_case)
  show "u256_parser_ok ex_lib" "u256_radix_ok ex_lib"
    by (simp_all add: ex_lib_def u256_parser_ok_def u256_radix_ok_def ex_parse_word_def)
qed (simp_all add: ex_lib_def address_codec_ok_def b256_codec_ok_def bytes_codec_ok_def uuid_codec_ok_def
      hex_codec_ok_def hex_alphabet_ok_def uuid_v7_ok_def ex_parse_nat_def ex_hex_alphabet strict_mono_def)

lemma ex_lib_abi: "abi_codec_ok ex_lib"
proof -
  have "inj enc_values" using enc_inj(2) [where s = "[]" and s' = "[]"] by (intro injI) simp
  moreover have "length (ex_selector sig) = 4" for sig by (simp add: ex_selector_def Let_def)
  ultimately show ?thesis by (auto simp: abi_codec_ok_def ex_lib_def)
qed

end
