(* ===== verification/Relay_Properties.thy ===== *)
theory Relay_Properties
  imports Relay_Wallet Example_Lib
begin

text \<open>
  The properties of an accepted Relay quote, with an example quote they are applied to: a payer whose
  token is \<open>5\<close> pays \<open>50\<close> of the deposit's token \<open>2\<close> with \<open>100\<close> of hers, by an approval of Relay's
  depository \<open>9\<close> and a deposit there.
\<close>

section \<open>An example quote\<close>

definition ex_want :: expected where
  "ex_want = \<lparr>ex_user = 3, ex_origin_chain_id = 10, ex_origin_currency = 5, ex_destination_chain_id = 1,
     ex_token = 2, ex_recipient = 7, ex_amount = 50,
     ex_relay_roles = \<lparr>rr_depositories = [9], rr_approval_proxies = [8], rr_receivers = [], rr_routers = [4]\<rparr>,
     ex_origin_decimals = 6, ex_token_decimals = 6, ex_origin_chain_names = [''ten''],
     ex_destination_chain_names = [''one'']\<rparr>"

definition word_bytes :: "byte \<Rightarrow> bytes" where
  "word_bytes b = replicate 31 0 @ [b]"

lemma length_word_bytes [simp]: "length (word_bytes b) = 32"
  by (simp add: word_bytes_def)

lemma be_value_zeros: "be_value (replicate n 0 @ [b]) = unat b"
proof -
  have "foldl (\<lambda>acc b. acc * 256 + unat (b :: byte)) 0 (replicate n 0) = 0" by (induction n) simp_all
  then show ?thesis by (simp add: be_value_def)
qed

lemma from_word_bytes:
  "from_be_slice (word_bytes b) = (of_nat (unat b) :: 'a::len word)"
  "from_be_slice (drop 12 (word_bytes b)) = (of_nat (unat b) :: 'a::len word)"
  "take 12 (word_bytes b) = replicate 12 0"
proof -
  show "from_be_slice (word_bytes b) = (of_nat (unat b) :: 'a word)"
    by (simp only: from_be_slice_def word_bytes_def be_value_zeros)
  have "drop 12 (word_bytes b) = replicate 19 0 @ [b]" by (simp add: word_bytes_def)
  then show "from_be_slice (drop 12 (word_bytes b)) = (of_nat (unat b) :: 'a word)"
    by (simp only: from_be_slice_def be_value_zeros)
  show "take 12 (word_bytes b) = replicate 12 0" by (simp add: word_bytes_def)
qed

definition ex_approve :: bytes where
  "ex_approve = sel_approve @ word_bytes 9 @ word_bytes 100"

definition ex_deposit :: bytes where
  "ex_deposit = sel_deposit_erc20 @ word_bytes 3 @ word_bytes 5 @ word_bytes 100 @ word_bytes 1"

definition ex_item :: "string \<Rightarrow> bytes \<Rightarrow> quote_step_item" where
  "ex_item to bs = \<lparr>qi_status = '''', qi_data = JObj [(''from'', JStr ''3''), (''to'', JStr to),
     (''data'', JStr (''0x'' @ ex_hex_encode bs)), (''chainId'', JInt 10)], qi_check = None\<rparr>"

definition ex_step :: "string \<Rightarrow> quote_step_item \<Rightarrow> quote_step" where
  "ex_step i item = \<lparr>qs_id = i, qs_action = '''', qs_description = '''', qs_kind = ''transaction'',
     qs_request_id = None, qs_items = [item]\<rparr>"

definition ex_order :: json where
  "ex_order = JObj
     [(''output'', JObj [(''chainId'', JStr ''one''), (''payments'', JArr [JObj [(''recipient'', JStr ''7''),
         (''currency'', JStr ''2''), (''minimumAmount'', JStr ''50'')]])]),
      (''inputs'', JArr [JObj [(''payment'', JObj [(''currency'', JStr ''5''), (''chainId'', JStr ''ten''),
         (''amount'', JStr ''100'')]),
         (''refunds'', JArr [JObj [(''recipient'', JStr ''3''), (''currency'', JStr ''5''),
           (''chainId'', JInt 10)]])]])]"

definition ex_amount_of :: "nat \<Rightarrow> string \<Rightarrow> string \<Rightarrow> quote_amount" where
  "ex_amount_of chain addr n = \<lparr>qa_currency = \<lparr>qc_chain_id = chain, qc_address = addr, qc_symbol = ''T'',
     qc_name = ''T'', qc_decimals = 6, qc_metadata = None\<rparr>, qa_amount = n, qa_amount_formatted = None,
     qa_amount_usd = None, qa_minimum_amount = Some n\<rparr>"

definition ex_quote :: quote where
  "ex_quote = \<lparr>q_request_id = Some (''0x'' @ replicate 64 CHR ''a''),
     q_steps = [ex_step ''approve'' (ex_item ''5'' ex_approve), ex_step ''deposit'' (ex_item ''9'' ex_deposit)],
     q_fees = None,
     q_details = \<lparr>qd_operation = '''', qd_sender = ''3'', qd_recipient = ''7'',
       qd_currency_in = ex_amount_of 10 ''5'' ''100'', qd_currency_out = ex_amount_of 1 ''2'' ''50'',
       qd_total_impact = None, qd_time_estimate = None, qd_rate = None\<rparr>,
     q_protocol = Some (JObj [(''v2'', JObj [(''orderData'', ex_order)])])\<rparr>"

definition ex_spend :: spend where
  "ex_spend = \<lparr>sp_pulled = 0, sp_allowances = [(9, 100)]\<rparr>"

lemma ex_check_calls:
  "check_call ex_lib ''approve'' ex_want 100 5 ex_approve 0 no_spend = Inr ex_spend"
  "check_call ex_lib ''deposit'' ex_want 100 9 ex_deposit 0 ex_spend
     = Inr \<lparr>sp_pulled = 100, sp_allowances = [(9, 0)]\<rparr>"
proof -
  show "check_call ex_lib ''approve'' ex_want 100 5 ex_approve 0 no_spend = Inr ex_spend"
    by (simp add: check_call_def check_token_call_def ex_want_def ex_approve_def split_at_4_def selectors Let_def
        from_word_bytes may_hold_allowance_def spend_grant_def no_spend_def ex_spend_def)
  let ?args = "word_bytes 3 @ word_bytes 5 @ word_bytes 100 @ word_bytes 1"
  have "abi_address (abi_new ?args) = Some (3, abi_at ?args 0 32)"
    "abi_address (abi_at ?args 0 32) = Some (5, abi_at ?args 0 64)"
    "abi_uint (abi_at ?args 0 64) = Some (100, abi_at ?args 0 96)"
    "abi_word (abi_at ?args 0 96) = Some (word_bytes 1, abi_at ?args 0 128)"
    by (simp_all add: abi_new_def abi_at_def abi_address_def abi_uint_def abi_word_def usize_add_def slice_def
        from_word_bytes list_ex_iff)
  then show "check_call ex_lib ''deposit'' ex_want 100 9 ex_deposit 0 ex_spend
     = Inr \<lparr>sp_pulled = 100, sp_allowances = [(9, 0)]\<rparr>"
    by (simp add: check_call_def check_relay_call.simps check_deposit_erc20_def role_refusal_def ex_want_def
        ex_deposit_def split_at_4_def selectors Let_def is_multicall_def is_pull_def roles_contains_def foreign_def
        spend_via_def spend_pull_def spend_transfer_def ex_spend_def checked_add_def)
qed

lemma ex_addresses [simp]:
  "l_parse_address ex_lib ''3'' = Some 3" "l_parse_address ex_lib ''5'' = Some 5" "l_parse_address ex_lib ''7'' = Some 7"
  "l_parse_address ex_lib ''9'' = Some 9" "l_parse_address ex_lib ''2'' = Some 2"
  by (simp_all add: ex_lib_def ex_parse_word_def all_digits_def is_ascii_digit_def char_code_def dec_value_def
      digit_value_def)

lemma trim_number: "all_digits s \<Longrightarrow> base_units ex_lib (Some s) = ex_parse_word s"
  by (simp add: base_units_def trim_digits ex_lib_def)

lemma ex_units [simp]:
  "base_units ex_lib (Some ''100'') = Some 100" "base_units ex_lib (Some ''50'') = Some 50"
  "base_units ex_lib (Some ''0'') = Some 0"
  by (simp_all add: trim_number ex_parse_word_def all_digits_def is_ascii_digit_def char_code_def dec_value_def
      digit_value_def)

lemma ex_hex_simps [simp]:
  "l_hex_decode ex_lib (ex_hex_encode bs) = Some bs" "length (ex_hex_encode bs) = 2 * length bs"
  "calldata_ok (CHR ''0'' # CHR ''x'' # ex_hex_encode bs)"
proof -
  show len: "length (ex_hex_encode bs) = 2 * length bs" for bs
    by (induction bs) (simp_all add: ex_hex_encode_def hex_byte_def)
  show "l_hex_decode ex_lib (ex_hex_encode bs) = Some bs" by (simp add: ex_lib_def)
  show "calldata_ok (CHR ''0'' # CHR ''x'' # ex_hex_encode bs)"
    using ex_hex_alphabet [of bs] by (simp add: calldata_ok_def starts_with_def len)
qed

lemma ex_check_step:
  assumes "check_call ex_lib i ex_want 100 a bs 0 s = Inr s'" "l_parse_address ex_lib to = Some a"
  shows "check_step ex_lib i [] (qi_data (ex_item to bs)) ex_want 100 s
    = Inr (\<lparr>rs_id = i, rs_description = [], rs_chain_id = 10, rs_to = l_fmt_address ex_lib a,
        rs_data = to_ascii_lowercase (''0x'' @ ex_hex_encode bs), rs_value = ''0''\<rparr>, s')"
  using assms
  by (simp add: check_step_def ex_item_def Let_def str_or_empty_def str_field_def same_address_def ex_want_def
      step_value_def)

lemma hex_sel:
  "is_approval ex_lib (qi_data (ex_item ''5'' ex_approve)) ex_want"
  "\<not> is_approval ex_lib (qi_data (ex_item ''9'' bs)) ex_want"
proof -
  have "take 8 (ex_hex_encode ex_approve) = ex_hex_encode sel_approve"
    by (simp add: ex_approve_def selectors ex_hex_encode_def hex_byte_def)
  moreover have "8 \<le> length (ex_hex_encode ex_approve)" by (simp add: ex_approve_def selectors)
  ultimately show "is_approval ex_lib (qi_data (ex_item ''5'' ex_approve)) ex_want"
    by (simp add: is_approval_def ex_item_def ex_want_def str_field_def strip_prefix_def starts_with_def)
  show "\<not> is_approval ex_lib (qi_data (ex_item ''9'' bs)) ex_want"
    by (simp add: is_approval_def ex_item_def ex_want_def str_field_def split: option.splits)
qed

definition ex_route :: "route_step list" where
  "ex_route = [\<lparr>rs_id = ''approve'', rs_description = [], rs_chain_id = 10, rs_to = l_fmt_address ex_lib 5,
      rs_data = to_ascii_lowercase (''0x'' @ ex_hex_encode ex_approve), rs_value = ''0''\<rparr>,
    \<lparr>rs_id = ''deposit'', rs_description = [], rs_chain_id = 10, rs_to = l_fmt_address ex_lib 9,
      rs_data = to_ascii_lowercase (''0x'' @ ex_hex_encode ex_deposit), rs_value = ''0''\<rparr>]"

lemma ex_check_route: "check_route ex_lib ex_want 100 (q_steps ex_quote) = Inr ex_route"
proof -
  have "check_steps ex_lib ex_want 100 (q_steps ex_quote) start
      = Inr \<lparr>pr_steps = ex_route, pr_spend = \<lparr>sp_pulled = 100, sp_allowances = [(9, 0)]\<rparr>, pr_funded = True\<rparr>"
    using ex_check_step [OF ex_check_calls(1)] ex_check_step [OF ex_check_calls(2)]
    by (simp add: ex_quote_def ex_step_def start_def hex_sel ex_route_def)
  then show ?thesis
    by (simp add: check_route_def total_value_def ex_route_def ex_want_def spend_exposure_def bt_values_def)
qed

lemma ex_chains:
  "is_chain (Some (JStr ''one'')) (Suc 0) [''one'']" "is_chain (Some (JStr ''ten'')) 10 [''ten'']"
  "is_chain (Some (JInt 10)) 10 [''ten'']"
  by code_simp+

lemma ex_check_quote: "\<exists>r. check_quote ex_lib 0 ex_quote ex_want = Inr r \<and> rq_steps r = ex_route"
proof -
  have "list_all is_ascii_hexdigit (replicate 64 CHR ''a'')"
    by (simp add: list_all_iff is_ascii_hexdigit_def char_code_def)
  then have "check_parties ex_lib ex_quote ex_want = None"
    by (simp add: check_parties_def ex_quote_def ex_want_def Let_def is_hash_def starts_with_def same_address_def)
  moreover have "check_output ex_lib (qd_currency_out (q_details ex_quote)) ex_want = None"
    by (simp add: check_output_def ex_quote_def ex_want_def Let_def ex_amount_of_def same_address_def)
  moreover have "check_input ex_lib (qd_currency_in (q_details ex_quote)) ex_want = Inr 100"
    by (simp add: check_input_def ex_quote_def ex_want_def Let_def ex_amount_of_def same_address_def)
  moreover have "order_data ex_quote = Some ex_order"
    by (simp add: order_data_def ex_quote_def ex_order_def)
  moreover have "check_order ex_lib ex_order ex_want 100 = Inr ()"
    using ex_chains
    by (simp add: check_order_def ex_order_def ex_want_def Let_def order_input_def refund_ok_def str_or_empty_def
        str_field_def same_address_def)
  ultimately show ?thesis using ex_check_route by (simp add: check_quote_def Let_def route_quote_of_def)
qed

section \<open>What an accepted quote can do\<close>




lemma check_quote_shape:
  assumes "address_codec_ok L" "hex_case_ok L" "check_quote L now q want = Inr r"
  shows "\<exists>approvals funding. rq_steps r = approvals @ [funding]
    \<and> list_all (approves L want) approvals \<and> \<not> approves L want funding
    \<and> list_all (step_target_ok L want) (rq_steps r)"
proof -
  from assms(3) obtain input where "check_route L want input (q_steps q) = Inr (rq_steps r)"
    by (rule check_quoteE)
  then obtain p where p: "progress_ok L want p" "pr_funded p" "rq_steps r = pr_steps p"
    using assms(1,2) by (rule check_routeE)
  have "rq_steps r = butlast (rq_steps r) @ [last (rq_steps r)]"
    using p by (auto simp: progress_ok_def)
  then show ?thesis using p by (intro exI) (auto simp: progress_ok_def)
qed

text \<open>
  C10. The route the page may execute is a list of approvals on the payer's token followed by exactly one
  funding transaction; every transaction is on the origin chain and calls the payer's token or one of
  Relay's contracts there.
\<close>

theorem accepted_route_shape:
  assumes "address_codec_ok L" "hex_case_ok L" "check_quote L now q want = Inr r"
  shows "\<exists>approvals funding. rq_steps r = approvals @ [funding]
    \<and> list_all (approves L want) approvals \<and> \<not> approves L want funding
    \<and> list_all (step_target_ok L want) (rq_steps r)"
  using assms by (rule check_quote_shape)

theorem accepted_route_shape_witness:
  "list_all (step_target_ok ex_lib ex_want) ex_route
    \<and> (\<exists>approvals funding. ex_route = approvals @ [funding] \<and> list_all (approves ex_lib ex_want) approvals)"
proof -
  obtain r where r: "check_quote ex_lib 0 ex_quote ex_want = Inr r" "rq_steps r = ex_route"
    using ex_check_quote by blast
  from accepted_route_shape [OF ex_lib_ok(3,10) r(1)] show ?thesis unfolding r(2) by blast
qed

text \<open>
  C8. An accepted quote pays the deposit: its recipient is the payment address, it pays the deposit's
  token on the deposit's chain and guarantees at least the amount, and so does the order the solver
  signs: every payment of the order goes to the payment address in that token and their guaranteed
  minimums add up to at least the amount.
\<close>

theorem accepted_quote_pays_deposit:
  assumes "check_quote L now q want = Inr r"
  shows "same_address L (qd_recipient (q_details q)) (ex_recipient want)
    \<and> qc_chain_id (qa_currency (qd_currency_out (q_details q))) = ex_destination_chain_id want
    \<and> same_address L (qc_address (qa_currency (qd_currency_out (q_details q)))) (ex_token want)
    \<and> (\<exists>n. base_units L (qa_minimum_amount (qd_currency_out (q_details q))) = Some n \<and> ex_amount want \<le> n)
    \<and> (\<exists>order out payments. order_data q = Some order \<and> jget order ''output'' = Some out
        \<and> Option.bind (jget out ''payments'') as_array = Some payments
        \<and> is_chain (jget out ''chainId'') (ex_destination_chain_id want) (ex_destination_chain_names want)
        \<and> list_all (\<lambda>p. same_address L (str_or_empty p ''recipient'') (ex_recipient want)
            \<and> same_address L (str_or_empty p ''currency'') (ex_token want) \<and> payment_minimum L p \<noteq> None) payments
        \<and> unat (ex_amount want) \<le> (\<Sum>p\<leftarrow>payments. unat (the (payment_minimum L p))))"
proof -
  from assms obtain input order where q: "check_parties L q want = None"
      "check_output L (qd_currency_out (q_details q)) want = None" "order_data q = Some order"
      "check_order L order want input = Inr ()"
    by (rule check_quoteE)
  obtain out payments t where o: "jget order ''output'' = Some out"
      "Option.bind (jget out ''payments'') as_array = Some payments"
      "is_chain (jget out ''chainId'') (ex_destination_chain_id want) (ex_destination_chain_names want)"
      "order_payments L want 0 payments = Inr t" "\<not> t < ex_amount want"
    using q(4) by (auto simp: check_order_def split: option.splits if_splits sum.splits)
  have "unat (ex_amount want) \<le> (\<Sum>p\<leftarrow>payments. unat (the (payment_minimum L p)))"
    using order_payments_sum [OF o(4)] o(5) by (simp add: word_less_nat_alt)
  then show ?thesis
    using q(1,2,3) o(1,2,3) order_payments_sum [OF o(4)]
    by (auto simp: check_parties_def check_output_def Let_def not_less split: if_splits option.splits)
qed

theorem accepted_quote_pays_deposit_witness:
  "same_address ex_lib (qd_recipient (q_details ex_quote)) 7
    \<and> (\<exists>n. base_units ex_lib (qa_minimum_amount (qd_currency_out (q_details ex_quote))) = Some n \<and> 50 \<le> n)"
proof -
  obtain r where r: "check_quote ex_lib 0 ex_quote ex_want = Inr r" using ex_check_quote by blast
  have "ex_recipient ex_want = 7" "ex_amount ex_want = 50" by (simp_all add: ex_want_def)
  with accepted_quote_pays_deposit [OF r] show ?thesis by simp
qed




end
