(* ===== verification/Relay_Routes_Properties.thy ===== *)
theory Relay_Routes_Properties
  imports Relay_Routes Relay_Properties
begin

text \<open>
  Properties of the payer's routes: what a quote that is answered means for the deposit and the payer,
  the cached chain list, and the agreement of what the page offers with what can be quoted.
\<close>

section \<open>Successful runs\<close>











section \<open>The terms of a quote\<close>


text \<open>Terms that come from the deposit and the request.\<close>

definition quote_meets :: "lib \<Rightarrow> deposit \<Rightarrow> quote_body \<Rightarrow> expected \<Rightarrow> bool" where
  "quote_meets L d b want = (l_parse_address L (trim (qb_user b)) = Some (ex_user want) \<and> ex_user want \<noteq> 0
     \<and> ex_origin_chain_id want = qb_origin_chain_id b
     \<and> l_parse_address L (trim (qb_origin_currency b)) = Some (ex_origin_currency want)
     \<and> ex_destination_chain_id want = as_u64 (d_chain_id d)
     \<and> l_parse_address L (d_token_address d) = Some (ex_token want)
     \<and> l_parse_address L (d_payment_address d) = Some (ex_recipient want)
     \<and> ex_token_decimals want = as_u8 (d_token_decimals d)
     \<and> 0 < ex_amount want
     \<and> unat (ex_amount want) + unat (unwrap_or 0 (l_u256_radix10 L (d_confirmed_amount d)))
        \<le> unat (unwrap_or 0 (l_u256_radix10 L (d_amount d))))"


lemma quote_meets_chains [simp]:
  "quote_meets L d b ((with_chains L cs origin want)\<lparr>ex_origin_decimals := n\<rparr>) = quote_meets L d b want"
  by (simp add: quote_meets_def with_chains_def)






section \<open>An answered quote\<close>






section \<open>An example\<close>

text \<open>
  The quote of the example is Relay's answer for an open deposit; the caches are always empty and the
  limiters admit every call.
\<close>

definition ex_no_cache :: "(unit, 'k, 'v) cache_ops" where
  "ex_no_cache = \<lparr>co_new = (), co_get = (\<lambda>c t k. None), co_insert = (\<lambda>c t k v. c), co_invalidate = (\<lambda>c k. c)\<rparr>"

definition ex_limiter :: "(unit, unit) limiter_ops" where
  "ex_limiter = \<lparr>lo_direct = (\<lambda>n. ()), lo_keyed = (\<lambda>n. ()), lo_check = (\<lambda>g t. (True, g)),
     lo_check_key = (\<lambda>g t i. (True, g)), lo_retain_recent = (\<lambda>g t. g)\<rparr>"

definition ex_currency :: "string \<Rightarrow> relay_chain_currency" where
  "ex_currency a = \<lparr>rcc_symbol = ''T'', rcc_name = ''T'', rcc_address = a, rcc_decimals = 6, rcc_metadata = None\<rparr>"

definition ex_chain :: "nat \<Rightarrow> string \<Rightarrow> string list \<Rightarrow> relay_chain" where
  "ex_chain i name solver = \<lparr>rc_id = i, rc_name = name, rc_display_name = [], rc_vm_type = ''evm'', rc_disabled = False,
     rc_deposit_enabled = True, rc_http_rpc_url = ''https://rpc'', rc_explorer_url = [], rc_icon_url = None,
     rc_currency = None, rc_featured_tokens = [], rc_erc20_currencies = [],
     rc_solver_currencies = map ex_currency solver,
     rc_contracts = Some \<lparr>rk_multicall3 = None, rk_relay_receiver = None, rk_erc20_router = Some ''4'',
       rk_approval_proxy = Some ''8'', rk_v3 = None\<rparr>,
     rc_tags = [], rc_protocol = Some \<lparr>rp_v2 = Some \<lparr>rp_depository = Some ''9'', rp_chain_id = None\<rparr>\<rparr>\<rparr>"

definition ex_chain_list :: "relay_chain list" where
  "ex_chain_list = [ex_chain 1 ''one'' [], ex_chain 10 ''ten'' [''5'']]"

definition ex_relay_env :: "(unit, unit, unit, unit, unit, unit) relay_env" where
  "ex_relay_env = \<lparr>re_searches = ex_no_cache, re_prices = ex_no_cache, re_statuses = ex_no_cache, re_logos = ex_no_cache,
     re_limiter = ex_limiter, re_send = (\<lambda>r. HttpAnswer 200 []), re_error_body = (\<lambda>b. None),
     re_with_params = (\<lambda>url ps. Inr url), re_read_chains = (\<lambda>b. Inr ex_chain_list), re_read_currencies = (\<lambda>b. Inr []),
     re_read_price = (\<lambda>b. Inr None), re_read_quote = (\<lambda>b. Inr ex_quote), re_read_status = (\<lambda>b. Inl []),
     re_read_value = (\<lambda>b. Inr JNull), re_from_millis = (\<lambda>n. Some (n * 1000000))\<rparr>"

definition ex_relay_config :: relay_config where
  "ex_relay_config = \<lparr>rl_base_url = ''u'', rl_api_key = ''k'', rl_timeout_ms = 5000, rl_referrer = ''gum.money'',
     rl_chains_ttl_secs = 300, rl_min_time_left_secs = 0, rl_quotes_per_minute = 40,
     rl_quotes_per_deposit_per_minute = 10, rl_reads_per_minute = 150, rl_reads_per_deposit_per_minute = 30,
     rl_probe_unlisted_tokens = True\<rparr>"

definition ex_relay_client :: "(unit, unit, unit, unit, unit) relay_client" where
  "ex_relay_client = \<lparr>cl_base_url = Some ''u'', cl_api_key = ''k'', cl_chains_ttl = 300, cl_chains = no_chains,
     cl_searches = (), cl_prices = (), cl_statuses = (), cl_logos = (), cl_reads = (), cl_sent = []\<rparr>"





lemma ex_client_new: "relay_client_new ex_relay_env ex_relay_config = ex_relay_client\<lparr>cl_chains_ttl := make_interval 300\<rparr>"
proof -
  have "trim ''k'' = ''k''" "trim ''u'' = ''u''" by (rule trim_graphic, simp add: is_graphic_def char_code_def)+
  then show ?thesis
    by (simp add: relay_client_new_def ex_relay_config_def ex_relay_client_def ex_relay_env_def base_url_def
        trim_end_slash_def ex_no_cache_def)
qed








end
