(* ===== verification/Relay_Offer_Properties.thy ===== *)
theory Relay_Offer_Properties
  imports Relay_Routes_Properties
begin

text \<open>
  What \<open>GET /v1/pay/{id}/sources\<close> offers, against what \<open>POST /v1/pay/{id}/quote\<close> takes.
\<close>

section \<open>The tokens of a chain\<close>




section \<open>The list\<close>











end
