(* ===== verification/Relay_Cache_Properties.thy ===== *)
theory Relay_Cache_Properties
  imports Relay_Routes_Properties
begin

text \<open>
  The cached chain list of the Relay client over any sequence of calls: how often Relay is asked, and
  that a list once fetched is never lost.
\<close>

section \<open>One call\<close>


section \<open>Any sequence of calls\<close>

text \<open>
  The calls of one client in order, with the time they read the cache, the time they end, their result
  and whether a request was sent. The lock keeps a call from starting before the one before it has ended.
  Call number \<open>n\<close> finds Relay, the limiter and the clock as \<open>Es n\<close> says; in between, other operations of
  the client leave the chain list alone.
\<close>

record chains_call =
  ca_now :: time
  ca_done :: time
  ca_result :: "upstream_error + relay_chain list"
  ca_asked :: bool

inductive chains_history ::
    "(nat \<Rightarrow> ('s, 'p, 'u, 'o, 'g, 'k) relay_env) \<Rightarrow> ('s, 'p, 'u, 'o, 'g) relay_client \<Rightarrow> chains_call list \<Rightarrow> bool"
  for Es where
  start: "cl_chains c = no_chains \<Longrightarrow> chains_history Es c []"
| other: "chains_history Es c h \<Longrightarrow> cl_chains c' = cl_chains c \<Longrightarrow> cl_chains_ttl c' = cl_chains_ttl c \<Longrightarrow>
    cl_base_url c' = cl_base_url c \<Longrightarrow> chains_history Es c' h"
| call: "chains_history Es c h \<Longrightarrow> relay_chains (Es (length h)) now done c = (r, c') \<Longrightarrow> now \<le> done \<Longrightarrow>
    (\<And>x. x \<in> set h \<Longrightarrow> ca_done x \<le> now) \<Longrightarrow>
    chains_history Es c' (h @ [\<lparr>ca_now = now, ca_done = done, ca_result = r, ca_asked = (cl_sent c' \<noteq> cl_sent c)\<rparr>])"

section \<open>The other operations of the client\<close>

text \<open>
  What every operation but \<open>chains\<close> promises the chain list, and all of them promise Relay: the list, its
  time to live and the address of Relay stay, and each request sent carries the API key, in a header.
\<close>

definition client_frame :: "('s, 'p, 'u, 'o, 'g) relay_client \<Rightarrow> ('s, 'p, 'u, 'o, 'g) relay_client \<Rightarrow> bool" where
  "client_frame c c' = (cl_chains c' = cl_chains c \<and> cl_chains_ttl c' = cl_chains_ttl c
     \<and> cl_base_url c' = cl_base_url c \<and> cl_api_key c' = cl_api_key c
     \<and> (\<exists>new. cl_sent c' = cl_sent c @ new \<and> list_all (\<lambda>r. hr_headers r = [(''x-api-key'', cl_api_key c)]) new))"

lemma client_frame_refl [simp]: "client_frame c c"
  by (simp add: client_frame_def)

lemma client_frame_trans: "client_frame c c1 \<Longrightarrow> client_frame c1 c2 \<Longrightarrow> client_frame c c2"
  by (auto simp: client_frame_def)

lemma relay_send_frame: "relay_send E now operation read request c = (r, c') \<Longrightarrow> client_frame c c'"
  by (auto simp: relay_send_def client_frame_def Let_def split: prod.splits if_splits)

lemma relay_url_frame: "relay_url path c = (r, c') \<Longrightarrow> c' = c"
  by (auto simp: relay_url_def act_fail_def act_return_def split: option.splits)

lemma relay_url_with_frame: "relay_url_with E path query c = (r, c') \<Longrightarrow> c' = c"
  by (auto simp: relay_url_with_def relay_url_def act_bind_def act_fail_def act_return_def split: option.splits sum.splits)

lemma cache_frames [simp]:
  "client_frame c (c'\<lparr>cl_searches := s\<rparr>) = client_frame c c'" "client_frame c (c'\<lparr>cl_prices := p\<rparr>) = client_frame c c'"
  "client_frame c (c'\<lparr>cl_statuses := u\<rparr>) = client_frame c c'" "client_frame c (c'\<lparr>cl_logos := x\<rparr>) = client_frame c c'"
  by (simp_all add: client_frame_def)

locale client_op =
  fixes m :: "('s, 'p, 'u, 'o, 'g) relay_client \<Rightarrow> 'r \<times> ('s, 'p, 'u, 'o, 'g) relay_client"
  assumes frame: "m c = (r, c') \<Longrightarrow> client_frame c c'"
begin

lemma history_kept: "chains_history Es c h \<Longrightarrow> m c = (r, c') \<Longrightarrow> chains_history Es c' h"
  using frame [of c r c'] by (auto simp: client_frame_def intro: chains_history.other)

lemma key_in_header:
  assumes "m c = (r, c')" "q \<in> set (cl_sent c')" "q \<notin> set (cl_sent c)"
  shows "hr_headers q = [(''x-api-key'', cl_api_key c)]"
  using frame [OF assms(1)] assms(2,3) by (auto simp: client_frame_def list_all_iff)

end

lemma bind_url_frame:
  assumes "act_bind (relay_url path) k c = (r, c')" "\<And>url. k url c = (r, c') \<Longrightarrow> client_frame c c'"
  shows "client_frame c c'"
proof (cases "relay_url path c")
  case (Pair x c1)
  with relay_url_frame [OF Pair] assms show ?thesis by (cases x) (auto simp: act_bind_def)
qed

lemma bind_url_with_frame:
  assumes "act_bind (relay_url_with E path query) k c = (r, c')" "\<And>url. k url c = (r, c') \<Longrightarrow> client_frame c c'"
  shows "client_frame c c'"
proof (cases "relay_url_with E path query c")
  case (Pair x c1)
  with relay_url_with_frame [OF Pair] assms show ?thesis by (cases x) (auto simp: act_bind_def)
qed

lemma bind_send_frame:
  assumes "act_bind (relay_send E now operation read request) k c = (r, c')"
    and "\<And>x c1. k x c1 = (r, c') \<Longrightarrow> client_frame c c1 \<Longrightarrow> client_frame c c'"
  shows "client_frame c c'"
proof (cases "relay_send E now operation read request c")
  case (Pair x c1)
  with relay_send_frame [OF Pair] assms show ?thesis by (cases x) (auto simp: act_bind_def)
qed

interpretation search_op: client_op "search_currencies E now done ids word limit"
proof
  fix c r c'
  assume "search_currencies E now done ids word limit c = (r, c')"
  then show "client_frame c c'"
    by (auto simp: search_currencies_def Let_def split: option.splits elim!: bind_url_frame bind_send_frame)
qed

interpretation status_op: client_op "relay_status E now done request_id"
proof
  fix c r c'
  assume "relay_status E now done request_id c = (r, c')"
  then show "client_frame c c'"
    by (auto simp: relay_status_def Let_def split: option.splits elim!: bind_url_with_frame bind_send_frame)
qed

interpretation quote_op: client_op "relay_quote E now q"
  by unfold_locales (auto simp: relay_quote_def elim!: bind_url_frame dest: relay_send_frame)

interpretation index_op: client_op "index_transaction E now tx_hash chain"
  by unfold_locales (auto simp: index_transaction_def act_return_def elim!: bind_url_frame bind_send_frame)

interpretation price_op: client_op "relay_price E now done chain address"
proof
  fix c r c'
  assume *: "relay_price E now done chain address c = (r, c')"
  show "client_frame c c'"
  proof (cases "co_get (re_prices E) (cl_prices c) now (token_key chain (to_ascii_lowercase address))")
    case None
    with * show ?thesis
      by (auto simp: relay_price_def Let_def elim!: bind_url_with_frame dest!: relay_send_frame
          split: prod.splits sum.splits upstream_error.splits)
  qed (use * in \<open>simp add: relay_price_def\<close>)
qed

lemma logo_batches_frame: "logo_batches E now done batches out c = (out', c') \<Longrightarrow> client_frame c c'"
proof (induction E now "done" batches out c arbitrary: out' c' rule: logo_batches.induct)
  case (2 E now "done" batch batches out c)
  obtain x c1 where url: "relay_url ''/currencies/v2'' c = (x, c1)" by fastforce
  show ?case
  proof (cases x)
    case (Inl e)
    with url 2(3) relay_url_frame [OF url] show ?thesis by simp
  next
    case (Inr u)
    obtain y c2 where send: "relay_send E now ''logos'' (re_read_currencies E) (http_post u
        (JObj [(''tokens'', JArr (map JStr batch)), (''limit'', JInt (int (length batch)))])) c = (y, c2)" by fastforce
    show ?thesis
    proof (cases y)
      case (Inl e)
      with 2 Inr url send relay_url_frame [OF url] relay_send_frame [OF send] show ?thesis
        by (auto intro: client_frame_trans)
    next
      case found: (Inr l)
      obtain out1 cache where rem: "remember_logos E done l batch out (cl_logos c2) = (out1, cache)" by fastforce
      have "logo_batches E now done batches out1 (c2\<lparr>cl_logos := cache\<rparr>) = (out', c')"
        using 2(3) Inr url send found rem relay_url_frame [OF url] by simp
      from 2(2) [OF url [symmetric] Inr _ found rem [symmetric] refl this]
      show ?thesis using send relay_url_frame [OF url] relay_send_frame [OF send] client_frame_trans cache_frames(4) by metis
    qed
  qed
qed simp

interpretation logos_op: client_op "relay_logos E now done keys"
  by unfold_locales (auto simp: relay_logos_def dest: logo_batches_frame)















end
