(* ===== verification/Reconciler.thy ===== *)
theory Reconciler
  imports Outbox
begin

text \<open>
  \<^verbatim>\<open>src/reconciler.rs\<close>: one pass over everything a lost webhook could leave behind. The polls of
  gum-indexer and gum-engine are parameters; gauges and log lines are left out.
\<close>

definition expiry_grace_secs :: int where "expiry_grace_secs = 86400"
definition batch_limit :: nat where "batch_limit = 100"
definition outbox_stall_secs :: real where "outbox_stall_secs = 120"

record reconciler_cfg =
  rc_open_stale_secs :: int
  rc_paid_stale_secs :: int
  rc_paid_repoll_secs :: int
  rc_idempotency_ttl_secs :: int

text \<open>
  How the loop over stale deposits goes on: \<open>continue\<close>, \<open>break\<close>, an error that ends the tick, or a
  panic on a stored row that does not parse.
\<close>

datatype loop_ctl = Next | Stop | Abort sqlx_error | Panicked

definition outbox_stalled :: "db \<Rightarrow> time \<Rightarrow> bool" where
  "outbox_stalled db now = (outbox_stall_secs < snd (outbox_due db now))"

section \<open>Open deposits\<close>

definition watch_data :: "lib \<Rightarrow> time \<Rightarrow> uuid \<Rightarrow> watch_detail \<Rightarrow> json" where
  "watch_data L polled_at w watch = JObj [(''watch_id'', JStr (l_fmt_uuid L w)),
     (''polled_at'', jtime L polled_at), (''watch_status'', JStr (wd_status watch)),
     (''confirmed_amount'', JStr (u256_to_string (confirmed_of L (wd_confirmed_amount watch)))),
     (''source'', JStr ''reconciler'')]"

definition open_transition ::
    "lib \<Rightarrow> time \<Rightarrow> time \<Rightarrow> deposit \<Rightarrow> uuid \<Rightarrow> watch_detail \<Rightarrow> bool tx" where
  "open_transition L polled_at now d w watch =
     (let confirmed = confirmed_of L (wd_confirmed_amount watch);
          ours = confirmed_of L (Some (d_confirmed_amount d));
          data = watch_data L polled_at w watch in
      if wd_status watch = ''completed'' then
        and_then (apply_threshold_reached L now (d_id d) confirmed data) is_changed
      else if wd_status watch = ''expired'' \<or> wd_status watch = ''cancelled'' then
        and_then (apply_expired L now (d_id d) data) is_changed
      else if ours < confirmed then
        and_then (apply_payment_confirmed L now (d_id d) confirmed data) is_changed
      else tx_return False)"

definition reconcile_open_one ::
    "lib \<Rightarrow> tx_fault \<Rightarrow> time \<Rightarrow> time \<Rightarrow> (uuid \<Rightarrow> upstream_error + watch_detail option) \<Rightarrow> deposit \<Rightarrow> db
      \<Rightarrow> loop_ctl \<times> db" where
  "reconcile_open_one L f polled_at now get_watch d db = (case d_watch_id d of
       None \<Rightarrow> (Next, db)
     | Some w \<Rightarrow> (case get_watch w of
          Inr None \<Rightarrow> (case run_faulty f (reregister_watch L now (d_id d)) db of
             (Inl (_, e), db') \<Rightarrow> (Abort e, db')
           | (Inr _, db') \<Rightarrow> (Next, db'))
        | Inl err \<Rightarrow> (if is_rejected err then Next else Stop, db)
        | Inr (Some watch) \<Rightarrow> (case run_faulty f (open_transition L polled_at now d w watch) db of
             (Inl (_, e), db') \<Rightarrow> (Abort e, db')
           | (Inr True, db') \<Rightarrow> (Next, db')
           | (Inr False, db') \<Rightarrow> (case run_tx (touch now (d_id d)) db' of
                (Inl e, db'') \<Rightarrow> (Abort e, db'')
              | (Inr _, db'') \<Rightarrow> (Next, db'')))))"

section \<open>Paid deposits\<close>

definition job_data :: "lib \<Rightarrow> time \<Rightarrow> uuid \<Rightarrow> job \<Rightarrow> json" where
  "job_data L polled_at j jb = JObj [(''engine_job_id'', JStr (l_fmt_uuid L j)),
     (''polled_at'', jtime L polled_at), (''status'', JStr (jb_status jb)),
     (''outcome'', jopt JStr (jb_outcome jb)),
     (''tx_hash'', jopt JStr (map_option (l_fmt_b256 L) (jb_tx_hash jb))),
     (''block_number'', jopt (\<lambda>n. JInt (int n)) (jb_block_number jb)), (''source'', JStr ''reconciler'')]"

text \<open>What a polled job means: \<open>None\<close> while it is in flight, \<open>Some None\<close> for a panic.\<close>

definition job_outcome ::
    "lib \<Rightarrow> inbound_env \<Rightarrow> time \<Rightarrow> deposit \<Rightarrow> uuid \<Rightarrow> job \<Rightarrow> settlement_outcome option option" where
  "job_outcome L E polled_at d j jb =
     (let tx_hash = map_option (l_fmt_b256 L) (jb_tx_hash jb); data = job_data L polled_at j jb in
      if jb_status jb = ''confirmed'' then
        Some (from_receipt L E (jb_outcome jb) tx_hash (map_option as_i64 (jb_block_number jb))
          (jb_receipt jb) (jb_error jb) d data)
      else if jb_status jb = ''failed'' then Some (engine_failure L (jb_error jb) tx_hash d data)
      else None)"

definition reconcile_paid_one ::
    "lib \<Rightarrow> inbound_env \<Rightarrow> tx_fault \<Rightarrow> time \<Rightarrow> time \<Rightarrow> (uuid \<Rightarrow> upstream_error + job option) \<Rightarrow> deposit \<Rightarrow> db
      \<Rightarrow> loop_ctl \<times> db" where
  "reconcile_paid_one L E f polled_at now get_job d db = (case d_engine_job_id d of
       None \<Rightarrow> (Next, db)
     | Some j \<Rightarrow> (case get_job j of
          Inr None \<Rightarrow> (case run_faulty f (resubmit L now (d_id d)
                (JObj [(''automatic'', JBool True), (''reason'', JStr ''engine_job_unknown'')])) db of
             (Inl (_, e), db') \<Rightarrow> (Abort e, db')
           | (Inr _, db') \<Rightarrow> (Next, db'))
        | Inl err \<Rightarrow> (if is_rejected err then Next else Stop, db)
        | Inr (Some jb) \<Rightarrow> (case job_outcome L E polled_at d j jb of
             None \<Rightarrow> (case run_tx (touch now (d_id d)) db of
                (Inl e, db') \<Rightarrow> (Abort e, db')
              | (Inr _, db') \<Rightarrow> (Next, db'))
           | Some None \<Rightarrow> (Panicked, db)
           | Some (Some outcome) \<Rightarrow>
               (case run_faulty f (apply_settlement L now (d_id d) outcome) db of
                  (Inl (_, e), db') \<Rightarrow> (Abort e, db')
                | (Inr _, db') \<Rightarrow> (Next, db')))))"

section \<open>One tick\<close>

text \<open>\<open>others\<close> is what other connections commit before each deposit is handled.\<close>

fun reconcile_loop ::
    "(deposit \<Rightarrow> db \<Rightarrow> loop_ctl \<times> db) \<Rightarrow> (db \<Rightarrow> db) \<Rightarrow> deposit list \<Rightarrow> db \<Rightarrow> loop_ctl \<times> db" where
  "reconcile_loop one others [] db = (Next, db)"
| "reconcile_loop one others (d # ds) db = (case one d (others db) of
     (Next, db') \<Rightarrow> reconcile_loop one others ds db'
   | (Stop, db') \<Rightarrow> (Next, db')
   | (ctl, db') \<Rightarrow> (ctl, db'))"

record tick_env =
  te_now :: time
  te_fault :: tx_fault
  te_get_watch :: "uuid \<Rightarrow> upstream_error + watch_detail option"
  te_get_job :: "uuid \<Rightarrow> upstream_error + job option"
  te_indexer_configured :: bool
  te_engine_configured :: bool

definition reconcile_open ::
    "lib \<Rightarrow> reconciler_cfg \<Rightarrow> tick_env \<Rightarrow> (db \<Rightarrow> db) \<Rightarrow> db \<Rightarrow> loop_ctl \<times> db" where
  "reconcile_open L cfg T others db =
     reconcile_loop (reconcile_open_one L (te_fault T) (te_now T) (te_now T) (te_get_watch T)) others
       (stale_open db (te_now T) (rc_open_stale_secs cfg) batch_limit) db"

definition reconcile_paid ::
    "lib \<Rightarrow> inbound_env \<Rightarrow> reconciler_cfg \<Rightarrow> tick_env \<Rightarrow> (db \<Rightarrow> db) \<Rightarrow> db \<Rightarrow> loop_ctl \<times> db" where
  "reconcile_paid L E cfg T others db =
     reconcile_loop (reconcile_paid_one L E (te_fault T) (te_now T) (te_now T) (te_get_job T)) others
       (stale_paid db (te_now T) (rc_paid_stale_secs cfg) (rc_paid_repoll_secs cfg) batch_limit) db"

definition when_next :: "(db \<Rightarrow> loop_ctl \<times> db) \<Rightarrow> loop_ctl \<times> db \<Rightarrow> loop_ctl \<times> db" where
  "when_next m r = (case r of (Next, db) \<Rightarrow> m db | _ \<Rightarrow> r)"

definition tick ::
    "lib \<Rightarrow> inbound_env \<Rightarrow> reconciler_cfg \<Rightarrow> tick_env \<Rightarrow> (db \<Rightarrow> db) \<Rightarrow> db \<Rightarrow> loop_ctl \<times> db" where
  "tick L E cfg T others db =
     when_next (\<lambda>db. case run_tx (prune (te_now T) (rc_idempotency_ttl_secs cfg)) db of
         (Inl e, db') \<Rightarrow> (Abort e, db')
       | (Inr _, db') \<Rightarrow> (Next, db'))
     (when_next (\<lambda>db. if te_engine_configured T then reconcile_paid L E cfg T others db else (Next, db))
     (when_next (\<lambda>db. if te_indexer_configured T then reconcile_open L cfg T others db else (Next, db))
     (case expire_overdue L (te_now T) expiry_grace_secs 500 db of
         (Inl e, db') \<Rightarrow> (Abort e, db')
       | (Inr _, db') \<Rightarrow> (Next, db'))))"

section \<open>Every transition it applies is a guarded one\<close>

lemma keeps_open_transition [keeps_intros]:
  "uuid_v7_ok L \<Longrightarrow> keeps L (open_transition L polled_at now d w watch)"
  unfolding open_transition_def Let_def by (intro keeps_intros)

lemmas reconcile_grows = run_faulty_grows [OF watch_lost.keeps_oper]
  run_faulty_grows [OF keeps_open_transition] run_tx_grows [OF touched.keeps_oper]
  run_faulty_grows [OF settlement_resubmitted.keeps_oper] run_faulty_grows [OF keeps_apply_settlement]

lemma reconcile_open_one_grows:
  assumes "uuid_v7_ok L" "tables_ok L db"
    "reconcile_open_one L f polled_at now get_watch d db = (ctl, db')"
  shows "grows L db db'"
  using assms unfolding reconcile_open_one_def
  by (auto intro: grows_refl grows_trans [OF _ run_tx_grows [OF touched.keeps_oper]]
      dest: reconcile_grows grows_tables
      split: option.splits sum.splits prod.splits if_splits bool.splits)

lemma reconcile_paid_one_grows:
  assumes "uuid_v7_ok L" "tables_ok L db"
    "reconcile_paid_one L E f polled_at now get_job d db = (ctl, db')"
  shows "grows L db db'"
  using assms unfolding reconcile_paid_one_def
  by (auto intro: grows_refl dest: reconcile_grows
      split: option.splits sum.splits prod.splits if_splits)

lemma expire_each_grows:
  assumes "uuid_v7_ok L" "tables_ok L db" "expire_each L now is n db = (r, db')"
  shows "grows L db db'"
  using assms
proof (induction L now "is" n db rule: expire_each.induct)
  case (1 L now n db)
  then show ?case by (simp add: grows_refl)
next
  case (2 L now i "is" n db)
  let ?tx = "apply_expired L now i (JObj [(''reason'', JStr ''expiry passed without threshold'')])"
  obtain x db1 where x: "run_tx ?tx db = (x, db1)" by force
  then have g: "grows L db db1"
    using run_tx_grows [OF deposit_expired.keeps_oper] 2(2,3) by blast
  show ?case
  proof (cases x)
    case (Inl e)
    then show ?thesis using 2(4) x g by simp
  next
    case (Inr y)
    then show ?thesis using 2 x g grows_tables grows_trans by fastforce
  qed
qed

end
