(* ===== verification/Server.thy ===== *)
theory Server
  imports Reconciler
begin

text \<open>
  The running service: the tables together with the outbox workers of every instance. A step is one
  database transaction of the code, at any time and in any order, so a reachable state is one some
  interleaving of requests, deliveries, workers, reconcilers and crashes can produce.
\<close>

section \<open>Steps of the tables\<close>

text \<open>
  The transactions outside the workers. \<open>users\<close> covers the statements of \<^verbatim>\<open>src/auth/\<close> and
  \<^verbatim>\<open>src/account/\<close>, which write those two tables and no other (theory \<open>Account\<close> has them).
\<close>

inductive db_step :: "lib \<Rightarrow> inbound_env \<Rightarrow> db \<Rightarrow> db \<Rightarrow> bool" for L E where
  create: "run_tx (create_tx L now user n idem) db = (r, db') \<Longrightarrow> db_step L E db db'"
| indexer: "indexer_route L E f now header body db = (resp, db') \<Longrightarrow> db_step L E db db'"
| engine: "engine_route L E f now header body db = (resp, db') \<Longrightarrow> db_step L E db db'"
| retry: "run_tx (retry_settlement L now i) db = (r', db') \<Longrightarrow> db_step L E db db'"
| expire: "expire_each L now is n' db = (n'', db') \<Longrightarrow> db_step L E db db'"
| reconcile_open: "reconcile_open_one L f polled_at now get_watch d db = (ctl, db') \<Longrightarrow> db_step L E db db'"
| reconcile_paid: "reconcile_paid_one L E f polled_at now get_job d db = (ctl, db') \<Longrightarrow> db_step L E db db'"
| prune: "run_tx (prune now ttl) db = (u, db') \<Longrightarrow> db_step L E db db'"
| users: "db_step L E db (db\<lparr>users := us, api_keys := ks\<rparr>)"

lemma db_step_grows:
  assumes "db_step L E db db'" "uuid_v7_ok L" "tables_ok L db"
  shows "grows L db db'"
  using assms
proof (induction rule: db_step.induct)
  case create
  then show ?case using run_tx_grows [OF keeps_create_tx] by blast
next
  case retry
  then show ?case using run_tx_grows [OF settlement_retried.keeps_oper] by blast
next
  case prune
  then show ?case using run_tx_grows [OF keeps_prune] by blast
next
  case users
  then show ?case by (intro grows_aside) simp_all
qed (blast intro: indexer_route_grows engine_route_grows expire_each_grows reconcile_open_one_grows
      reconcile_paid_one_grows)+

section \<open>Workers\<close>

text \<open>
  A worker has claimed a job, has read its deposit and waits for the upstream service, or is about
  to finalise the attempt.
\<close>

datatype worker =
    Claimed outbox_job
  | Loaded outbox_job deposit
  | Closing outbox_job attempt

record server =
  sv_db :: db
  sv_workers :: "worker list"

fun worker_job :: "worker \<Rightarrow> outbox_job" where
  "worker_job (Claimed job) = job"
| "worker_job (Loaded job d) = job"
| "worker_job (Closing job a) = job"

inductive server_step :: "lib \<Rightarrow> inbound_env \<Rightarrow> outbox_cfg \<Rightarrow> server \<Rightarrow> server \<Rightarrow> bool" for L E cfg where
  tables: "db_step L E db db' \<Longrightarrow>
    server_step L E cfg \<lparr>sv_db = db, sv_workers = ws\<rparr> \<lparr>sv_db = db', sv_workers = ws\<rparr>"
| requeue: "run_tx (requeue now i) db = (r, db') \<Longrightarrow>
    server_step L E cfg \<lparr>sv_db = db, sv_workers = ws\<rparr> \<lparr>sv_db = db', sv_workers = ws\<rparr>"
| claim: "claim now batch ttl busy db = Inr (jobs, db') \<Longrightarrow>
    server_step L E cfg \<lparr>sv_db = db, sv_workers = ws\<rparr>
      \<lparr>sv_db = db', sv_workers = ws @ map Claimed jobs\<rparr>"
| load_end: "load_job L V job db = Inl a \<Longrightarrow>
    server_step L E cfg \<lparr>sv_db = db, sv_workers = ws @ Claimed job # ws'\<rparr>
      \<lparr>sv_db = db, sv_workers = ws @ Closing job a # ws'\<rparr>"
| load_go: "load_job L V job db = Inr d \<Longrightarrow>
    server_step L E cfg \<lparr>sv_db = db, sv_workers = ws @ Claimed job # ws'\<rparr>
      \<lparr>sv_db = db, sv_workers = ws @ Loaded job d # ws'\<rparr>"
| answer: "after_job L cfg V job d db = (Some a, db') \<Longrightarrow>
    server_step L E cfg \<lparr>sv_db = db, sv_workers = ws @ Loaded job d # ws'\<rparr>
      \<lparr>sv_db = db', sv_workers = ws @ Closing job a # ws'\<rparr>"
| panic: "after_job L cfg V job d db = (None, db') \<Longrightarrow>
    server_step L E cfg \<lparr>sv_db = db, sv_workers = ws @ Loaded job d # ws'\<rparr>
      \<lparr>sv_db = db', sv_workers = ws @ ws'\<rparr>"
| finish: "run_tx (finalise cfg now jitter job a) db = (r, db') \<Longrightarrow>
    server_step L E cfg \<lparr>sv_db = db, sv_workers = ws @ Closing job a # ws'\<rparr>
      \<lparr>sv_db = db', sv_workers = ws @ ws'\<rparr>"
| crash: "server_step L E cfg \<lparr>sv_db = db, sv_workers = ws @ w # ws'\<rparr> \<lparr>sv_db = db, sv_workers = ws @ ws'\<rparr>"
| timeout: "run_tx (retry_later cfg now jitter (worker_job w) error) db = (r, db') \<Longrightarrow>
    server_step L E cfg \<lparr>sv_db = db, sv_workers = ws @ w # ws'\<rparr> \<lparr>sv_db = db', sv_workers = ws @ ws'\<rparr>"

definition empty_db :: db where
  "empty_db = \<lparr>deposits = [], deposit_events = [], idempotency_keys = [], inbound_events = [],
     outbox = [], users = [], api_keys = [], notices = [], uuid_ctr = 0\<rparr>"

definition initial :: server where
  "initial = \<lparr>sv_db = empty_db, sv_workers = []\<rparr>"

inductive reachable :: "lib \<Rightarrow> inbound_env \<Rightarrow> outbox_cfg \<Rightarrow> server \<Rightarrow> bool" for L E cfg where
  init: "reachable L E cfg initial"
| step: "reachable L E cfg s \<Longrightarrow> server_step L E cfg s s' \<Longrightarrow> reachable L E cfg s'"

section \<open>The invariant\<close>

text \<open>The jobs some worker is about to delete or bury.\<close>

definition closing :: "worker list \<Rightarrow> uuid set" where
  "closing ws = {j_id job |job a. Closing job a \<in> set ws \<and> is_final a}"

definition worker_ok :: "lib \<Rightarrow> db \<Rightarrow> worker \<Rightarrow> bool" where
  "worker_ok L db w = (issued L db (j_id (worker_job w))
     \<and> (\<forall>r \<in> set (outbox db). o_id r = j_id (worker_job w) \<longrightarrow>
          o_kind r = j_kind (worker_job w) \<and> o_deposit_id r = j_deposit_id (worker_job w))
     \<and> (\<forall>job d. w = Loaded job d \<longrightarrow> d_id d = j_deposit_id job
          \<and> j_kind job \<in> {''register_watch'', ''submit_execute''}))"

definition server_ok :: "lib \<Rightarrow> server \<Rightarrow> bool" where
  "server_ok L s = (tables_ok L (sv_db s) \<and> covered (closing (sv_workers s)) (sv_db s)
     \<and> (\<forall>w \<in> set (sv_workers s). worker_ok L (sv_db s) w))"

lemma server_ok_initial: "server_ok L initial"
  by (simp add: server_ok_def initial_def empty_db_def tables_ok_def ids_ok_def covered_def)

lemma closing_append [simp]: "closing (ws @ ws') = closing ws \<union> closing ws'"
  by (auto simp: closing_def)

lemma closing_Cons:
  "closing (Closing job a # ws) = (if is_final a then insert (j_id job) (closing ws) else closing ws)"
  "closing (Claimed job # ws) = closing ws" "closing (Loaded job d # ws) = closing ws"
  by (auto simp: closing_def)

lemma closing_claimed [simp]: "closing (map Claimed jobs) = {}"
  by (auto simp: closing_def)

lemma closing_mono: "set ws \<subseteq> set ws' \<Longrightarrow> closing ws \<subseteq> closing ws'"
  by (auto simp: closing_def)

lemma covered_antimono: "covered F db \<Longrightarrow> F' \<subseteq> F \<Longrightarrow> covered F' db"
  unfolding covered_def carried_def by blast

lemma closing_issued:
  "\<forall>w \<in> set ws. worker_ok L db w \<Longrightarrow> \<forall>a \<in> closing ws. issued L db a"
  by (auto simp: closing_def worker_ok_def)

text \<open>Marking a job as finished is harmless when its deposit does not need it.\<close>

lemma covered_unneeded:
  assumes "covered F db" "unneeded db job"
    and "\<forall>r \<in> set (outbox db). o_id r = j_id job \<longrightarrow> o_kind r = j_kind job \<and> o_deposit_id r = j_deposit_id job"
  shows "covered (insert (j_id job) F) db"
  unfolding covered_def
proof (intro allI ballI impI)
  fix k d
  assume d: "d \<in> set (deposits db)" "needs k d"
  then obtain r where r: "r \<in> set (outbox db)" "o_kind r = k" "o_deposit_id r = d_id d"
      "o_dead_at r = None" "o_id r \<notin> F"
    using assms(1) by (auto simp: covered_def carried_def)
  moreover have "o_id r \<noteq> j_id job"
    using r d assms(2,3) unfolding unneeded_def by metis
  ultimately show "carried (insert (j_id job) F) db k (d_id d)" by (auto simp: carried_def)
qed

section \<open>Steps of the queue\<close>

text \<open>A change of the queue that keeps every remaining row's id, kind and deposit.\<close>

definition queue_change :: "db \<Rightarrow> db \<Rightarrow> bool" where
  "queue_change db db' = (deposits db' = deposits db \<and> deposit_events db' = deposit_events db
     \<and> uuid_ctr db' = uuid_ctr db
     \<and> (\<forall>r' \<in> set (outbox db'). \<exists>r \<in> set (outbox db). o_id r = o_id r' \<and> o_kind r = o_kind r'
          \<and> o_deposit_id r = o_deposit_id r')
     \<and> (sorted_wrt (<) (map o_id (outbox db)) \<longrightarrow> sorted_wrt (<) (map o_id (outbox db'))))"

lemma queue_change_upd:
  assumes "\<And>r. o_id (f r) = o_id r \<and> o_kind (f r) = o_kind r \<and> o_deposit_id (f r) = o_deposit_id r"
  shows "queue_change db (db\<lparr>outbox := upd_rows p f (outbox db)\<rparr>)"
  unfolding queue_change_def using assms by (force simp: in_upd_rows map_upd_rows)

lemma queue_change_filter: "queue_change db (db\<lparr>outbox := filter p (outbox db)\<rparr>)"
  by (auto simp: queue_change_def sorted_wrt_map sorted_wrt_filter)

lemma queue_change_tables:
  assumes "queue_change db db'" "tables_ok L db"
  shows "tables_ok L db'"
proof -
  have "\<forall>j \<in> set (outbox db'). o_deposit_id j \<in> d_id ` set (deposits db) \<and> issued L db (o_id j)"
    using assms unfolding queue_change_def tables_ok_def by metis
  then show ?thesis
    using assms by (simp add: queue_change_def tables_ok_def ids_ok_def timeline_ok_def issued_def)
qed

lemma queue_change_worker:
  assumes "queue_change db db'" "worker_ok L db w"
  shows "worker_ok L db' w"
proof -
  have "\<forall>r \<in> set (outbox db'). o_id r = j_id (worker_job w) \<longrightarrow>
      o_kind r = j_kind (worker_job w) \<and> o_deposit_id r = j_deposit_id (worker_job w)"
    using assms unfolding queue_change_def worker_ok_def by metis
  then show ?thesis
    using assms by (simp add: queue_change_def worker_ok_def issued_def)
qed

text \<open>It keeps the needs carried when every live row outside \<open>F\<close> that may be needed stays live.\<close>

lemma queue_change_covered:
  assumes "queue_change db db'" "covered F db"
    and "\<And>r. r \<in> set (outbox db) \<Longrightarrow> o_dead_at r = None \<Longrightarrow> o_id r \<notin> F \<Longrightarrow> upstream (o_kind r) \<Longrightarrow>
      \<exists>r' \<in> set (outbox db'). o_id r' = o_id r \<and> o_kind r' = o_kind r \<and> o_deposit_id r' = o_deposit_id r
        \<and> o_dead_at r' = None"
  shows "covered F db'"
  unfolding covered_def
proof (intro allI ballI impI)
  fix k d
  assume d: "d \<in> set (deposits db')" "needs k d"
  then have "carried F db k (d_id d)" using assms(1,2) by (simp add: covered_def queue_change_def)
  then obtain r where r: "r \<in> set (outbox db)" "o_kind r = k" "o_deposit_id r = d_id d"
      "o_dead_at r = None" "o_id r \<notin> F"
    by (auto simp: carried_def)
  moreover have "upstream k" using d(2) by (auto simp: needs_def upstream_def split: if_splits)
  ultimately obtain r' where "r' \<in> set (outbox db')" "o_id r' = o_id r" "o_kind r' = k"
      "o_deposit_id r' = d_id d" "o_dead_at r' = None"
    using assms(3) [of r] by auto
  then show "carried F db' k (d_id d)" using r(5) by (auto simp: carried_def)
qed

lemma upd_keeps_live:
  assumes "\<And>r. p r \<Longrightarrow> o_dead_at r = None \<Longrightarrow> o_id r \<notin> F \<Longrightarrow> upstream (o_kind r) \<Longrightarrow> o_dead_at (f r) = None"
    and "\<And>r. o_id (f r) = o_id r \<and> o_kind (f r) = o_kind r \<and> o_deposit_id (f r) = o_deposit_id r"
    and "covered F db"
  shows "covered F (db\<lparr>outbox := upd_rows p f (outbox db)\<rparr>)"
proof (rule queue_change_covered [OF queue_change_upd assms(3)])
  fix r
  assume r: "r \<in> set (outbox db)" "o_dead_at r = None" "o_id r \<notin> F" "upstream (o_kind r)"
  let ?r = "if p r then f r else r"
  have "?r \<in> set (outbox (db\<lparr>outbox := upd_rows p f (outbox db)\<rparr>))"
    using r(1) by (auto simp: upd_rows_def)
  moreover have "o_id ?r = o_id r \<and> o_kind ?r = o_kind r \<and> o_deposit_id ?r = o_deposit_id r
      \<and> o_dead_at ?r = None"
    using assms(1) [OF _ r(2-4)] assms(2) [of r] r(2) by simp
  ultimately show "\<exists>r' \<in> set (outbox (db\<lparr>outbox := upd_rows p f (outbox db)\<rparr>)). o_id r' = o_id r
      \<and> o_kind r' = o_kind r \<and> o_deposit_id r' = o_deposit_id r \<and> o_dead_at r' = None" by blast
qed (use assms(2) in simp)

lemma server_ok_queue:
  assumes "server_ok L \<lparr>sv_db = db, sv_workers = ws\<rparr>" "queue_change db db'" "set ws' \<subseteq> set ws"
    and "covered (closing ws') db'"
  shows "server_ok L \<lparr>sv_db = db', sv_workers = ws'\<rparr>"
  using assms queue_change_tables [OF assms(2)] queue_change_worker [OF assms(2)]
  by (auto simp: server_ok_def)

lemma claim_queue:
  assumes "claim now batch ttl busy db = Inr (jobs, db')"
  shows "queue_change db db'" and "covered F db \<Longrightarrow> covered F db'"
proof -
  let ?lock = "\<lambda>r. r\<lparr>o_locked_until := Some (now + make_interval ttl), o_attempts := o_attempts r + 1\<rparr>"
  let ?p = "\<lambda>r. o_id r \<in> set (map o_id (due_rows now batch busy (outbox db)))"
  have db': "db' = db\<lparr>outbox := upd_rows ?p ?lock (outbox db)\<rparr>"
    using assms by (simp add: claim_def Let_def)
  show "queue_change db db'" unfolding db' by (rule queue_change_upd) simp
  show "covered F db \<Longrightarrow> covered F db'" unfolding db' by (rule upd_keeps_live) simp_all
qed

lemma claim_workers:
  assumes "claim now batch ttl busy db = Inr (jobs, db')" "tables_ok L db" "job \<in> set jobs"
  shows "worker_ok L db' (Claimed job)"
proof -
  have sorted: "sorted_wrt (<) (map o_id (outbox db))" using assms(2) by (simp add: tables_ok_def)
  then have dist: "distinct (map o_id (outbox db))" by (simp add: strict_sorted_iff)
  obtain r where r: "r \<in> set (outbox db)" "j_id job = o_id r" "j_kind job = o_kind r"
      "j_deposit_id job = o_deposit_id r"
    using claim_job [OF assms(1,3) dist] by blast
  have "o_kind r' = o_kind r \<and> o_deposit_id r' = o_deposit_id r"
    if "r' \<in> set (outbox db)" "o_id r' = o_id r" for r'
    using unique_by_key [OF dist that(1) r(1) that(2)] by simp
  moreover have "issued L db (o_id r)" using assms(2) r(1) by (simp add: tables_ok_def)
  ultimately have "worker_ok L db (Claimed job)"
    unfolding worker_ok_def worker_job.simps r(2-4) by blast
  then show ?thesis by (rule queue_change_worker [OF claim_queue(1) [OF assms(1)]])
qed

lemma delete_queue:
  assumes "covered F db" "i \<in> F"
  shows "covered F (db\<lparr>outbox := filter (\<lambda>r. o_id r \<noteq> i) (outbox db)\<rparr>)"
proof (rule queue_change_covered [OF queue_change_filter assms(1)])
  fix r
  assume "r \<in> set (outbox db)" "o_dead_at r = None" "o_id r \<notin> F"
  then show "\<exists>r' \<in> set (outbox (db\<lparr>outbox := filter (\<lambda>r. o_id r \<noteq> i) (outbox db)\<rparr>)). o_id r' = o_id r
      \<and> o_kind r' = o_kind r \<and> o_deposit_id r' = o_deposit_id r \<and> o_dead_at r' = None"
    using assms(2) by (intro bexI [of _ r]) auto
qed

lemma mark_dead_queue:
  assumes "mark_dead now i error db = Inr (u, db')"
    and "i \<in> F \<or> (\<forall>r \<in> set (outbox db). o_id r = i \<longrightarrow> \<not> upstream (o_kind r))"
  shows "queue_change db db'" and "covered F db \<Longrightarrow> covered F db'"
proof -
  let ?f = "\<lambda>r. r\<lparr>o_dead_at := Some now, o_locked_until := None, o_last_error := Some error\<rparr>"
  have db': "db' = db\<lparr>outbox := upd_rows (\<lambda>r. o_id r = i) ?f (outbox db)\<rparr>"
    using assms(1) by (simp add: mark_dead_def update_job_def)
  show q: "queue_change db db'" unfolding db' by (rule queue_change_upd) simp
  show "covered F db'" if "covered F db"
  proof (rule queue_change_covered [OF q that])
    fix r
    assume r: "r \<in> set (outbox db)" "o_dead_at r = None" "o_id r \<notin> F" "upstream (o_kind r)"
    then have "o_id r \<noteq> i" using assms(2) by auto
    then have "r \<in> set (outbox db')" using r(1) unfolding db' by (auto simp: in_upd_rows intro!: bexI [of _ r])
    then show "\<exists>r' \<in> set (outbox db'). o_id r' = o_id r \<and> o_kind r' = o_kind r
        \<and> o_deposit_id r' = o_deposit_id r \<and> o_dead_at r' = None"
      using r(2) by blast
  qed
qed

lemma retry_later_queue:
  assumes "retry_later cfg now jitter job error db = Inr (u, db')"
    and "\<forall>r \<in> set (outbox db). o_id r = j_id job \<longrightarrow> o_kind r = j_kind job"
  shows "queue_change db db'" and "covered F db \<Longrightarrow> covered F db'"
proof -
  have "queue_change db db' \<and> (covered F db \<longrightarrow> covered F db')"
  proof (cases "schedule cfg (j_kind job) (j_attempts job) (num_seconds (now - j_created_at job)) jitter")
    case SDead
    then have "\<not> upstream (j_kind job)" using schedule_upstream unfolding upstream_def by metis
    moreover have "mark_dead now (j_id job) error db = Inr (u, db')"
      using assms(1) SDead by (simp add: retry_later_def)
    ultimately show ?thesis using mark_dead_queue assms(2) by metis
  next
    case (SRetry delay)
    let ?f = "\<lambda>r. r\<lparr>o_next_attempt_at := now + millis delay, o_locked_until := None, o_last_error := Some error\<rparr>"
    have db': "db' = db\<lparr>outbox := upd_rows (\<lambda>r. o_id r = j_id job) ?f (outbox db)\<rparr>"
      using assms(1) SRetry by (simp add: retry_later_def update_job_def)
    show ?thesis
      unfolding db' using queue_change_upd [of ?f] upd_keeps_live [of "\<lambda>r. o_id r = j_id job" F ?f] by simp
  qed
  then show "queue_change db db'" "covered F db \<Longrightarrow> covered F db'" by simp_all
qed

lemma finalise_queue:
  assumes "finalise cfg now jitter job a db = Inr (u, db')"
    and "\<forall>r \<in> set (outbox db). o_id r = j_id job \<longrightarrow> o_kind r = j_kind job"
    and "is_final a \<Longrightarrow> j_id job \<in> F"
  shows "queue_change db db'" and "covered F db \<Longrightarrow> covered F db'"
proof -
  have "queue_change db db' \<and> (covered F db \<longrightarrow> covered F db')"
  proof (cases a)
    case ADone
    then have "db' = db\<lparr>outbox := filter (\<lambda>r. o_id r \<noteq> j_id job) (outbox db)\<rparr>" "j_id job \<in> F"
      using assms(1,3) by (simp_all add: delete_job_def)
    then show ?thesis using queue_change_filter delete_queue by simp
  next
    case (ARetry e)
    then show ?thesis using assms(1) retry_later_queue [OF _ assms(2)] by simp
  next
    case (ADead e)
    then show ?thesis using assms(1,3) mark_dead_queue [of now "j_id job" e db u db' F] by simp
  qed
  then show "queue_change db db'" "covered F db \<Longrightarrow> covered F db'" by simp_all
qed

lemma run_tx_Inr:
  "run_tx m db = (r, db') \<Longrightarrow> db' = db \<or> (\<exists>x. m db = Inr (x, db'))"
  by (auto simp: run_tx_def split: sum.splits prod.splits)

lemma requeue_queue:
  assumes "run_tx (requeue now i) db = (r, db')"
  shows "queue_change db db'" and "covered F db \<Longrightarrow> covered F db'"
proof -
  let ?f = "\<lambda>r. r\<lparr>o_dead_at := None, o_next_attempt_at := now, o_locked_until := None, o_created_at := now\<rparr>"
  have db': "db' = db\<lparr>outbox := upd_rows (\<lambda>r. o_id r = i) ?f (outbox db)\<rparr>"
    using assms by (simp add: run_tx_def requeue_def)
  show "queue_change db db'" unfolding db' by (rule queue_change_upd) simp
  show "covered F db \<Longrightarrow> covered F db'" unfolding db' by (rule upd_keeps_live) simp_all
qed

section \<open>The invariant holds in every reachable state\<close>

lemma grows_worker:
  assumes "grows L db db'" "worker_ok L db w" "uuid_v7_ok L"
  shows "worker_ok L db' w"
proof -
  obtain js where js: "outbox db' = outbox db @ js" "\<forall>j \<in> set js. drawn L db db' (o_id j)"
    using assms(1) by (auto simp: grows_def appends_def)
  have iss: "issued L db (j_id (worker_job w))" using assms(2) by (simp add: worker_ok_def)
  have "o_id j \<noteq> j_id (worker_job w)" if "j \<in> set js" for j
    using issued_drawn_less [OF assms(3) iss] js(2) that by fastforce
  then have "\<forall>r \<in> set (outbox db'). o_id r = j_id (worker_job w) \<longrightarrow> r \<in> set (outbox db)"
    using js(1) by auto
  moreover have "issued L db' (j_id (worker_job w))"
    using assms(1) iss issued_mono unfolding grows_def appends_def by blast
  ultimately show ?thesis
    using assms(2) unfolding worker_ok_def by blast
qed

lemma grows_server:
  assumes "server_ok L \<lparr>sv_db = db, sv_workers = ws\<rparr>" "grows L db db'" "uuid_v7_ok L"
  shows "server_ok L \<lparr>sv_db = db', sv_workers = ws\<rparr>"
  using assms closing_issued [of ws L db] grows_worker [OF assms(2) _ assms(3)]
  by (simp add: server_ok_def grows_def)

lemma server_ok_swap:
  assumes "server_ok L \<lparr>sv_db = db, sv_workers = ws @ w # ws'\<rparr>" "worker_ok L db w'"
    and "covered (closing (ws @ w' # ws')) db"
  shows "server_ok L \<lparr>sv_db = db, sv_workers = ws @ w' # ws'\<rparr>"
  using assms by (simp add: server_ok_def)

lemma server_ok_final:
  assumes "server_ok L \<lparr>sv_db = db, sv_workers = ws @ w # ws'\<rparr>" "worker_job w = job"
    and "closing [w] = {}" "is_final a \<Longrightarrow> unneeded db job"
  shows "server_ok L \<lparr>sv_db = db, sv_workers = ws @ Closing job a # ws'\<rparr>"
proof (rule server_ok_swap [OF assms(1)])
  have w: "worker_ok L db w" using assms(1) by (simp add: server_ok_def)
  then show "worker_ok L db (Closing job a)" using assms(2) by (auto simp: worker_ok_def)
  have "closing (ws @ w # ws') = closing ws \<union> closing ws'"
    using assms(3) closing_append [of "[w]" ws'] by simp
  then have cov: "covered (closing ws \<union> closing ws') db" using assms(1) by (simp add: server_ok_def)
  show "covered (closing (ws @ Closing job a # ws')) db"
  proof (cases "is_final a")
    case True
    have "covered (insert (j_id job) (closing ws \<union> closing ws')) db"
      using covered_unneeded [OF cov assms(4) [OF True]] w assms(2) by (simp add: worker_ok_def)
    then show ?thesis using True by (simp add: closing_Cons)
  next
    case False
    then show ?thesis using cov by (simp add: closing_Cons)
  qed
qed

lemma server_ok_drop:
  assumes "server_ok L \<lparr>sv_db = db, sv_workers = ws @ w # ws'\<rparr>"
  shows "server_ok L \<lparr>sv_db = db, sv_workers = ws @ ws'\<rparr>"
proof -
  have "closing (ws @ ws') \<subseteq> closing (ws @ w # ws')" by (rule closing_mono) auto
  then show ?thesis using assms covered_antimono by (auto simp: server_ok_def)
qed

lemma server_ok_leave:
  assumes ok: "server_ok L \<lparr>sv_db = db, sv_workers = ws @ w # ws'\<rparr>" and q: "queue_change db db'"
    and c: "covered (closing (ws @ w # ws')) db \<Longrightarrow> covered (closing (ws @ w # ws')) db'"
  shows "server_ok L \<lparr>sv_db = db', sv_workers = ws @ ws'\<rparr>"
proof -
  have "covered (closing (ws @ w # ws')) db" using ok by (simp add: server_ok_def)
  from server_ok_queue [OF ok q order_refl c [OF this]] show ?thesis by (rule server_ok_drop)
qed

lemma server_step_ok:
  assumes "server_step L E cfg s s'" "uuid_v7_ok L" "server_ok L s"
  shows "server_ok L s'"
  using assms(1,3)
proof (induction rule: server_step.induct)
  case (tables db db' ws)
  moreover from tables(2) have "tables_ok L db" by (simp add: server_ok_def)
  ultimately show ?case using db_step_grows grows_server assms(2) by blast
next
  case (requeue now i db r db' ws)
  have "covered (closing ws) db" using requeue(2) by (simp add: server_ok_def)
  from server_ok_queue [OF requeue(2) requeue_queue(1) [OF requeue(1)] order_refl
      requeue_queue(2) [OF requeue(1) this]] show ?case .
next
  case (claim now batch ttl busy db jobs db' ws)
  have ok: "covered (closing ws) db" "tables_ok L db" using claim(2) by (simp_all add: server_ok_def)
  from server_ok_queue [OF claim(2) claim_queue(1) [OF claim(1)] order_refl
      claim_queue(2) [OF claim(1) ok(1)]]
  show ?case using claim_workers [OF claim(1) ok(2)] by (auto simp: server_ok_def)
next
  case (load_end V job db a ws ws')
  then have "tables_ok L db" by (simp add: server_ok_def)
  then show ?case
    using server_ok_final [OF load_end(2), of job a] load_job_unneeded [OF _ load_end(1)]
    by (simp add: closing_Cons closing_def)
next
  case (load_go V job db d ws ws')
  then have "worker_ok L db (Claimed job)" "covered (closing (ws @ Claimed job # ws')) db"
    by (simp_all add: server_ok_def)
  then show ?case
    using server_ok_swap [OF load_go(2), of "Loaded job d"] load_job_kind [OF load_go(1)]
    by (simp add: closing_Cons worker_ok_def)
next
  case (answer V job d db a db' ws ws')
  have ok: "tables_ok L db" "worker_ok L db (Loaded job d)" using answer(2) by (simp_all add: server_ok_def)
  have g: "server_ok L \<lparr>sv_db = db', sv_workers = ws @ Loaded job d # ws'\<rparr>"
    by (rule grows_server [OF answer(2) after_job_grows [OF assms(2) ok(1) answer(1)] assms(2)])
  have "is_final a \<Longrightarrow> unneeded db' job"
    using after_job_unneeded [OF ok(1) assms(2) answer(1)] ok(2) by (simp add: worker_ok_def)
  then show ?case using server_ok_final [OF g, of job a] by (simp add: closing_def)
next
  case (panic V job d db db' ws ws')
  then have "tables_ok L db" by (simp add: server_ok_def)
  then show ?case
    using server_ok_drop [OF grows_server [OF panic(2) after_job_grows [OF assms(2) _ panic(1)] assms(2)]]
    by blast
next
  case (finish now jitter job a db r db' ws ws')
  have w: "worker_ok L db (Closing job a)" using finish(2) by (simp add: server_ok_def)
  show ?case
  proof (cases "db' = db")
    case True
    then show ?thesis using server_ok_drop [OF finish(2)] by simp
  next
    case False
    then obtain u where u: "finalise cfg now jitter job a db = Inr (u, db')"
      using run_tx_Inr [OF finish(1)] by blast
    have "\<forall>r \<in> set (outbox db). o_id r = j_id job \<longrightarrow> o_kind r = j_kind job"
        "is_final a \<Longrightarrow> j_id job \<in> closing (ws @ Closing job a # ws')"
      using w by (simp_all add: worker_ok_def closing_Cons)
    from finalise_queue [OF u this] show ?thesis using server_ok_leave [OF finish(2)] by blast
  qed
next
  case (crash db ws w ws')
  then show ?case by (rule server_ok_drop)
next
  case (timeout now jitter w error db r db' ws ws')
  have w: "worker_ok L db w" using timeout(2) by (simp add: server_ok_def)
  show ?case
  proof (cases "db' = db")
    case True
    then show ?thesis using server_ok_drop [OF timeout(2)] by simp
  next
    case False
    then obtain u where u: "retry_later cfg now jitter (worker_job w) error db = Inr (u, db')"
      using run_tx_Inr [OF timeout(1)] by blast
    have "\<forall>r \<in> set (outbox db). o_id r = j_id (worker_job w) \<longrightarrow> o_kind r = j_kind (worker_job w)"
      using w by (simp add: worker_ok_def)
    from retry_later_queue [OF u this] show ?thesis using server_ok_leave [OF timeout(2)] by blast
  qed
qed

lemma reachable_ok:
  assumes "reachable L E cfg s" "uuid_v7_ok L"
  shows "server_ok L s"
  using assms by (induction rule: reachable.induct) (auto intro: server_ok_initial server_step_ok)

section \<open>History across steps\<close>

lemma queue_change_history: "queue_change db db' \<Longrightarrow> history db db'"
  by (auto simp: queue_change_def history_def status_path_def)

lemma server_step_history:
  assumes "server_step L E cfg s s'" "uuid_v7_ok L" "server_ok L s"
  shows "history (sv_db s) (sv_db s')"
  using assms(1,3)
proof (induction rule: server_step.induct)
  case (tables db db' ws)
  then show ?case using db_step_grows [OF tables(1) assms(2)] by (simp add: grows_def server_ok_def)
next
  case (requeue now i db r db' ws)
  then show ?case using requeue_queue queue_change_history by simp
next
  case (claim now batch ttl busy db jobs db' ws)
  then show ?case using claim_queue queue_change_history by simp
next
  case (answer V job d db a db' ws ws')
  then show ?case using after_job_grows [OF assms(2) _ answer(1)] by (simp add: grows_def server_ok_def)
next
  case (panic V job d db db' ws ws')
  then show ?case using after_job_grows [OF assms(2) _ panic(1)] by (simp add: grows_def server_ok_def)
next
  case (finish now jitter job a db r db' ws ws')
  then have "worker_ok L db (Closing job a)" by (simp add: server_ok_def)
  then have "\<forall>r \<in> set (outbox db). o_id r = j_id job \<longrightarrow> o_kind r = j_kind job" by (simp add: worker_ok_def)
  then show ?case
    using run_tx_Inr [OF finish(1)] finalise_queue(1) [where F = UNIV] queue_change_history
    by (metis UNIV_I history_refl server.select_convs(1))
next
  case (timeout now jitter w error db r db' ws ws')
  then have "worker_ok L db w" by (simp add: server_ok_def)
  then have "\<forall>r \<in> set (outbox db). o_id r = j_id (worker_job w) \<longrightarrow> o_kind r = j_kind (worker_job w)"
    by (simp add: worker_ok_def)
  then show ?case
    using run_tx_Inr [OF timeout(1)] retry_later_queue(1) queue_change_history
    by (metis history_refl server.select_convs(1))
qed simp_all

end
