(* ===== verification/Example_Run.thy ===== *)
theory Example_Run
  imports Server Example_Lib
begin

text \<open>
  A short run of the service on the example library: a user, a deposit, its payment found by the
  reconciler. The theorems about reachable states are applied to it.
\<close>

definition ex_env :: inbound_env where
  "ex_env = \<lparr>ie_indexer_secret = ''indexer'', ie_engine_secret = ''engine'', ie_tolerance_secs = 300,
     ie_parse_indexer = (\<lambda>b. Inl ''''), ie_parse_engine = (\<lambda>b. Inl ''''), ie_parse_logs = (\<lambda>j. None)\<rparr>"

definition ex_cfg :: outbox_cfg where
  "ex_cfg = \<lparr>oc_retry_base_ms = 1000, oc_retry_cap_ms = 3600000, oc_max_age_secs = 86400,
     oc_upstream_retry_cap_ms = 30000, oc_callback_base_url = ''https://gum.example'', oc_factory = 1\<rparr>"

definition ex_user :: user_row where
  "ex_user = \<lparr>u_id = ''u'', u_webhook_secret = ''s'', u_default_webhook_url = None, u_created_at = 0,
     u_last_seen_at = 0\<rparr>"

definition ex_new :: new_deposit where
  "ex_new = \<lparr>n_chain_id = 1, n_token_symbol = ''T'', n_token_address = 2, n_token_decimals = 6,
     n_amount = 5, n_receiver = 3, n_calls = [], n_recovery = 4, n_salt = 6, n_expires_at = 9000,
     n_payment_address = 7, n_reference = None, n_webhook_url = None\<rparr>"

definition ex_idem :: idempotency where
  "ex_idem = \<lparr>idem_key = ''k'', idem_fingerprint = [1]\<rparr>"

definition ex_db1 :: db where
  "ex_db1 = empty_db\<lparr>users := [ex_user]\<rparr>"

definition ex_db2 :: db where
  "ex_db2 = snd (run_tx (create_tx ex_lib 1000 ''u'' ex_new (Some ex_idem)) ex_db1)"

definition ex_poll :: "uuid \<Rightarrow> upstream_error + watch_detail option" where
  "ex_poll w = Inr (Some \<lparr>wd_id = w, wd_status = ''completed'', wd_confirmed_amount = Some ''5'',
     wd_completed_at = None\<rparr>)"

definition ex_stale :: deposit where
  "ex_stale = (new_row ex_lib 1000 0 ''u'' ex_new)\<lparr>d_watch_id := Some 70\<rparr>"

definition ex_db3 :: db where
  "ex_db3 = snd (reconcile_open_one ex_lib NoFault 2000 2000 ex_poll ex_stale ex_db2)"

definition ex_server :: "db \<Rightarrow> server" where
  "ex_server db = \<lparr>sv_db = db, sv_workers = []\<rparr>"

lemma ex_db1_step: "db_step ex_lib ex_env empty_db ex_db1"
  using db_step.users [of ex_lib ex_env empty_db "[]" "[ex_user]"] by (simp add: ex_db1_def empty_db_def)

lemma ex_reachable:
  "reachable ex_lib ex_env ex_cfg (ex_server ex_db1)"
  "reachable ex_lib ex_env ex_cfg (ex_server ex_db2)"
  "reachable ex_lib ex_env ex_cfg (ex_server ex_db3)"
proof -
  have step: "reachable ex_lib ex_env ex_cfg (ex_server db')"
    if "reachable ex_lib ex_env ex_cfg (ex_server db)" "db_step ex_lib ex_env db db'" for db db'
    using reachable.step [OF that(1)] server_step.tables [OF that(2)] by (simp add: ex_server_def)
  have "ex_server empty_db = initial" by (simp add: ex_server_def initial_def)
  then have "reachable ex_lib ex_env ex_cfg (ex_server empty_db)" by (simp add: reachable.init)
  then show 1: "reachable ex_lib ex_env ex_cfg (ex_server ex_db1)"
    by (rule step) (rule ex_db1_step)
  show 2: "reachable ex_lib ex_env ex_cfg (ex_server ex_db2)"
    by (rule step [OF 1]) (rule db_step.create, unfold ex_db2_def, rule prod.collapse [symmetric])
  show "reachable ex_lib ex_env ex_cfg (ex_server ex_db3)"
    by (rule step [OF 2]) (rule db_step.reconcile_open, unfold ex_db3_def, rule prod.collapse [symmetric])
qed

lemmas tx_eval = run_tx_def and_then_def tx_return_def new_uuid_def insert_event_def bump_seq_def
  update_returning_def upd_rows_def record_event_def notify_app_event_def enqueue_def Let_def
  outbox_entry_def update_deposit_def then_event_def is_app_facing_def event_type_defs
  webhook_url_for_def

lemma ex_uuid [simp]: "l_uuid_v7 ex_lib n = n" "l_fmt_uuid ex_lib = dec_nat"
  by (simp_all add: ex_lib_def)

lemma ex_create:
  "create_tx ex_lib 1000 ''u'' ex_new (Some ex_idem) ex_db1 = Inr (Some (new_row ex_lib 1000 0 ''u'' ex_new),
     ex_db1\<lparr>deposits := [bump 1 (new_row ex_lib 1000 0 ''u'' ex_new)],
       deposit_events := [\<lparr>e_id = 1, e_deposit_id = 0, e_sequence = 1, e_type = ev_created, e_data = JObj [],
         e_created_at = 1000\<rparr>],
       idempotency_keys := [\<lparr>ik_user_id = ''u'', ik_key = ''k'', ik_request_hash = [1], ik_deposit_id = 0,
         ik_created_at = 1000\<rparr>],
       outbox := [outbox_entry 1000 2 ''register_watch'' 0 (JObj [])],
       notices := [0], uuid_ctr := 3\<rparr>)"
  by (simp add: create_tx_def insert_deposit_def claim_key_def find_idempotency_def ex_db1_def empty_db_def
      ex_user_def ex_idem_def tx_eval bump_def)

lemma ex_db2_eq:
  "deposits ex_db2 = [bump 1 (new_row ex_lib 1000 0 ''u'' ex_new)]"
  "outbox ex_db2 = [outbox_entry 1000 2 ''register_watch'' 0 (JObj [])]"
  "uuid_ctr ex_db2 = 3" "users ex_db2 = [ex_user]"
  "idempotency_keys ex_db2 = [\<lparr>ik_user_id = ''u'', ik_key = ''k'', ik_request_hash = [1], ik_deposit_id = 0,
     ik_created_at = 1000\<rparr>]"
  by (simp_all add: ex_db2_def run_tx_def ex_create) (simp add: ex_db1_def)

definition ex_paid :: deposit where
  "ex_paid = bump 2 ((new_row ex_lib 1000 0 ''u'' ex_new)\<lparr>d_status := Paid, d_detected_at := Some 2000,
     d_confirmed_amount := u256_to_string (confirmed_of ex_lib (Some ''5'')), d_updated_at := 2000\<rparr>)"

lemma ex_db3_eq:
  "deposits ex_db3 = [ex_paid]"
  "outbox ex_db3 = [outbox_entry 1000 2 ''register_watch'' 0 (JObj []),
     outbox_entry 2000 4 ''submit_execute'' 0
       (JObj [(''idempotency_key'', JStr (execute_key ex_lib 0 2))])]"
  "users ex_db3 = [ex_user]"
  by (simp_all add: ex_db3_def reconcile_open_one_def ex_stale_def ex_poll_def run_faulty_def
      open_transition_def apply_threshold_reached_def enqueue_execute_def is_changed_def ex_db2_eq tx_eval
      new_row_def bump_def ex_new_def ex_user_def ex_paid_def)

end
