(* ===== verification/Frames.thy ===== *)
theory Frames
  imports Server
begin

text \<open>
  Frames: relations between the tables before and after a transaction that every statement of the
  service respects, except the ones a property singles out. A frame is a reflexive and transitive
  relation that admits the row updates, events and jobs of the ordinary transitions; the locale
  proves once that every operation other than \<open>apply_settled\<close> and the automatic resubmission stays
  within it. The interpretations, at the end and in the property theories, instantiate it.
\<close>

section \<open>The contract\<close>

definition stays :: "(db \<Rightarrow> db \<Rightarrow> bool) \<Rightarrow> 'a tx \<Rightarrow> bool" where
  "stays R m = (\<forall>db x db'. m db = Inr (x, db') \<longrightarrow> R db db')"

text \<open>An update that leaves the id alone and settles nothing.\<close>

definition unsettling :: "deposit \<Rightarrow> deposit \<Rightarrow> bool" where
  "unsettling d d' = (d_id d' = d_id d \<and> (d_status d' \<noteq> Settled \<or> d_status d' = d_status d))"

locale table_frame =
  fixes R :: "db \<Rightarrow> db \<Rightarrow> bool" and fine :: "string \<Rightarrow> json \<Rightarrow> bool"
  assumes R_refl: "R db db"
    and R_trans: "R a b \<Longrightarrow> R b c \<Longrightarrow> R a c"
    and R_aside: "deposits db' = deposits db \<Longrightarrow> deposit_events db' = deposit_events db
      \<Longrightarrow> inbound_events db' = inbound_events db \<Longrightarrow> R db db'"
    and R_rows: "(\<And>d. p d \<Longrightarrow> unsettling d (f d)) \<Longrightarrow> R db (db\<lparr>deposits := upd_rows p f (deposits db)\<rparr>)"
    and R_new: "d_status d = Pending \<Longrightarrow> R db (db\<lparr>deposits := deposits db @ [d]\<rparr>)"
    and R_event: "fine (e_type e) (e_data e) \<Longrightarrow>
      R db (db\<lparr>deposit_events := deposit_events db @ [e], notices := notices db @ [e_deposit_id e]\<rparr>)"
    and fine_type: "ty \<noteq> ev_settlement_retried \<Longrightarrow> fine ty data"
    and fine_retry: "fine ev_settlement_retried (JObj [])"
begin

lemma staysD: "stays R m \<Longrightarrow> m db = Inr (x, db') \<Longrightarrow> R db db'"
  by (simp add: stays_def)

lemma stays_return: "stays R (tx_return x)"
  by (simp add: stays_def tx_return_def R_refl)

lemma stays_and_then:
  "stays R m \<Longrightarrow> (\<And>x. stays R (f x)) \<Longrightarrow> stays R (and_then m f)"
  unfolding stays_def and_then_eq_Inr by (meson R_trans)

lemma stays_if: "stays R m \<Longrightarrow> stays R n \<Longrightarrow> stays R (if b then m else n)"
  by simp

lemma stays_option:
  "stays R m \<Longrightarrow> (\<And>x. stays R (f x)) \<Longrightarrow> stays R (case z of None \<Rightarrow> m | Some x \<Rightarrow> f x)"
  by (cases z) simp_all

lemma stays_Inr: "stays R (\<lambda>db. Inr (x, db))"
  by (simp add: stays_def R_refl)

lemma stays_db_option:
  assumes "stays R m" "\<And>d. stays R (n d)"
  shows "stays R (\<lambda>db. case q db of None \<Rightarrow> m db | Some d \<Rightarrow> n d db)"
  using assms by (auto simp: stays_def split: option.splits)

lemma stays_new_uuid: "stays R (new_uuid L)"
  by (auto simp: stays_def new_uuid_def intro: R_aside)

lemma stays_enqueue: "stays R (enqueue L now kind i payload)"
  unfolding enqueue_def
  by (intro stays_and_then stays_new_uuid) (auto simp: stays_def intro: R_aside)

lemma stays_update_deposit:
  assumes "\<And>d. p d \<Longrightarrow> unsettling d (f d)"
  shows "stays R (update_deposit now f p)"
proof -
  have "unsettling d ((f d)\<lparr>d_updated_at := now\<rparr>)" if "p d" for d
    using assms [OF that] by (simp add: unsettling_def)
  then show ?thesis
    by (auto simp: stays_def update_deposit_def update_returning_def intro!: R_rows)
qed

lemma stays_bump_seq: "stays R (bump_seq d)"
  by (auto simp: stays_def bump_seq_def update_returning_def unsettling_def intro!: R_rows
      split: option.splits)

lemma stays_notify: "stays R (notify_app_event L now d e)"
  using stays_enqueue
  by (auto simp: stays_def notify_app_event_def R_refl split: option.splits if_splits)

lemma stays_record_event:
  assumes "fine ty data"
  shows "stays R (record_event L now d ty data)"
proof -
  have "stays R (insert_event e)" if "fine (e_type e) (e_data e)" for e
    using R_event [OF that] by (simp add: stays_def insert_event_def)
  then show ?thesis
    using assms unfolding record_event_def Let_def
    by (intro stays_and_then stays_bump_seq stays_new_uuid stays_notify stays_return) simp
qed

lemma stays_then_event: "fine ty data \<Longrightarrow> stays R (then_event L now ty data r)"
  unfolding then_event_def
  by (intro stays_option stays_and_then stays_record_event stays_return)

lemmas stays_intros = stays_return stays_and_then stays_if stays_option stays_enqueue
  stays_record_event stays_then_event

end

section \<open>The operations\<close>

lemma event_types_not_retried [simp]:
  "ev_created \<noteq> ev_settlement_retried" "ev_watch_registered \<noteq> ev_settlement_retried"
  "ev_detected \<noteq> ev_settlement_retried" "ev_payment_confirmed \<noteq> ev_settlement_retried"
  "ev_payment_orphaned \<noteq> ev_settlement_retried" "ev_ready \<noteq> ev_settlement_retried"
  "ev_expired \<noteq> ev_settlement_retried" "ev_settlement_submitted \<noteq> ev_settlement_retried"
  "ev_settlement_included \<noteq> ev_settlement_retried" "ev_settled \<noteq> ev_settlement_retried"
  "ev_failed \<noteq> ev_settlement_retried" "ev_watch_lost \<noteq> ev_settlement_retried"
  by (simp_all add: event_type_defs)

context table_frame
begin

lemma stays_event_step:
  assumes "\<And>d. p d \<Longrightarrow> unsettling d (f d)" "ty \<noteq> ev_settlement_retried"
  shows "stays R (and_then (update_deposit now f p) (then_event L now ty data))"
  using assms by (intro stays_intros stays_update_deposit fine_type)

lemma stays_transitions:
  "stays R (mark_watch_registered L now i w)"
  "stays R (apply_payment_pending L now i data)"
  "stays R (apply_payment_confirmed L now i confirmed data)"
  "stays R (apply_expired L now i data)"
  "stays R (apply_settlement_included L now i h block data)"
  "stays R (apply_failed L now i c message tx_hash revert data)"
  "stays R (fail_open L now i c message)"
  unfolding mark_watch_registered_def apply_payment_pending_def apply_payment_confirmed_def
    apply_expired_def apply_settlement_included_def apply_failed_def fail_open_def
  by (rule stays_event_step, simp add: unsettling_def, simp)+

lemma stays_orphaned: "stays R (apply_payment_orphaned L now i data)"
  using stays_then_event [OF fine_type [OF event_types_not_retried(5)]]
  by (simp add: stays_def apply_payment_orphaned_def)

lemma stays_threshold: "stays R (apply_threshold_reached L now i confirmed data)"
  unfolding apply_threshold_reached_def enqueue_execute_def
  by (intro stays_intros stays_update_deposit fine_type) (simp_all add: unsettling_def)

lemma stays_submitted: "stays R (mark_engine_submitted L now i job replayed)"
  unfolding mark_engine_submitted_def
  by (intro stays_intros stays_update_deposit fine_type) (simp_all add: unsettling_def)

lemma stays_retry: "stays R (retry_settlement L now i)"
  unfolding retry_settlement_def enqueue_execute_def
  by (intro stays_intros stays_update_deposit fine_retry) (simp_all add: unsettling_def)

lemma stays_reregister: "stays R (reregister_watch L now i)"
  unfolding reregister_watch_def
  by (intro stays_intros stays_update_deposit fine_type) (simp_all add: unsettling_def)

lemma stays_resubmit: "fine ev_settlement_retried data \<Longrightarrow> stays R (resubmit L now i data)"
  unfolding resubmit_def enqueue_execute_def
  by (intro stays_intros stays_update_deposit) (simp_all add: unsettling_def)

lemma stays_touch: "stays R (touch now i)"
  by (auto simp: stays_def touch_def unsettling_def intro!: R_rows)

lemma stays_adopt: "stays R (adopt_watch now i w)"
  by (auto simp: stays_def adopt_watch_def unsettling_def intro!: R_rows)

lemma stays_indexer_transition: "stays R (indexer_transition L now event i)"
  unfolding indexer_transition_def Let_def
  by (intro stays_intros stays_transitions stays_orphaned stays_threshold)

lemma stays_open_transition: "stays R (open_transition L polled_at now d w watch)"
  unfolding open_transition_def Let_def is_changed_def
  by (intro stays_intros stays_transitions stays_threshold)

lemma run_tx_R: "stays R m \<Longrightarrow> run_tx m db = (r, db') \<Longrightarrow> R db db'"
  by (auto simp: run_tx_def R_refl split: sum.splits dest: staysD)

lemma run_faulty_R: "stays R m \<Longrightarrow> run_faulty f m db = (r, db') \<Longrightarrow> R db db'"
  by (auto simp: run_faulty_def R_refl split: tx_fault.splits sum.splits if_splits dest: staysD)

lemma run_handler_R: "stays R m \<Longrightarrow> run_handler f m db = (r, db') \<Longrightarrow> R db db'"
  by (auto simp: run_handler_def R_refl split: tx_fault.splits sum.splits prod.splits ending.splits if_splits
      dest: staysD)

lemma expire_each_R: "expire_each L now is n db = (r, db') \<Longrightarrow> R db db'"
proof (induction L now "is" n db rule: expire_each.induct)
  case (2 L now i "is" n db)
  obtain x db1 where x: "run_tx (apply_expired L now i
      (JObj [(''reason'', JStr ''expiry passed without threshold'')])) db = (x, db1)" by force
  then have "R db db1" by (rule run_tx_R [OF stays_transitions(4)])
  with x 2 show ?case by (cases x) (auto intro: R_trans)
qed (simp add: R_refl)

lemma reconcile_open_one_R:
  "reconcile_open_one L f polled_at now get_watch d db = (ctl, db') \<Longrightarrow> R db db'"
  unfolding reconcile_open_one_def
  by (auto simp: R_refl intro: R_trans dest: run_faulty_R [OF stays_reregister]
      run_faulty_R [OF stays_open_transition] run_tx_R [OF stays_touch]
      split: option.splits sum.splits prod.splits bool.splits)

lemma create_tx_R:
  assumes "create_tx L now user n idem db0 = Inr (r, db')"
    and claim: "\<And>d db b db1. claim_key now user idem d db = Inr (b, db1) \<Longrightarrow> R db db1"
  shows "R db0 db'"
proof -
  have "stays R (insert_deposit L now user n)"
    unfolding insert_deposit_def
    by (intro stays_and_then stays_new_uuid) (auto simp: stays_def Let_def intro!: R_new)
  moreover have "stays R (and_then (record_event L now d ev_created (JObj [])) (\<lambda>_.
      and_then (enqueue L now ''register_watch'' (d_id d) (JObj [])) (\<lambda>_. tx_return (Some d))))" for d
    by (intro stays_intros fine_type) simp
  ultimately show ?thesis
    using assms(1) claim unfolding create_tx_def and_then_eq_Inr
    by (auto simp: R_refl split: if_splits dest!: staysD) (meson R_trans staysD)
qed

lemma after_job_R: "after_job L cfg V job d db = (a, db') \<Longrightarrow> R db db'"
  unfolding after_job_def register_watch_after_def submit_execute_after_def Let_def
  by (auto simp: R_refl dest: run_faulty_R [OF stays_transitions(1)] run_faulty_R [OF stays_transitions(4)]
      run_faulty_R [OF stays_transitions(6)] run_faulty_R [OF stays_transitions(7)]
      run_faulty_R [OF stays_submitted]
      split: if_splits option.splits sum.splits prod.splits tx_stage.splits)

end

section \<open>Frames that do not look at the delivery log\<close>

text \<open>
  A frame indifferent to \<open>inbound_events\<close> covers every step of the service except the two that may
  settle a deposit or resubmit it automatically: an engine event and the poll of an engine job.
\<close>

locale claim_frame = table_frame +
  assumes R_claims: "deposits db' = deposits db \<Longrightarrow> deposit_events db' = deposit_events db \<Longrightarrow> R db db'"
begin

lemma stays_claim_inbound: "stays R (claim_inbound now source e)"
  by (auto simp: stays_def claim_inbound_def R_refl intro: R_claims split: if_splits)

lemma stays_prune: "stays R (prune now ttl)"
  by (auto simp: stays_def prune_def intro: R_claims)

lemma claim_key_R: "claim_key now user idem d db = Inr (b, db1) \<Longrightarrow> R db db1"
  by (auto simp: claim_key_def R_refl intro: R_claims split: option.splits if_splits)

lemma stays_apply_indexer_event: "stays R (apply_indexer_event L now event)"
  unfolding apply_indexer_event_def
  by (intro stays_intros stays_claim_inbound stays_db_option stays_Inr stays_adopt
      stays_indexer_transition)

lemma indexer_route_R: "indexer_route L E f now header body db = (resp, db') \<Longrightarrow> R db db'"
  by (auto simp: indexer_route_def R_refl split: sum.splits dest: run_handler_R [OF stays_apply_indexer_event])

lemma db_step_R:
  assumes "db_step L E db db'"
  shows "R db db' \<or> (\<exists>f now header body resp. engine_route L E f now header body db = (resp, db'))
    \<or> (\<exists>f polled_at now get_job d ctl. reconcile_paid_one L E f polled_at now get_job d db = (ctl, db'))"
  using assms
proof cases
  case create
  then show ?thesis
    by (auto simp: run_tx_def R_refl split: sum.splits dest: create_tx_R [OF _ claim_key_R])
next
  case retry
  then show ?thesis using run_tx_R [OF stays_retry] by simp
next
  case prune
  then show ?thesis using run_tx_R [OF stays_prune] by simp
next
  case users
  then show ?thesis by (simp add: R_claims)
next
  case indexer
  then show ?thesis using indexer_route_R by simp
next
  case expire
  then show ?thesis using expire_each_R by simp
next
  case reconcile_open
  then show ?thesis using reconcile_open_one_R by simp
qed blast+

lemma update_job_R: "update_job i f db = Inr (u, db') \<Longrightarrow> R db db'"
  by (auto simp: update_job_def intro: R_claims)

lemma retry_later_R: "retry_later cfg now jitter job error db = Inr (u, db') \<Longrightarrow> R db db'"
  by (auto simp: retry_later_def mark_dead_def split: schedule_result.splits dest: update_job_R)

lemma finalise_R: "finalise cfg now jitter job a db = Inr (u, db') \<Longrightarrow> R db db'"
  by (cases a) (auto simp: delete_job_def mark_dead_def intro: R_claims dest: update_job_R retry_later_R)

text \<open>Every step of the service, workers included.\<close>

lemma server_step_R:
  assumes "server_step L E cfg s s'"
  shows "R (sv_db s) (sv_db s')
    \<or> (\<exists>f now header body resp. engine_route L E f now header body (sv_db s) = (resp, sv_db s'))
    \<or> (\<exists>f polled_at now get_job d ctl.
        reconcile_paid_one L E f polled_at now get_job d (sv_db s) = (ctl, sv_db s'))"
  using assms
proof cases
  case tables
  then show ?thesis using db_step_R by simp
next
  case requeue
  then show ?thesis by (auto simp: run_tx_def requeue_def intro: R_claims)
next
  case claim
  then show ?thesis by (auto simp: claim_def Let_def intro: R_claims)
next
  case answer
  then show ?thesis using after_job_R by simp
next
  case panic
  then show ?thesis using after_job_R by simp
next
  case finish
  then show ?thesis by (auto simp: run_tx_def R_refl split: sum.splits dest: finalise_R)
next
  case timeout
  then show ?thesis by (auto simp: run_tx_def R_refl split: sum.splits dest: retry_later_R)
qed (simp_all add: R_refl)

end

section \<open>Interpretations\<close>

text \<open>The delivery log: only claiming a delivery and pruning change it.\<close>

interpretation log_kept: table_frame "\<lambda>db db'. inbound_events db' = inbound_events db" "\<lambda>_ _. True"
  by unfold_locales simp_all

text \<open>Nothing settles: a settled row was settled before.\<close>

definition settled_before :: "db \<Rightarrow> db \<Rightarrow> bool" where
  "settled_before db db' = (\<forall>d' \<in> set (deposits db'). d_status d' = Settled \<longrightarrow>
     (\<exists>d \<in> set (deposits db). d_id d = d_id d' \<and> d_status d = Settled))"

lemma settled_before_rows:
  "(\<And>d. p d \<Longrightarrow> unsettling d (f d)) \<Longrightarrow>
     settled_before db (db\<lparr>deposits := upd_rows p f (deposits db)\<rparr>)"
  by (fastforce simp: settled_before_def in_upd_rows unsettling_def)

interpretation unsettled: claim_frame settled_before "\<lambda>_ _. True"
proof unfold_locales
  show "settled_before a b \<Longrightarrow> settled_before b c \<Longrightarrow> settled_before a c" for a b c
    unfolding settled_before_def by fastforce
qed (auto simp: settled_before_rows, auto simp: settled_before_def)

end
