(* ===== verification/Webhook_Properties.thy ===== *)
theory Webhook_Properties
  imports Example_Run Frames
begin

text \<open>
  Properties of what the service accepts from outside: signed webhooks (\<^verbatim>\<open>src/webhooks/sign.rs\<close>), the
  events of gum-indexer and gum-engine (\<^verbatim>\<open>src/webhooks/inbound.rs\<close>) and the webhook targets an app asks
  for (\<^verbatim>\<open>src/webhooks/target.rs\<close>).
\<close>

section \<open>Signatures\<close>

lemma parse_i64_range: "parse_i64 s = Some i \<Longrightarrow> - (2 ^ 63) \<le> i \<and> i < 2 ^ 63"
  by (auto simp: parse_i64_def Let_def split: list.splits if_splits)

definition i64_opt :: "int option \<Rightarrow> bool" where
  "i64_opt x = (case x of None \<Rightarrow> True | Some i \<Rightarrow> - (2 ^ 63) \<le> i \<and> i < 2 ^ 63)"

lemma i64_opt_parse [simp]: "i64_opt (parse_i64 s)"
  using parse_i64_range [of s] by (simp add: i64_opt_def split: option.split)

lemma i64_opt_sig_part: "i64_opt (fst st) \<Longrightarrow> i64_opt (fst (sig_part L p st))"
  by (simp add: sig_part_def split: option.split)

lemma i64_opt_fold: "i64_opt (fst st) \<Longrightarrow> i64_opt (fst (fold (sig_part L) ps st))"
  by (induction ps arbitrary: st) (simp_all add: i64_opt_sig_part)

lemma sig_fields_range:
  assumes "sig_fields L header = (Some ts, x)"
  shows "- (2 ^ 63) \<le> ts \<and> ts < 2 ^ 63"
  using i64_opt_fold [of "(None, None)" L "split_on CHR '','' header"] assms
  by (simp add: sig_fields_def i64_opt_def)

lemma signed_verifies:
  assumes "hex_codec_ok L" "hex_alphabet_ok L" "- (2 ^ 63) \<le> ts" "ts < 2 ^ 63"
  shows "sign_verify L secret (signature_header L secret ts body) body now tolerance \<longleftrightarrow> \<not> too_old now ts tolerance"
  using sig_fields_header [OF assms] by (simp add: sign_verify_def)

text \<open>
  C22. A delivery signed by the sender is accepted exactly within the tolerance around its timestamp;
  the one further timestamp that passes is \<open>now - 2^63\<close>, where the subtraction of the age check
  overflows.
\<close>

theorem signed_delivery_window:
  assumes "hex_codec_ok L" "hex_alphabet_ok L" "0 \<le> now" "now < 2 ^ 62"
    and "0 \<le> tolerance" "tolerance < 2 ^ 62" "- (2 ^ 63) \<le> ts" "ts < 2 ^ 63"
  shows "sign_verify L secret (signature_header L secret ts body) body now tolerance
    \<longleftrightarrow> \<bar>now - ts\<bar> \<le> tolerance \<or> ts = now - 2 ^ 63"
  using signed_verifies [OF assms(1,2,7,8)] too_old_iff [OF assms(3-8)] by simp

theorem signed_delivery_window_witness:
  "sign_verify ex_lib ''k'' (signature_header ex_lib ''k'' 1000 [1, 2]) [1, 2] 1300 300
    \<and> \<not> sign_verify ex_lib ''k'' (signature_header ex_lib ''k'' 1000 [1, 2]) [1, 2] 1301 300"
  using signed_delivery_window [OF ex_lib_ok(7,8), of 1300 300 1000 "''k''" "[1, 2]"]
    signed_delivery_window [OF ex_lib_ok(7,8), of 1301 300 1000 "''k''" "[1, 2]"]
  by simp

text \<open>
  C21. Nothing else is accepted: a header that verifies, whatever it looks like, carries a timestamp and
  the MAC of exactly that timestamp and body under the shared secret, and the timestamp is within the
  tolerance (or the overflowing one).
\<close>

theorem accepted_header_is_signed:
  assumes "sign_verify L secret header body now tolerance"
    and "0 \<le> now" "now < 2 ^ 62" "0 \<le> tolerance" "tolerance < 2 ^ 62"
  shows "\<exists>ts. sig_fields L header = (Some ts, Some (mac L secret ts body))
    \<and> (\<bar>now - ts\<bar> \<le> tolerance \<or> ts = now - 2 ^ 63)"
proof -
  obtain ts where ts: "sig_fields L header = (Some ts, Some (mac L secret ts body))"
      "\<not> too_old now ts tolerance"
    using assms(1) by (auto simp: sign_verify_def split: prod.splits option.splits if_splits)
  with too_old_iff [OF assms(2-5)] sig_fields_range [OF ts(1)] show ?thesis by blast
qed

theorem accepted_header_is_signed_witness:
  "\<exists>ts. sig_fields ex_lib (signature_header ex_lib ''k'' 1000 [1]) = (Some ts, Some (mac ex_lib ''k'' ts [1]))
    \<and> (\<bar>1200 - ts\<bar> \<le> 300 \<or> ts = 1200 - 2 ^ 63)"
proof -
  have "sign_verify ex_lib ''k'' (signature_header ex_lib ''k'' 1000 [1]) [1] 1200 300"
    by (simp add: signed_verifies [OF ex_lib_ok(7,8)] too_old_def abs_i64_def wrap_i64_id)
  from accepted_header_is_signed [OF this] show ?thesis by simp
qed

section \<open>Webhook targets\<close>




section \<open>What settles a deposit\<close>








definition seen :: "db \<Rightarrow> string \<Rightarrow> string \<Rightarrow> bool" where
  "seen db source i = (\<exists>r \<in> set (inbound_events db). in_source r = source \<and> in_event_id r = i)"

definition logged :: "time \<Rightarrow> string \<Rightarrow> string \<Rightarrow> db \<Rightarrow> db" where
  "logged now source i db = db\<lparr>inbound_events := inbound_events db @
     [\<lparr>in_source = source, in_event_id = i, in_received_at = now\<rparr>]\<rparr>"

lemma logged_simps [simp]:
  "deposits (logged now source i db) = deposits db" "seen (logged now source i db) source i"
  by (simp_all add: logged_def seen_def)

lemma claim_inbound_seen:
  "claim_inbound now source i db
     = (if seen db source i then Inr (False, db) else Inr (True, logged now source i db))"
  by (simp only: claim_inbound_def seen_def logged_def)

lemma claim_once:
  "and_then (claim_inbound now source i) (\<lambda>fresh. if \<not> fresh then tx_return r else m) db
     = (if seen db source i then Inr (r, db) else m (logged now source i db))"
  by (simp add: and_then_def claim_inbound_seen tx_return_def)













section \<open>Redelivery\<close>

lemma run_handler_200:
  assumes "run_handler f m db = (Inr 200, db')"
  shows "db' = db \<and> (\<exists>db1. m db = Inr (DropWith (Inr 200), db1)) \<or> m db = Inr (CommitWith (Inr 200), db')"
  using assms by (auto simp: run_handler_def split: tx_fault.splits sum.splits ending.splits if_splits)

lemma apply_indexer_event_seen:
  assumes "apply_indexer_event L now event db = Inr (r, db')"
    and "r = DropWith (Inr 200) \<and> db2 = db \<or> r = CommitWith (Inr 200) \<and> db2 = db'"
  shows "seen db2 ''indexer'' (ix_id event)"
proof (cases "seen db ''indexer'' (ix_id event)")
  case True
  then show ?thesis using assms unfolding apply_indexer_event_def claim_once by auto
next
  case False
  let ?m = "\<lambda>db. case lookup_watch L db (ix_watch event) of
           None \<Rightarrow> Inr (CommitWith (Inr 200) :: response ending, db)
         | Some d \<Rightarrow>
             and_then (if d_watch_id d = None then adopt_watch now (d_id d) (iw_id (ix_watch event))
                       else tx_return ()) (\<lambda>_.
             and_then (indexer_transition L now event (d_id d)) (\<lambda>_.
               tx_return (CommitWith (Inr 200)))) db"
  let ?db1 = "logged now ''indexer'' (ix_id event) db"
  have m: "?m ?db1 = Inr (r, db')"
    using assms(1) False unfolding apply_indexer_event_def claim_once by simp
  have "stays (\<lambda>db db'. inbound_events db' = inbound_events db) ?m"
    by (intro log_kept.stays_intros log_kept.stays_db_option log_kept.stays_Inr log_kept.stays_adopt
        log_kept.stays_indexer_transition)
  from log_kept.staysD [OF this m] have "seen db' ''indexer'' (ix_id event)"
    using logged_simps(2) [of now "''indexer''" "ix_id event" db] by (simp add: seen_def)
  moreover have "r \<noteq> DropWith (Inr 200)"
    using m by (auto simp: tx_return_def and_then_eq_Inr split: option.splits)
  ultimately show ?thesis using assms(2) by auto
qed

lemma apply_settlement_log:
  assumes "apply_settlement L now i out db = Inr (b, db')"
  shows "inbound_events db' = inbound_events db"
proof (cases out)
  case (SFailed c message tx_hash revert_data data)
  have "stays (\<lambda>db db'. inbound_events db' = inbound_events db) (resubmit L now i x)" for x
    by (rule log_kept.stays_resubmit) simp
  moreover have "stays (\<lambda>db db'. inbound_events db' = inbound_events db)
      (and_then (apply_failed L now i c message tx_hash revert_data data) is_changed)"
    unfolding is_changed_def by (intro log_kept.stays_intros log_kept.stays_transitions)
  ultimately show ?thesis using assms unfolding SFailed stays_def by (simp split: if_splits)
next
  case (SIncluded h bl data)
  have "stays (\<lambda>db db'. inbound_events db' = inbound_events db) (apply_settlement L now i out)"
    unfolding SIncluded apply_settlement.simps is_changed_def
    by (intro log_kept.stays_intros log_kept.stays_transitions)
  from log_kept.staysD [OF this assms] show ?thesis .
next
  case (SSettled h bl data)
  have upd: "update_deposit now g p x = Inr (y, x') \<Longrightarrow> inbound_events x' = inbound_events x" for g p x y x'
    by (auto simp: update_deposit_def update_returning_def)
  have "stays (\<lambda>db db'. inbound_events db' = inbound_events db) (apply_settlement L now i out)"
    unfolding SSettled apply_settlement.simps is_changed_def apply_settled_def
    by (intro log_kept.stays_intros TrueI) (simp add: stays_def upd)
  from log_kept.staysD [OF this assms] show ?thesis .
next
  case SPending
  then show ?thesis using assms by (simp add: tx_return_def)
qed

lemma apply_engine_event_seen:
  assumes "apply_engine_event L E now event db = Inr (r, db')"
    and "r = DropWith (Inr 200) \<and> db2 = db \<or> r = CommitWith (Inr 200) \<and> db2 = db'"
  shows "seen db2 ''engine'' (en_event_id event)"
proof (cases "seen db ''engine'' (en_event_id event)")
  case True
  then show ?thesis using assms unfolding apply_engine_event_def claim_once by auto
next
  case False
  let ?db1 = "logged now ''engine'' (en_event_id event) db"
  have "r \<noteq> DropWith (Inr 200) \<and> inbound_events db' = inbound_events ?db1"
    using assms(1) False unfolding apply_engine_event_def claim_once
    by (auto simp: tx_return_def and_then_eq_Inr api_unavailable_def api_internal_def
        split: option.splits if_splits dest: apply_settlement_log)
  then show ?thesis
    using assms(2) logged_simps(2) [of now "''engine''" "en_event_id event" db] by (auto simp: seen_def)
qed

lemma seen_mono: "seen db source i \<Longrightarrow> set (inbound_events db) \<subseteq> set (inbound_events db') \<Longrightarrow> seen db' source i"
  by (auto simp: seen_def)

lemma indexer_seen:
  assumes "indexer_route L E f now header body db = (Inr 200, db1)"
  shows "\<exists>event. parse_event (ie_parse_indexer E) ''indexer'' body = Inr event
    \<and> seen db1 ''indexer'' (ix_id event)"
proof -
  obtain event where "parse_event (ie_parse_indexer E) ''indexer'' body = Inr event"
      and run: "run_handler f (apply_indexer_event L now event) db = (Inr 200, db1)"
    using assms by (auto simp: indexer_route_def split: sum.splits)
  moreover have "seen db1 ''indexer'' (ix_id event)"
    using run_handler_200 [OF run] apply_indexer_event_seen by blast
  ultimately show ?thesis by blast
qed

lemma engine_seen:
  assumes "engine_route L E f now header body db = (Inr 200, db1)"
  shows "\<exists>event. parse_event (ie_parse_engine E) ''engine'' body = Inr event
    \<and> seen db1 ''engine'' (en_event_id event)"
proof -
  obtain event where "parse_event (ie_parse_engine E) ''engine'' body = Inr event"
      and run: "run_handler f (apply_engine_event L E now event) db = (Inr 200, db1)"
    using assms by (auto simp: engine_route_def split: sum.splits)
  moreover have "seen db1 ''engine'' (en_event_id event)"
    using run_handler_200 [OF run] apply_engine_event_seen by blast
  ultimately show ?thesis by blast
qed

lemma indexer_redelivered:
  assumes "indexer_route L E f now header body db = (Inr 200, db1)"
    and "set (inbound_events db1) \<subseteq> set (inbound_events db2)"
    and "inbound_verify L E now' (ie_indexer_secret E) header' body = Inr ()"
  shows "indexer_route L E NoFault now' header' body db2 = (Inr 200, db2)"
proof -
  obtain event where ev: "parse_event (ie_parse_indexer E) ''indexer'' body = Inr event"
      and "seen db1 ''indexer'' (ix_id event)" using indexer_seen [OF assms(1)] by blast
  then have "seen db2 ''indexer'' (ix_id event)" using assms(2) by (blast intro: seen_mono)
  then have "apply_indexer_event L now' event db2 = Inr (DropWith (Inr 200), db2)"
    unfolding apply_indexer_event_def claim_once by simp
  then show ?thesis using ev assms(3) by (simp add: indexer_route_def run_handler_def)
qed

definition ex_indexer_event :: indexer_event where
  "ex_indexer_event = \<lparr>ix_id = ''e1'', ix_type = ''threshold.reached'', ix_sequence = None,
     ix_watch = \<lparr>iw_id = 70, iw_chain_id = 1, iw_payment_address = 7, iw_confirmed_amount = Some ''5'',
       iw_status = None\<rparr>, ix_transfer = None\<rparr>"

definition ex_engine_event :: engine_event where
  "ex_engine_event = \<lparr>en_event_id = ''e2'', en_event = ''transaction.included'', en_job_id = 80,
     en_sequence = None, en_status = None, en_outcome = None, en_tx_hash = None, en_block_number = None,
     en_receipt = None, en_reincluded = False, en_error = None\<rparr>"

definition ex_env_events :: inbound_env where
  "ex_env_events = ex_env\<lparr>ie_parse_indexer := (\<lambda>_. Inr ex_indexer_event),
     ie_parse_engine := (\<lambda>_. Inr ex_engine_event)\<rparr>"

definition ex_header :: "string \<Rightarrow> string" where
  "ex_header secret = signature_header ex_lib secret 1000 []"

lemma ex_verified:
  assumes "secret \<noteq> []"
  shows "inbound_verify ex_lib ex_env_events (1100 * 10 ^ 9) secret (Some (ex_header secret)) [] = Inr ()"
proof -
  have "timestamp (1100 * 10 ^ 9) = 1100" by (simp add: timestamp_def nanos_per_sec_def)
  then show ?thesis
    using assms by (simp add: inbound_verify_def ex_header_def ex_env_events_def ex_env_def
        signed_verifies [OF ex_lib_ok(7,8)] too_old_def abs_i64_def wrap_i64_id)
qed

lemma ex_indexer_answer:
  "fst (indexer_route ex_lib ex_env_events NoFault (1100 * 10 ^ 9) (Some (ex_header ''indexer'')) [] ex_db2)
     = Inr 200"
proof -
  have row: "d_chain_id (new_row ex_lib 1000 0 ''u'' ex_new) = 1"
      "d_payment_address (new_row ex_lib 1000 0 ''u'' ex_new) = l_fmt_address ex_lib 7"
    by (simp_all add: new_row_def ex_new_def as_i64_def)
  have "\<not> seen ex_db2 ''indexer'' ''e1''"
    by (simp add: seen_def ex_db2_def run_tx_def ex_create) (simp add: ex_db1_def empty_db_def)
  moreover have "lookup_watch ex_lib (logged now src i ex_db2) (ix_watch ex_indexer_event)
      = Some (bump 1 (new_row ex_lib 1000 0 ''u'' ex_new))" for now src i
    by (simp add: lookup_watch_def get_by_watch_def get_by_payment_address_def select_deposit_def ex_db2_eq
        ex_indexer_event_def) (simp add: bump_def row new_row_def as_i64_def ex_new_def)
  ultimately have "\<exists>db'. apply_indexer_event ex_lib now ex_indexer_event ex_db2
      = Inr (CommitWith (Inr 200), db')" for now
    unfolding apply_indexer_event_def claim_once
    by (simp add: ex_indexer_event_def adopt_watch_def indexer_transition_def apply_threshold_reached_def
        enqueue_execute_def tx_eval ex_db2_eq logged_def ex_user_def)
      (simp add: bump_def new_row_def ex_new_def)
  then obtain db' where "apply_indexer_event ex_lib (1100 * 10 ^ 9) ex_indexer_event ex_db2
      = Inr (CommitWith (Inr 200), db')" by blast
  then show ?thesis
    using ex_verified [of "''indexer''"]
    by (simp add: indexer_route_def parse_event_def run_handler_def ex_env_events_def ex_env_def)
qed

lemma engine_redelivered:
  assumes "engine_route L E f now header body db = (Inr 200, db1)"
    and "set (inbound_events db1) \<subseteq> set (inbound_events db2)"
    and "inbound_verify L E now' (ie_engine_secret E) header' body = Inr ()"
  shows "engine_route L E NoFault now' header' body db2 = (Inr 200, db2)"
proof -
  obtain event where ev: "parse_event (ie_parse_engine E) ''engine'' body = Inr event"
      and "seen db1 ''engine'' (en_event_id event)" using engine_seen [OF assms(1)] by blast
  then have "seen db2 ''engine'' (en_event_id event)" using assms(2) by (blast intro: seen_mono)
  then have "apply_engine_event L E now' event db2 = Inr (DropWith (Inr 200), db2)"
    unfolding apply_engine_event_def claim_once by simp
  then show ?thesis using ev assms(3) by (simp add: engine_route_def run_handler_def)
qed

lemma ex_engine_answer:
  assumes "parse_event (ie_parse_engine E) ''engine'' [] = Inr ex_engine_event"
    and "inbound_verify L E now (ie_engine_secret E) header [] = Inr ()"
    and "\<not> seen db ''engine'' ''e2''" "\<forall>d \<in> set (deposits db). d_engine_job_id d \<noteq> Some 80"
  shows "engine_route L E NoFault now header [] db =
    (if job_is_recent L now 80
     then (Inl (api_unavailable ''job_not_recorded_yet'' ''job not recorded yet; retry''), db)
     else (Inr 200, logged now ''engine'' ''e2'' db))"
proof -
  have "get_by_engine_job (logged now ''engine'' ''e2'' db) 80 = None"
    using assms(4) by (simp add: get_by_engine_job_def select_deposit_def find_None_iff)
  then show ?thesis
    using assms(1-3) unfolding engine_route_def apply_engine_event_def
    by (simp add: run_handler_def claim_once ex_engine_event_def tx_return_def)
qed

lemma unknown_recent_job:
  assumes "inbound_verify L E now (ie_engine_secret E) header body = Inr ()"
    and "ie_parse_engine E body = Inr event" "get_by_engine_job db (en_job_id event) = None"
    and "job_is_recent L now (en_job_id event)"
    and "\<forall>r \<in> set (inbound_events db). in_source r = ''engine'' \<longrightarrow> in_event_id r \<noteq> en_event_id event"
  shows "\<exists>e. engine_route L E NoFault now header body db = (Inl e, db) \<and> ae_status e = 503"
proof -
  have "\<not> seen db ''engine'' (en_event_id event)" using assms(5) by (auto simp: seen_def)
  moreover have "get_by_engine_job (logged now ''engine'' (en_event_id event) db) (en_job_id event) = None"
    using assms(3) by (simp add: get_by_engine_job_def select_deposit_def)
  ultimately have "engine_route L E NoFault now header body db
      = (Inl (api_unavailable ''job_not_recorded_yet'' ''job not recorded yet; retry''), db)"
    using assms(1,2,4) unfolding engine_route_def apply_engine_event_def
    by (simp add: run_handler_def parse_event_def claim_once tx_return_def)
  then show ?thesis by (simp add: api_unavailable_def api_error_new_def)
qed

text \<open>
  C14. A delivery takes effect once. Redelivery changes nothing: once a delivery of gum-indexer or gum-engine was
  answered with 200, delivering the same body again, authentically, at any later time and on any later
  tables that still hold the delivery log, is answered with 200 and leaves the tables as they are. And an
  engine event that overtakes the commit of its own submission is not lost: when no deposit has the job yet
  and the job is younger than the grace period, the answer is 503 and the delivery is not logged, so the
  engine's retry is handled as a first delivery.
\<close>

theorem delivery_takes_effect_once:
  assumes "set (inbound_events db1) \<subseteq> set (inbound_events db2)"
  shows "(indexer_route L E f now header body db = (Inr 200, db1)
        \<and> inbound_verify L E now' (ie_indexer_secret E) header' body = Inr ()
      \<longrightarrow> indexer_route L E NoFault now' header' body db2 = (Inr 200, db2))
    \<and> (engine_route L E f now header body db = (Inr 200, db1)
        \<and> inbound_verify L E now' (ie_engine_secret E) header' body = Inr ()
      \<longrightarrow> engine_route L E NoFault now' header' body db2 = (Inr 200, db2))
    \<and> (inbound_verify L E now (ie_engine_secret E) header body = Inr () \<and> ie_parse_engine E body = Inr event
        \<and> get_by_engine_job db (en_job_id event) = None \<and> job_is_recent L now (en_job_id event)
        \<and> (\<forall>r \<in> set (inbound_events db). in_source r = ''engine'' \<longrightarrow> in_event_id r \<noteq> en_event_id event)
      \<longrightarrow> (\<exists>e. engine_route L E NoFault now header body db = (Inl e, db) \<and> ae_status e = 503))"
  by (intro conjI impI; elim conjE)
    (rule indexer_redelivered [OF _ assms] engine_redelivered [OF _ assms] unknown_recent_job; assumption)+

lemma ex_secrets: "ie_indexer_secret ex_env_events = ''indexer''" "ie_engine_secret ex_env_events = ''engine''"
  by (simp_all add: ex_env_events_def ex_env_def)

lemma ex_engine_logged:
  "engine_route ex_lib ex_env_events NoFault (1100 * 10 ^ 9) (Some (ex_header ''engine'')) [] ex_db1
    = (Inr 200, logged (1100 * 10 ^ 9) ''engine'' ''e2'' ex_db1)"
proof -
  have "\<not> job_is_recent ex_lib (1100 * 10 ^ 9) 80"
    by (simp add: job_is_recent_def ex_lib_def timestamp_def nanos_per_sec_def unknown_job_grace_secs_def)
  then show ?thesis
    using ex_engine_answer [of ex_env_events ex_lib "1100 * 10 ^ 9" "Some (ex_header ''engine'')" ex_db1] ex_verified ex_secrets
    by (simp add: ex_env_events_def parse_event_def seen_def ex_db1_def empty_db_def)
qed

theorem delivery_takes_effect_once_witness:
  "(\<exists>db1. indexer_route ex_lib ex_env_events NoFault (1100 * 10 ^ 9) (Some (ex_header ''indexer'')) [] db1
      = (Inr 200, db1) \<and> db1 \<noteq> ex_db2)
    \<and> engine_route ex_lib ex_env_events NoFault (1100 * 10 ^ 9) (Some (ex_header ''engine'')) []
       (logged (1100 * 10 ^ 9) ''engine'' ''e2'' ex_db1) = (Inr 200, logged (1100 * 10 ^ 9) ''engine'' ''e2'' ex_db1)"
proof (intro conjI)
  let ?route = "indexer_route ex_lib ex_env_events NoFault (1100 * 10 ^ 9) (Some (ex_header ''indexer'')) []"
  have r: "?route ex_db2 = (Inr 200, snd (?route ex_db2))" using ex_indexer_answer by (metis prod.collapse)
  have "seen (snd (?route ex_db2)) ''indexer'' ''e1''"
    using indexer_seen [OF r] by (simp add: ex_env_events_def parse_event_def ex_indexer_event_def)
  moreover have "\<not> seen ex_db2 ''indexer'' ''e1''"
    by (simp add: seen_def ex_db2_def run_tx_def ex_create) (simp add: ex_db1_def empty_db_def)
  moreover have "inbound_verify ex_lib ex_env_events (1100 * 10 ^ 9) (ie_indexer_secret ex_env_events)
      (Some (ex_header ''indexer'')) [] = Inr ()" using ex_verified ex_secrets by simp
  ultimately show "\<exists>db1. ?route db1 = (Inr 200, db1) \<and> db1 \<noteq> ex_db2"
    using r delivery_takes_effect_once [OF subset_refl] by metis
  show "engine_route ex_lib ex_env_events NoFault (1100 * 10 ^ 9) (Some (ex_header ''engine'')) []
       (logged (1100 * 10 ^ 9) ''engine'' ''e2'' ex_db1) = (Inr 200, logged (1100 * 10 ^ 9) ''engine'' ''e2'' ex_db1)"
    using delivery_takes_effect_once [OF subset_refl] ex_engine_logged ex_verified ex_secrets by (metis list.distinct(1))
qed

end
