(* ===== verification/Retry_Properties.thy ===== *)
theory Retry_Properties
  imports Webhook_Properties
begin

text \<open>
  How often the service tries again: automatic resubmissions of a failed settlement, the leases and
  the backoff of the outbox (\<^verbatim>\<open>src/webhooks/inbound.rs\<close>, \<^verbatim>\<open>src/outbox/mod.rs\<close>).
\<close>

section \<open>Automatic resubmission\<close>

















section \<open>Leases\<close>







text \<open>
  C24. The retry policy: with a jitter between 0 and 1 the delay of a retry is at least the base and at
  most the cap of its kind (or the base, when that is larger); a job for an upstream service is
  never given up, and a webhook to the app exactly when it is older than the maximal age.
\<close>

theorem retry_policy:
  assumes "0 \<le> jitter" "jitter \<le> 1"
  shows "(\<forall>delay. schedule cfg kind attempts age jitter = SRetry delay \<longrightarrow> oc_retry_base_ms cfg \<le> delay
      \<and> delay \<le> max (oc_retry_base_ms cfg)
          (if kind = ''notify_app'' then oc_retry_cap_ms cfg else oc_upstream_retry_cap_ms cfg))
    \<and> (schedule cfg kind attempts age jitter = SDead \<longleftrightarrow> kind = ''notify_app'' \<and> oc_max_age_secs cfg < age)"
proof -
  have "schedule cfg kind attempts age jitter = SDead \<longleftrightarrow> kind = ''notify_app'' \<and> oc_max_age_secs cfg < age"
    by (simp add: schedule_def Let_def)
  then show ?thesis using schedule_bounds [OF _ assms] by blast
qed

theorem retry_policy_witness:
  "schedule ex_cfg ''notify_app'' 3 86401 (1 / 2) = SDead \<and> schedule ex_cfg ''submit_execute'' 3 86401 (1 / 2) \<noteq> SDead"
  using retry_policy [of "1 / 2" ex_cfg "''notify_app''" 3 86401]
    retry_policy [of "1 / 2" ex_cfg "''submit_execute''" 3 86401]
  by (simp add: ex_cfg_def)

end
