(* ===== verification/Account_Properties.thy ===== *)
theory Account_Properties
  imports Account Server Example_Lib
begin

text \<open>
  Properties of authentication and of the account routes: the invariant of the two tables, what an
  issued key authenticates, and for how long a replaced key is still accepted when any number of
  instances serve requests concurrently.
\<close>

section \<open>The account tables\<close>

definition accounts_ok :: "db \<Rightarrow> bool" where
  "accounts_ok db = (distinct (map u_id (users db)) \<and> distinct (map ak_user_id (api_keys db))
     \<and> distinct (map ak_key_hash (api_keys db)) \<and> ak_user_id ` set (api_keys db) \<subseteq> u_id ` set (users db))"

text \<open>Every statement of \<^verbatim>\<open>src/auth/\<close> and \<^verbatim>\<open>src/account/\<close>; \<open>other\<close> are the steps of the rest of the service.\<close>

inductive account_step :: "('c, 'l, 't) auth_env \<Rightarrow> lib \<Rightarrow> db \<Rightarrow> db \<Rightarrow> bool" for A L where
  privy: "authenticate_privy A L f now random token db s = (r, s', db') \<Longrightarrow> account_step A L db db'"
| touch: "account_step A L db (touch_key now h db)"
| create: "create_key L f now random p db = (r', db') \<Longrightarrow> account_step A L db db'"
| rotate: "rotate_key A L f now random p db s = (r', db', s') \<Longrightarrow> account_step A L db db'"
| webhook: "account_update url_parse url_string allow f p url db = (r'', db') \<Longrightarrow> account_step A L db db'"
| secret: "rotate_webhook_secret L f random p db = (r'', db') \<Longrightarrow> account_step A L db db'"

inductive account_run :: "('c, 'l, 't) auth_env \<Rightarrow> lib \<Rightarrow> db \<Rightarrow> db \<Rightarrow> bool" for A L where
  none: "account_run A L db db"
| step: "account_run A L db db' \<Longrightarrow> account_step A L db' db'' \<Longrightarrow> account_run A L db db''"
| other: "account_run A L db db' \<Longrightarrow> users db'' = users db' \<Longrightarrow> api_keys db'' = api_keys db' \<Longrightarrow> account_run A L db db''"

lemma map_upd_rows_const:
  assumes "\<forall>r \<in> set rows. p r \<longrightarrow> g (f r) = g r"
  shows "map g (upd_rows p f rows) = map g rows"
  using assms by (simp add: upd_rows_def)

lemma accounts_ok_users:
  "accounts_ok db \<Longrightarrow> map u_id us = map u_id (users db) \<Longrightarrow> accounts_ok (db\<lparr>users := us\<rparr>)"
  by (simp add: accounts_ok_def) (metis image_set)

lemma accounts_ok_update_user:
  "accounts_ok db \<Longrightarrow> (\<And>u. u_id (g u) = u_id u) \<Longrightarrow> accounts_ok (update_user user g db)"
  unfolding update_user_def by (intro accounts_ok_users map_upd_rows)

lemma accounts_ok_upsert: "accounts_ok db \<Longrightarrow> accounts_ok (upsert_user now user secret db)"
proof (cases "\<exists>u \<in> set (users db). u_id u = user")
  case True
  assume "accounts_ok db"
  then show ?thesis using True unfolding upsert_user_def by (simp add: accounts_ok_users map_upd_rows)
next
  case False
  assume "accounts_ok db"
  then show ?thesis using False by (auto simp: upsert_user_def accounts_ok_def)
qed

lemma accounts_ok_insert:
  assumes "accounts_ok db" "insert_key now user k db = Inr (r, db')"
  shows "accounts_ok db'"
proof (cases "r = None")
  case True
  with assms show ?thesis by (simp add: insert_key_def split: if_splits)
next
  case False
  with assms(2) have "user \<notin> ak_user_id ` set (api_keys db)" "gk_hash k \<notin> ak_key_hash ` set (api_keys db)"
      "user \<in> u_id ` set (users db)"
      "db' = db\<lparr>api_keys := api_keys db @ [\<lparr>ak_user_id = user, ak_key_hash = gk_hash k,
             ak_key_prefix = gk_prefix k, ak_created_at = now, ak_rotated_at = None,
             ak_last_used_at = None\<rparr>]\<rparr>"
    by (simp_all add: insert_key_def image_iff eq_commute split: if_splits)
  with assms(1) show ?thesis by (simp add: accounts_ok_def)
qed

lemma distinct_replace:
  assumes "distinct (map g rows)" "distinct (map h rows)" "\<forall>r \<in> set rows. h r \<noteq> u \<longrightarrow> g r \<noteq> v"
    and "\<And>r. g (f r) = v"
  shows "distinct (map g (upd_rows (\<lambda>r. h r = u) f rows))"
  using assms by (induction rows) (auto simp: upd_rows_def image_iff)

lemma accounts_ok_replace:
  assumes "accounts_ok db" "replace_key now user k db = Inr (r, db')"
  shows "accounts_ok db'"
proof (cases "find (\<lambda>r. ak_user_id r = user) (api_keys db)")
  case None
  with assms show ?thesis by (simp add: replace_key_def)
next
  case (Some old)
  let ?f = "\<lambda>r. r\<lparr>ak_key_hash := gk_hash k, ak_key_prefix := gk_prefix k, ak_rotated_at := Some now\<rparr>"
  let ?rows = "upd_rows (\<lambda>r. ak_user_id r = user) ?f (api_keys db)"
  from Some assms(2) have new: "\<forall>r \<in> set (api_keys db). ak_user_id r \<noteq> user \<longrightarrow> ak_key_hash r \<noteq> gk_hash k"
      and db': "db' = db\<lparr>api_keys := ?rows\<rparr>"
    by (auto simp: replace_key_def split: if_splits)
  have ids: "map ak_user_id ?rows = map ak_user_id (api_keys db)" by (rule map_upd_rows) simp
  then have "ak_user_id ` set ?rows = ak_user_id ` set (api_keys db)" by (metis image_set)
  moreover have "distinct (map ak_key_hash ?rows)"
    using assms(1) new by (intro distinct_replace) (simp_all add: accounts_ok_def)
  ultimately show ?thesis using assms(1) ids by (simp add: accounts_ok_def db')
qed

lemma accounts_ok_touch: "accounts_ok db \<Longrightarrow> accounts_ok (touch_key now h db)"
proof -
  let ?rows = "upd_rows (\<lambda>k. ak_key_hash k = h) (\<lambda>k. k\<lparr>ak_last_used_at := Some now\<rparr>) (api_keys db)"
  have "map ak_user_id ?rows = map ak_user_id (api_keys db)" "map ak_key_hash ?rows = map ak_key_hash (api_keys db)"
    by (rule map_upd_rows; simp)+
  moreover from this(1) have "ak_user_id ` set ?rows = ak_user_id ` set (api_keys db)" by (metis image_set)
  ultimately show "accounts_ok db \<Longrightarrow> ?thesis" by (simp add: accounts_ok_def touch_key_def)
qed

lemma accounts_ok_step: "account_step A L db db' \<Longrightarrow> accounts_ok db \<Longrightarrow> accounts_ok db'"
proof (induction rule: account_step.induct)
  case (privy f now random token db s r s' db')
  then show ?case
    by (auto simp: authenticate_privy_def Let_def intro: accounts_ok_upsert split: sum.splits privy_error.splits prod.splits
        if_splits option.splits)
next
  case (create f now random p db r' db')
  then show ?case
    by (auto simp: create_key_def run_tx_def Let_def intro: accounts_ok_insert split: sum.splits option.splits prod.splits)
next
  case (rotate f now random p db s r' db' s')
  then show ?case
    by (auto simp: rotate_key_def run_tx_def Let_def intro: accounts_ok_replace split: sum.splits option.splits prod.splits)
next
  case (webhook url_parse url_string allow f p url db r'' db')
  then show ?case
    by (auto simp: account_update_def Let_def intro: accounts_ok_update_user split: sum.splits option.splits)
next
  case (secret f random p db r'' db')
  then show ?case
    by (auto simp: rotate_webhook_secret_def Let_def intro: accounts_ok_update_user split: option.splits)
qed (rule accounts_ok_touch)

lemma accounts_ok_run: "account_run A L db db' \<Longrightarrow> accounts_ok db \<Longrightarrow> accounts_ok db'"
proof (induction rule: account_run.induct)
  case (other db db' db'')
  then show ?case by (simp add: accounts_ok_def)
qed (auto intro: accounts_ok_step)

text \<open>The server's step relation covers every account step.\<close>

lemma account_step_frame: "account_step A L db db' \<Longrightarrow> \<exists>us ks. db' = db\<lparr>users := us, api_keys := ks\<rparr>"
proof (induction rule: account_step.induct)
  have keep: "\<exists>us ks. db = db\<lparr>users := us, api_keys := ks\<rparr>" for db :: db
    by (rule exI [of _ "users db"], rule exI [of _ "api_keys db"]) simp
  have us: "\<exists>us' ks. db\<lparr>users := us\<rparr> = db\<lparr>users := us', api_keys := ks\<rparr>" for db :: db and us
    by (rule exI [of _ us], rule exI [of _ "api_keys db"]) simp
  have ks: "\<exists>us ks'. db\<lparr>api_keys := ks\<rparr> = db\<lparr>users := us, api_keys := ks'\<rparr>" for db :: db and ks
    by (rule exI [of _ "users db"], rule exI [of _ ks]) simp
  {
    case privy
    then show ?case using keep us
      by (auto simp: authenticate_privy_def upsert_user_def Let_def split: sum.splits privy_error.splits prod.splits
          if_splits option.splits)
  next
    case touch
    show ?case using ks by (simp add: touch_key_def)
  next
    case create
    then show ?case using keep ks
      by (auto simp: create_key_def run_tx_def insert_key_def Let_def split: sum.splits option.splits prod.splits if_splits)
  next
    case rotate
    then show ?case using keep ks
      by (auto simp: rotate_key_def run_tx_def replace_key_def Let_def split: sum.splits option.splits prod.splits if_splits)
  next
    case webhook
    then show ?case using keep us
      by (auto simp: account_update_def update_user_def Let_def split: sum.splits option.splits)
  next
    case secret
    then show ?case using keep us by (auto simp: rotate_webhook_secret_def update_user_def Let_def split: option.splits)
  }
qed

lemma account_step_db_step: "account_step A L db db' \<Longrightarrow> db_step L E db db'"
  using account_step_frame db_step.users by metis


text \<open>
  C35. One canonical key per user: in every state the service reaches from tables that are in order,
  a user has at most one API key, a key hash belongs to one user only, and that user exists; so a
  secret authenticates at most one account, whatever sequence of sign-ins, key creations, rotations
  and account updates came before.
\<close>

theorem one_key_per_account:
  assumes "account_run A L db db'" "accounts_ok db"
    and "k \<in> set (api_keys db')" "k' \<in> set (api_keys db')"
    and "ak_user_id k = ak_user_id k' \<or> ak_key_hash k = ak_key_hash k'"
  shows "k = k' \<and> (\<exists>!u. u \<in> set (users db') \<and> u_id u = ak_user_id k)"
proof -
  have ok: "accounts_ok db'" by (rule accounts_ok_run [OF assms(1,2)])
  have "k = k'"
    using assms(3-5) ok unique_by_key [of ak_user_id "api_keys db'" k k'] unique_by_key [of ak_key_hash "api_keys db'" k k']
    by (auto simp: accounts_ok_def)
  moreover obtain u where u: "u \<in> set (users db')" "u_id u = ak_user_id k"
    using ok assms(3) by (auto simp: accounts_ok_def)
  moreover have "u' = u" if "u' \<in> set (users db')" "u_id u' = ak_user_id k" for u'
    using ok that u by (intro unique_by_key [of u_id "users db'"]) (simp_all add: accounts_ok_def)
  ultimately show ?thesis by blast
qed

section \<open>What an issued key authenticates\<close>


lemma admit_key_result:
  "fst (admit_key A L now h owner s) = Inr \<lparr>pr_user_id = owner, pr_method = ApiKey\<rparr>
   \<or> fst (admit_key A L now h owner s) = Inl (api_error_new 429 ''rate_limited'' ''API key rate limit exceeded'')"
  by (auto simp: admit_key_def Let_def split: prod.splits)

lemma admit_key_owner: "fst (admit_key A L now h owner s) = Inr p \<Longrightarrow> p = \<lparr>pr_user_id = owner, pr_method = ApiKey\<rparr>"
  using admit_key_result [of A L now h owner s] by auto

lemma admit_key_keys: "admit_key A L now h owner s = (r, s', sp) \<Longrightarrow> is_keys s' = is_keys s"
  by (auto simp: admit_key_def first_touch_def Let_def split: prod.splits if_splits)




section \<open>A concrete instance\<close>

text \<open>A cache that keeps every entry for its whole time to live.\<close>

definition map_cache :: "time \<Rightarrow> ('k \<Rightarrow> ('v \<times> time) option, 'k, 'v) cache_ops" where
  "map_cache ttl = \<lparr>co_new = (\<lambda>k. None),
     co_get = (\<lambda>c t k. case c k of None \<Rightarrow> None | Some (v, t0) \<Rightarrow> if t < t0 + ttl then Some v else None),
     co_insert = (\<lambda>c t k v. c(k \<mapsto> (v, t))), co_invalidate = (\<lambda>c k. c(k := None))\<rparr>"

lemma map_cache_ok: "cache_ok (map_cache ttl) ttl"
  unfolding cache_ok_def map_cache_def by (auto split: option.splits if_splits)

definition ex_auth :: "(bytes \<Rightarrow> (string \<times> time) option, unit, string \<Rightarrow> (unit \<times> time) option) auth_env" where
  "ex_auth = \<lparr>az_keys = map_cache (make_interval 30), az_touched = map_cache (make_interval 60),
     az_allow = (\<lambda>l t h. (True, l)), az_decode = Some (\<lambda>token t. Inr (''did:privy:'' @ token)),
     az_admin_token = ''operator''\<rparr>"

definition ex_instance :: "(bytes \<Rightarrow> (string \<times> time) option, unit, string \<Rightarrow> (unit \<times> time) option) instance_state" where
  "ex_instance = \<lparr>is_keys = co_new (az_keys ex_auth), is_limiter = (), is_touched = co_new (az_touched ex_auth)\<rparr>"

definition ex_key_row :: api_key_row where
  "ex_key_row = \<lparr>ak_user_id = ''did:privy:a'', ak_key_hash = key_hash ex_lib ''gum_sk_0'', ak_key_prefix = ''gum_sk_0'',
     ak_created_at = 1, ak_rotated_at = None, ak_last_used_at = None\<rparr>"

definition ex_owner :: user_row where
  "ex_owner = \<lparr>u_id = ''did:privy:a'', u_webhook_secret = ''s'', u_default_webhook_url = None,
     u_created_at = 0, u_last_seen_at = 0\<rparr>"

definition ex_accounts :: db where
  "ex_accounts = empty_db\<lparr>users := [ex_owner], api_keys := [ex_key_row]\<rparr>"

definition ex_caller :: principal where
  "ex_caller = \<lparr>pr_user_id = ''did:privy:a'', pr_method = Privy\<rparr>"

lemma ex_accounts_ok: "accounts_ok ex_accounts"
  by (simp add: accounts_ok_def ex_accounts_def ex_owner_def ex_key_row_def)

lemma ex_generated:
  "generate_key ex_lib [] = \<lparr>gk_secret = ''gum_sk_'', gk_hash = key_hash ex_lib ''gum_sk_'', gk_prefix = ''gum_sk_''\<rparr>"
proof -
  have "l_hex_encode ex_lib [] = []" by (simp add: ex_lib_def ex_hex_encode_def)
  then show ?thesis by (simp add: generate_key_def key_prefix_def Let_def)
qed

lemma ex_rotation:
  "rotate_key ex_auth ex_lib (\<lambda>_. None) 5 [] ex_caller ex_accounts ex_instance =
     (Inr \<lparr>ik_api_key = ''gum_sk_'', ik_prefix = ''gum_sk_'', ik_issued_at = 1, ik_rotated_at = Some 5\<rparr>,
      ex_accounts\<lparr>api_keys := [ex_key_row\<lparr>ak_key_hash := key_hash ex_lib ''gum_sk_'', ak_key_prefix := ''gum_sk_'',
        ak_rotated_at := Some 5\<rparr>]\<rparr>, forget_key ex_auth (ak_key_hash ex_key_row) ex_instance)"
  by (simp add: rotate_key_def run_tx_def replace_key_def ex_accounts_def ex_caller_def ex_key_row_def upd_rows_def
      ex_generated)



theorem one_key_per_account_witness:
  "\<exists>db'. account_run ex_auth ex_lib ex_accounts db' \<and> db' \<noteq> ex_accounts
     \<and> (\<exists>k. api_keys db' = [k] \<and> (\<exists>!u. u \<in> set (users db') \<and> u_id u = ak_user_id k))"
proof -
  let ?k = "ex_key_row\<lparr>ak_key_hash := key_hash ex_lib ''gum_sk_'', ak_key_prefix := ''gum_sk_'', ak_rotated_at := Some 5\<rparr>"
  let ?db = "ex_accounts\<lparr>api_keys := [?k]\<rparr>"
  have "account_run ex_auth ex_lib ex_accounts ?db"
    by (rule account_run.step [OF account_run.none account_step.rotate [OF ex_rotation]])
  moreover from one_key_per_account [OF this ex_accounts_ok, of ?k ?k]
  have "\<exists>!u. u \<in> set (users ?db) \<and> u_id u = ak_user_id ?k" by simp
  moreover have "api_keys ?db \<noteq> api_keys ex_accounts" by (simp add: ex_accounts_def ex_key_row_def)
  then have "?db \<noteq> ex_accounts" by metis
  ultimately show ?thesis by (intro exI [of _ ?db]) simp
qed



section \<open>Concurrent requests on several instances\<close>

text \<open>
  A request that misses the cache reads the table and comes back later to remember the owner; between
  its statements anything may happen, on this instance and on others. \<open>Missed i h dl\<close> has missed the
  cache of instance \<open>i\<close> and may run until \<open>dl\<close> (\<open>server.request_timeout_ms\<close> after its start); \<open>Found\<close>
  has read the owner. \<open>fl_history\<close> records the key table at every moment, \<open>fl_accepted\<close> the requests
  that were authenticated.
\<close>

datatype key_request = Missed nat bytes time | Found nat bytes string time

record ('c, 'l, 't) fleet =
  fl_now :: time
  fl_keys :: "api_key_row list"
  fl_instance :: "nat \<Rightarrow> ('c, 'l, 't) instance_state"
  fl_requests :: "key_request list"
  fl_history :: "(time \<times> api_key_row list) list"
  fl_accepted :: "(time \<times> bytes \<times> string) list"

definition note_accepted ::
    "time \<Rightarrow> bytes \<Rightarrow> api_error + principal \<Rightarrow> (time \<times> bytes \<times> string) list \<Rightarrow> (time \<times> bytes \<times> string) list" where
  "note_accepted now h r acc = (case r of Inl e \<Rightarrow> acc | Inr p \<Rightarrow> (now, h, pr_user_id p) # acc)"

definition keys_only :: "api_key_row list \<Rightarrow> db" where
  "keys_only ks = empty_db\<lparr>api_keys := ks\<rparr>"

inductive fleet_step :: "('c, 'l, 't) auth_env \<Rightarrow> lib \<Rightarrow> time \<Rightarrow> ('c, 'l, 't) fleet \<Rightarrow> ('c, 'l, 't) fleet \<Rightarrow> bool"
  for A L D where
  clock: "fl_now F \<le> t \<Longrightarrow>
    fleet_step A L D F (F\<lparr>fl_now := t, fl_history := (t, fl_keys F) # fl_history F\<rparr>)"
| keys: "fleet_step A L D F (F\<lparr>fl_keys := ks, fl_history := (fl_now F, ks) # fl_history F\<rparr>)"
| hit: "co_get (az_keys A) (is_keys (fl_instance F i)) (fl_now F) h = Some owner \<Longrightarrow>
    admit_key A L (fl_now F) h owner (fl_instance F i) = (r, s, spawned) \<Longrightarrow>
    fleet_step A L D F (F\<lparr>fl_instance := (fl_instance F)(i := s),
      fl_accepted := note_accepted (fl_now F) h r (fl_accepted F)\<rparr>)"
| miss: "co_get (az_keys A) (is_keys (fl_instance F i)) (fl_now F) h = None \<Longrightarrow>
    fleet_step A L D F (F\<lparr>fl_requests := Missed i h (fl_now F + D) # fl_requests F\<rparr>)"
| select: "Missed i h dl \<in> set (fl_requests F) \<Longrightarrow> select_key h (keys_only (fl_keys F)) = Some owner \<Longrightarrow>
    fleet_step A L D F (F\<lparr>fl_requests := Found i h owner dl # remove1 (Missed i h dl) (fl_requests F)\<rparr>)"
| admit: "Found i h owner dl \<in> set (fl_requests F) \<Longrightarrow> fl_now F \<le> dl \<Longrightarrow>
    admit_key A L (fl_now F) h owner (remember_key A (fl_now F) h owner (fl_instance F i)) = (r, s, spawned) \<Longrightarrow>
    fleet_step A L D F (F\<lparr>fl_instance := (fl_instance F)(i := s),
      fl_requests := remove1 (Found i h owner dl) (fl_requests F),
      fl_accepted := note_accepted (fl_now F) h r (fl_accepted F)\<rparr>)"
| drop: "fleet_step A L D F (F\<lparr>fl_requests := remove1 q (fl_requests F)\<rparr>)"
| forget: "fleet_step A L D F (F\<lparr>fl_instance := (fl_instance F)(i := forget_key A h (fl_instance F i))\<rparr>)"

definition fleet_start :: "('c, 'l, 't) auth_env \<Rightarrow> (nat \<Rightarrow> ('c, 'l, 't) instance_state) \<Rightarrow> ('c, 'l, 't) fleet \<Rightarrow> bool" where
  "fleet_start A insts F = ((\<forall>i. is_keys (insts i) = co_new (az_keys A)) \<and> fl_instance F = insts
     \<and> fl_requests F = [] \<and> fl_history F = [(fl_now F, fl_keys F)] \<and> fl_accepted F = [])"

inductive fleet_run :: "('c, 'l, 't) auth_env \<Rightarrow> lib \<Rightarrow> time \<Rightarrow> ('c, 'l, 't) fleet \<Rightarrow> bool" for A L D where
  start: "fleet_start A insts F \<Longrightarrow> fleet_run A L D F"
| step: "fleet_run A L D F \<Longrightarrow> fleet_step A L D F F' \<Longrightarrow> fleet_run A L D F'"

text \<open>At some moment from \<open>t1\<close> to \<open>t2\<close> the table had the hash for the owner.\<close>

definition stored_in :: "(time \<times> api_key_row list) list \<Rightarrow> bytes \<Rightarrow> string \<Rightarrow> time \<Rightarrow> time \<Rightarrow> bool" where
  "stored_in hist h owner t1 t2 = (\<exists>(t0, ks) \<in> set hist. t1 \<le> t0 \<and> t0 \<le> t2
     \<and> (\<exists>k \<in> set ks. ak_key_hash k = h \<and> ak_user_id k = owner))"

lemma stored_in_mono:
  "stored_in hist h u t1 t2 \<Longrightarrow> set hist \<subseteq> set hist' \<Longrightarrow> t1' \<le> t1 \<Longrightarrow> t2 \<le> t2' \<Longrightarrow> stored_in hist' h u t1' t2'"
  unfolding stored_in_def by (smt (verit, best) case_prodE case_prodI2 prod.inject subsetD)

fun request_ok :: "time \<Rightarrow> (time \<times> api_key_row list) list \<Rightarrow> time \<Rightarrow> key_request \<Rightarrow> bool" where
  "request_ok now hist D (Missed i h dl) = (dl \<le> now + D)"
| "request_ok now hist D (Found i h owner dl) = stored_in hist h owner (dl - D) now"

definition fleet_ok :: "('c, 'l, 't) auth_env \<Rightarrow> time \<Rightarrow> time \<Rightarrow> ('c, 'l, 't) fleet \<Rightarrow> bool" where
  "fleet_ok A ttl D F = ((fl_now F, fl_keys F) \<in> set (fl_history F)
     \<and> (\<forall>q \<in> set (fl_requests F). request_ok (fl_now F) (fl_history F) D q)
     \<and> (\<forall>i t h owner. co_get (az_keys A) (is_keys (fl_instance F i)) t h = Some owner \<longrightarrow>
          stored_in (fl_history F) h owner (t - ttl - D) (fl_now F))
     \<and> (\<forall>(t, h, owner) \<in> set (fl_accepted F). stored_in (fl_history F) h owner (t - ttl - D) t))"

lemma fleet_okD:
  assumes "fleet_ok A ttl D F"
  shows "(fl_now F, fl_keys F) \<in> set (fl_history F)"
    and "q \<in> set (fl_requests F) \<Longrightarrow> request_ok (fl_now F) (fl_history F) D q"
    and "co_get (az_keys A) (is_keys (fl_instance F i)) t h = Some owner \<Longrightarrow>
      stored_in (fl_history F) h owner (t - ttl - D) (fl_now F)"
    and "\<forall>(t, h, owner) \<in> set (fl_accepted F). stored_in (fl_history F) h owner (t - ttl - D) t"
  using assms unfolding fleet_ok_def by auto

lemma request_ok_mono:
  "request_ok now hist D q \<Longrightarrow> set hist \<subseteq> set hist' \<Longrightarrow> now \<le> now' \<Longrightarrow> request_ok now' hist' D q"
  by (cases q) (auto intro: stored_in_mono)

lemma fleet_ok_later:
  assumes "fleet_ok A ttl D F" "fl_now F \<le> t" "hist = (t, ks) # fl_history F"
  shows "fleet_ok A ttl D (F\<lparr>fl_now := t, fl_keys := ks, fl_history := hist\<rparr>)"
proof -
  have sub: "set (fl_history F) \<subseteq> set hist" using assms(3) by auto
  have "request_ok t hist D q" if "q \<in> set (fl_requests F)" for q
    using assms(1,2) that sub by (auto simp: fleet_ok_def intro: request_ok_mono)
  moreover have "stored_in hist h owner (t' - ttl - D) t"
    if "co_get (az_keys A) (is_keys (fl_instance F i)) t' h = Some owner" for i t' h owner
    by (rule stored_in_mono [OF fleet_okD(3) [OF assms(1) that] sub]) (simp_all add: assms(2))
  moreover have "stored_in hist h owner (t' - ttl - D) t'" if "(t', h, owner) \<in> set (fl_accepted F)" for t' h owner
    using assms(1) that sub by (auto simp: fleet_ok_def intro: stored_in_mono)
  ultimately show ?thesis using assms(3) by (auto simp: fleet_ok_def)
qed

lemma note_accepted_ok:
  assumes "stored_in hist h owner (now - ttl - D) now" "admit_key A L now h owner s0 = (r, s, sp)"
    and "\<forall>(t, h, owner) \<in> set acc. stored_in hist h owner (t - ttl - D) t"
  shows "\<forall>(t, h, owner) \<in> set (note_accepted now h r acc). stored_in hist h owner (t - ttl - D) t"
  using assms admit_key_owner [of A L now h owner s0] by (auto simp: note_accepted_def split: sum.splits)

lemma fleet_ok_step:
  assumes "fleet_step A L D F F'" "fleet_ok A ttl D F" "cache_ok (az_keys A) ttl" "0 \<le> ttl" "0 \<le> D"
  shows "fleet_ok A ttl D F'"
  using assms(1,2)
proof (induction rule: fleet_step.induct)
  case (clock F t)
  then show ?case using fleet_ok_later [of A ttl D F t _ "fl_keys F"] by simp
next
  case (keys F ks)
  then show ?case using fleet_ok_later [of A ttl D F "fl_now F" _ ks] by simp
next
  case (hit F i h owner r s spawned)
  have "stored_in (fl_history F) h owner (fl_now F - ttl - D) (fl_now F)"
    using hit(1,3) by (simp add: fleet_ok_def)
  from note_accepted_ok [OF this hit(2) fleet_okD(4) [OF hit(3)]] show ?case
    using hit(3) admit_key_keys [OF hit(2)] by (auto simp: fleet_ok_def)
next
  case (miss F i h)
  then show ?case by (simp add: fleet_ok_def)
next
  case (select i h dl F owner)
  obtain k where k: "k \<in> set (fl_keys F)" "ak_key_hash k = h" "ak_user_id k = owner"
    using select(2) by (auto simp: select_key_def keys_only_def empty_db_def dest: find_SomeD)
  have "dl \<le> fl_now F + D" using select(1,3) by (force simp: fleet_ok_def)
  moreover have "(fl_now F, fl_keys F) \<in> set (fl_history F)" using select(3) by (simp add: fleet_ok_def)
  ultimately have "stored_in (fl_history F) h owner (dl - D) (fl_now F)"
    using k unfolding stored_in_def by (intro bexI [of _ "(fl_now F, fl_keys F)"]) auto
  then show ?case using select(3) by (auto simp: fleet_ok_def dest: notin_set_remove1)
next
  case (admit i h owner dl F r s spawned)
  have old: "stored_in (fl_history F) h owner (dl - D) (fl_now F)"
    using admit(1,4) by (force simp: fleet_ok_def)
  then have now: "stored_in (fl_history F) h owner (fl_now F - ttl - D) (fl_now F)"
    using admit(2) assms(4) by (auto intro: stored_in_mono)
  have "stored_in (fl_history F) h' owner' (t - ttl - D) (fl_now F)"
    if g: "co_get (az_keys A) (is_keys s) t h' = Some owner'" for t h' owner'
  proof -
    have "is_keys s = co_insert (az_keys A) (is_keys (fl_instance F i)) (fl_now F) h owner"
      using admit_key_keys [OF admit(3)] by (simp add: remember_key_def)
    from cache_insert [OF assms(3) g [unfolded this]] show ?thesis
      using old admit(2,4) by (auto simp: fleet_ok_def intro: stored_in_mono)
  qed
  with note_accepted_ok [OF now admit(3) fleet_okD(4) [OF admit(4)]] show ?case
    using admit(4) by (auto simp: fleet_ok_def dest: notin_set_remove1)
next
  case (drop F q)
  then show ?case by (auto simp: fleet_ok_def dest: notin_set_remove1)
next
  case (forget F i h)
  have "stored_in (fl_history F) h' owner' (t - ttl - D) (fl_now F)"
    if "co_get (az_keys A) (is_keys (forget_key A h (fl_instance F i))) t h' = Some owner'" for t h' owner'
    using cache_invalidate [OF assms(3) that [unfolded forget_key_def, simplified]] fleet_okD(3) [OF forget] by blast
  then show ?case using forget by (simp add: fleet_ok_def)
qed


lemma fleet_ok_start: "fleet_start A insts F \<Longrightarrow> cache_ok (az_keys A) ttl \<Longrightarrow> fleet_ok A ttl D F"
  by (simp add: fleet_start_def fleet_ok_def cache_new)

lemma fleet_ok_run:
  assumes "cache_ok (az_keys A) ttl" "0 \<le> ttl" "0 \<le> D"
  shows "fleet_run A L D F \<Longrightarrow> fleet_ok A ttl D F"
  by (induction rule: fleet_run.induct) (auto intro: fleet_ok_start fleet_ok_step assms)

text \<open>
  C28. How long a replaced key lives: over every interleaving of requests, key creations, rotations and
  cache invalidations on any number of instances, a request that is authenticated by an API key finds
  the hash of its secret stored for that account at some moment at most the cache's time to live plus
  one request timeout earlier. A key that left the table longer ago than that is refused everywhere.
\<close>

theorem accepted_key_was_stored:
  assumes "fleet_run A L D F" "cache_ok (az_keys A) ttl" "0 \<le> ttl" "0 \<le> D" "(t, h, owner) \<in> set (fl_accepted F)"
  shows "\<exists>t0 ks k. (t0, ks) \<in> set (fl_history F) \<and> t - ttl - D \<le> t0 \<and> t0 \<le> t
    \<and> k \<in> set ks \<and> ak_key_hash k = h \<and> ak_user_id k = owner"
proof -
  have "stored_in (fl_history F) h owner (t - ttl - D) t"
    using fleet_okD(4) [OF fleet_ok_run [OF assms(2-4,1)]] assms(5) by blast
  then show ?thesis unfolding stored_in_def by blast
qed

text \<open>
  The moment need not be before a rotation: a request that reads the table before the rotation and
  remembers the owner after it leaves the old key in the cache of the instance that rotated.
\<close>

definition ex_fleet :: "time \<Rightarrow> api_key_row list \<Rightarrow> key_request list
    \<Rightarrow> (bytes \<Rightarrow> (string \<times> time) option, unit, string \<Rightarrow> (unit \<times> time) option) fleet" where
  "ex_fleet now ks qs = \<lparr>fl_now = now, fl_keys = ks, fl_instance = (\<lambda>i. ex_instance), fl_requests = qs,
     fl_history = [(now, ks)], fl_accepted = []\<rparr>"

lemma ex_admit:
  "\<exists>s sp. admit_key ex_auth ex_lib t h owner s0 = (Inr \<lparr>pr_user_id = owner, pr_method = ApiKey\<rparr>, s, sp)"
  by (simp add: admit_key_def ex_auth_def Let_def split: prod.splits)

lemma rotated_key_returns:
  assumes "h = ak_key_hash ex_key_row" "ks = [ex_key_row\<lparr>ak_key_hash := key_hash ex_lib ''gum_sk_'', ak_key_prefix := ''gum_sk_'',
      ak_rotated_at := Some 5\<rparr>]"
  shows "\<exists>F. fleet_run ex_auth ex_lib 10 F \<and> fl_keys F = ks \<and> (5, h, ''did:privy:a'') \<in> set (fl_accepted F)
    \<and> fl_history F = [(5, ks), (5, [ex_key_row])]
    \<and> co_get (az_keys ex_auth) (is_keys (fl_instance F 0)) 5 h = Some ''did:privy:a''"
proof -
  let ?step = "fleet_step ex_auth ex_lib 10"
  let ?F0 = "ex_fleet 5 [ex_key_row] []"
  let ?F1 = "ex_fleet 5 [ex_key_row] [Missed 0 h 15]"
  let ?F2 = "ex_fleet 5 [ex_key_row] [Found 0 h ''did:privy:a'' 15]"
  let ?F3 = "?F2\<lparr>fl_keys := ks, fl_history := (fl_now ?F2, ks) # fl_history ?F2\<rparr>"
  let ?F4 = "?F3\<lparr>fl_instance := (fl_instance ?F3)(0 := forget_key ex_auth h (fl_instance ?F3 0))\<rparr>"
  have 0: "fleet_run ex_auth ex_lib 10 ?F0"
    by (rule fleet_run.start [where insts = "\<lambda>i. ex_instance"]) (simp add: fleet_start_def ex_fleet_def ex_instance_def)
  have "co_get (az_keys ex_auth) (is_keys (fl_instance ?F0 0)) (fl_now ?F0) h = None"
    by (simp add: ex_fleet_def ex_instance_def ex_auth_def map_cache_def)
  from fleet_step.miss [OF this, of ex_lib 10] have "?step ?F0 ?F1" by (simp add: ex_fleet_def)
  with 0 have 1: "fleet_run ex_auth ex_lib 10 ?F1" by (rule fleet_run.step)
  have "select_key h (keys_only (fl_keys ?F1)) = Some ''did:privy:a''"
    by (simp add: select_key_def keys_only_def ex_fleet_def assms(1) ex_key_row_def)
  from fleet_step.select [OF _ this, of 0 15 ex_auth ex_lib 10] have "?step ?F1 ?F2" by (simp add: ex_fleet_def)
  with 1 have 2: "fleet_run ex_auth ex_lib 10 ?F2" by (rule fleet_run.step)
  have 3: "fleet_run ex_auth ex_lib 10 ?F3" by (rule fleet_run.step [OF 2 fleet_step.keys])
  have 4: "fleet_run ex_auth ex_lib 10 ?F4" by (rule fleet_run.step [OF 3 fleet_step.forget])
  obtain s sp where s: "admit_key ex_auth ex_lib (fl_now ?F4) h ''did:privy:a'' (remember_key ex_auth (fl_now ?F4) h ''did:privy:a''
      (fl_instance ?F4 0)) = (Inr \<lparr>pr_user_id = ''did:privy:a'', pr_method = ApiKey\<rparr>, s, sp)"
    using ex_admit by blast
  let ?F5 = "?F4\<lparr>fl_instance := (fl_instance ?F4)(0 := s), fl_requests := remove1 (Found 0 h ''did:privy:a'' 15) (fl_requests ?F4),
      fl_accepted := note_accepted (fl_now ?F4) h (Inr \<lparr>pr_user_id = ''did:privy:a'', pr_method = ApiKey\<rparr>) (fl_accepted ?F4)\<rparr>"
  have "?step ?F4 ?F5" by (rule fleet_step.admit [OF _ _ s]) (simp_all add: ex_fleet_def)
  with 4 have "fleet_run ex_auth ex_lib 10 ?F5" by (rule fleet_run.step)
  moreover have "is_keys s = co_insert (az_keys ex_auth) (is_keys (fl_instance ?F4 0)) 5 h ''did:privy:a''"
    using admit_key_keys [OF s] by (simp add: remember_key_def ex_fleet_def)
  then have "co_get (az_keys ex_auth) (is_keys (fl_instance ?F5 0)) 5 h = Some ''did:privy:a''"
    by (simp add: ex_auth_def map_cache_def make_interval_def nanos_per_sec_def)
  ultimately show ?thesis
    by (intro exI [of _ ?F5]) (simp add: ex_fleet_def note_accepted_def)
qed

theorem accepted_key_was_stored_witness:
  "\<exists>F :: (bytes \<Rightarrow> (string \<times> time) option, unit, string \<Rightarrow> (unit \<times> time) option) fleet.
     fleet_run ex_auth ex_lib 10 F \<and> (5, ak_key_hash ex_key_row, ''did:privy:a'') \<in> set (fl_accepted F)
     \<and> (\<exists>t0 ks k. (t0, ks) \<in> set (fl_history F) \<and> 5 - make_interval 30 - 10 \<le> t0 \<and> t0 \<le> 5
        \<and> k \<in> set ks \<and> ak_key_hash k = ak_key_hash ex_key_row \<and> ak_user_id k = ''did:privy:a'')"
proof -
  have c: "cache_ok (az_keys ex_auth) (make_interval 30)" by (simp add: ex_auth_def map_cache_ok)
  have i: "0 \<le> make_interval 30" by (simp add: make_interval_def nanos_per_sec_def)
  obtain F where F: "fleet_run ex_auth ex_lib 10 F" "(5, ak_key_hash ex_key_row, ''did:privy:a'') \<in> set (fl_accepted F)"
    using rotated_key_returns [OF refl refl] by blast
  from accepted_key_was_stored [OF F(1) c i _ F(2)] F show ?thesis by auto
qed


section \<open>Who a request acts for\<close>

lemma upsert_user_in: "user \<in> u_id ` set (users (upsert_user now user secret db))"
proof (cases "\<exists>u \<in> set (users db). u_id u = user")
  case True
  have "map u_id (upd_rows (\<lambda>u. u_id u = user) (\<lambda>u. u\<lparr>u_last_seen_at := now\<rparr>) (users db)) = map u_id (users db)"
    by (rule map_upd_rows) simp
  then have "u_id ` set (users (upsert_user now user secret db)) = u_id ` set (users db)"
    using True by (simp add: upsert_user_def) (metis image_set)
  with True show ?thesis by auto
qed (simp add: upsert_user_def)

text \<open>
  C33. A request acts for an account only with a credential of it: with an API key when the table, or an
  entry of the cache, has its hash for that account, and then no table is changed; with a Privy token
  when a verifier is configured and accepts the token for that subject, a Privy DID, which is then a
  user unless this instance already saw it within the last minute. A route that is reserved to the web
  UI is reached with a Privy token only.
\<close>

theorem principal_is_authentic:
  assumes "principal_of A L f now random H db s = (Inr p, s', db', spawned)"
  shows "((\<exists>secret. credential_of H = Inr (KeyCredential secret) \<and> p = \<lparr>pr_user_id = pr_user_id p, pr_method = ApiKey\<rparr>
      \<and> (co_get (az_keys A) (is_keys s) now (key_hash L secret) = Some (pr_user_id p)
          \<or> select_key (key_hash L secret) db = Some (pr_user_id p)) \<and> db' = db)
    \<or> (\<exists>token decode. credential_of H = Inr (PrivyCredential token) \<and> p = \<lparr>pr_user_id = pr_user_id p, pr_method = Privy\<rparr>
      \<and> az_decode A = Some decode \<and> decode token now = Inr (pr_user_id p) \<and> starts_with (pr_user_id p) ''did:privy:''
      \<and> (co_get (az_touched A) (is_touched s) now (''user:'' @ pr_user_id p) = None \<longrightarrow>
           pr_user_id p \<in> u_id ` set (users db'))))
    \<and> (privy_only (Inr p) = Inr p \<longleftrightarrow> (\<exists>token. credential_of H = Inr (PrivyCredential token)))"
proof (cases "credential_of H")
  case (Inl e)
  with assms show ?thesis by (simp add: principal_of_def)
next
  case (Inr c)
  show ?thesis
  proof (cases c)
    case (KeyCredential secret)
    let ?r = "authenticate_api_key A L f now secret db s"
    have r: "fst ?r = Inr p" "db' = db"
      using assms Inr KeyCredential by (auto simp: principal_of_def split: prod.splits)
    from r(1) have "p = \<lparr>pr_user_id = pr_user_id p, pr_method = ApiKey\<rparr>
        \<and> (co_get (az_keys A) (is_keys s) now (key_hash L secret) = Some (pr_user_id p)
          \<or> select_key (key_hash L secret) db = Some (pr_user_id p))"
      by (auto simp: authenticate_api_key_def Let_def split: option.splits dest!: admit_key_owner)
    moreover from this have "pr_method p = ApiKey" by (metis principal.select_convs(2))
    ultimately show ?thesis using Inr KeyCredential r(2) by (simp add: privy_only_def)
  next
    case (PrivyCredential token)
    have r: "authenticate_privy A L f now random token db s = (Inr p, s', db')"
      using assms Inr PrivyCredential by (auto simp: principal_of_def split: prod.splits)
    then obtain decode where d: "az_decode A = Some decode" "decode token now = Inr (pr_user_id p)"
        "starts_with (pr_user_id p) ''did:privy:''" "p = \<lparr>pr_user_id = pr_user_id p, pr_method = Privy\<rparr>"
      by (auto simp: authenticate_privy_def privy_verify_def Let_def
          split: option.splits sum.splits privy_error.splits prod.splits if_splits)
    then have "pr_user_id p \<in> u_id ` set (users db')"
      if "co_get (az_touched A) (is_touched s) now (''user:'' @ pr_user_id p) = None"
      using r that upsert_user_in by (auto simp: authenticate_privy_def privy_verify_def first_touch_def Let_def
          split: option.splits if_splits)
    moreover from d(4) have "pr_method p = Privy" by (metis principal.select_convs(2))
    ultimately show ?thesis using Inr PrivyCredential d by (simp add: privy_only_def)
  qed
qed

definition ex_headers :: headers where
  "ex_headers = [''privy-id-token'' \<mapsto> HeaderText ''a'']"

lemma trim_a: "trim ''a'' = ''a''"
  by (rule trim_graphic) (simp add: is_graphic_def char_code_def)

lemma ex_sign_in:
  "\<exists>s. principal_of ex_auth ex_lib (\<lambda>_. None) 3 [] ex_headers empty_db ex_instance =
    (Inr ex_caller, s, upsert_user 3 ''did:privy:a'' (generate_webhook_secret ex_lib []) empty_db, None)"
  by (simp add: principal_of_def credential_of_def ex_headers_def trim_a authenticate_privy_def privy_verify_def ex_auth_def
      first_touch_def ex_instance_def map_cache_def ex_caller_def starts_with_def Let_def)

theorem principal_is_authentic_witness:
  "\<exists>db'. (\<exists>s. principal_of ex_auth ex_lib (\<lambda>_. None) 3 [] ex_headers empty_db ex_instance = (Inr ex_caller, s, db', None))
     \<and> ''did:privy:a'' \<in> u_id ` set (users db') \<and> privy_only (Inr ex_caller) = Inr ex_caller"
proof -
  obtain s where s: "principal_of ex_auth ex_lib (\<lambda>_. None) 3 [] ex_headers empty_db ex_instance =
      (Inr ex_caller, s, upsert_user 3 ''did:privy:a'' (generate_webhook_secret ex_lib []) empty_db, None)"
    using ex_sign_in by blast
  have "co_get (az_touched ex_auth) (is_touched ex_instance) 3 (''user:'' @ pr_user_id ex_caller) = None"
    by (simp add: ex_auth_def ex_instance_def map_cache_def)
  moreover have "pr_method ex_caller = Privy" "pr_user_id ex_caller = ''did:privy:a''" by (simp_all add: ex_caller_def)
  ultimately show ?thesis
    using principal_is_authentic [OF s] s by (auto simp: privy_only_def dest!: arg_cong [of ex_caller _ pr_method])
qed

text \<open>
  A user can be missed: \<open>first_touch\<close> marks the user before the statement that creates the row, so when
  that statement fails the next sign-in within a minute succeeds for an account that does not exist.
\<close>

lemma first_touch_loses_user:
  "\<exists>s. authenticate_privy ex_auth ex_lib (\<lambda>_. Some PoolTimedOut) 3 [] ''a'' empty_db ex_instance
      = (Inl (api_of_sqlx PoolTimedOut), s, empty_db)
    \<and> (\<exists>s'. authenticate_privy ex_auth ex_lib (\<lambda>_. None) 4 [] ''a'' empty_db s = (Inr ex_caller, s', empty_db))
    \<and> create_key ex_lib (\<lambda>_. None) 5 [] ex_caller empty_db = (Inl api_internal, empty_db)"
  by (simp add: authenticate_privy_def privy_verify_def ex_auth_def first_touch_def ex_instance_def map_cache_def
      starts_with_def ex_caller_def create_key_def insert_key_def run_tx_def empty_db_def Let_def
      make_interval_def nanos_per_sec_def)

end
