(* ===== verification/Config_Properties.thy ===== *)
theory Config_Properties
  imports Config Example_Run
begin

text \<open>What a configuration that loads guarantees to the rest of the service.\<close>








end
