(* ===== verification/Create_Properties.thy ===== *)
theory Create_Properties
  imports Example_Run Deposit_Request
begin

text \<open>
  Properties of how a deposit comes to be and how it is listed: validation
  (\<^verbatim>\<open>src/deposit/request.rs\<close>), creation with an idempotency key, the address a deposit is paid at and
  the pages of the listing (\<^verbatim>\<open>src/deposit/store.rs\<close>, \<^verbatim>\<open>src/chain/payment.rs\<close>).
\<close>

section \<open>Idempotent creation\<close>

lemma record_event_keys:
  assumes "record_event L now d ty data db = Inr (e, db')"
  shows "idempotency_keys db' = idempotency_keys db"
proof -
  obtain n db1 where b: "bump_seq d db = Inr (n, db1)"
    using assms unfolding record_event_def and_then_eq_Inr by blast
  have "idempotency_keys db1 = idempotency_keys db"
    using b by (auto simp: bump_seq_def update_returning_def split: option.splits)
  then show ?thesis
    using assms unfolding record_event_def Let_def and_then_Inr [where m = "bump_seq d" and db = db, OF b]
    by (auto simp: and_then_eq_Inr new_uuid_def insert_event_def tx_return_def notify_app_event_def
        enqueue_def split: if_splits option.splits)
qed

lemma create_tx_key:
  assumes "create_tx L now user n (Some idem) db = Inr (Some d, db')"
  shows "find_idempotency db user (idem_key idem) = None
    \<and> find_idempotency db' user (idem_key idem) = Some \<lparr>ik_user_id = user, ik_key = idem_key idem,
        ik_request_hash = idem_fingerprint idem, ik_deposit_id = d_id d, ik_created_at = now\<rparr>"
proof -
  obtain d0 db1 where i: "insert_deposit L now user n db = Inr (d0, db1)"
    using assms unfolding create_tx_def and_then_eq_Inr by blast
  have keys1: "idempotency_keys db1 = idempotency_keys db"
    using i by (auto simp: insert_deposit_def and_then_def new_uuid_def Let_def split: if_splits)
  obtain c db2 where c: "claim_key now user (Some idem) (d_id d0) db1 = Inr (c, db2)"
      and rest: "(if \<not> c then (\<lambda>_. Inr (None, db))
       else and_then (record_event L now d0 ev_created (JObj [])) (\<lambda>_.
            and_then (enqueue L now ''register_watch'' (d_id d0) (JObj [])) (\<lambda>_.
              tx_return (Some d0)))) db2 = Inr (Some d, db')"
    using assms i unfolding create_tx_def and_then_eq_Inr by (auto simp: and_then_eq_Inr)
  then obtain e db3 where r: "c" "record_event L now d0 ev_created (JObj []) db2 = Inr (e, db3)"
      "d = d0" "idempotency_keys db' = idempotency_keys db3"
    by (auto simp: and_then_eq_Inr enqueue_def new_uuid_def tx_return_def split: if_splits)
  have "find_idempotency db user (idem_key idem) = None"
    using c r(1) keys1 by (auto simp: claim_key_def find_idempotency_def split: if_splits)
  moreover have "idempotency_keys db' = idempotency_keys db @ [\<lparr>ik_user_id = user, ik_key = idem_key idem,
        ik_request_hash = idem_fingerprint idem, ik_deposit_id = d_id d, ik_created_at = now\<rparr>]"
    using c r keys1 record_event_keys [OF r(2)] by (auto simp: claim_key_def split: if_splits)
  ultimately show ?thesis by (simp add: find_idempotency_def find_append)
qed

text \<open>
  C15. An idempotency key makes at most one deposit: when a request with a key created a deposit, no
  earlier request had committed that key, and every later request of the user with the key, as long
  as the key is kept, creates nothing: it gets the same deposit, as it is by then, if its body has the
  same fingerprint, and a conflict otherwise.
\<close>

theorem idempotent_create:
  assumes "create_deposit L now others user n (Some idem) db = (Inr (Created d), db1)"
    and "find_idempotency db2 user (idem_key idem) = find_idempotency db1 user (idem_key idem)"
    and "get db2 (d_id d) = Some d2" "idem_key idem' = idem_key idem"
  shows "find_idempotency (others db) user (idem_key idem) = None
    \<and> create_deposit L now' others' user n' (Some idem') db2 =
        (Inr (if idem_fingerprint idem' = idem_fingerprint idem then Replayed d2 else Conflict), db2)"
proof -
  have "create_tx L now user n (Some idem) (others db) = Inr (Some d, db1)"
    using assms(1) by (auto simp: create_deposit_def Let_def run_tx_def lookup_idempotent_def
        split: option.splits sum.splits if_splits)
  from create_tx_key [OF this] show ?thesis
    using assms(2-4) by (simp add: create_deposit_def lookup_idempotent_def)
qed

theorem idempotent_create_witness:
  "create_deposit ex_lib 5000 (\<lambda>db. db) ''u'' ex_new (Some ex_idem) ex_db3 = (Inr (Replayed ex_paid), ex_db3)
    \<and> create_deposit ex_lib 5000 (\<lambda>db. db) ''u'' ex_new (Some \<lparr>idem_key = ''k'', idem_fingerprint = [2]\<rparr>) ex_db3
        = (Inr Conflict, ex_db3)"
proof -
  have c: "create_deposit ex_lib 1000 (\<lambda>db. db) ''u'' ex_new (Some ex_idem) ex_db1
      = (Inr (Created (new_row ex_lib 1000 0 ''u'' ex_new)), ex_db2)"
  proof -
    have "lookup_idempotent ex_db1 ''u'' ex_idem = None"
      by (simp add: lookup_idempotent_def find_idempotency_def ex_db1_def empty_db_def)
    then show ?thesis by (simp add: create_deposit_def ex_create ex_db2_def run_tx_def)
  qed
  have k: "idempotency_keys ex_db3 = idempotency_keys ex_db2"
    by (simp add: ex_db3_def reconcile_open_one_def ex_stale_def ex_poll_def run_faulty_def
      open_transition_def apply_threshold_reached_def enqueue_execute_def is_changed_def ex_db2_eq tx_eval
      new_row_def bump_def ex_new_def ex_user_def)
  then have f: "find_idempotency ex_db3 ''u'' (idem_key ex_idem) = find_idempotency ex_db2 ''u'' (idem_key ex_idem)"
    by (simp add: find_idempotency_def)
  have g: "get ex_db3 (d_id (new_row ex_lib 1000 0 ''u'' ex_new)) = Some ex_paid"
    by (simp add: get_def select_deposit_def ex_db3_eq) (simp add: ex_paid_def bump_def new_row_def)
  from idempotent_create [OF c f g, of ex_idem] idempotent_create [OF c f g, of "\<lparr>idem_key = ''k'', idem_fingerprint = [2]\<rparr>"]
  show ?thesis by (simp add: ex_idem_def)
qed

section \<open>What a validated request becomes\<close>

text \<open>
  C13. A request that passes validation is for an enabled chain of the registry and a token of that
  chain; its amount is the positive number its decimal digits spell and fits 256 bits; its receiver is
  none of the zero address, the recovery address, the token, the factory and the payment
  implementation; its expiry lies within the configured bounds, in whole seconds; its only call
  transfers the whole amount of the token to the receiver, and the payment address is the address of
  exactly these terms.
\<close>

theorem validated_request:
  assumes "u256_radix_ok L" "validate_request L V req now salt = Inr n"
  shows "\<exists>chain token s. registry_chain (v_registry V) (the (chain_text (cr_chain_id req))) = Some chain
      \<and> cs_enabled chain \<and> token \<in> set (cs_tokens chain)
      \<and> n_chain_id n = cs_chain_id chain \<and> n_token_address n = ts_address token
      \<and> cr_amount req = JStr s \<and> all_digits (trim s) \<and> unat (n_amount n) = dec_value (trim s) \<and> n_amount n \<noteq> 0
      \<and> n_receiver n \<notin> {0, v_recovery V, ts_address token, v_factory V, payment_implementation L (v_factory V)}
      \<and> v_min_expiry_lead_secs V \<le> num_seconds (cr_expires_at req - now)
      \<and> num_seconds (cr_expires_at req - now) \<le> v_max_expiry_secs V
      \<and> n_expires_at n = from_timestamp (timestamp (cr_expires_at req))
      \<and> n_calls n = [call_transfer L (ts_address token) (n_receiver n) (n_amount n)]
      \<and> n_payment_address n = payment_address L \<lparr>pt_token = ts_address token, pt_amount = n_amount n,
          pt_calls = n_calls n, pt_expiration_timestamp = as_u64 (timestamp (n_expires_at n)),
          pt_recovery = v_recovery V, pt_salt = salt, pt_chain_id = n_chain_id n\<rparr> (v_factory V)"
proof -
  from assms(2) obtain chain token where v:
      "request_chain L V (cr_chain_id req) = Inr chain" "chain_token L chain (cr_token req) = Some token"
      "parse_amount L (cr_amount req) = Inr (n_amount n)"
      "parse_address L ''receiver'' (cr_receiver req) = Inr (n_receiver n)"
      "check_receiver L V token (n_receiver n) = None" "check_expiry V now (cr_expires_at req) = None"
      "n_chain_id n = cs_chain_id chain" "n_token_address n = ts_address token"
      "n_expires_at n = from_timestamp (timestamp (cr_expires_at req))"
      "n_calls n = [call_transfer L (n_token_address n) (n_receiver n) (n_amount n)]"
      "n_payment_address n = payment_address L
         (request_terms L V chain token (n_amount n) (n_receiver n) (n_expires_at n) salt) (v_factory V)"
    by (rule validate_requestE)
  obtain s where s: "cr_amount req = JStr s" using parse_amount_only_strings [OF v(3)] by blast
  have amount: "all_digits (trim s)" "unat (n_amount n) = dec_value (trim s)" "n_amount n \<noteq> 0"
    using v(3) unfolding s parse_amount_iff [OF assms(1)] by auto
  have chain: "registry_chain (v_registry V) (the (chain_text (cr_chain_id req))) = Some chain" "cs_enabled chain"
    using v(1) by (auto simp: request_chain_def split: option.splits)
  have receiver: "n_receiver n \<notin> {0, v_recovery V, ts_address token, v_factory V,
      payment_implementation L (v_factory V)}"
    using parse_address_nonzero [OF v(4)] v(5) by (auto simp: check_receiver_def split: if_splits)
  show ?thesis
    using chain chain_token_listed [OF v(2)] v(7-11) s amount receiver check_expiry_bounds [OF v(6)]
    by (intro exI [of _ chain] exI [of _ token] exI [of _ s]) (simp add: request_terms_def)
qed

definition ex_registry :: registry where
  "ex_registry = from_config [(''base'', \<lparr>cc_chain_id = 1, cc_enabled = True,
     cc_tokens = [\<lparr>tc_symbol = ''USDC'', tc_address = 2, tc_decimals = 6\<rparr>]\<rparr>)]"

definition ex_validator :: validator where
  "ex_validator = \<lparr>v_registry = ex_registry, v_min_expiry_lead_secs = 60, v_max_expiry_secs = 86400,
     v_allow_insecure_targets = False, v_factory = 20, v_recovery = 4,
     v_url_parse = (\<lambda>_. Inl ''''), v_url_string = (\<lambda>_. '''')\<rparr>"

definition ex_request :: create_deposit_request where
  "ex_request = \<lparr>cr_chain_id = JInt 1, cr_token = l_fmt_address ex_lib 2, cr_amount = JStr ''25'',
     cr_receiver = l_fmt_address ex_lib 3, cr_expires_at = 3600 * nanos_per_sec, cr_reference = None,
     cr_webhook_url = None\<rparr>"

lemma ex_fmt_digits: "all_digits (l_fmt_address ex_lib a)"
  by (simp add: ex_lib_def ex_fmt_word_def)

lemma ex_parse_fmt: "l_parse_address ex_lib (trim (l_fmt_address ex_lib a)) = Some a"
  using ex_lib_ok(3) ex_fmt_digits [of a] by (simp add: trim_digits address_codec_ok_def)

lemma digits_not_letters: "is_ascii_digit c \<Longrightarrow> \<not> is_ascii_lower c"
  by (simp add: is_ascii_digit_def is_ascii_lower_def)

lemma set_drop_pieces: "set (drop_pieces n ws s) \<subseteq> set s"
proof (induction n ws s rule: drop_pieces.induct)
  case (2 n ws s)
  then show ?case by (auto split: option.splits dest: in_set_dropD)
qed simp

lemma ex_parse_address: "a \<noteq> 0 \<Longrightarrow> parse_address ex_lib field (l_fmt_address ex_lib a) = Inr a"
proof -
  assume "a \<noteq> 0"
  have "\<not> mixed_case (l_fmt_address ex_lib a)"
    using ex_fmt_digits [of a] set_drop_pieces digits_not_letters
    by (fastforce simp: mixed_case_def all_digits_def list_all_iff list_ex_iff Let_def)
  with \<open>a \<noteq> 0\<close> show ?thesis
    using ex_fmt_digits [of a] ex_parse_fmt [of a] by (simp add: parse_address_def Let_def trim_digits)
qed

lemma ex_validated:
  obtains n where "validate_request ex_lib ex_validator ex_request 0 9 = Inr n"
    "n_amount n = 25" "n_receiver n = 3" "n_chain_id n = 1"
proof -
  have d: "dec_int 1 = ''1''" by code_simp
  have t: "trim ''1'' = ''1''" "trim ''25'' = ''25''"
    by (rule trim_digits, simp add: all_digits_def is_ascii_digit_def char_code_def)+
  have u: "parse_u64 ''1'' = Some 1"
    by (simp add: parse_u64_def all_digits_def is_ascii_digit_def dec_value_def digit_value_def char_code_def)
  let ?token = "\<lparr>ts_symbol = to_ascii_uppercase ''USDC'', ts_address = 2, ts_decimals = 6\<rparr>"
  let ?chain = "\<lparr>cs_name = ''base'', cs_chain_id = 1, cs_enabled = True, cs_tokens = [?token]\<rparr>"
  have chain: "request_chain ex_lib ex_validator (JInt 1) = Inr ?chain"
    by (simp add: request_chain_def d t u registry_chain_def ex_validator_def ex_registry_def from_config_def
        empty_registry_def spec_of_config_def token_of_config_def Let_def)
  have token: "chain_token ex_lib ?chain (l_fmt_address ex_lib 2) = Some ?token"
    by (simp add: chain_token_def ex_parse_fmt Let_def)
  have amount: "parse_amount ex_lib (JStr ''25'') = Inr 25"
    unfolding parse_amount_iff [OF ex_lib_ok(2)]
    by (simp add: t all_digits_def dec_value_def is_ascii_digit_def digit_value_def char_code_def)
  have receiver: "check_receiver ex_lib ex_validator ?token 3 = None"
    by (simp add: check_receiver_def ex_validator_def payment_implementation_def ex_lib_def)
  have expiry: "check_expiry ex_validator 0 (3600 * nanos_per_sec) = None"
    by (simp add: check_expiry_def ex_validator_def num_seconds_def nanos_per_sec_def Let_def)
  show thesis
    using that chain token amount receiver expiry ex_parse_address [of 3]
    by (simp add: validate_request_def ex_request_def request_reference_def request_webhook_url_def Let_def
        request_terms_def)
qed

theorem validated_request_witness:
  "\<exists>n (token :: token_spec). validate_request ex_lib ex_validator ex_request 0 9 = Inr n
    \<and> n_calls n = [call_transfer ex_lib (ts_address token) 3 25]"
proof -
  obtain n where n: "validate_request ex_lib ex_validator ex_request 0 9 = Inr n" "n_amount n = 25"
      "n_receiver n = 3"
    by (rule ex_validated)
  from validated_request [OF ex_lib_ok(2) n(1)] n(2,3) have
      "\<exists>token :: token_spec. n_calls n = [call_transfer ex_lib (ts_address token) 3 25]" by auto
  with n(1) show ?thesis by blast
qed



section \<open>From the request to the chain\<close>

lemma terms_of_fields:
  "d_token_address (terms_of d) = d_token_address d" "d_amount (terms_of d) = d_amount d"
  "d_calls (terms_of d) = d_calls d" "d_recovery (terms_of d) = d_recovery d" "d_salt (terms_of d) = d_salt d"
  "d_expires_at (terms_of d) = d_expires_at d" "d_chain_id (terms_of d) = d_chain_id d"
  "d_payment_address (terms_of d) = d_payment_address d" "d_created_at (terms_of d) = d_created_at d"
  by (simp_all add: terms_of_def)

lemma terms_of_cong:
  assumes "terms_of d = terms_of d'"
  shows "deposit_terms L d = deposit_terms L d'" and "watch_request L cfg d = watch_request L cfg d'"
    and "submit_request L cfg d = submit_request L cfg d'"
proof -
  have "deposit_terms L d = deposit_terms L (terms_of d)" "watch_request L cfg d = watch_request L cfg (terms_of d)"
      "submit_request L cfg d = submit_request L cfg (terms_of d)" for d
    unfolding submit_request_def deposit_terms_def deposit_calls_def watch_request_def
      deposit_payment_address_def terms_of_fields by (rule refl)+
  with assms show "deposit_terms L d = deposit_terms L d'" "watch_request L cfg d = watch_request L cfg d'"
      "submit_request L cfg d = submit_request L cfg d'"
    by metis+
qed

definition row_codecs_ok :: "lib \<Rightarrow> bool" where
  "row_codecs_ok L = (address_codec_ok L \<and> b256_codec_ok L \<and> bytes_codec_ok L \<and> u256_parser_ok L)"

lemma new_row_requests:
  assumes "row_codecs_ok L" "n_chain_id n < 2 ^ 64"
  defines "terms \<equiv> \<lparr>pt_token = n_token_address n, pt_amount = n_amount n, pt_calls = n_calls n,
      pt_expiration_timestamp = as_u64 (timestamp (n_expires_at n)), pt_recovery = n_recovery n,
      pt_salt = n_salt n, pt_chain_id = n_chain_id n\<rparr>"
  shows "submit_request L cfg (new_row L now i user n) = Some \<lparr>st_chain_id = n_chain_id n, st_to = oc_factory cfg,
      st_data = execute_calldata L terms, st_webhook_url = webhook_url cfg ''/v1/webhooks/engine''\<rparr>"
    and "watch_request L cfg (new_row L now i user n) = Some \<lparr>cw_payment_address = n_payment_address n,
      cw_chain = dec_int (as_i64 (n_chain_id n)), cw_token = n_token_address n,
      cw_balance_threshold = u256_to_string (n_amount n),
      cw_webhook_endpoint = webhook_url cfg ''/v1/webhooks/indexer'', cw_expires_at = n_expires_at n,
      cw_payments_since = now\<rparr>"
proof -
  have c: "address_codec_ok L" "b256_codec_ok L" "bytes_codec_ok L" "u256_parser_ok L"
    using assms(1) by (simp_all add: row_codecs_ok_def)
  have "deposit_terms L (new_row L now i user n) = Some terms"
    using c assms(2) to_calls_map [OF c(1,3)]
    by (simp add: deposit_terms_def new_row_def terms_def deposit_calls_def address_codec_ok_def
        b256_codec_ok_def u256_parser_to_string as_u64_as_i64)
  then show "submit_request L cfg (new_row L now i user n) = Some \<lparr>st_chain_id = n_chain_id n,
      st_to = oc_factory cfg, st_data = execute_calldata L terms,
      st_webhook_url = webhook_url cfg ''/v1/webhooks/engine''\<rparr>"
    using assms(2) by (simp add: submit_request_def) (simp add: new_row_def as_u64_as_i64)
  show "watch_request L cfg (new_row L now i user n) = Some \<lparr>cw_payment_address = n_payment_address n,
      cw_chain = dec_int (as_i64 (n_chain_id n)), cw_token = n_token_address n,
      cw_balance_threshold = u256_to_string (n_amount n),
      cw_webhook_endpoint = webhook_url cfg ''/v1/webhooks/indexer'', cw_expires_at = n_expires_at n,
      cw_payments_since = now\<rparr>"
    using c(1) by (simp add: watch_request_def new_row_def deposit_payment_address_def address_codec_ok_def)
qed

lemma created_row:
  assumes "create_tx L now user n idem db = Inr (Some d0, db1)" "tables_ok L db" "uuid_v7_ok L"
  shows "\<exists>d \<in> set (deposits db1). d_id d = d_id d0 \<and> terms_of d = terms_of (new_row L now (d_id d0) user n)"
  using assms(2,3,1)
proof (cases rule: create_tx_cases)
  case (made d dba e js)
  have "bump 1 d0 \<in> set (deposits db1)"
    using made by (auto simp: moved_def in_upd_rows)
  then show ?thesis using made by (intro bexI [of _ "bump 1 d0"]) simp_all
qed simp

section \<open>Listing\<close>









end
