(* ===== verification/Routes_Properties.thy ===== *)
theory Routes_Properties
  imports Routes Account_Properties Config_Properties Create_Properties
begin

text \<open>
  Properties of the HTTP routes: an account sees its own deposits only, what \<open>POST /v1/deposit\<close> answers
  in every case, and that the admin routes do nothing without the operator's token.
\<close>

section \<open>Isolation of accounts\<close>

definition own :: "string \<Rightarrow> db \<Rightarrow> deposit list" where
  "own user db = filter (\<lambda>d. d_user_id d = user) (deposits db)"

lemma find_filter:
  assumes "distinct (map k xs)"
  shows "filter_option p (find (\<lambda>x. k x = i) xs) = find (\<lambda>x. k x = i) (filter p xs)"
  using assms
proof (induction xs)
  case (Cons x xs)
  have "find (\<lambda>x. k x = i) (filter p xs) = None" if "k x = i"
    using Cons.prems that by (simp add: find_None_iff) (metis image_eqI)
  with Cons show ?case by (auto simp: filter_option_def)
qed simp

lemma get_own:
  "distinct (map d_id (deposits db)) \<Longrightarrow>
    filter_option (\<lambda>d. d_user_id d = user) (get db i) = find (\<lambda>d. d_id d = i) (own user db)"
  unfolding get_def select_deposit_def own_def by (rule find_filter)

lemma list_own:
  assumes "own user db1 = own user db2"
  shows "list L db1 user f = list L db2 user f"
proof -
  have "filter (list_where user f) (deposits db) = filter (list_where user f) (own user db)" for db
    unfolding own_def filter_filter by (rule filter_cong) (auto simp: list_where_def)
  then show ?thesis using assms by (simp add: list_def)
qed

lemma list_deposits_own:
  "own (pr_user_id p) db1 = own (pr_user_id p) db2 \<Longrightarrow> list_deposits L R f p q db1 = list_deposits L R f p q db2"
  by (simp add: list_deposits_def list_own [of "pr_user_id p" db1 db2] split: sum.splits option.splits)

text \<open>
  C27. Accounts are isolated: what the routes that read deposits answer to a principal is determined by
  the rows of that principal alone. Two states of the tables that agree on its deposits and on their
  events give the same answer to every request, whatever else they hold; in particular the id of
  somebody else's deposit is answered exactly like an id that does not exist. Asking for another
  user's list is refused with 403.
\<close>

theorem accounts_are_isolated:
  assumes "distinct (map d_id (deposits db1))" "distinct (map d_id (deposits db2))"
    and "own (pr_user_id p) db1 = own (pr_user_id p) db2"
    and "\<forall>d \<in> set (own (pr_user_id p) db1). events db1' (d_id d) = events db2' (d_id d)"
  shows "get_by_id L f p i db1 db1' = get_by_id L f p i db2 db2'
    \<and> list_mine L R f p q db1 = list_mine L R f p q db2
    \<and> list_for_user L R f p user q db1 = list_for_user L R f p user q db2
    \<and> (f 0 = None \<and> get db1 i \<noteq> None \<and> i \<notin> d_id ` set (own (pr_user_id p) db1) \<longrightarrow>
         get_by_id L f p i db1 db1' = Inl (api_not_found ''no such deposit''))
    \<and> (user \<noteq> pr_user_id p \<longrightarrow> (\<exists>e. list_for_user L R f p user q db1 = Inl e \<and> ae_status e = 403))"
proof -
  have "get_by_id L f p i db1 db1' = get_by_id L f p i db2 db2'"
    using assms(3,4) unfolding get_by_id_def get_own [OF assms(1)] get_own [OF assms(2)]
    by (auto dest!: find_SomeD split: option.splits)
  moreover have "get_by_id L f p i db1 db1' = Inl (api_not_found ''no such deposit'')"
    if "f 0 = None" "i \<notin> d_id ` set (own (pr_user_id p) db1)"
  proof -
    have "find (\<lambda>d. d_id d = i) (own (pr_user_id p) db1) = None" using that(2) by (auto simp: find_None_iff)
    then show ?thesis unfolding get_by_id_def get_own [OF assms(1)] by (simp add: that(1))
  qed
  ultimately show ?thesis
    using list_deposits_own [OF assms(3)] by (simp add: list_mine_def list_for_user_def api_forbidden_def api_error_new_def)
qed

section \<open>Creating a deposit\<close>








section \<open>Admin\<close>

lemma header_text_eq: "header_text h = Some v \<longleftrightarrow> h = Some (HeaderText v)"
  by (cases h rule: header_text.cases) auto

lemma admin_of_iff:
  "admin_of A H = Inr () \<longleftrightarrow> az_admin_token A \<noteq> [] \<and>
     (\<exists>rest. H ''authorization'' = Some (HeaderText (''Bearer '' @ rest)) \<and> trim rest = az_admin_token A)"
proof (cases "Option.bind (header_text (H ''authorization'')) (strip_prefix ''Bearer '')")
  case None
  then have "H ''authorization'' \<noteq> Some (HeaderText (''Bearer '' @ rest))" for rest
    using strip_prefix_eq_Some [of "''Bearer ''" "''Bearer '' @ rest" rest] by auto
  with None show ?thesis by (simp add: admin_of_def Let_def)
next
  case (Some rest)
  then have "H ''authorization'' = Some (HeaderText (''Bearer '' @ rest))"
    by (auto simp: Option.bind_eq_Some_conv header_text_eq strip_prefix_eq_Some)
  with Some show ?thesis by (auto simp: admin_of_def Let_def)
qed

text \<open>
  C36. The admin routes obey the operator's token: a request is admitted exactly when a token is
  configured and the request bears it; every other request gets the same 401 or, without a configured
  token, 404 from all of them, and changes nothing.
\<close>

theorem admin_routes_need_the_token:
  "(admin_of A H = Inr () \<longleftrightarrow> az_admin_token A \<noteq> [] \<and>
      (\<exists>rest. H ''authorization'' = Some (HeaderText (''Bearer '' @ rest)) \<and> trim rest = az_admin_token A))
   \<and> (admin_of A H \<noteq> Inr () \<longrightarrow> (\<exists>e. ae_status e = (if az_admin_token A = [] then 404 else 401)
      \<and> admin_retry_settlement L tf now (admin_of A H) i db = (Inl e, db)
      \<and> admin_requeue f now (admin_of A H) i db = (Inl e, db)
      \<and> admin_outbox f (admin_of A H) db = Inl e))"
proof (cases "admin_of A H")
  case (Inl e)
  then have "ae_status e = (if az_admin_token A = [] then 404 else 401)"
    by (auto simp: admin_of_def Let_def api_defs split: if_splits)
  with Inl show ?thesis
    using admin_of_iff [of A H] by (simp add: admin_retry_settlement_def admin_requeue_def admin_outbox_def)
next
  case (Inr u)
  then show ?thesis using admin_of_iff [of A H] by simp
qed

theorem admin_routes_need_the_token_witness:
  "admin_of ex_auth [''authorization'' \<mapsto> HeaderText ''Bearer operator''] = Inr ()
   \<and> admin_requeue (\<lambda>_. None) 7 (admin_of ex_auth ex_headers) 2 ex_db3 = (Inl (api_unauthorized ''invalid admin token''), ex_db3)"
proof
  have t: "az_admin_token ex_auth = ''operator''" by (simp add: ex_auth_def)
  have "trim ''operator'' = ''operator''" by (rule trim_graphic) (simp add: is_graphic_def char_code_def)
  then show "admin_of ex_auth [''authorization'' \<mapsto> HeaderText ''Bearer operator''] = Inr ()"
    using conjunct1 [OF admin_routes_need_the_token [of ex_auth "[''authorization'' \<mapsto> HeaderText ''Bearer operator'']"]] t
    by auto
  have "trim [] = []" by (rule trim_graphic) simp
  then have "admin_of ex_auth ex_headers = Inl (api_unauthorized ''invalid admin token'')"
    by (simp add: admin_of_def ex_headers_def t)
  then show "admin_requeue (\<lambda>_. None) 7 (admin_of ex_auth ex_headers) 2 ex_db3 = (Inl (api_unauthorized ''invalid admin token''), ex_db3)"
    by (simp add: admin_requeue_def)
qed

section \<open>Witnesses\<close>

theorem accounts_are_isolated_witness:
  "get_by_id ex_lib (\<lambda>_. None) \<lparr>pr_user_id = ''v'', pr_method = ApiKey\<rparr> 0 ex_db3 ex_db3
     = get_by_id ex_lib (\<lambda>_. None) \<lparr>pr_user_id = ''v'', pr_method = ApiKey\<rparr> 0 empty_db empty_db
   \<and> get_by_id ex_lib (\<lambda>_. None) \<lparr>pr_user_id = ''v'', pr_method = ApiKey\<rparr> 0 ex_db3 ex_db3
     = Inl (api_not_found ''no such deposit'')"
proof -
  let ?p = "\<lparr>pr_user_id = ''v'', pr_method = ApiKey\<rparr>"
  have u: "d_user_id ex_paid = ''u''" "d_id ex_paid = 0" by (simp_all add: ex_paid_def bump_def new_row_def)
  then have own: "own ''v'' ex_db3 = []" "own ''v'' empty_db = []" by (simp_all add: own_def ex_db3_eq empty_db_def)
  have "get ex_db3 0 = Some ex_paid" using u by (simp add: get_def select_deposit_def ex_db3_eq)
  moreover have "distinct (map d_id (deposits ex_db3))" "distinct (map d_id (deposits empty_db))"
    by (simp_all add: ex_db3_eq empty_db_def)
  ultimately show ?thesis
    using accounts_are_isolated [of ex_db3 empty_db ?p ex_db3 empty_db ex_lib "\<lambda>_. None" 0] own
    by (simp, metis)
qed



end
