(* ===== verification/Pay_Properties.thy ===== *)
theory Pay_Properties
  imports Pay Routes_Properties
begin

text \<open>
  Properties of the payer's view: it shows payer-safe data only, a held request is answered in time,
  and a change wakes it.
\<close>

section \<open>The allowlist\<close>

lemma map_of_pick:
  "map_of (pick from fs into) k =
     (if k \<in> set fs \<and> filter_option (\<lambda>v. \<not> is_null v) (map_of from k) \<noteq> None then map_of from k else map_of into k)"
proof (induction "from" fs into rule: pick.induct)
  case (2 "from" field fs into)
  show ?case
  proof (cases "filter_option (\<lambda>v. \<not> is_null v) (map_of from field)")
    case None
    with 2 show ?thesis by auto
  next
    case (Some v)
    with 2 show ?thesis by auto
  qed
qed simp

lemma is_null_iff [simp]: "is_null v \<longleftrightarrow> v = JNull"
  by (cases v) simp_all

lemma map_of_pick_SomeE:
  assumes "map_of (pick from fs into) k = Some v"
  obtains (picked) "k \<in> set fs" "map_of from k = Some v" "v \<noteq> JNull" | (kept) "map_of into k = Some v"
  using assms by (auto simp: map_of_pick filter_option_def split: if_splits option.splits)

definition safe_transfer :: "json \<Rightarrow> json \<Rightarrow> bool" where
  "safe_transfer data v = (\<exists>tr kept. jget data ''transfer'' = Some (JObj tr) \<and> v = JObj kept
     \<and> (\<forall>k w. map_of kept k = Some w \<longrightarrow> k \<in> set transfer_fields \<and> map_of tr k = Some w \<and> w \<noteq> JNull))"

lemma payer_data_safe:
  "\<exists>out. payer_data ty data = JObj out \<and> (\<forall>k v. map_of out k = Some v \<longrightarrow>
     k = ''transfer'' \<and> safe_transfer data v
     \<or> (k \<in> set data_fields \<or> k = ''code'' \<and> ty = ev_failed) \<and> jget data k = Some v \<and> v \<noteq> JNull)"
proof (cases data)
  case (JObj kvs)
  let ?tr = "case map_of kvs ''transfer'' of
      Some (JObj transfer) \<Rightarrow> obj_insert ''transfer'' (JObj (pick transfer transfer_fields [])) [] | _ \<Rightarrow> []"
  let ?out = "if ty = ev_failed then pick kvs [''code''] (pick kvs data_fields ?tr) else pick kvs data_fields ?tr"
  have out: "payer_data ty data = JObj ?out" using JObj by (simp add: payer_data_def Let_def)
  have tr: "k = ''transfer'' \<and> safe_transfer data v" if h: "map_of ?tr k = Some v" for k v
  proof -
    obtain t where t: "map_of kvs ''transfer'' = Some (JObj t)"
      using h by (auto split: option.splits json.splits dest: sym)
    then have "k = ''transfer''" "v = JObj (pick t transfer_fields [])" using h by (auto split: if_splits)
    then show ?thesis
      using t JObj by (auto simp: safe_transfer_def elim!: map_of_pick_SomeE)
  qed
  let ?P = "\<lambda>k v. k = ''transfer'' \<and> safe_transfer data v
     \<or> (k \<in> set data_fields \<or> k = ''code'' \<and> ty = ev_failed) \<and> jget data k = Some v \<and> v \<noteq> JNull"
  have mid: "?P k v" if "map_of (pick kvs data_fields ?tr) k = Some v" for k v
    using that
  proof (cases rule: map_of_pick_SomeE)
    case picked
    then show ?thesis using JObj by simp
  next
    case kept
    then show ?thesis using tr by blast
  qed
  have "?P k v" if k: "map_of ?out k = Some v" for k v
  proof (cases "ty = ev_failed")
    case True
    with k have "map_of (pick kvs [''code''] (pick kvs data_fields ?tr)) k = Some v" by (simp del: pick.simps)
    then show ?thesis
    proof (cases rule: map_of_pick_SomeE)
      case picked
      then show ?thesis using JObj True by simp
    next
      case kept
      then show ?thesis by (rule mid)
    qed
  next
    case False
    with k show ?thesis using mid by (simp del: pick.simps)
  qed
  with out show ?thesis by blast
qed (simp_all add: payer_data_def)

text \<open>What of a deposit a payer may learn: every other column blanked.\<close>

definition public_row :: "deposit \<Rightarrow> deposit" where
  "public_row d = d\<lparr>d_user_id := [], d_receiver := [], d_calls := [], d_recovery := [], d_salt := [],
     d_reference := None, d_webhook_url := None, d_watch_id := None, d_watch_registered_at := None,
     d_engine_job_id := None, d_engine_submitted_at := None, d_failure_message := None, d_failure_revert_data := None\<rparr>"

lemma payer_view_public: "payer_view_of L (public_row d) es now = payer_view_of L d es now"
  by (simp add: payer_view_of_def public_row_def timestamps_of_def)

lemma payer_view_cong:
  assumes "public_row d1 = public_row d2" "map payer_event_of es1 = map payer_event_of es2"
  shows "payer_view_of L d1 es1 now = payer_view_of L d2 es2 now"
proof -
  have "payer_view_of L d1 es1 now = payer_view_of L (public_row d1) es1 now" by (simp add: payer_view_public)
  also have "\<dots> = payer_view_of L (public_row d1) es2 now" using assms(2) by (simp add: payer_view_of_def)
  also have "\<dots> = payer_view_of L d2 es2 now" by (simp add: assms(1) payer_view_public)
  finally show ?thesis .
qed

lemma public_row_seq: "public_row d1 = public_row d2 \<Longrightarrow> d_event_seq d1 = d_event_seq d2"
  by (drule arg_cong [of _ _ d_event_seq]) (simp add: public_row_def)

section \<open>The hold\<close>

lemma hold_bounds:
  "hold_for w timeout \<le> 25000" "timeout_headroom_ms \<le> timeout \<Longrightarrow> hold_for w timeout + timeout_headroom_ms \<le> timeout"
  "w = None \<Longrightarrow> hold_for w timeout = 0"
  by (auto simp: hold_for_def max_wait_secs_def)

text \<open>Every round of the loop reads one message, so the messages before the deadline bound it.\<close>

lemma hold_roundD:
  "hold_round c row i after deadline d = Answer (Inr (d', t)) \<Longrightarrow>
     t \<le> deadline \<and> (t < deadline \<longrightarrow> t = fst c) \<and> (d' = d \<or> row t = Inr d')
     \<and> (after < d_event_seq d' \<or> t = deadline \<or> snd c = Closed)"
  "hold_round c row i after deadline d = Again d' \<Longrightarrow>
     fst c < deadline \<and> snd c \<noteq> Closed \<and> (d' = d \<or> row (fst c) = Inr d')"
  by (auto simp: hold_round_def timeout_at_def split: option.splits recv.splits if_splits sum.splits)

lemma hold_loop_Answer: "hold_round (received n) row i after deadline d = Answer r \<Longrightarrow>
    hold_loop received row i after deadline n d = Some r"
  by (subst hold_loop.simps) simp

lemma hold_loop_Again: "hold_round (received n) row i after deadline d = Again d' \<Longrightarrow>
    hold_loop received row i after deadline n d = hold_loop received row i after deadline (n + 1) d'"
  by (subst hold_loop.simps) simp

lemma hold_loop_returns:
  assumes "deadline \<le> fst (received m)" "n \<le> m"
  shows "\<exists>r. hold_loop received row i after deadline n d = Some r
    \<and> (\<forall>d' t. r = Inr (d', t) \<longrightarrow> t \<le> deadline \<and> (d' = d \<or> (\<exists>s. row s = Inr d')))"
  using assms(2)
proof (induction "m - n" arbitrary: n d)
  case 0
  with assms(1) have "hold_round (received n) row i after deadline d = Answer (Inr (d, deadline))"
    by (simp add: hold_round_def timeout_at_def)
  then show ?case by (simp add: hold_loop_Answer)
next
  case (Suc k)
  show ?case
  proof (cases "hold_round (received n) row i after deadline d")
    case (Answer r)
    then show ?thesis using hold_roundD(1) [of "received n" row i after deadline d] by (auto simp: hold_loop_Answer)
  next
    case (Again d'')
    have "\<exists>r. hold_loop received row i after deadline (n + 1) d'' = Some r
        \<and> (\<forall>d' t. r = Inr (d', t) \<longrightarrow> t \<le> deadline \<and> (d' = d'' \<or> (\<exists>s. row s = Inr d')))"
      using Suc.hyps(2) Suc.prems by (intro Suc.hyps(1)) auto
    then show ?thesis using hold_roundD(2) [OF Again] by (auto simp: hold_loop_Again [where received = received and n = n, OF Again])
  qed
qed

text \<open>A message about the deposit, with a newer row behind it, ends the hold by then.\<close>

lemma hold_loop_wakes:
  assumes "received m = (t0, Changed i)" "t0 < deadline" "row t0 = Inr d0" "after < d_event_seq d0"
    and "\<And>k. k \<le> m \<Longrightarrow> fst (received k) \<le> t0" "\<And>k. snd (received k) \<noteq> Closed" "\<And>t. \<exists>d. row t = Inr d"
  shows "n \<le> m \<Longrightarrow> \<exists>d' t. hold_loop received row i after deadline n d = Some (Inr (d', t))
    \<and> t \<le> t0 \<and> after < d_event_seq d'"
proof (induction "m - n" arbitrary: n d)
  case 0
  then have "hold_round (received n) row i after deadline d = Answer (Inr (d0, t0))"
    using assms(1-4) by (simp add: hold_round_def timeout_at_def)
  with assms(4) show ?case by (simp add: hold_loop_Answer)
next
  case (Suc k)
  show ?case
  proof (cases "hold_round (received n) row i after deadline d")
    case (Answer r)
    have n: "fst (received n) \<le> t0" using Suc assms(5) by auto
    then have "\<exists>d' t. r = Inr (d', t)"
      using Answer assms(2,7) by (auto simp: hold_round_def timeout_at_def split: option.splits recv.splits if_splits sum.splits)
        (metis Inl_Inr_False)+
    then obtain d' t where r: "r = Inr (d', t)" by blast
    have "t < deadline" using Answer n assms(2,6) unfolding r
      by (auto simp: hold_round_def timeout_at_def split: option.splits recv.splits if_splits sum.splits)
    then have "t \<le> t0" "after < d_event_seq d'"
      using hold_roundD(1) [OF Answer [unfolded r]] n assms(6) [of n] by auto
    with r show ?thesis by (auto simp: hold_loop_Answer [where received = received and n = n, OF Answer])
  next
    case (Again d'')
    then show ?thesis using Suc.hyps(2) Suc.prems Suc.hyps(1) [of "n + 1" d''] by (auto simp: hold_loop_Again [where received = received and n = n, OF Again])
  qed
qed


section \<open>Non-interference\<close>

fun public_round :: "round \<Rightarrow> round" where
  "public_round (Answer r) = Answer (map_sum id (map_prod public_row id) r)"
| "public_round (Again d) = Again (public_row d)"

lemma hold_round_public:
  assumes "map_sum id public_row (row1 (fst c)) = map_sum id public_row (row2 (fst c))" "public_row d1 = public_row d2"
  shows "public_round (hold_round c row1 i after deadline d1) = public_round (hold_round c row2 i after deadline d2)"
proof (cases "row1 (fst c)")
  case (Inl e)
  with assms(1) have "row2 (fst c) = Inl e" by (cases "row2 (fst c)") simp_all
  with Inl assms(2) show ?thesis by (auto simp: hold_round_def split: option.splits recv.splits)
next
  case (Inr d)
  with assms(1) obtain d' where "row2 (fst c) = Inr d'" "public_row d = public_row d'" by (cases "row2 (fst c)") simp_all
  with Inr assms(2) public_row_seq [of d d'] show ?thesis by (auto simp: hold_round_def split: option.splits recv.splits)
qed

lemma hold_loop_public:
  assumes "deadline \<le> fst (received m)" "\<And>t. map_sum id public_row (row1 t) = map_sum id public_row (row2 t)"
  shows "n \<le> m \<Longrightarrow> public_row d1 = public_row d2 \<Longrightarrow>
    map_option (map_sum id (map_prod public_row id)) (hold_loop received row1 i after deadline n d1)
    = map_option (map_sum id (map_prod public_row id)) (hold_loop received row2 i after deadline n d2)"
proof (induction "m - n" arbitrary: n d1 d2)
  case 0
  with assms(1) have "hold_round (received n) row i after deadline d = Answer (Inr (d, deadline))" for row d
    by (simp add: hold_round_def timeout_at_def)
  with 0 show ?case by (simp add: hold_loop_Answer)
next
  case (Suc k)
  have r: "public_round (hold_round (received n) row1 i after deadline d1) = public_round (hold_round (received n) row2 i after deadline d2)"
    by (rule hold_round_public [OF assms(2) Suc.prems(2)])
  show ?case
  proof (cases "hold_round (received n) row1 i after deadline d1")
    case (Answer r1)
    then obtain r2 where "hold_round (received n) row2 i after deadline d2 = Answer r2"
        "map_sum id (map_prod public_row id) r1 = map_sum id (map_prod public_row id) r2"
      using r by (cases "hold_round (received n) row2 i after deadline d2") simp_all
    with Answer show ?thesis by (simp add: hold_loop_Answer)
  next
    case (Again e1)
    then obtain e2 where e2: "hold_round (received n) row2 i after deadline d2 = Again e2" "public_row e1 = public_row e2"
      using r by (cases "hold_round (received n) row2 i after deadline d2") simp_all
    have "k = m - (n + 1)" "n + 1 \<le> m" using Suc.hyps(2) by auto
    from Suc.hyps(1) [OF this e2(2)] show ?thesis
      by (simp only: hold_loop_Again [where received = received and n = n, OF Again]
          hold_loop_Again [where received = received and n = n, OF e2(1)])
  qed
qed

lemma pay_read_public:
  assumes "start + millis 25000 \<le> fst (received m)" "public_row d1 = public_row d2"
    and "\<And>t. map_sum id public_row (row_of db1 fault i t) = map_sum id public_row (row_of db2 fault i t)"
  shows "map_option (map_sum id (map_prod public_row id)) (pay_read T db1 fault received start q i d1)
    = map_option (map_sum id (map_prod public_row id)) (pay_read T db2 fault received start q i d2)"
proof -
  have "start + millis (hold_for (pq_wait q) T) \<le> fst (received m)"
    using assms(1) hold_bounds(1) [of "pq_wait q" T] by (simp add: millis_def)
  from hold_loop_public [where received = received and m = m and n = 0 and ?row1.0 = "row_of db1 fault i"
      and ?row2.0 = "row_of db2 fault i", OF this assms(3) _ assms(2)]
  show ?thesis using assms(2) public_row_seq [OF assms(2)] by (simp add: pay_read_def Let_def split: option.splits)
qed

lemma pay_answer_public:
  assumes "map_sum id (map_prod public_row id) r1 = map_sum id (map_prod public_row id) r2"
    and "\<And>t n. map payer_event_of (events_through (db1 t) i n payer_events)
      = map payer_event_of (events_through (db2 t) i n payer_events)"
  shows "pay_answer L db1 fault delay i r1 = pay_answer L db2 fault delay i r2"
proof (cases r1)
  case (Inl e)
  with assms(1) have "r2 = Inl e" by (cases r2) simp_all
  with Inl show ?thesis by (simp add: pay_answer_def)
next
  case (Inr p1)
  then obtain p2 where p2: "r2 = Inr p2" "public_row (fst p1) = public_row (fst p2)" "snd p1 = snd p2"
    using assms(1) by (cases r2; cases p1) auto
  have "payer_view_of L (fst p1) (events_through (db1 t) i (d_event_seq (fst p1)) payer_events) t
      = payer_view_of L (fst p2) (events_through (db2 t) i (d_event_seq (fst p2)) payer_events) t" for t
    using payer_view_cong [OF p2(2) assms(2)] public_row_seq [OF p2(2)] by simp
  with Inr p2 show ?thesis by (simp add: pay_answer_def case_prod_beta split: option.splits)
qed

text \<open>
  C29. The payer's view is payer-safe: what it answers, to any request at any time of any history of the
  tables, does not depend on who owns the deposit, on its receiver, calls, recovery address, salt,
  reference or webhook, on the watch and engine bookkeeping, on failure messages or revert data, nor on
  any event or event field outside the allowlist; and the data of an event it shows holds the listed
  fields of the stored data only, none of them null.
\<close>

theorem payer_view_is_safe:
  assumes "\<forall>t i. map_option public_row (get (db1 t) i) = map_option public_row (get (db2 t) i)"
    and "\<forall>t i n. map payer_event_of (events_through (db1 t) i n payer_events)
      = map payer_event_of (events_through (db2 t) i n payer_events)"
    and "start + millis 25000 \<le> fst (received m)"
  shows "pay_get L T db1 fault received start delay raw q = pay_get L T db2 fault received start delay raw q
    \<and> (\<forall>e. \<exists>out. pe_data (payer_event_of e) = JObj out \<and> (\<forall>k v. map_of out k = Some v \<longrightarrow>
        k = ''transfer'' \<and> safe_transfer (e_data e) v
        \<or> (k \<in> set data_fields \<or> k = ''code'' \<and> e_type e = ev_failed) \<and> jget (e_data e) k = Some v \<and> v \<noteq> JNull))"
proof
  show "\<forall>e. \<exists>out. pe_data (payer_event_of e) = JObj out \<and> (\<forall>k v. map_of out k = Some v \<longrightarrow>
        k = ''transfer'' \<and> safe_transfer (e_data e) v
        \<or> (k \<in> set data_fields \<or> k = ''code'' \<and> e_type e = ev_failed) \<and> jget (e_data e) k = Some v \<and> v \<noteq> JNull)"
    using payer_data_safe by (simp add: payer_event_of_def)
  have rows: "map_sum id public_row (row_of db1 fault i t) = map_sum id public_row (row_of db2 fault i t)" for i t
    using spec [OF spec [OF assms(1), of t], of i]
    by (cases "get (db1 t) i"; cases "get (db2 t) i") (simp_all add: row_of_def split: option.splits)
  have "pay_view L T db1 fault received start delay raw q = pay_view L T db2 fault received start delay raw q"
  proof (cases q)
    case q: (Inr q')
    show ?thesis
    proof (cases "l_parse_uuid L raw")
      case (Some i)
      show ?thesis
      proof (cases "row_of db1 fault i start")
        case (Inl e)
        with rows [of i start] have "row_of db2 fault i start = Inl e" by (cases "row_of db2 fault i start") simp_all
        with Inl q Some show ?thesis by (simp add: pay_view_def)
      next
        case (Inr d1)
        with rows [of i start] obtain d2 where d2: "row_of db2 fault i start = Inr d2" "public_row d1 = public_row d2"
          by (cases "row_of db2 fault i start") simp_all
        have "map_option (pay_answer L db1 fault delay i) (pay_read T db1 fault received start q' i d1)
            = map_option (pay_answer L db2 fault delay i) (pay_read T db2 fault received start q' i d2)"
          using pay_read_public [where received = received and m = m and i = i, OF assms(3) d2(2) rows, of T q'] pay_answer_public [of _ _ db1 i db2 L fault delay] assms(2)
          by (cases "pay_read T db1 fault received start q' i d1"; cases "pay_read T db2 fault received start q' i d2") auto
        then show ?thesis using q Some Inr d2(1) by (simp add: pay_view_def)
      qed
    qed (simp add: pay_view_def q)
  qed (simp add: pay_view_def)
  then show "pay_get L T db1 fault received start delay raw q = pay_get L T db2 fault received start delay raw q"
    by (simp add: pay_get_def)
qed


section \<open>A held request ends\<close>

lemma pay_read_returns:
  assumes "start + millis (hold_for (pq_wait q) T) \<le> fst (received m)"
  shows "\<exists>r. pay_read T db_at fault received start q i d = Some r
    \<and> (\<forall>d' t. r = Inr (d', t) \<longrightarrow> t \<le> start + millis (hold_for (pq_wait q) T))"
proof (cases "\<exists>after. pq_after q = Some after \<and> hold_for (pq_wait q) T \<noteq> 0 \<and> d_event_seq d \<le> after")
  case True
  then obtain after where a: "pq_after q = Some after" "hold_for (pq_wait q) T \<noteq> 0" "d_event_seq d \<le> after" by blast
  obtain r where "hold_loop received (row_of db_at fault i) i after (start + millis (hold_for (pq_wait q) T)) 0 d = Some r"
      "\<forall>d' t. r = Inr (d', t) \<longrightarrow> t \<le> start + millis (hold_for (pq_wait q) T)"
    using hold_loop_returns [where received = received and m = m, OF assms, of 0 "row_of db_at fault i" i after d] by auto
  with a show ?thesis by (simp add: pay_read_def)
next
  case False
  then have "pay_read T db_at fault received start q i d = Some (Inr (d, start))"
    by (auto simp: pay_read_def Let_def split: option.splits)
  then show ?thesis by (simp add: millis_def)
qed

text \<open>
  C30. Every request for a payer's view is answered: when the clock passes the end of its hold at some
  message of the channel, the loop ends, whatever the messages are and whatever the tables do; the row
  it answers with was read no later than the end of the hold, and the hold is at most 25 seconds and, with
  a request timeout of a second or more, ends at least a second before it.
\<close>

theorem held_request_is_answered:
  assumes "start + millis (hold_for (case q of Inr q' \<Rightarrow> pq_wait q' | Inl _ \<Rightarrow> None) T) \<le> fst (received m)"
  shows "\<exists>r. pay_view L T db_at fault received start delay raw q = Some r
    \<and> (\<forall>v. r = Inr v \<longrightarrow> (\<exists>t \<le> start + millis (hold_for (case q of Inr q' \<Rightarrow> pq_wait q' | Inl _ \<Rightarrow> None) T).
         pv_server_time v = l_fmt_time_millis L (t + delay)))
    \<and> hold_for w T \<le> 25000
    \<and> (1000 \<le> T \<longrightarrow> hold_for w T + 1000 \<le> T)"
proof -
  have bounds: "hold_for w T \<le> 25000" "1000 \<le> T \<longrightarrow> hold_for w T + 1000 \<le> T"
    using hold_bounds(1) [of w T] hold_bounds(2) [of T w] by (simp_all add: timeout_headroom_ms_def)
  show ?thesis
  proof (cases q)
    case (Inl e)
    with bounds show ?thesis by (simp add: pay_view_def)
  next
    case q: (Inr q')
    let ?dl = "start + millis (hold_for (pq_wait q') T)"
    show ?thesis
    proof (cases "Option.bind (l_parse_uuid L raw) (\<lambda>i. ok (row_of db_at fault i start))")
      case None
      then have "\<exists>e. pay_view L T db_at fault received start delay raw q = Some (Inl e)"
        by (auto simp: pay_view_def q Option.bind_eq_None_conv split: option.splits sum.splits)
      with bounds show ?thesis by auto
    next
      case (Some d)
      then obtain i where i: "l_parse_uuid L raw = Some i" "row_of db_at fault i start = Inr d"
        by (auto simp: Option.bind_eq_Some_conv elim: ok.elims)
      obtain r where r: "pay_read T db_at fault received start q' i d = Some r" "\<And>d' t. r = Inr (d', t) \<Longrightarrow> t \<le> ?dl"
        using pay_read_returns [of start q' T received m db_at fault i d] assms q by auto
      have "\<exists>t \<le> ?dl. pv_server_time v = l_fmt_time_millis L (t + delay)" if a: "pay_answer L db_at fault delay i r = Inr v" for v
      proof -
        obtain d' t where "r = Inr (d', t)" "pv_server_time v = l_fmt_time_millis L (t + delay)"
          using a by (auto simp: pay_answer_def payer_view_of_def split: sum.splits option.splits)
        then show ?thesis using r(2) by blast
      qed
      moreover have "pay_view L T db_at fault received start delay raw q = Some (pay_answer L db_at fault delay i r)"
        using q i r(1) by (simp add: pay_view_def)
      ultimately show ?thesis using bounds q by auto
    qed
  qed
qed

text \<open>
  C31. A change wakes the payers that wait for it: when a request that holds for news after sequence
  \<open>after\<close> is told of its deposit before its hold ends, by a message sent once the change is committed,
  it is answered by then, with a row that is newer than what the client has. What is recorded with an
  event is what the feed relays: the notification carries the deposit's id.
\<close>

theorem change_wakes_payer:
  assumes "uuid_codec_ok L" "received m = (t0, Changed i)" "t0 < start + millis (hold_for (pq_wait q) T)"
    and "get (db_at t0) i = Some d0" "pq_after q = Some after" "after < d_event_seq d0"
    and "\<And>k. k \<le> m \<Longrightarrow> fst (received k) \<le> t0" "\<And>k. snd (received k) \<noteq> Closed"
    and "\<And>t. fault t = None" "\<And>t. get (db_at t) i \<noteq> None" "start \<le> t0"
  shows "relay_event L (Notified (l_fmt_uuid L i)) = Some i
    \<and> (\<exists>v t. pay_view L T db_at fault received start delay (l_fmt_uuid L i) (Inr q) = Some (Inr v)
        \<and> t \<le> t0 \<and> pv_server_time v = l_fmt_time_millis L (t + delay) \<and> after < pv_sequence v)"
proof -
  have uuid: "l_parse_uuid L (l_fmt_uuid L i) = Some i" using assms(1) by (simp add: uuid_codec_ok_def)
  have rows: "\<exists>d. row_of db_at fault i t = Inr d" for t
    using assms(9,10) by (auto simp: row_of_def)
  have r0: "row_of db_at fault i t0 = Inr d0" using assms(4,9) by (simp add: row_of_def)
  obtain d where d: "row_of db_at fault i start = Inr d" using rows by blast
  have "\<exists>d' t. pay_read T db_at fault received start q i d = Some (Inr (d', t)) \<and> t \<le> t0 \<and> after < d_event_seq d'"
  proof (cases "hold_for (pq_wait q) T \<noteq> 0 \<and> d_event_seq d \<le> after")
    case True
    then show ?thesis
      using hold_loop_wakes [where received = received and m = m and i = i and row = "row_of db_at fault i",
          OF assms(2,3) r0 assms(6,7,8) rows, of 0 d] assms(5) by (simp add: pay_read_def)
  next
    case False
    then have "after < d_event_seq d" using assms(3,11) by (auto simp: millis_def)
    with False assms(5,11) show ?thesis by (auto simp: pay_read_def Let_def)
  qed
  then obtain d' t where "pay_read T db_at fault received start q i d = Some (Inr (d', t))" "t \<le> t0" "after < d_event_seq d'"
    by blast
  then show ?thesis
    using uuid d assms(9) by (auto simp: pay_view_def pay_answer_def payer_view_of_def relay_event_def)
qed


section \<open>Witnesses\<close>

text \<open>
  The run of the example: the deposit is created at 1000 and paid at 2000; a payer asks at 1500 for news
  after its first event and is told at 2000.
\<close>

definition ex_tables :: "time \<Rightarrow> db" where
  "ex_tables t = (if t < 2000 then ex_db2 else ex_db3)"

definition ex_received :: "nat \<Rightarrow> time \<times> recv" where
  "ex_received n = (if n = 0 then (1800, Changed 7) else if n = 1 then (2000, Changed 0) else (int n * nanos_per_sec, Lagged))"

definition ex_pay_query :: pay_query where
  "ex_pay_query = \<lparr>pq_after = Some 1, pq_wait = Some 5\<rparr>"

lemma ex_tables_get: "get (ex_tables t) 0 = Some (if t < 2000 then bump 1 (new_row ex_lib 1000 0 ''u'' ex_new) else ex_paid)"
  by (simp add: get_def select_deposit_def ex_tables_def ex_db2_eq ex_db3_eq ex_paid_def)

lemma ex_hold: "hold_for (Some 5) 10000 = 5000"
  by (simp add: hold_for_def max_wait_secs_def timeout_headroom_ms_def)

theorem payer_view_is_safe_witness:
  "pay_get ex_lib 10000 (\<lambda>t. ex_db3) (\<lambda>t. None) ex_received 1500 1 (dec_nat 0) (Inr ex_pay_query)
   = pay_get ex_lib 10000 (\<lambda>t. ex_db3\<lparr>deposits := [ex_paid\<lparr>d_user_id := ''somebody'', d_receiver := ''elsewhere''\<rparr>]\<rparr>)
       (\<lambda>t. None) ex_received 1500 1 (dec_nat 0) (Inr ex_pay_query)"
proof -
  let ?db = "ex_db3\<lparr>deposits := [ex_paid\<lparr>d_user_id := ''somebody'', d_receiver := ''elsewhere''\<rparr>]\<rparr>"
  have "\<forall>t i. map_option public_row (get ex_db3 i) = map_option public_row (get ?db i)"
    by (simp add: get_def select_deposit_def ex_db3_eq public_row_def)
  moreover have "\<forall>t i n. map payer_event_of (events_through ex_db3 i n payer_events)
      = map payer_event_of (events_through ?db i n payer_events)"
    by (simp add: events_through_def)
  moreover have "1500 + millis 25000 \<le> fst (ex_received 30)"
    by (simp add: ex_received_def millis_def nanos_per_sec_def)
  ultimately show ?thesis
    by (rule conjunct1 [OF payer_view_is_safe [where ?db1.0 = "\<lambda>t. ex_db3" and ?db2.0 = "\<lambda>t. ?db"]])
qed

theorem held_request_is_answered_witness:
  "\<exists>r. pay_view ex_lib 10000 ex_tables (\<lambda>t. None) ex_received 1500 1 (dec_nat 0) (Inr ex_pay_query) = Some r"
proof -
  have "1500 + millis (hold_for (case Inr ex_pay_query of Inr q' \<Rightarrow> pq_wait q' | Inl _ \<Rightarrow> None) 10000) \<le> fst (ex_received 30)"
    by (simp add: ex_pay_query_def ex_hold ex_received_def millis_def nanos_per_sec_def)
  from held_request_is_answered [where received = ex_received and m = 30, OF this] show ?thesis by blast
qed

theorem change_wakes_payer_witness:
  "\<exists>v t. pay_view ex_lib 10000 ex_tables (\<lambda>t. None) ex_received 1500 1 (dec_nat 0) (Inr ex_pay_query) = Some (Inr v)
     \<and> t \<le> 2000 \<and> pv_server_time v = dec_int (t + 1) \<and> 1 < pv_sequence v"
proof -
  have "ex_received 1 = (2000, Changed 0)" "2000 < 1500 + millis (hold_for (pq_wait ex_pay_query) 10000)"
      "pq_after ex_pay_query = Some 1"
    by (simp_all add: ex_received_def ex_pay_query_def ex_hold millis_def)
  moreover have "fst (ex_received k) \<le> 2000" if "k \<le> 1" for k using that by (cases k) (auto simp: ex_received_def)
  moreover have "snd (ex_received k) \<noteq> Closed" for k by (simp add: ex_received_def)
  moreover have "get (ex_tables 2000) 0 = Some ex_paid" "1 < d_event_seq ex_paid" "get (ex_tables t) 0 \<noteq> None" for t
    by (simp_all add: ex_tables_get) (simp add: ex_paid_def bump_def new_row_def)
  ultimately have "\<exists>v t. pay_view ex_lib 10000 ex_tables (\<lambda>t. None) ex_received 1500 1 (l_fmt_uuid ex_lib 0) (Inr ex_pay_query) = Some (Inr v)
     \<and> t \<le> 2000 \<and> pv_server_time v = l_fmt_time_millis ex_lib (t + 1) \<and> 1 < pv_sequence v"
    using change_wakes_payer [where L = ex_lib and received = ex_received and m = 1 and start = 1500 and q = ex_pay_query
        and db_at = ex_tables and fault = "\<lambda>t. None" and i = 0 and delay = 1, OF ex_lib_ok(6)] by auto
  then show ?thesis by (simp add: ex_lib_def)
qed

end
