(* ===== verification/Loops.thy ===== *)
theory Loops
  imports Gum_Base
begin

text \<open>
  What the background loops share: time limits, pauses that a shutdown cuts short, and two contracts. A
  \<open>restart_loop\<close> starts something again whenever it ends, after a pause; a \<open>paced_loop\<close> begins a new round
  at least every so often and stops on shutdown. How long something takes is an argument of the models:
  a number of nanoseconds, or \<open>None\<close> when it never ends.
\<close>

section \<open>Time limits and pauses\<close>

text \<open>\<open>tokio::time::timeout\<close>: when it is over, and whether the inner future completed.\<close>

definition with_timeout :: "time \<Rightarrow> time \<Rightarrow> nat option \<Rightarrow> time \<times> bool" where
  "with_timeout limit t lasts = (case filter_option (\<lambda>d. int d < limit) lasts of
       Some d \<Rightarrow> (t + int d, True)
     | None \<Rightarrow> (t + limit, False))"

definition is_cancelled :: "time option \<Rightarrow> time \<Rightarrow> bool" where
  "is_cancelled shutdown t = (case shutdown of None \<Rightarrow> False | Some c \<Rightarrow> c \<le> t)"

text \<open>
  \<open>select!\<close> of a timer and the cancellation: \<open>Inl\<close> when the cancellation comes first. When both are due at
  the same instant \<open>select!\<close> may take either; here the timer wins.
\<close>

definition pause :: "time option \<Rightarrow> time \<Rightarrow> time \<Rightarrow> time + time" where
  "pause shutdown d t = (case filter_option (\<lambda>c. c < t + d) shutdown of
       Some c \<Rightarrow> Inl (max c t)
     | None \<Rightarrow> Inr (t + d))"

lemma with_timeout_bounds:
  "0 \<le> limit \<Longrightarrow> t \<le> fst (with_timeout limit t lasts) \<and> fst (with_timeout limit t lasts) \<le> t + limit"
  by (auto simp: with_timeout_def filter_option_def split: option.splits)

lemma is_cancelled_mono: "is_cancelled shutdown t \<Longrightarrow> t \<le> t' \<Longrightarrow> is_cancelled shutdown t'"
  by (auto simp: is_cancelled_def split: option.splits)

lemma pause_Inl: "pause shutdown d t = Inl t' \<Longrightarrow> 0 \<le> d \<Longrightarrow> is_cancelled shutdown t' \<and> t \<le> t' \<and> t' \<le> t + d"
  by (auto simp: pause_def is_cancelled_def filter_option_def split: option.splits if_splits)

lemma pause_Inr: "pause shutdown d t = Inr t' \<Longrightarrow> t' = t + d"
  by (auto simp: pause_def split: option.splits)

lemma pause_cancelled: "is_cancelled shutdown t \<Longrightarrow> 0 < d \<Longrightarrow> pause shutdown d t = Inl t"
  by (auto simp: pause_def is_cancelled_def split: option.splits)

lemma pause_over: "\<not> is_cancelled shutdown (t + d) \<Longrightarrow> pause shutdown d t = Inr (t + d)"
  by (auto simp: pause_def is_cancelled_def filter_option_def split: option.splits)

section \<open>Starting again\<close>

locale restart_loop =
  fixes shutdown :: "time option" and t0 delay :: time
    and lasts :: "nat \<Rightarrow> time \<Rightarrow> nat option" and started :: "nat \<Rightarrow> time \<Rightarrow> bool"
  assumes first: "started 0 t0"
    and again: "started n t \<Longrightarrow> lasts n t = Some d \<Longrightarrow> \<not> is_cancelled shutdown (t + int d + delay) \<Longrightarrow>
      started (Suc n) (t + int d + delay)"
    and delay_pos: "0 < delay"
begin

lemma up_from:
  assumes "\<not> is_cancelled shutdown now"
  shows "started n t \<Longrightarrow> t \<le> now \<Longrightarrow> \<exists>m u. started m u \<and> u \<le> now
    \<and> (case lasts m u of None \<Rightarrow> True | Some d \<Rightarrow> now < u + int d + delay)"
proof (induction "nat (now - t)" arbitrary: n t rule: less_induct)
  case less
  show ?case
  proof (cases "\<exists>d. lasts n t = Some d \<and> t + int d + delay \<le> now")
    case False
    then have "case lasts n t of None \<Rightarrow> True | Some d \<Rightarrow> now < t + int d + delay"
      by (auto split: option.split simp: not_le)
    with less.prems show ?thesis by blast
  next
    case True
    then obtain d where d: "lasts n t = Some d" "t + int d + delay \<le> now" by blast
    have "started (Suc n) (t + int d + delay)"
      using again [OF less.prems(1) d(1)] assms is_cancelled_mono [OF _ d(2)] by blast
    moreover have "nat (now - (t + int d + delay)) < nat (now - t)" using d(2) delay_pos by simp
    ultimately show ?thesis using less.hyps d(2) by blast
  qed
qed

lemma up_or_pausing:
  assumes "t0 \<le> now" "\<not> is_cancelled shutdown now"
  shows "\<exists>n t. started n t \<and> t \<le> now \<and> (case lasts n t of None \<Rightarrow> True | Some d \<Rightarrow> now < t + int d + delay)"
  using up_from [OF assms(2) first assms(1)] by blast

end

section \<open>Rounds\<close>

text \<open>
  A round that starts at a time ends the loop (\<open>Inl\<close>), is followed by another (\<open>Inr\<close>), or never ends.
\<close>

type_synonym rounds = "nat \<Rightarrow> time \<Rightarrow> (time + time) option"

partial_function (option) loop_until :: "rounds \<Rightarrow> nat \<Rightarrow> time \<Rightarrow> time option" where
  "loop_until body n t = Option.bind (body n t) (\<lambda>r. case r of
       Inl t' \<Rightarrow> Some t'
     | Inr t' \<Rightarrow> loop_until body (n + 1) t')"

inductive round_starts :: "rounds \<Rightarrow> time \<Rightarrow> nat \<Rightarrow> time \<Rightarrow> bool" for body t0 where
  first_round: "round_starts body t0 0 t0"
| next_round: "round_starts body t0 n t \<Longrightarrow> body n t = Some (Inr t') \<Longrightarrow> round_starts body t0 (Suc n) t'"

lemma round_starts_loop: "round_starts body t0 n t \<Longrightarrow> loop_until body 0 t0 = loop_until body n t"
proof (induction rule: round_starts.induct)
  case (next_round n t t')
  then show ?case by (simp add: loop_until.simps [of body n t])
qed simp

lemma loop_until_ended: "loop_until body n t = Some t' \<Longrightarrow> \<exists>m u. body m u = Some (Inl t')"
proof (erule loop_until.raw_induct [where P = "\<lambda>body n t t'. \<exists>m u. body m u = Some (Inl t')", rotated])
  fix again :: "rounds \<Rightarrow> nat \<Rightarrow> time \<Rightarrow> time option" and body :: rounds and n t t'
  assume IH: "\<And>body n t t'. again body n t = Some t' \<Longrightarrow> \<exists>m u. body m u = Some (Inl t')"
    and eq: "Option.bind (body n t) (\<lambda>r. case r of Inl t' \<Rightarrow> Some t' | Inr t' \<Rightarrow> again body (n + 1) t') = Some t'"
  then obtain r where "body n t = Some r" by (cases "body n t") auto
  with IH eq show "\<exists>m u. body m u = Some (Inl t')" by (cases r) auto
qed

text \<open>Rounds that always end, soon, and end the loop exactly on shutdown.\<close>

locale paced_loop =
  fixes shutdown :: "time option" and body :: rounds and gap :: time
  assumes answers: "body n t \<noteq> None"
    and stop: "is_cancelled shutdown t \<Longrightarrow> body n t = Some (Inl t)"
    and ended: "body n t = Some (Inl t') \<Longrightarrow> is_cancelled shutdown t' \<and> t' \<le> t + gap"
    and paced: "body n t = Some (Inr t') \<Longrightarrow> t < t' \<and> t' \<le> t + gap"
begin

lemma round_from:
  assumes "\<not> is_cancelled shutdown now"
  shows "round_starts body t0 n t \<Longrightarrow> t \<le> now \<Longrightarrow> \<exists>m u. round_starts body t0 m u \<and> u \<le> now \<and> now < u + gap"
proof (induction "nat (now - t)" arbitrary: n t rule: less_induct)
  case less
  obtain r where r: "body n t = Some r" using answers [of n t] by blast
  show ?case
  proof (cases r)
    case (Inl t')
    then have "is_cancelled shutdown t'" "t' \<le> t + gap" using ended [of n t t'] r by simp_all
    moreover have "now < t'" using calculation(1) assms is_cancelled_mono [of shutdown t' now] by linarith
    ultimately show ?thesis using less.prems by (intro exI [of _ n] exI [of _ t]) simp
  next
    case (Inr t')
    then have t': "t < t'" "t' \<le> t + gap" using paced [of n t t'] r by simp_all
    show ?thesis
    proof (cases "t' \<le> now")
      case True
      then have "nat (now - t') < nat (now - t)" using t'(1) by simp
      moreover have "round_starts body t0 (Suc n) t'" using less.prems(1) r Inr by (auto intro: round_starts.next_round)
      ultimately show ?thesis using less.hyps True by blast
    next
      case False
      then show ?thesis using less.prems t'(2) by (intro exI [of _ n] exI [of _ t]) simp
    qed
  qed
qed

lemma keeps_going:
  assumes "t0 \<le> now" "\<not> is_cancelled shutdown now"
  shows "\<exists>n t. round_starts body t0 n t \<and> t \<le> now \<and> now < t + gap"
  using round_from [OF assms(2) round_starts.first_round assms(1)] by blast

lemma returned: "loop_until body n t = Some t' \<Longrightarrow> is_cancelled shutdown t'"
  using ended by (blast dest: loop_until_ended)

lemma stops:
  assumes "shutdown = Some c"
  shows "\<exists>t'. loop_until body n t = Some t' \<and> c \<le> t' \<and> t \<le> t' \<and> t' \<le> max c t + gap"
proof (induction "nat (c - t)" arbitrary: n t rule: less_induct)
  case less
  obtain r where r: "body n t = Some r" using answers [of n t] by blast
  show ?case
  proof (cases "c \<le> t")
    case True
    then have body: "body n t = Some (Inl t)" using stop [of t n] assms by (simp add: is_cancelled_def)
    then have "t \<le> t + gap" using ended [OF body] by simp
    with body True show ?thesis by (simp add: loop_until.simps [of body n t])
  next
    case False
    show ?thesis
    proof (cases r)
      case (Inl t')
      then have "c \<le> t'" "t' \<le> t + gap" using ended [of n t t'] r assms by (simp_all add: is_cancelled_def)
      with False show ?thesis using r Inl by (simp add: loop_until.simps [of body n t])
    next
      case (Inr t')
      then have t': "t < t'" "t' \<le> t + gap" using paced [of n t t'] r by simp_all
      then have "nat (c - t') < nat (c - t)" using False by simp
      from less [OF this, of "n + 1"] obtain u where u: "loop_until body (n + 1) t' = Some u" "c \<le> u" "t' \<le> u"
          "u \<le> max c t' + gap" by blast
      show ?thesis
      proof (cases "c \<le> t'")
        case True
        then have "body (n + 1) t' = Some (Inl t')" using stop [of t' "n + 1"] assms by (simp add: is_cancelled_def)
        then have "u = t'" using u(1) by (simp add: loop_until.simps [of body "Suc n" t'])
        with True t' r Inr u(1) False show ?thesis by (simp add: loop_until.simps [of body n t])
      next
        case before: False
        with u t' False r Inr show ?thesis by (simp add: loop_until.simps [of body n t])
      qed
    qed
  qed
qed

end

end
