(* ===== verification/Supervise.thy ===== *)
theory Supervise
  imports Loops
begin

text \<open>
  \<^verbatim>\<open>src/supervise.rs\<close>: the supervisor of a background task. The task's runs are an argument: \<open>runs n t\<close> is
  how long run number \<open>n\<close>, started at \<open>t\<close>, lasts and how it ends, or \<open>None\<close> when it never ends. The result
  is the time the supervisor ends and the reasons it logged, one for each restart.
\<close>

section \<open>The loop\<close>

definition restart_delay :: time where "restart_delay = make_interval 1"

datatype panic_payload = OwnedMessage string | StaticMessage string | OtherPayload

datatype task_end = Returned | Panicked panic_payload | Aborted string

definition panic_message :: "panic_payload \<Rightarrow> string" where
  "panic_message p = (case p of OwnedMessage s \<Rightarrow> s | StaticMessage s \<Rightarrow> s | OtherPayload \<Rightarrow> [])"

definition restart_reason :: "task_end \<Rightarrow> string" where
  "restart_reason e = (case e of
       Returned \<Rightarrow> ''returned''
     | Panicked p \<Rightarrow> ''panicked: '' @ panic_message p
     | Aborted text \<Rightarrow> text)"

type_synonym task_runs = "nat \<Rightarrow> time \<Rightarrow> (nat \<times> task_end) option"

partial_function (option) supervise ::
    "task_runs \<Rightarrow> time option \<Rightarrow> nat \<Rightarrow> time \<Rightarrow> string list \<Rightarrow> (time \<times> string list) option" where
  "supervise runs shutdown n t reasons = Option.bind (runs n t) (\<lambda>(d, how).
     if is_cancelled shutdown (t + int d) then Some (t + int d, reasons)
     else case pause shutdown restart_delay (t + int d) of
         Inl c \<Rightarrow> Some (c, reasons @ [restart_reason how])
       | Inr t' \<Rightarrow> supervise runs shutdown (n + 1) t' (reasons @ [restart_reason how]))"

section \<open>When the runs start\<close>

text \<open>The supervisor starts run \<open>n\<close> at \<open>t\<close>, when it was spawned at \<open>t0\<close>.\<close>

inductive started :: "task_runs \<Rightarrow> time option \<Rightarrow> time \<Rightarrow> nat \<Rightarrow> time \<Rightarrow> bool" for runs shutdown t0 where
  spawned: "started runs shutdown t0 0 t0"
| restarted: "started runs shutdown t0 n t \<Longrightarrow> runs n t = Some (d, how) \<Longrightarrow>
    \<not> is_cancelled shutdown (t + int d) \<Longrightarrow> pause shutdown restart_delay (t + int d) = Inr t' \<Longrightarrow>
    started runs shutdown t0 (Suc n) t'"

definition lasts_of :: "task_runs \<Rightarrow> nat \<Rightarrow> time \<Rightarrow> nat option" where
  "lasts_of runs n t = map_option fst (runs n t)"

text \<open>At \<open>now\<close> the run started at \<open>t\<close> is active, or it ended less than the restart delay ago.\<close>

definition up_at :: "task_runs \<Rightarrow> nat \<Rightarrow> time \<Rightarrow> time \<Rightarrow> bool" where
  "up_at runs n t now = (t \<le> now \<and> (case lasts_of runs n t of
     None \<Rightarrow> True | Some d \<Rightarrow> now < t + int d + restart_delay))"

lemma restart_delay_pos: "0 < restart_delay"
  by (simp add: restart_delay_def make_interval_def nanos_per_sec_def)

interpretation supervised: restart_loop shutdown t0 restart_delay "lasts_of runs" "started runs shutdown t0"
  for shutdown t0 runs
proof
  fix n t d
  assume *: "started runs shutdown t0 n t" "lasts_of runs n t = Some d"
    and up: "\<not> is_cancelled shutdown (t + int d + restart_delay)"
  obtain how where "runs n t = Some (d, how)" using *(2) by (auto simp: lasts_of_def)
  moreover have "\<not> is_cancelled shutdown (t + int d)"
    using up is_cancelled_mono [of shutdown "t + int d" "t + int d + restart_delay"] restart_delay_pos by auto
  ultimately show "started runs shutdown t0 (Suc n) (t + int d + restart_delay)"
    using *(1) pause_over [OF up] by (auto intro: started.restarted)
qed (auto intro: started.spawned restart_delay_pos)

lemma started_supervise:
  "started runs shutdown t0 n t \<Longrightarrow>
    \<exists>reasons. supervise runs shutdown 0 t0 [] = supervise runs shutdown n t reasons \<and> length reasons = n"
proof (induction rule: started.induct)
  case spawned
  then show ?case by (intro exI [of _ "[]"]) simp
next
  case (restarted n t d how t')
  then obtain reasons where "supervise runs shutdown 0 t0 [] = supervise runs shutdown n t reasons" "length reasons = n"
    by blast
  moreover have "supervise runs shutdown n t reasons
      = supervise runs shutdown (Suc n) t' (reasons @ [restart_reason how])"
    using restarted.hyps by (subst supervise.simps) simp
  ultimately show ?case by (intro exI [of _ "reasons @ [restart_reason how]"]) simp
qed

lemma supervise_returns:
  assumes "\<And>n t. runs n t \<noteq> None" "shutdown = Some c"
  shows "\<exists>t' more. supervise runs shutdown n t reasons = Some (t', reasons @ more)
    \<and> restart_delay * int (length more) \<le> max 0 (c - t) + restart_delay"
proof (induction "nat (c - t)" arbitrary: n t reasons rule: less_induct)
  case less
  obtain d how where p: "runs n t = Some (d, how)" using assms(1) [of n t] by force
  define t' where "t' = t + int d"
  then have ge: "t \<le> t'" by simp
  have step: "supervise runs shutdown n t reasons = (if c \<le> t' then Some (t', reasons)
      else if c < t' + restart_delay then Some (c, reasons @ [restart_reason how])
      else supervise runs shutdown (n + 1) (t' + restart_delay) (reasons @ [restart_reason how]))"
    by (subst supervise.simps) (simp add: p assms(2) is_cancelled_def pause_def t'_def)
  consider "c \<le> t'" | "t' < c" "c < t' + restart_delay" | "t' + restart_delay \<le> c" by linarith
  then show ?case
  proof cases
    case 1
    then show ?thesis using step restart_delay_pos by (intro exI [of _ t'] exI [of _ "[]"]) simp
  next
    case 2
    then show ?thesis using step by (intro exI [of _ c] exI [of _ "[restart_reason how]"]) simp
  next
    case 3
    then have "nat (c - (t' + restart_delay)) < nat (c - t)" using ge restart_delay_pos by simp
    from less [OF this, of "n + 1" "reasons @ [restart_reason how]"] obtain u more where
      "supervise runs shutdown (n + 1) (t' + restart_delay) (reasons @ [restart_reason how])
         = Some (u, (reasons @ [restart_reason how]) @ more)"
      "restart_delay * int (length more) \<le> max 0 (c - (t' + restart_delay)) + restart_delay" by blast
    then show ?thesis using step 3 ge restart_delay_pos
      by (intro exI [of _ u] exI [of _ "restart_reason how # more"]) (simp add: algebra_simps)
  qed
qed

text \<open>A supervisor whose runs end soon after the shutdown ends soon after it, too.\<close>

lemma supervise_ends:
  assumes "\<And>n t. \<exists>d how. runs n t = Some (d, how) \<and> t + int d \<le> max c t + limit" "0 \<le> limit"
  shows "t \<le> c \<Longrightarrow> \<exists>t' reasons'. supervise runs (Some c) n t reasons = Some (t', reasons') \<and> c \<le> t' \<and> t' \<le> c + limit"
proof (induction "nat (c - t)" arbitrary: n t reasons rule: less_induct)
  case less
  obtain d how where p: "runs n t = Some (d, how)" "t + int d \<le> c + limit" using assms(1) [of n t] less.prems by auto
  show ?case
  proof (cases "t + int d + restart_delay \<le> c")
    case True
    then have "nat (c - (t + int d + restart_delay)) < nat (c - t)" using restart_delay_pos by simp
    from less.hyps [OF this True] True p restart_delay_pos show ?thesis
      by (subst supervise.simps) (simp add: is_cancelled_def pause_def)
  next
    case False
    with p less.prems assms(2) show ?thesis by (subst supervise.simps) (simp add: is_cancelled_def pause_def)
  qed
qed

section \<open>A task that may panic\<close>

text \<open>
  The runs of a task that would return at the time \<open>ret\<close> gives, unless it panics before; \<open>crash n\<close> is
  how long after its start run \<open>n\<close> panics, and with what payload.
\<close>

definition task_run ::
    "(nat \<Rightarrow> (nat \<times> panic_payload) option) \<Rightarrow> (nat \<Rightarrow> time \<Rightarrow> time option) \<Rightarrow> task_runs" where
  "task_run crash ret n t =
     (let returns = map_option (\<lambda>t'. (nat (t' - t), Returned)) (ret n t) in
      case crash n of
        None \<Rightarrow> returns
      | Some (d, p) \<Rightarrow> (case returns of
          Some (d', how) \<Rightarrow> Some (if d' \<le> d then (d', how) else (d, Panicked p))
        | None \<Rightarrow> Some (d, Panicked p)))"

lemma task_run_ends:
  assumes "ret n t = Some t'" "t \<le> t'" "t' \<le> max c t + limit"
  shows "\<exists>d how. task_run crash ret n t = Some (d, how) \<and> t + int d \<le> max c t + limit"
  using assms by (auto simp: task_run_def Let_def split: option.split)

text \<open>Before a run returns it is active, or it panicked less than the restart delay ago.\<close>

lemma up_at_task_run:
  assumes "up_at (task_run crash ret) n t now" "\<And>t'. ret n t = Some t' \<Longrightarrow> now < t'"
  shows "(\<exists>d p. crash n = Some (d, p) \<and> t + int d \<le> now \<and> now < t + int d + restart_delay)
    \<or> (\<forall>d p. crash n = Some (d, p) \<longrightarrow> now < t + int d)"
  using assms by (auto simp: up_at_def lasts_of_def task_run_def Let_def split: option.splits if_splits)

end
