(* ===== verification/Outbox_Loop.thy ===== *)
theory Outbox_Loop
  imports Config Supervise
begin

text \<open>
  \<^verbatim>\<open>src/outbox/mod.rs\<close>, \<open>run\<close> and \<open>run_bounded\<close>: one instance claims a batch, spawns its jobs under a
  semaphore with one permit per worker, waits for all of them, and waits for work. How long the
  statements and the jobs take, what the tables hold and when the loop is notified is given for each
  round; a claim takes at least a nanosecond. Clocks of the process and of the database agree.
\<close>

section \<open>A job under its time limit\<close>

definition claim_timeout :: time where "claim_timeout = make_interval 10"
definition reschedule_timeout :: time where "reschedule_timeout = make_interval 5"

record job_times =
  jt_execute :: "nat option"
  jt_reschedule :: "nat option"
  jt_reschedule_fails :: bool

text \<open>A job completes, is abandoned and rescheduled, or is abandoned and left to the end of its lock.\<close>

datatype bounded_end = Completed | Rescheduled | LockExpires

definition run_bounded :: "time \<Rightarrow> job_times \<Rightarrow> time \<Rightarrow> time \<times> bounded_end" where
  "run_bounded limit J t = (case with_timeout limit t (jt_execute J) of
       (t', True) \<Rightarrow> (t', Completed)
     | (t', False) \<Rightarrow> (case with_timeout reschedule_timeout t' (jt_reschedule J) of
          (t'', True) \<Rightarrow> (t'', if jt_reschedule_fails J then LockExpires else Rescheduled)
        | (t'', False) \<Rightarrow> (t'', LockExpires)))"

section \<open>The workers\<close>

text \<open>
  The semaphore: \<open>busy\<close> are the times at which the tasks spawned so far end and return their permits.
  Without any permit the acquisition never completes.
\<close>

definition acquire :: "nat \<Rightarrow> time list \<Rightarrow> time \<Rightarrow> time option" where
  "acquire workers busy t = (if workers = 0 then None
     else let held = filter (\<lambda>e. t < e) busy in Some (if length held < workers then t else Min (set held)))"

text \<open>The spawned tasks: the job, when it starts and when it ends.\<close>

type_synonym span = "outbox_job \<times> time \<times> time"

fun dispatch :: "nat \<Rightarrow> (outbox_job \<Rightarrow> time \<Rightarrow> time) \<Rightarrow> time \<Rightarrow> time list \<Rightarrow> outbox_job list \<Rightarrow> span list option" where
  "dispatch workers ends t busy [] = Some []"
| "dispatch workers ends t busy (job # jobs) = Option.bind (acquire workers busy t) (\<lambda>t'.
     map_option (Cons (job, t', ends job t'))
       (dispatch workers ends t' (ends job t' # filter (\<lambda>e. t' < e) busy) jobs))"

definition all_done :: "time \<Rightarrow> span list \<Rightarrow> time" where
  "all_done t spans = fold (\<lambda>(job, s, e). max e) spans t"

section \<open>A round\<close>

record outbox_pass =
  rd_claim :: "nat option"
  rd_clock :: nat
  rd_fault :: "sqlx_error option"
  rd_tables :: db
  rd_locked :: "uuid \<Rightarrow> bool"
  rd_job :: "uuid \<Rightarrow> job_times"
  rd_gauge :: "nat option"
  rd_wake :: "nat option"

text \<open>The database clock when the claim runs, and its answer. A negative limit is an error.\<close>

definition claimed_at :: "outbox_pass \<Rightarrow> time \<Rightarrow> time" where
  "claimed_at R t = t + int (case rd_claim R of None \<Rightarrow> 0 | Some d \<Rightarrow> min (rd_clock R) d)"

definition claim_answer :: "outbox_config \<Rightarrow> outbox_pass \<Rightarrow> time \<Rightarrow> sqlx_error + outbox_job list" where
  "claim_answer cfg R t = (case rd_fault R of
       Some e \<Rightarrow> Inl e
     | None \<Rightarrow> if ob_batch_size cfg < 0 then Inl (OtherDb ''LIMIT must not be negative'')
         else map_sum id fst
           (claim (claimed_at R t) (nat (ob_batch_size cfg)) (ob_lock_ttl_secs cfg) (rd_locked R) (rd_tables R)))"

definition bounded_claim :: "outbox_config \<Rightarrow> outbox_pass \<Rightarrow> time \<Rightarrow> time \<times> (sqlx_error + outbox_job list)" where
  "bounded_claim cfg R t = (case with_timeout claim_timeout t (map_option Suc (rd_claim R)) of
       (t', True) \<Rightarrow> (t', claim_answer cfg R t)
     | (t', False) \<Rightarrow> (t', Inl PoolTimedOut))"

definition job_ends :: "outbox_config \<Rightarrow> outbox_pass \<Rightarrow> outbox_job \<Rightarrow> time \<Rightarrow> time" where
  "job_ends cfg R job t = fst (run_bounded (millis (ob_job_timeout_ms cfg)) (rd_job R (j_id job)) t)"

definition batch_spans :: "outbox_config \<Rightarrow> outbox_pass \<Rightarrow> time \<Rightarrow> outbox_job list \<Rightarrow> span list option" where
  "batch_spans cfg R t jobs = dispatch (ob_workers cfg) (job_ends cfg R) t [] jobs"

definition outbox_wait :: "outbox_config \<Rightarrow> outbox_pass \<Rightarrow> time" where
  "outbox_wait cfg R = (case rd_wake R of
       None \<Rightarrow> millis (ob_poll_interval_ms cfg)
     | Some w \<Rightarrow> min (int w) (millis (ob_poll_interval_ms cfg)))"

definition outbox_round :: "outbox_config \<Rightarrow> time option \<Rightarrow> (nat \<Rightarrow> outbox_pass) \<Rightarrow> rounds" where
  "outbox_round cfg shutdown env n t =
     (if is_cancelled shutdown t then Some (Inl t)
      else case bounded_claim cfg (env n) t of
          (t1, Inl err) \<Rightarrow> Some (pause shutdown (millis (ob_poll_interval_ms cfg)) t1)
        | (t1, Inr jobs) \<Rightarrow> map_option (\<lambda>spans.
            let t2 = fst (with_timeout claim_timeout (all_done t1 spans) (rd_gauge (env n)))
            in if ob_batch_size cfg \<le> int (length jobs) then Inr t2
               else pause shutdown (outbox_wait cfg (env n)) t2)
            (batch_spans cfg (env n) t1 jobs))"

text \<open>
  \<open>run\<close>: when it returns. Every handle of a round has been awaited before the next one, so all permits
  are free when the loop ends and \<open>acquire_many\<close> takes no time.
\<close>

definition outbox_run :: "outbox_config \<Rightarrow> time option \<Rightarrow> (nat \<Rightarrow> outbox_pass) \<Rightarrow> time \<Rightarrow> time option" where
  "outbox_run cfg shutdown env t = loop_until (outbox_round cfg shutdown env) 0 t"

section \<open>At most as many jobs at once as there are workers\<close>

definition running_at :: "time \<Rightarrow> span list \<Rightarrow> nat" where
  "running_at x spans = length (filter (\<lambda>(job, s, e). s \<le> x \<and> x < e) spans)"

lemma acquire_cases:
  assumes "acquire workers busy t = Some t'"
  obtains (free) "0 < workers" "t' = t" "length (filter (\<lambda>e. t < e) busy) < workers"
  | (waited) "0 < workers" "t' \<in> set busy" "t < t'" "workers \<le> length (filter (\<lambda>e. t < e) busy)"
      "\<forall>e \<in> set busy. t < e \<longrightarrow> t' \<le> e"
proof (cases "length (filter (\<lambda>e. t < e) busy) < workers")
  case True
  with assms that(1) show thesis by (simp add: acquire_def split: if_splits)
next
  case False
  define held where "held = filter (\<lambda>e. t < e) busy"
  have w: "workers \<noteq> 0" "t' = Min (set held)" "workers \<le> length held"
    using assms False by (auto simp: acquire_def held_def Let_def split: if_splits)
  then have "set held \<noteq> {}" by auto
  then have "t' \<in> set held" "\<forall>e \<in> set held. t' \<le> e" using w(2) by simp_all
  with w that(2) show thesis by (simp add: held_def)
qed

lemma acquire_ge: "acquire workers busy t = Some t' \<Longrightarrow> t \<le> t'"
  by (erule acquire_cases) auto

lemma acquire_frees:
  assumes "acquire workers busy t = Some t'" "length busy \<le> workers"
  shows "length (filter (\<lambda>e. t' < e) busy) < workers"
  using assms(1)
proof (cases rule: acquire_cases)
  case waited
  then have "length (filter (\<lambda>e. t' < e) busy) < length busy" by (intro length_filter_less [of t']) auto
  with assms(2) show ?thesis by simp
qed simp

lemma dispatch_starts:
  "dispatch workers ends t busy jobs = Some spans \<Longrightarrow> (job, s, e) \<in> set spans \<Longrightarrow> t \<le> s \<and> e = ends job s \<and> job \<in> set jobs"
proof (induction jobs arbitrary: t busy spans)
  case (Cons j jobs)
  obtain t' rest where t': "acquire workers busy t = Some t'"
      "dispatch workers ends t' (ends j t' # filter (\<lambda>e. t' < e) busy) jobs = Some rest" "spans = (j, t', ends j t') # rest"
    using Cons.prems(1) by (auto simp: bind_eq_Some_conv)
  with Cons.IH [OF t'(2)] Cons.prems(2) acquire_ge [OF t'(1)] show ?case by auto
qed simp

lemma dispatch_running:
  assumes "length busy \<le> workers" "dispatch workers ends t busy jobs = Some spans"
  shows "length (filter (\<lambda>e. x < e) busy) + running_at x spans \<le> workers"
  using assms
proof (induction jobs arbitrary: t busy spans)
  case Nil
  then show ?case using le_trans [OF length_filter_le [of "\<lambda>e. x < e" busy]] by (simp add: running_at_def)
next
  case (Cons j jobs)
  obtain t' rest where t': "acquire workers busy t = Some t'"
      "dispatch workers ends t' (ends j t' # filter (\<lambda>e. t' < e) busy) jobs = Some rest" "spans = (j, t', ends j t') # rest"
    using Cons.prems(2) by (auto simp: bind_eq_Some_conv)
  show ?case
  proof (cases "t' \<le> x")
    case True
    have "length (ends j t' # filter (\<lambda>e. t' < e) busy) \<le> workers"
      using acquire_frees [OF t'(1) Cons.prems(1)] by simp
    moreover have "filter (\<lambda>e. x < e) (filter (\<lambda>e. t' < e) busy) = filter (\<lambda>e. x < e) busy"
      unfolding filter_filter using True by (intro filter_cong) auto
    ultimately show ?thesis using Cons.IH [OF _ t'(2)] True t'(3) by (simp add: running_at_def split: if_splits)
  next
    case False
    then have "running_at x spans = 0"
      using t'(3) dispatch_starts [OF t'(2)] by (fastforce simp: running_at_def filter_empty_conv)
    then show ?thesis using le_trans [OF length_filter_le [of "\<lambda>e. x < e" busy]] Cons.prems(1) by simp
  qed
qed

section \<open>A batch runs in waves\<close>

text \<open>
  The tasks spawned so far, the newest first, end within the limits \<open>limit 0, limit 1, \<dots>\<close> of their
  positions; tasks that have ended may be missing.
\<close>

fun stacked :: "(nat \<Rightarrow> time) \<Rightarrow> nat \<Rightarrow> time list \<Rightarrow> bool" where
  "stacked limit k [] = True"
| "stacked limit k (e # es) = (0 < k \<and> e \<le> limit (k - 1) \<and> stacked limit (k - 1) es)"

lemma stacked_mono: "stacked limit k es \<Longrightarrow> mono limit \<Longrightarrow> k \<le> k' \<Longrightarrow> stacked limit k' es"
proof (induction es arbitrary: k k')
  case (Cons e es)
  then have "limit (k - 1) \<le> limit (k' - 1)" by (intro monoD [of limit] diff_le_mono)
  with Cons.prems Cons.IH [of "k - 1" "k' - 1"] show ?case by (auto intro: order_trans)
qed simp

lemma stacked_filter: "stacked limit k es \<Longrightarrow> mono limit \<Longrightarrow> stacked limit k (filter P es)"
proof (induction es arbitrary: k)
  case (Cons e es)
  then show ?case using stacked_mono [of limit "k - 1" "filter P es" k] by auto
qed simp

lemma stacked_nth: "stacked limit k es \<Longrightarrow> i < length es \<Longrightarrow> i < k \<and> es ! i \<le> limit (k - Suc i)"
proof (induction es arbitrary: k i)
  case (Cons e es)
  then show ?case by (cases i) fastforce+
qed simp

definition wave_limit :: "nat \<Rightarrow> time \<Rightarrow> time \<Rightarrow> nat \<Rightarrow> time" where
  "wave_limit workers limit t0 i = t0 + int (Suc (i div workers)) * limit"

lemma wave_limit_mono: "0 \<le> limit \<Longrightarrow> mono (wave_limit workers limit t0)"
  by (intro monoI) (simp add: wave_limit_def mult_right_mono div_le_mono)

lemma acquire_waves:
  assumes "acquire workers busy t = Some t'" "0 \<le> limit" "stacked (wave_limit workers limit t0) k busy"
    and "t \<le> t0 + int (k div workers) * limit"
  shows "t' \<le> t0 + int (k div workers) * limit"
  using assms(1)
proof (cases rule: acquire_cases)
  case waited
  define held where "held = filter (\<lambda>e. t < e) busy"
  have "stacked (wave_limit workers limit t0) k held"
    using assms(2,3) by (simp add: held_def stacked_filter wave_limit_mono)
  moreover have i: "workers - 1 < length held" using waited(1,4) by (simp add: held_def)
  ultimately have "workers - 1 < k \<and> held ! (workers - 1) \<le> wave_limit workers limit t0 (k - Suc (workers - 1))"
    by (rule stacked_nth)
  then have e: "workers \<le> k" "held ! (workers - 1) \<le> wave_limit workers limit t0 (k - workers)"
    using waited(1) by auto
  have "held ! (workers - 1) \<in> set held" using i by simp
  then have "t' \<le> held ! (workers - 1)" using waited(5) by (simp add: held_def)
  also have "\<dots> \<le> t0 + int (k div workers) * limit"
    using e waited(1) by (simp add: wave_limit_def le_div_geq)
  finally show ?thesis .
qed (use assms(4) in simp)

lemma dispatch_waves:
  assumes "\<And>job t. ends job t \<le> t + limit" "0 \<le> limit"
    and "stacked (wave_limit workers limit t0) k busy" "t \<le> t0 + int (k div workers) * limit"
    and "dispatch workers ends t busy jobs = Some spans" "(job, s, e) \<in> set spans"
  shows "e \<le> wave_limit workers limit t0 (k + length jobs - 1)"
  using assms(3-)
proof (induction jobs arbitrary: t busy spans k)
  case (Cons j jobs)
  obtain t' rest where t': "acquire workers busy t = Some t'"
      "dispatch workers ends t' (ends j t' # filter (\<lambda>e. t' < e) busy) jobs = Some rest" "spans = (j, t', ends j t') # rest"
    using Cons.prems(3) by (auto simp: bind_eq_Some_conv)
  have le: "t' \<le> t0 + int (k div workers) * limit" by (rule acquire_waves [OF t'(1) assms(2) Cons.prems(1,2)])
  then have first: "ends j t' \<le> wave_limit workers limit t0 k"
    using assms(1) [of j t'] by (simp add: wave_limit_def algebra_simps)
  then have st: "stacked (wave_limit workers limit t0) (k + 1) (ends j t' # filter (\<lambda>e. t' < e) busy)"
    using Cons.prems(1) assms(2) by (simp add: stacked_filter wave_limit_mono)
  have "int (k div workers) * limit \<le> int ((k + 1) div workers) * limit"
    using assms(2) by (intro mult_right_mono) (simp_all add: div_le_mono)
  with le have later: "t' \<le> t0 + int ((k + 1) div workers) * limit" by simp
  consider "(job, s, e) = (j, t', ends j t')" | "(job, s, e) \<in> set rest" using Cons.prems(4) t'(3) by auto
  then show ?case
  proof cases
    case 1
    with first show ?thesis
      using monoD [OF wave_limit_mono [OF assms(2), of workers t0], of k "k + length jobs"] by simp
  next
    case 2
    from Cons.IH [OF st later t'(2) this] show ?thesis by simp
  qed
qed simp


section \<open>How long a round takes\<close>

definition job_limit :: "outbox_config \<Rightarrow> time" where
  "job_limit cfg = millis (ob_job_timeout_ms cfg) + reschedule_timeout"

definition waves :: "outbox_config \<Rightarrow> nat" where
  "waves cfg = (nat (ob_batch_size cfg) + ob_workers cfg - 1) div ob_workers cfg"

definition round_limit :: "outbox_config \<Rightarrow> time" where
  "round_limit cfg = 2 * claim_timeout + int (waves cfg) * job_limit cfg + millis (ob_poll_interval_ms cfg)"

lemmas limit_defs = claim_timeout_def reschedule_timeout_def make_interval_def nanos_per_sec_def

lemma job_limit_nonneg: "0 \<le> job_limit cfg"
  by (simp add: job_limit_def limit_defs millis_def)

lemma job_ends_bounds: "t \<le> job_ends cfg R job t" "job_ends cfg R job t \<le> t + job_limit cfg"
proof -
  have "0 \<le> millis (ob_job_timeout_ms cfg)" "0 \<le> reschedule_timeout" by (simp_all add: millis_def limit_defs)
  then show "t \<le> job_ends cfg R job t" "job_ends cfg R job t \<le> t + job_limit cfg"
    by (auto simp: job_ends_def run_bounded_def with_timeout_def job_limit_def split: option.splits prod.splits bool.splits)
qed

lemma claim_length:
  assumes "claim now batch ttl busy db = Inr (jobs, db')" "distinct (map o_id (outbox db))"
  shows "length jobs \<le> batch"
proof -
  let ?due = "due_rows now batch busy (outbox db)"
  let ?sel = "filter (\<lambda>r. o_id r \<in> set (map o_id ?due)) (outbox db)"
  have "length jobs = length ?sel" using assms(1) by (auto simp: claim_def Let_def)
  also have "\<dots> = card (set (map o_id ?sel))"
    using distinct_card [of "map o_id ?sel"] assms(2) by (simp add: distinct_map_filter)
  also have "\<dots> \<le> card (set (map o_id ?due))" by (intro card_mono) auto
  also have "\<dots> \<le> length ?due" using card_length [of "map o_id ?due"] by simp
  also have "\<dots> \<le> batch" by (simp add: due_rows_def)
  finally show ?thesis .
qed

lemma claim_answer_Inr:
  assumes "claim_answer cfg R t = Inr jobs"
  obtains db where "claim (claimed_at R t) (nat (ob_batch_size cfg)) (ob_lock_ttl_secs cfg) (rd_locked R) (rd_tables R)
    = Inr (jobs, db)"
proof (cases "claim (claimed_at R t) (nat (ob_batch_size cfg)) (ob_lock_ttl_secs cfg) (rd_locked R) (rd_tables R)")
  case (Inr p)
  then show thesis using assms that [of "snd p"]
    by (cases p) (auto simp: claim_answer_def split: option.splits if_splits)
qed (use assms in \<open>auto simp: claim_answer_def split: option.splits if_splits\<close>)

lemma claim_answer_length:
  "claim_answer cfg R t = Inr jobs \<Longrightarrow> distinct (map o_id (outbox (rd_tables R))) \<Longrightarrow> length jobs \<le> nat (ob_batch_size cfg)"
  by (erule claim_answer_Inr) (rule claim_length)

lemma dispatch_total: "0 < workers \<Longrightarrow> \<exists>spans. dispatch workers ends t busy jobs = Some spans"
proof (induction jobs arbitrary: t busy)
  case (Cons job jobs)
  then obtain t' where t': "acquire workers busy t = Some t'" by (auto simp: acquire_def Let_def)
  with Cons.IH [OF Cons.prems] obtain spans where
    "dispatch workers ends t' (ends job t' # filter (\<lambda>e. t' < e) busy) jobs = Some spans" by blast
  with t' show ?case by simp
qed simp

lemma all_done_ge: "t \<le> all_done t spans"
proof (induction spans arbitrary: t)
  case (Cons x spans)
  obtain job s e where "x = (job, s, e)" by (cases x)
  with Cons.IH [of "max e t"] show ?case by (simp add: all_done_def)
qed (simp add: all_done_def)

lemma all_done_le: "t \<le> b \<Longrightarrow> (\<And>job s e. (job, s, e) \<in> set spans \<Longrightarrow> e \<le> b) \<Longrightarrow> all_done t spans \<le> b"
proof (induction spans arbitrary: t)
  case (Cons x spans)
  obtain job s e where x: "x = (job, s, e)" by (cases x)
  with Cons.prems have "max e t \<le> b" by (metis list.set_intros(1) max.bounded_iff)
  moreover have "\<And>job s e. (job, s, e) \<in> set spans \<Longrightarrow> e \<le> b" using Cons.prems(2) by (meson list.set_intros(2))
  ultimately have "all_done (max e t) spans \<le> b" by (rule Cons.IH)
  with x show ?case by (simp add: all_done_def)
qed (simp add: all_done_def)

lemma waves_Suc: "0 < workers \<Longrightarrow> 0 < n \<Longrightarrow> Suc ((n - 1) div workers) = (n + workers - 1) div (workers :: nat)"
  using div_add_self2 [of workers "n - 1"] by (simp add: add.commute)

lemma batch_spans_end:
  assumes "batch_spans cfg R t jobs = Some spans" "length jobs \<le> nat (ob_batch_size cfg)" "(job, s, e) \<in> set spans"
  shows "e \<le> t + int (waves cfg) * job_limit cfg"
proof -
  let ?w = "ob_workers cfg" and ?n = "nat (ob_batch_size cfg)"
  have d: "dispatch ?w (job_ends cfg R) t [] jobs = Some spans" using assms(1) by (simp add: batch_spans_def)
  have "job \<in> set jobs" using dispatch_starts [OF d assms(3)] by blast
  then have pos: "0 < length jobs" by (cases jobs) simp_all
  have w: "0 < ?w" using d pos by (cases jobs) (auto simp: acquire_def bind_eq_Some_conv split: if_splits)
  have "e \<le> wave_limit ?w (job_limit cfg) t (length jobs - 1)"
    using dispatch_waves [OF job_ends_bounds(2) job_limit_nonneg _ _ d assms(3), of t 0] by simp
  also have "\<dots> \<le> wave_limit ?w (job_limit cfg) t (?n - 1)"
    using assms(2) by (intro monoD [OF wave_limit_mono] job_limit_nonneg) simp
  also have "\<dots> = t + int (waves cfg) * job_limit cfg"
    unfolding wave_limit_def waves_def using less_le_trans [OF pos assms(2)] by (subst waves_Suc [OF w]) simp_all
  finally show ?thesis .
qed


lemma bounded_claim_bounds:
  assumes "bounded_claim cfg R t = (t1, r)"
  shows "t < t1" "t1 \<le> t + claim_timeout"
  using assms
  by (auto simp: bounded_claim_def with_timeout_def limit_defs filter_option_def
      split: prod.splits bool.splits option.splits if_splits)

lemma bounded_claim_Inr: "bounded_claim cfg R t = (t1, Inr jobs) \<Longrightarrow> claim_answer cfg R t = Inr jobs"
  by (auto simp: bounded_claim_def split: prod.splits bool.splits)

lemma outbox_wait_bounds: "0 \<le> outbox_wait cfg R" "outbox_wait cfg R \<le> millis (ob_poll_interval_ms cfg)"
  by (auto simp: outbox_wait_def millis_def split: option.split)

text \<open>A round that is not cut short begins the next one, or the loop ends, within the limit.\<close>

lemma outbox_round_ends:
  assumes "0 < ob_workers cfg" "distinct (map o_id (outbox (rd_tables (env n))))" "\<not> is_cancelled shutdown t"
  obtains u d where "t < u" "0 \<le> d" "u + d \<le> t + round_limit cfg"
    "outbox_round cfg shutdown env n t = Some (pause shutdown d u) \<or> outbox_round cfg shutdown env n t = Some (Inr u)"
proof -
  obtain t1 r where c: "bounded_claim cfg (env n) t = (t1, r)" by (cases "bounded_claim cfg (env n) t")
  note t1 = bounded_claim_bounds [OF c]
  have poll: "0 \<le> millis (ob_poll_interval_ms cfg)" by (simp add: millis_def)
  have work: "0 \<le> int (waves cfg) * job_limit cfg" by (simp add: job_limit_nonneg)
  have ct: "0 \<le> claim_timeout" by (simp add: limit_defs)
  show thesis
  proof (cases r)
    case (Inl err)
    then have "outbox_round cfg shutdown env n t = Some (pause shutdown (millis (ob_poll_interval_ms cfg)) t1)"
      using assms(3) c by (simp add: outbox_round_def)
    then show thesis using t1 poll work ct by (intro that [of t1 "millis (ob_poll_interval_ms cfg)"]) (simp_all add: round_limit_def)
  next
    case (Inr jobs)
    obtain spans where sp: "batch_spans cfg (env n) t1 jobs = Some spans"
      using dispatch_total [OF assms(1)] unfolding batch_spans_def by blast
    have len: "length jobs \<le> nat (ob_batch_size cfg)"
      using claim_answer_length [OF bounded_claim_Inr assms(2)] c Inr by blast
    define u where "u = fst (with_timeout claim_timeout (all_done t1 spans) (rd_gauge (env n)))"
    have "all_done t1 spans \<le> t1 + int (waves cfg) * job_limit cfg"
      using batch_spans_end [OF sp len] work by (intro all_done_le) simp_all
    then have u: "t1 \<le> u" "u \<le> t1 + int (waves cfg) * job_limit cfg + claim_timeout"
      using with_timeout_bounds [OF ct, of "all_done t1 spans" "rd_gauge (env n)"] all_done_ge [of t1 spans]
      by (simp_all add: u_def)
    have "outbox_round cfg shutdown env n t = Some (if ob_batch_size cfg \<le> int (length jobs) then Inr u
        else pause shutdown (outbox_wait cfg (env n)) u)"
      using assms(3) c Inr sp by (simp add: outbox_round_def u_def Let_def)
    then show thesis using t1 u outbox_wait_bounds [of cfg "env n"]
      by (intro that [of u "outbox_wait cfg (env n)"]) (auto simp: round_limit_def)
  qed
qed

lemma round_limit_pos: "0 < round_limit cfg"
  using job_limit_nonneg [of cfg] by (simp add: round_limit_def limit_defs millis_def add_pos_nonneg)

lemma outbox_paced:
  assumes "0 < ob_workers cfg" "\<And>n. distinct (map o_id (outbox (rd_tables (env n))))"
  shows "paced_loop shutdown (outbox_round cfg shutdown env) (round_limit cfg)"
proof
  fix n t
  show stop: "is_cancelled shutdown t \<Longrightarrow> outbox_round cfg shutdown env n t = Some (Inl t)" by (simp add: outbox_round_def)
  show "outbox_round cfg shutdown env n t \<noteq> None"
  proof (cases "is_cancelled shutdown t")
    case False
    then show ?thesis by (rule outbox_round_ends [where env = env and n = n, OF assms]) auto
  qed (simp add: stop)
next
  fix n t t'
  assume r: "outbox_round cfg shutdown env n t = Some (Inl t')"
  show "is_cancelled shutdown t' \<and> t' \<le> t + round_limit cfg"
  proof (cases "is_cancelled shutdown t")
    case True
    with r round_limit_pos [of cfg] show ?thesis by (auto simp: outbox_round_def)
  next
    case False
    then show ?thesis using r
      by (elim outbox_round_ends [where env = env and n = n, OF assms]) (auto dest!: pause_Inl [OF sym] pause_Inl)
  qed
next
  fix n t t'
  assume r: "outbox_round cfg shutdown env n t = Some (Inr t')"
  then have "\<not> is_cancelled shutdown t" by (auto simp: outbox_round_def)
  then show "t < t' \<and> t' \<le> t + round_limit cfg" using r
    by (elim outbox_round_ends [where env = env and n = n, OF assms]) (auto dest!: pause_Inr [OF sym] pause_Inr)
qed


end
