(* ===== verification/Background.thy ===== *)
theory Background
  imports Outbox_Loop Pay
begin

text \<open>
  The loops of the reconciler (\<^verbatim>\<open>src/reconciler.rs\<close>) and of the notification feed
  (\<^verbatim>\<open>src/deposit/feed.rs\<close>), the options of the database connections (\<^verbatim>\<open>src/db.rs\<close>), and how
  \<^verbatim>\<open>src/main.rs\<close> starts the background tasks under supervision and waits for them on shutdown. How long a
  tick or a listener connection lasts is given for each round. The Postgres URL parser, the pool and the
  migrations are parameters.
\<close>

section \<open>The reconciler\<close>

definition tick_timeout :: time where "tick_timeout = make_interval 300"

definition reconciler_interval :: "reconciler_config \<Rightarrow> time" where
  "reconciler_interval cfg = make_interval (int (max (rc_interval_secs cfg) 5))"

definition reconciler_round :: "reconciler_config \<Rightarrow> time option \<Rightarrow> (nat \<Rightarrow> nat option) \<Rightarrow> rounds" where
  "reconciler_round cfg shutdown ticks n t = Some (case pause shutdown (reconciler_interval cfg) t of
       Inl c \<Rightarrow> Inl c
     | Inr t' \<Rightarrow> Inr (fst (with_timeout tick_timeout t' (ticks n))))"

definition reconciler_run :: "reconciler_config \<Rightarrow> time option \<Rightarrow> (nat \<Rightarrow> nat option) \<Rightarrow> time \<Rightarrow> time option" where
  "reconciler_run cfg shutdown ticks t = loop_until (reconciler_round cfg shutdown ticks) 0 t"

lemma reconciler_limits: "0 < reconciler_interval cfg" "0 < tick_timeout"
  by (simp_all add: reconciler_interval_def tick_timeout_def make_interval_def nanos_per_sec_def)

interpretation reconciling: paced_loop shutdown "reconciler_round cfg shutdown ticks" "reconciler_interval cfg + tick_timeout"
  for shutdown cfg ticks
proof
  fix n t t'
  note limits = reconciler_limits(1) [of cfg] reconciler_limits(2)
  show "reconciler_round cfg shutdown ticks n t \<noteq> None" by (simp add: reconciler_round_def)
  show "is_cancelled shutdown t \<Longrightarrow> reconciler_round cfg shutdown ticks n t = Some (Inl t)"
    by (simp add: reconciler_round_def pause_cancelled limits)
  show "reconciler_round cfg shutdown ticks n t = Some (Inl t') \<Longrightarrow>
      is_cancelled shutdown t' \<and> t' \<le> t + (reconciler_interval cfg + tick_timeout)"
    using limits by (auto simp: reconciler_round_def dest!: pause_Inl split: sum.splits)
  show "reconciler_round cfg shutdown ticks n t = Some (Inr t') \<Longrightarrow>
      t < t' \<and> t' \<le> t + (reconciler_interval cfg + tick_timeout)"
    using limits with_timeout_bounds [of tick_timeout "t + reconciler_interval cfg" "ticks n"]
    by (auto simp: reconciler_round_def dest!: pause_Inr split: sum.splits)
qed

section \<open>The feed\<close>

definition retry_delay :: time where "retry_delay = make_interval 1"

text \<open>
  One connection of the listener: how long it lasts, and the events it relayed once it listened; \<open>None\<close>
  when it failed before.
\<close>

record feed_session =
  fs_lasts :: "nat option"
  fs_heard :: "listener_event list option"

definition session_sends :: "lib \<Rightarrow> feed_session \<Rightarrow> uuid list" where
  "session_sends L S = (case fs_heard S of None \<Rightarrow> [] | Some es \<Rightarrow> listen L es)"

definition feed_round :: "time option \<Rightarrow> (nat \<Rightarrow> feed_session) \<Rightarrow> rounds" where
  "feed_round shutdown sessions n t = (case fs_lasts (sessions n) of
       None \<Rightarrow> map_option (\<lambda>c. Inl (max c t)) shutdown
     | Some d \<Rightarrow> Some (case pause shutdown (int d) t of
         Inl c \<Rightarrow> Inl c
       | Inr t' \<Rightarrow> pause shutdown retry_delay t'))"

text \<open>Without connection options the task returns at once.\<close>

definition feed_run :: "(string + 'o) \<Rightarrow> time option \<Rightarrow> (nat \<Rightarrow> feed_session) \<Rightarrow> time \<Rightarrow> time option" where
  "feed_run options shutdown sessions t = (case options of
       Inl err \<Rightarrow> Some t
     | Inr opts \<Rightarrow> loop_until (feed_round shutdown sessions) 0 t)"

lemma retry_delay_pos: "0 < retry_delay"
  by (simp add: retry_delay_def make_interval_def nanos_per_sec_def)

interpretation feeding: restart_loop shutdown t0 retry_delay "\<lambda>n t. fs_lasts (sessions n)"
  "round_starts (feed_round shutdown sessions) t0" for shutdown t0 sessions
proof
  fix n t d
  assume *: "round_starts (feed_round shutdown sessions) t0 n t" "fs_lasts (sessions n) = Some d"
    and up: "\<not> is_cancelled shutdown (t + int d + retry_delay)"
  then have "\<not> is_cancelled shutdown (t + int d)"
    using is_cancelled_mono [of shutdown "t + int d" "t + int d + retry_delay"] retry_delay_pos by auto
  then have "feed_round shutdown sessions n t = Some (Inr (t + int d + retry_delay))"
    using *(2) up by (simp add: feed_round_def pause_over)
  with *(1) show "round_starts (feed_round shutdown sessions) t0 (Suc n) (t + int d + retry_delay)"
    by (rule round_starts.next_round)
qed (auto intro: round_starts.first_round retry_delay_pos)

lemma feed_stops: "\<exists>t'. loop_until (feed_round (Some c) sessions) n t = Some t' \<and> t \<le> t' \<and> c \<le> t' \<and> t' \<le> max c t"
proof (induction "nat (c - t)" arbitrary: n t rule: less_induct)
  case less
  show ?case
  proof (cases "\<exists>d. fs_lasts (sessions n) = Some d \<and> t + int d + retry_delay \<le> c")
    case True
    then obtain d where d: "fs_lasts (sessions n) = Some d" "t + int d + retry_delay \<le> c" by blast
    then have "nat (c - (t + int d + retry_delay)) < nat (c - t)" using retry_delay_pos by simp
    from less [OF this, of "n + 1"] d retry_delay_pos show ?thesis
      by (subst loop_until.simps) (auto simp: feed_round_def pause_def)
  next
    case False
    then show ?thesis using retry_delay_pos
      by (subst loop_until.simps) (auto simp: feed_round_def pause_def split: option.split)
  qed
qed

section \<open>Database connections\<close>

definition session_limits :: "database_config \<Rightarrow> (string \<times> nat) list" where
  "session_limits cfg = [(''statement_timeout'', dc_statement_timeout_ms cfg), (''lock_timeout'', dc_lock_timeout_ms cfg),
     (''idle_in_transaction_session_timeout'', dc_idle_in_transaction_timeout_ms cfg)]"

text \<open>The parsed URL with the session options the service adds; \<open>parse\<close> is \<open>PgConnectOptions::from_str\<close>.\<close>

definition connect_options ::
    "(string \<Rightarrow> 'o option) \<Rightarrow> database_config \<Rightarrow> string + 'o \<times> (string \<times> string) list" where
  "connect_options parse cfg = (case parse (dc_url cfg) of
       None \<Rightarrow> Inl ''database.url is not a Postgres URL''
     | Some url \<Rightarrow> Inr (url, map (\<lambda>(k, ms). (k, dec_nat ms)) (filter (\<lambda>(k, ms). 0 < ms) (session_limits cfg))))"

record pool_options =
  po_max_connections :: nat
  po_min_connections :: nat
  po_acquire_timeout :: time

definition db_connect ::
    "(string \<Rightarrow> 'o option) \<Rightarrow> (pool_options \<Rightarrow> 'o \<times> (string \<times> string) list \<Rightarrow> 'p option) \<Rightarrow> database_config \<Rightarrow> string + 'p" where
  "db_connect parse open_pool cfg = (case connect_options parse cfg of
       Inl err \<Rightarrow> Inl err
     | Inr options \<Rightarrow> ok_or (open_pool \<lparr>po_max_connections = dc_max_connections cfg,
           po_min_connections = dc_min_connections cfg, po_acquire_timeout = millis (dc_acquire_timeout_ms cfg)\<rparr> options)
         ''connecting to postgres'')"

text \<open>Migrations run on a connection of their own, without the session options.\<close>

definition migrate ::
    "(string \<Rightarrow> 'o option) \<Rightarrow> ('o \<Rightarrow> 'c option) \<Rightarrow> ('c \<Rightarrow> bool) \<Rightarrow> database_config \<Rightarrow> string + unit" where
  "migrate parse open_connection migrator cfg = (case parse (dc_url cfg) of
       None \<Rightarrow> Inl ''database.url is not a Postgres URL''
     | Some options \<Rightarrow> (case open_connection options of
         None \<Rightarrow> Inl ''connecting to postgres to migrate''
       | Some conn \<Rightarrow> if migrator conn then Inr () else Inl ''running migrations''))"

section \<open>The process\<close>

text \<open>What start-up calls outside the repository: figment, sqlx, the metrics recorder, the HTTP clients.\<close>

record ('o, 'c, 'p, 'k) process_lib =
  pl_extract :: "config_layer list \<Rightarrow> config option"
  pl_metrics :: "string + unit"
  pl_parse_url :: "string \<Rightarrow> 'o option"
  pl_open_connection :: "'o \<Rightarrow> 'c option"
  pl_migrator :: "'c \<Rightarrow> bool"
  pl_open_pool :: "pool_options \<Rightarrow> 'o \<times> (string \<times> string) list \<Rightarrow> 'p option"
  pl_parse_ip :: "string \<Rightarrow> nat option"
  pl_from_ec_pem :: "string \<Rightarrow> string + 'k"
  pl_http :: "string + unit"

definition config_dir :: "string option \<Rightarrow> string" where
  "config_dir var = unwrap_or ''config'' var"

text \<open>\<open>main\<close> until the tasks are spawned: the application state, the pool and the address to bind.\<close>

definition main_start ::
    "lib \<Rightarrow> ('o, 'c, 'p, 'k) process_lib \<Rightarrow> string option \<Rightarrow> process_env \<Rightarrow> string + 'k app_state \<times> 'p \<times> nat \<times> nat" where
  "main_start L M dir P =
     (case config_load L (pl_extract M) (config_dir dir) P of Inl e \<Rightarrow> Inl e | Inr c \<Rightarrow>
      case pl_metrics M of Inl e \<Rightarrow> Inl e | Inr _ \<Rightarrow>
      case (if dc_auto_migrate (cf_database c)
            then migrate (pl_parse_url M) (pl_open_connection M) (pl_migrator M) (cf_database c) else Inr ()) of
        Inl e \<Rightarrow> Inl e | Inr _ \<Rightarrow>
      case db_connect (pl_parse_url M) (pl_open_pool M) (cf_database c) of Inl e \<Rightarrow> Inl e | Inr pool \<Rightarrow>
      case pl_parse_ip M (sc_bind (cf_server c)) of None \<Rightarrow> Inl ''server.bind is not an IP address'' | Some ip \<Rightarrow>
      case app_state_new L (pl_from_ec_pem M) (pl_http M) c of Inl e \<Rightarrow> Inl e | Inr S \<Rightarrow>
      Inr (S, pool, ip, sc_port (cf_server c)))"

lemma app_state_new_config: "app_state_new L from_ec_pem http c = Inr S \<Longrightarrow> as_config S = c"
  by (auto simp: app_state_new_def split: sum.splits)

text \<open>A process that started has a valid configuration, and its feed has connection options.\<close>

lemma main_startE:
  assumes "main_start L M dir P = Inr (S, pool, ip, port)"
  obtains options where "config_load L (pl_extract M) (config_dir dir) P = Inr (as_config S)"
    "0 < ob_workers (cf_outbox (as_config S))"
    "connect_options (pl_parse_url M) (cf_database (as_config S)) = Inr options"
    "port = sc_port (cf_server (as_config S))"
proof -
  obtain c where c: "config_load L (pl_extract M) (config_dir dir) P = Inr c"
      "db_connect (pl_parse_url M) (pl_open_pool M) (cf_database c) = Inr pool"
      "app_state_new L (pl_from_ec_pem M) (pl_http M) c = Inr S" "port = sc_port (cf_server c)"
    using assms by (auto simp: main_start_def split: sum.splits option.splits)
  moreover obtain options where "connect_options (pl_parse_url M) (cf_database c) = Inr options"
    using c(2) by (auto simp: db_connect_def split: sum.splits)
  moreover have "as_config S = c" using c(3) by (rule app_state_new_config)
  moreover have "0 < ob_workers (cf_outbox c)" using config_loadE [OF c(1)] by blast
  ultimately show thesis using that by blast
qed

text \<open>\<open>supervise::spawn\<close> of the three tasks; a restarted run gets fresh passes, ticks and sessions.\<close>

definition outbox_task ::
    "outbox_config \<Rightarrow> time option \<Rightarrow> (nat \<Rightarrow> (nat \<times> panic_payload) option) \<Rightarrow> (nat \<Rightarrow> nat \<Rightarrow> outbox_pass) \<Rightarrow> task_runs" where
  "outbox_task cfg shutdown crash passes = task_run crash (\<lambda>n. outbox_run cfg shutdown (passes n))"

definition reconciler_task ::
    "reconciler_config \<Rightarrow> time option \<Rightarrow> (nat \<Rightarrow> (nat \<times> panic_payload) option) \<Rightarrow> (nat \<Rightarrow> nat \<Rightarrow> nat option) \<Rightarrow> task_runs" where
  "reconciler_task cfg shutdown crash ticks = task_run crash (\<lambda>n. reconciler_run cfg shutdown (ticks n))"

definition feed_task ::
    "(string + 'o) \<Rightarrow> time option \<Rightarrow> (nat \<Rightarrow> (nat \<times> panic_payload) option) \<Rightarrow> (nat \<Rightarrow> nat \<Rightarrow> feed_session) \<Rightarrow> task_runs" where
  "feed_task options shutdown crash sessions = task_run crash (\<lambda>n. feed_run options shutdown (sessions n))"

text \<open>
  After the signal and once HTTP has drained, \<open>main\<close> awaits the three handles one after another, under the
  grace period, and then closes the pool: when, and whether every task had ended by then.
\<close>

fun await_tasks :: "time \<Rightarrow> (time \<times> string list) option list \<Rightarrow> time option" where
  "await_tasks t [] = Some t"
| "await_tasks t (task # tasks) = Option.bind task (\<lambda>(e, reasons). await_tasks (max t e) tasks)"

definition main_shutdown :: "server_config \<Rightarrow> time \<Rightarrow> (time \<times> string list) option list \<Rightarrow> time \<times> bool" where
  "main_shutdown cfg drained tasks = with_timeout (make_interval (int (sc_shutdown_grace_secs cfg))) drained
     (map_option (\<lambda>t. nat (t - drained)) (await_tasks drained tasks))"


end
