(* ===== verification/Background_Properties.thy ===== *)
theory Background_Properties
  imports Background Config_Properties
begin

text \<open>
  What the background loops of a started process guarantee: they keep working until the shutdown whatever
  fails, they end soon after it, and how a batch of the outbox relates to the lease of its jobs.
\<close>

section \<open>Working until the shutdown\<close>















definition ex_pass :: outbox_pass where
  "ex_pass = \<lparr>rd_claim = Some 1000, rd_clock = 500, rd_fault = None, rd_tables = empty_db, rd_locked = (\<lambda>_. False),
     rd_job = (\<lambda>_. \<lparr>jt_execute = None, jt_reschedule = None, jt_reschedule_fails = False\<rparr>), rd_gauge = None,
     rd_wake = None\<rparr>"



section \<open>Ending after the shutdown\<close>






section \<open>A batch and its lease\<close>

lemma dispatch_jobs: "dispatch workers ends t busy jobs = Some spans \<Longrightarrow> map fst spans = jobs"
  by (induction jobs arbitrary: t busy spans) (auto simp: bind_eq_Some_conv)

text \<open>The \<open>[outbox]\<close> section of \<^verbatim>\<open>config/default.toml\<close>, and seventeen due jobs that all hang.\<close>

definition shipped_outbox :: outbox_config where
  "shipped_outbox = \<lparr>ob_workers = 8, ob_poll_interval_ms = 500, ob_batch_size = 32, ob_lock_ttl_secs = 60,
     ob_upstream_retry_cap_ms = 30000, ob_job_timeout_ms = 30000\<rparr>"

definition ex_due_row :: "nat \<Rightarrow> outbox_row" where
  "ex_due_row i = \<lparr>o_id = i, o_kind = ''notify_app'', o_deposit_id = i, o_payload = JNull, o_attempts = 0,
     o_next_attempt_at = 0, o_locked_until = None, o_last_error = None, o_dead_at = None, o_created_at = 0\<rparr>"

definition ex_late_pass :: outbox_pass where
  "ex_late_pass = ex_pass\<lparr>rd_tables := empty_db\<lparr>outbox := map ex_due_row [0..<17]\<rparr>\<rparr>"

definition ex_lock :: "int \<Rightarrow> time \<Rightarrow> outbox_row \<Rightarrow> outbox_row" where
  "ex_lock ttl now r = r\<lparr>o_locked_until := Some (now + make_interval ttl), o_attempts := o_attempts r + 1\<rparr>"

definition ex_due_jobs :: "outbox_job list" where
  "ex_due_jobs = map (\<lambda>i. job_of (ex_lock 60 500 (ex_due_row i))) [0..<17]"

lemma claim_all_due:
  assumes "\<And>i. o_id (f i) = i \<and> o_deposit_id (f i) = i \<and> live (f i) \<and> o_next_attempt_at (f i) = 0
      \<and> (case o_locked_until (f i) of None \<Rightarrow> True | Some t \<Rightarrow> t < now)" "0 \<le> now"
  shows "claim now 32 ttl (\<lambda>_. False) (db\<lparr>outbox := map f [0..<17]\<rparr>)
    = Inr (map (\<lambda>i. job_of (ex_lock ttl now (f i))) [0..<17], db\<lparr>outbox := map (\<lambda>i. ex_lock ttl now (f i)) [0..<17]\<rparr>)"
proof -
  let ?rows = "map f [0..<17]"
  have "filter (\<lambda>r. claimable now ?rows r \<and> \<not> (\<lambda>_. False) (o_id r)) ?rows = ?rows"
    using assms by (auto simp: filter_id_conv claimable_def same_queue_def)
  moreover have "sort_key o_next_attempt_at ?rows = ?rows"
    using assms(1) by (intro sort_key_id_if_sorted) (simp add: comp_def map_replicate_const)
  ultimately have "due_rows now 32 (\<lambda>_. False) ?rows = ?rows" by (simp add: due_rows_def)
  then show ?thesis by (simp add: claim_def Let_def filter_id_conv upd_rows_def ex_lock_def comp_def)
qed

lemma ex_first_claim:
  "claim 500 32 60 (\<lambda>_. False) (rd_tables ex_late_pass)
    = Inr (ex_due_jobs, empty_db\<lparr>outbox := map (\<lambda>i. ex_lock 60 500 (ex_due_row i)) [0..<17]\<rparr>)"
  using claim_all_due [of ex_due_row 500 60 empty_db] by (simp add: ex_late_pass_def ex_due_row_def live_def ex_due_jobs_def)

lemma ex_second_claim:
  "\<exists>jobs db. claim 70000001001 32 60 (\<lambda>_. False) (empty_db\<lparr>outbox := map (\<lambda>i. ex_lock 60 500 (ex_due_row i)) [0..<17]\<rparr>)
    = Inr (jobs, db) \<and> map j_id jobs = [0..<17]"
  using claim_all_due [of "\<lambda>i. ex_lock 60 500 (ex_due_row i)" 70000001001 60 empty_db]
  by (simp add: ex_due_row_def ex_lock_def live_def job_of_def comp_def make_interval_def nanos_per_sec_def)

lemma ex_late_claim: "bounded_claim shipped_outbox ex_late_pass 0 = (1001, Inr ex_due_jobs)"
proof -
  have "claim_answer shipped_outbox ex_late_pass 0 = Inr ex_due_jobs"
    using ex_first_claim by (simp add: claim_answer_def claimed_at_def shipped_outbox_def ex_late_pass_def ex_pass_def)
  then show ?thesis by (simp add: bounded_claim_def with_timeout_def filter_option_def limit_defs ex_late_pass_def ex_pass_def)
qed

text \<open>Each of them takes its time limit and five seconds more to be rescheduled, so they run in three waves.\<close>

lemma ex_job_ends: "job_ends shipped_outbox ex_late_pass = (\<lambda>job t. t + 35000000000)"
  by (intro ext) (simp add: job_ends_def run_bounded_def with_timeout_def ex_late_pass_def ex_pass_def shipped_outbox_def
      filter_option_def millis_def limit_defs)

lemma dispatch_uniform:
  assumes "0 < limit" "0 < workers"
  shows "k \<le> workers \<Longrightarrow> \<exists>spans. dispatch workers (\<lambda>job t. t + limit) t (replicate k (t + limit)) jobs = Some spans
    \<and> map (fst \<circ> snd) spans = map (\<lambda>i. t + int ((k + i) div workers) * limit) [0..<length jobs]"
proof (induction jobs arbitrary: t k)
  case (Cons job jobs)
  have upt: "[0..<length (job # jobs)] = 0 # map Suc [0..<length jobs]" by (simp add: upt_conv_Cons map_Suc_upt del: upt_Suc)
  show ?case
  proof (cases "k < workers")
    case True
    with Cons.IH [of "Suc k" t] assms show ?thesis unfolding upt by (auto simp: acquire_def)
  next
    case False
    with Cons.prems have k: "k = workers" by simp
    have "acquire workers (replicate k (t + limit)) t = Some (t + limit)" using assms k by (simp add: acquire_def)
    moreover have "(workers + Suc i) div workers = Suc ((1 + i) div workers)" for i
      using assms(2) div_add_self1 [of workers "Suc i"] by simp
    ultimately show ?thesis
      using Cons.IH [of 1 "t + limit"] assms unfolding upt k by (auto simp: algebra_simps)
  qed
qed simp

lemma ex_sizes: "ob_workers shipped_outbox = 8" "length ex_due_jobs = 17"
  by (simp_all add: shipped_outbox_def ex_due_jobs_def)

lemma ex_last_is_late:
  "\<exists>spans. batch_spans shipped_outbox ex_late_pass 1001 ex_due_jobs = Some spans \<and> fst (snd (last spans)) = 70000001001 \<and> spans \<noteq> []"
proof -
  obtain spans where *: "batch_spans shipped_outbox ex_late_pass 1001 ex_due_jobs = Some spans"
      "map (fst \<circ> snd) spans = map (\<lambda>i. 1001 + int ((0 + i) div 8) * 35000000000) [0..<17]"
    using dispatch_uniform [of 35000000000 8 0 1001 ex_due_jobs]
    by (auto simp: batch_spans_def ex_job_ends ex_sizes)
  have "spans \<noteq> []" using *(2) by auto
  then have "fst (snd (last spans)) = last (map (fst \<circ> snd) spans)" by (simp add: last_map)
  also have "\<dots> = 70000001001" unfolding *(2) by (simp add: last_map)
  finally show ?thesis using * \<open>spans \<noteq> []\<close> by blast
qed

definition within_lease :: "outbox_config \<Rightarrow> outbox_pass \<Rightarrow> time \<Rightarrow> time \<Rightarrow> bool" where
  "within_lease cfg R t e = (e \<le> claimed_at R t + make_interval (ob_lock_ttl_secs cfg))"

lemma claimed_at_ge: "t \<le> claimed_at R t"
  by (simp add: claimed_at_def split: option.split)

lemma batch_runs:
  assumes "bounded_claim cfg R t = (t1, Inr jobs)" "distinct (map o_id (outbox (rd_tables R)))" "0 < ob_workers cfg"
  shows "\<exists>spans. batch_spans cfg R t1 jobs = Some spans \<and> map fst spans = jobs
    \<and> (\<forall>x. running_at x spans \<le> ob_workers cfg)
    \<and> (\<forall>(job, s, e) \<in> set spans. t1 \<le> s \<and> s \<le> e \<and> e \<le> t1 + int (waves cfg) * job_limit cfg
        \<and> (claim_timeout + int (waves cfg) * job_limit cfg \<le> make_interval (ob_lock_ttl_secs cfg) \<longrightarrow> within_lease cfg R t e))"
proof -
  obtain spans where sp: "batch_spans cfg R t1 jobs = Some spans"
    using dispatch_total [OF assms(3)] unfolding batch_spans_def by blast
  note d = sp [unfolded batch_spans_def]
  have len: "length jobs \<le> nat (ob_batch_size cfg)"
    by (rule claim_answer_length [OF bounded_claim_Inr [OF assms(1)] assms(2)])
  have "t1 \<le> s \<and> s \<le> e \<and> e \<le> t1 + int (waves cfg) * job_limit cfg" if "(job, s, e) \<in> set spans" for job s e
    using dispatch_starts [OF d that] job_ends_bounds(1) batch_spans_end [OF sp len that] by auto
  moreover have "t1 \<le> t + claim_timeout" using bounded_claim_bounds [OF assms(1)] by simp
  moreover have "running_at x spans \<le> ob_workers cfg" for x using dispatch_running [OF _ d, of x] by simp
  ultimately show ?thesis
    using sp dispatch_jobs [OF d] claimed_at_ge [of t R] by (fastforce simp: within_lease_def)
qed

text \<open>
  C17. How a batch relates to the lease of its jobs. Every job of a claimed batch is run once, never more at a
  time than there are workers, and the last has ended after as many job limits as the batch has waves; so a
  lease that covers the claim and all the waves covers every run. What a configuration is checked for is
  less, and the shipped one does not have it: with more than two waves of jobs that hang, a job is started
  after its lease has ended, when another instance has claimed it again.
\<close>

theorem batch_and_lease:
  assumes "bounded_claim cfg R t = (t1, Inr jobs)" "distinct (map o_id (outbox (rd_tables R)))" "0 < ob_workers cfg"
  shows "(\<exists>spans. batch_spans cfg R t1 jobs = Some spans \<and> map fst spans = jobs
      \<and> (\<forall>x. running_at x spans \<le> ob_workers cfg)
      \<and> (\<forall>(job, s, e) \<in> set spans. t1 \<le> s \<and> s \<le> e \<and> e \<le> t1 + int (waves cfg) * job_limit cfg
          \<and> (claim_timeout + int (waves cfg) * job_limit cfg \<le> make_interval (ob_lock_ttl_secs cfg) \<longrightarrow> within_lease cfg R t e)))
    \<and> (\<exists>R t1 jobs db spans job s e jobs' db'. bounded_claim shipped_outbox R 0 = (t1, Inr jobs)
      \<and> claim (claimed_at R 0) 32 60 (rd_locked R) (rd_tables R) = Inr (jobs, db)
      \<and> batch_spans shipped_outbox R t1 jobs = Some spans \<and> (job, s, e) \<in> set spans \<and> \<not> within_lease shipped_outbox R 0 s
      \<and> claim s 32 60 (\<lambda>_. False) db = Inr (jobs', db') \<and> j_id job \<in> j_id ` set jobs')"
proof (intro conjI)
  obtain spans where sp: "batch_spans shipped_outbox ex_late_pass 1001 ex_due_jobs = Some spans"
      "fst (snd (last spans)) = 70000001001" "spans \<noteq> []" using ex_last_is_late by blast
  obtain job e where last: "last spans = (job, 70000001001, e)" using sp(2) by (cases "last spans") auto
  then have mem: "(job, 70000001001, e) \<in> set spans" using last_in_set [OF sp(3)] by simp
  then have "job \<in> set ex_due_jobs" using dispatch_starts [OF sp(1) [unfolded batch_spans_def]] by blast
  then have id: "j_id job \<in> set [0..<17]" by (auto simp: ex_due_jobs_def job_of_def ex_lock_def ex_due_row_def)
  obtain jobs' db' where again: "claim 70000001001 32 60 (\<lambda>_. False) (empty_db\<lparr>outbox := map (\<lambda>i. ex_lock 60 500 (ex_due_row i)) [0..<17]\<rparr>)
      = Inr (jobs', db')" "map j_id jobs' = [0..<17]" using ex_second_claim by blast
  have at: "claimed_at ex_late_pass 0 = 500" "rd_locked ex_late_pass = (\<lambda>_. False)"
    by (simp_all add: claimed_at_def ex_late_pass_def ex_pass_def)
  then have "\<not> within_lease shipped_outbox ex_late_pass 0 70000001001"
    by (simp add: within_lease_def shipped_outbox_def make_interval_def nanos_per_sec_def)
  moreover have "j_id job \<in> j_id ` set jobs'" using id again(2) by (metis set_map)
  ultimately show "\<exists>R t1 jobs db spans job s e jobs' db'. bounded_claim shipped_outbox R 0 = (t1, Inr jobs)
      \<and> claim (claimed_at R 0) 32 60 (rd_locked R) (rd_tables R) = Inr (jobs, db)
      \<and> batch_spans shipped_outbox R t1 jobs = Some spans \<and> (job, s, e) \<in> set spans \<and> \<not> within_lease shipped_outbox R 0 s
      \<and> claim s 32 60 (\<lambda>_. False) db = Inr (jobs', db') \<and> j_id job \<in> j_id ` set jobs'"
    using ex_late_claim ex_first_claim sp(1) mem again(1) unfolding at [symmetric] by metis
qed (rule batch_runs [OF assms])

text \<open>The shipped configuration runs a batch in four waves; a lease of four minutes covers them.\<close>

theorem batch_and_lease_witness:
  "\<exists>jobs spans. bounded_claim (shipped_outbox\<lparr>ob_lock_ttl_secs := 240\<rparr>) ex_late_pass 0 = (1001, Inr jobs)
     \<and> batch_spans (shipped_outbox\<lparr>ob_lock_ttl_secs := 240\<rparr>) ex_late_pass 1001 jobs = Some spans \<and> length spans = 17
     \<and> list_all (\<lambda>(job, s, e). within_lease (shipped_outbox\<lparr>ob_lock_ttl_secs := 240\<rparr>) ex_late_pass 0 e) spans"
proof -
  let ?cfg = "shipped_outbox\<lparr>ob_lock_ttl_secs := 240\<rparr>" and ?jobs = "map (\<lambda>i. job_of (ex_lock 240 500 (ex_due_row i))) [0..<17]"
  have "claim_answer ?cfg ex_late_pass 0 = Inr ?jobs"
    using claim_all_due [of ex_due_row 500 240 empty_db]
    by (simp add: claim_answer_def claimed_at_def shipped_outbox_def ex_late_pass_def ex_pass_def ex_due_row_def live_def)
  then have c: "bounded_claim ?cfg ex_late_pass 0 = (1001, Inr ?jobs)"
    by (simp add: bounded_claim_def with_timeout_def filter_option_def limit_defs ex_late_pass_def ex_pass_def)
  have "distinct (map o_id (outbox (rd_tables ex_late_pass)))" "0 < ob_workers ?cfg"
    by (simp_all add: ex_late_pass_def ex_due_row_def comp_def shipped_outbox_def)
  moreover have "claim_timeout + int (waves ?cfg) * job_limit ?cfg \<le> make_interval (ob_lock_ttl_secs ?cfg)"
    by (simp add: waves_def job_limit_def shipped_outbox_def limit_defs millis_def)
  ultimately obtain spans where "batch_spans ?cfg ex_late_pass 1001 ?jobs = Some spans" "map fst spans = ?jobs"
      "\<forall>(job, s, e) \<in> set spans. within_lease ?cfg ex_late_pass 0 e"
    using batch_and_lease [OF c] by fastforce
  moreover have "length spans = 17" using calculation(2) by (metis length_map length_upt diff_zero)
  ultimately show ?thesis using c by (auto simp: list_all_iff)
qed

end
