(* ===== verification/Spec2Isabelle.thy ===== *)
theory Spec2Isabelle
  imports Relay_Offer_Properties Relay_Cache_Properties Retry_Properties Pay_Properties
    Background_Properties
begin

text \<open>
  \<^bold>\<open>A verification of gum-server\<close>

  gum-server takes stablecoin deposits for applications. An application asks for a deposit
  (\<^verbatim>\<open>POST /v1/deposit\<close>) and gets a payment address that commits to the terms of the payment. The indexer, a
  separate service, watches the address; the engine, another one, executes the payment on chain once the
  amount is there. gum-server keeps the deposits, tells both services what to do through an outbox, hears
  from them through signed webhooks, asks them again through a reconciler, and tells the application
  through signed webhooks of its own. A payer may also pay with another token on another chain through
  Relay; the service asks Relay for a route and checks every byte of it before a wallet sees it.

  This theory imports all others and holds the properties that span the whole service. Paths are relative
  to the repository's \<^verbatim>\<open>src/\<close> directory.

  \<^bold>\<open>Theories and sources\<close>

  \<^item> \<open>Gum_Base\<close>: the prelude. Rust's strings (UTF-8 bytes), options, casts and checked arithmetic, JSON values,
    SQL row updates, \<open>BTreeMap\<close> inserts, and the record \<open>lib\<close> of third-party functions with the
    documented behaviour that theorems may ask for by name.
  \<^item> \<open>Api_Error\<close> (\<^verbatim>\<open>error.rs\<close>), \<open>Chain_Payment\<close> (\<^verbatim>\<open>chain/mod.rs\<close>, \<^verbatim>\<open>chain/payment.rs\<close>: registry, terms, CREATE2
    address, calldata, outcome of a receipt), \<open>Chain_Revert\<close> (\<^verbatim>\<open>chain/revert.rs\<close>), \<open>Deposit_Model\<close>
    (\<^verbatim>\<open>deposit/mod.rs\<close>).
  \<^item> \<open>Deposit_Store\<close> (\<^verbatim>\<open>deposit/store.rs\<close>): the tables as a record \<open>db\<close>, every statement a transaction on it.
    \<open>Store_Laws\<close> and \<open>Create_Laws\<close> state what each transaction keeps and does; the locale \<open>transition\<close> is the
    contract shared by all status changes, interpreted for each of them.
  \<^item> \<open>Deposit_Request\<close> (\<^verbatim>\<open>deposit/request.rs\<close>), \<open>Create_Properties\<close>: validation, idempotent creation, paging.
  \<^item> \<open>Webhook_Auth\<close> (\<^verbatim>\<open>webhooks/sign.rs\<close>, \<^verbatim>\<open>webhooks/target.rs\<close>), \<open>Inbound\<close> (\<^verbatim>\<open>webhooks/inbound.rs\<close>),
    \<open>Webhook_Properties\<close>: signatures, replay window, private targets, redelivery, evidence for a settlement.
  \<^item> \<open>Clients\<close> (\<^verbatim>\<open>clients/mod.rs\<close>, \<^verbatim>\<open>engine.rs\<close>, \<^verbatim>\<open>indexer.rs\<close>), \<open>Outbox\<close> (\<^verbatim>\<open>outbox/mod.rs\<close>), \<open>Reconciler\<close>
    (\<^verbatim>\<open>reconciler.rs\<close>), \<open>Retry_Properties\<close>: leases, retries, automatic resubmission.
  \<^item> \<open>Server\<close>: the service as a step relation. A state is the tables and the outbox workers in flight; a
    step is a request, a webhook, a reconciler pass, a phase of a worker, or a crash. \<open>Frames\<close> states which
    tables a step may touch, as the locales \<open>table_frame\<close> and \<open>claim_frame\<close>.
  \<^item> \<open>Relay_Wire\<close>, \<open>Relay_Abi\<close>, \<open>Relay_Check\<close>, \<open>Relay_Quote\<close> (\<^verbatim>\<open>clients/relay.rs\<close>, \<^verbatim>\<open>deposit/relay.rs\<close>): the wire types,
    the ABI reader, and \<open>check_quote\<close> down to nested router calls. \<open>Relay_Wallet\<close> is the specification it is
    held against: a wallet whose allowances Relay's contracts may draw. \<open>Relay_Properties\<close> has the theorems.
  \<^item> \<open>Relay_Client\<close> (\<open>RelayClient\<close> of \<^verbatim>\<open>clients/relay.rs\<close>), \<open>Relay_Tokens\<close> (\<^verbatim>\<open>deposit/relay_tokens.rs\<close>) and
    \<open>Relay_Routes\<close> (the handlers of \<^verbatim>\<open>deposit/relay.rs\<close>) as operations that may fail and change the client's
    state, with the requests they send. \<open>Relay_Routes_Properties\<close>, \<open>Relay_Offer_Properties\<close> and
    \<open>Relay_Cache_Properties\<close> have the theorems; the locale \<open>client_op\<close> is what the cached chain list relies on.
  \<^item> \<open>Account\<close> (\<^verbatim>\<open>auth/\<close>, \<^verbatim>\<open>account/mod.rs\<close>), \<open>Account_Properties\<close>: credentials, API keys, accounts, and a fleet of
    instances with their caches.
  \<^item> \<open>Config\<close> (\<^verbatim>\<open>config.rs\<close>, \<^verbatim>\<open>state.rs\<close>), \<open>Routes\<close> (\<^verbatim>\<open>deposit/routes.rs\<close>, handlers of \<^verbatim>\<open>app.rs\<close>), \<open>Pay\<close>
    (\<^verbatim>\<open>deposit/pay.rs\<close>, \<^verbatim>\<open>deposit/feed.rs\<close>), each with its theory of properties.
  \<^item> \<open>Loops\<close>: what background loops share, time limits and pauses that a shutdown cuts short, with the locales
    \<open>restart_loop\<close> (starts something again when it ends) and \<open>paced_loop\<close> (begins a round every so often and
    stops on shutdown). \<open>Supervise\<close> (\<^verbatim>\<open>supervise.rs\<close>), \<open>Outbox_Loop\<close> (\<open>run\<close> and \<open>run_bounded\<close> of
    \<^verbatim>\<open>outbox/mod.rs\<close>, with its workers) and \<open>Background\<close> (\<open>run\<close> of \<^verbatim>\<open>reconciler.rs\<close> and \<^verbatim>\<open>deposit/feed.rs\<close>,
    \<^verbatim>\<open>db.rs\<close>, start-up and shutdown of \<^verbatim>\<open>main.rs\<close>) meet these contracts; \<open>Background_Properties\<close> has the theorems.
  \<^item> \<open>Example_Lib\<close>, \<open>Example_Run\<close>: a concrete library and a short run on which the theorems are applied.

  \<^bold>\<open>What is shown\<close>

  \<^item> No deposit is forgotten: over every run, crashes included, an open deposit has a live job that registers
    its watch, a paid one a live job that submits its settlement, and such a job is eventually claimed.
  \<^item> Money goes where the quote said: what is watched and executed is the quoted address, token and amount,
    for the receiver of the request; the address commits to all terms.
  \<^item> A deposit is settled only on authenticated evidence; its status, columns and event sequence agree; a
    redelivered webhook, a repeated request and a retried job change nothing they should not.
  \<^item> A route through Relay pays the deposit, takes no more from the payer than the page shows, and refunds
    only her or the deposit; the routes of the pay page only ever ask for and show such routes.
  \<^item> An account sees its own deposits only, a request acts only for the account that its credential proves, the
    payer's view leaks nothing, and a held request is answered in time.
  \<^item> A configuration that loads is usable. Until the shutdown the outbox keeps claiming, the reconciler keeps
    ticking and the feed keeps listening, whatever panics or hangs; after it the process ends in bounded time.
    A batch of jobs runs in waves, and a lease that covers all of them covers every job; the shipped
    configuration has a shorter one.

  \<^bold>\<open>Conventions and bounds\<close>

  Third-party code is a parameter (\<open>lib\<close>, the cache and limiter operations, the HTTP exchange, \<^verbatim>\<open>serde\<close>'s and
  \<^verbatim>\<open>figment\<close>'s readers); what a theorem relies on is a named hypothesis, and a witness instantiates it. Time is an
  integer number of nanoseconds, clock readings are arguments. A panic is \<open>None\<close>, or the \<open>500\<close> the router
  makes of it. Loops are structural recursion, except those that wait for the outside: the long-polling
  loop, the supervisor and the background loops are partial functions with a proof that they return, and \<open>trim\<close> drops
  at most as many pieces as the text is long. Nested router calls are bounded by the depth that the source
  allows itself. \<open>u64\<close>, \<open>i64\<close> and \<open>u8\<close> are numbers with the casts written out, \<open>U256\<close>, addresses and hashes are
  words.

  \<^bold>\<open>Not modelled\<close>

  The router table and the middleware stack of \<^verbatim>\<open>app.rs\<close> (timeouts, load shedding, CORS, request ids), and
  binding, serving and signals in \<^verbatim>\<open>main.rs\<close>: they are calls into axum, tower and tokio, whose code is not part of
  the repository. Module declarations (\<^verbatim>\<open>lib.rs\<close>), logging and metrics (\<^verbatim>\<open>telemetry.rs\<close>), which carry no
  state of the service. Postgres is modelled as serialised transactions on lists of rows; price lookups,
  which run concurrently, are made in the order of their keys.
\<close>

section \<open>No deposit is forgotten\<close>

lemma not_closing:
  "i \<notin> closing ws \<longleftrightarrow> (\<forall>job a. Closing job a \<in> set ws \<longrightarrow> is_final a \<longrightarrow> j_id job \<noteq> i)"
  by (force simp: closing_def)

lemma reachable_carried:
  assumes "reachable L E cfg s" "uuid_v7_ok L" "d \<in> set (deposits (sv_db s))" "needs k d"
  obtains j where "j \<in> set (outbox (sv_db s))" "o_kind j = k" "o_deposit_id j = d_id d" "live j"
    "o_id j \<notin> closing (sv_workers s)"
  using reachable_ok [OF assms(1,2)] assms(3,4) that
  unfolding server_ok_def covered_def carried_def live_def by blast

text \<open>
  C1. Money is never stranded: whatever requests, webhooks, reconciler passes, outbox workers and
  crashes have happened, a deposit that is \<open>paid\<close> and has no engine job has a live outbox job that
  submits its settlement, and no worker that is about to delete or bury that job.
\<close>

theorem paid_deposit_has_job:
  assumes "reachable L E cfg s" "uuid_v7_ok L"
    and "d \<in> set (deposits (sv_db s))" "d_status d = Paid" "d_engine_job_id d = None"
  shows "\<exists>j \<in> set (outbox (sv_db s)). o_kind j = ''submit_execute'' \<and> o_deposit_id j = d_id d \<and> live j
    \<and> (\<forall>job a. Closing job a \<in> set (sv_workers s) \<longrightarrow> is_final a \<longrightarrow> j_id job \<noteq> o_id j)"
proof -
  have "needs ''submit_execute'' d" using assms(4,5) by simp
  from reachable_carried [OF assms(1-3) this] obtain j where "j \<in> set (outbox (sv_db s))"
      "o_kind j = ''submit_execute''" "o_deposit_id j = d_id d" "live j" "o_id j \<notin> closing (sv_workers s)" .
  then show ?thesis by (auto simp: not_closing)
qed

theorem paid_deposit_has_job_witness:
  "\<exists>j \<in> set (outbox ex_db3). o_kind j = ''submit_execute'' \<and> o_deposit_id j = 0 \<and> live j"
proof -
  have "ex_paid \<in> set (deposits (sv_db (ex_server ex_db3)))" "d_status ex_paid = Paid"
      "d_engine_job_id ex_paid = None" "d_id ex_paid = 0"
    by (simp_all add: ex_server_def ex_db3_eq ex_paid_def new_row_def bump_def)
  from paid_deposit_has_job [OF ex_reachable(3) ex_lib_ok(9) this(1-3)] this(4)
  show ?thesis by (auto simp: ex_server_def)
qed

text \<open>
  C2. An open deposit whose payment address is not watched yet has a live outbox job that registers
  the watch, so no payment address is left unobserved.
\<close>

theorem open_deposit_has_job:
  assumes "reachable L E cfg s" "uuid_v7_ok L"
    and "d \<in> set (deposits (sv_db s))" "is_open (d_status d)" "d_watch_id d = None"
  shows "\<exists>j \<in> set (outbox (sv_db s)). o_kind j = ''register_watch'' \<and> o_deposit_id j = d_id d \<and> live j
    \<and> (\<forall>job a. Closing job a \<in> set (sv_workers s) \<longrightarrow> is_final a \<longrightarrow> j_id job \<noteq> o_id j)"
proof -
  have "needs ''register_watch'' d" using assms(4,5) by simp
  from reachable_carried [OF assms(1-3) this] obtain j where "j \<in> set (outbox (sv_db s))"
      "o_kind j = ''register_watch''" "o_deposit_id j = d_id d" "live j" "o_id j \<notin> closing (sv_workers s)" .
  then show ?thesis by (auto simp: not_closing)
qed

theorem open_deposit_has_job_witness:
  "\<exists>j \<in> set (outbox ex_db2). o_kind j = ''register_watch'' \<and> o_deposit_id j = 0 \<and> live j"
proof -
  let ?d = "bump 1 (new_row ex_lib 1000 0 ''u'' ex_new)"
  have "?d \<in> set (deposits (sv_db (ex_server ex_db2)))" "is_open (d_status ?d)"
      "d_watch_id ?d = None" "d_id ?d = 0"
    by (simp_all add: ex_server_def ex_db2_eq new_row_def bump_def)
  from open_deposit_has_job [OF ex_reachable(2) ex_lib_ok(9) this(1-3)] this(4)
  show ?thesis by (auto simp: ex_server_def)
qed

text \<open>
  C3. The queue does not starve such a job: from some moment on, a claim whose batch holds the
  queue, by an instance with no job in flight, returns a job of that kind for that deposit.
\<close>

theorem owed_job_is_claimed:
  assumes "reachable L E cfg s" "uuid_v7_ok L" "d \<in> set (deposits (sv_db s))" "needs k d"
  shows "\<exists>T. \<forall>now batch ttl. T \<le> now \<longrightarrow> length (outbox (sv_db s)) \<le> batch \<longrightarrow>
    (\<exists>jobs db'. claim now batch ttl (\<lambda>_. False) (sv_db s) = Inr (jobs, db')
      \<and> (\<exists>job \<in> set jobs. j_kind job = k \<and> j_deposit_id job = d_id d))"
proof -
  from reachable_carried [OF assms] obtain j where j: "j \<in> set (outbox (sv_db s))" "o_kind j = k"
      "o_deposit_id j = d_id d" "live j" .
  from claim_reaches [OF j(1,4)] show ?thesis unfolding j(2,3) by metis
qed

theorem owed_job_is_claimed_witness:
  "\<exists>T. \<forall>now batch ttl. T \<le> now \<longrightarrow> 2 \<le> batch \<longrightarrow>
    (\<exists>jobs db'. claim now batch ttl (\<lambda>_. False) ex_db3 = Inr (jobs, db')
      \<and> (\<exists>job \<in> set jobs. j_kind job = ''submit_execute'' \<and> j_deposit_id job = 0))"
proof -
  have "ex_paid \<in> set (deposits (sv_db (ex_server ex_db3)))" "needs ''submit_execute'' ex_paid"
      "d_id ex_paid = 0"
    by (simp_all add: ex_server_def ex_db3_eq ex_paid_def new_row_def bump_def)
  from owed_job_is_claimed [OF ex_reachable(3) ex_lib_ok(9) this(1,2)] this(3)
  show ?thesis by (simp add: ex_server_def ex_db3_eq numeral_2_eq_2)
qed

section \<open>The life of a deposit\<close>

lemma reachable_steps:
  assumes "(server_step L E cfg)\<^sup>*\<^sup>* s s'" "reachable L E cfg s"
  shows "reachable L E cfg s'"
  using assms by (induction rule: rtranclp_induct) (auto intro: reachable.step)

lemma reachable_history:
  assumes "(server_step L E cfg)\<^sup>*\<^sup>* s s'" "reachable L E cfg s" "uuid_v7_ok L"
  shows "history (sv_db s) (sv_db s')"
  using assms(1)
proof (induction rule: rtranclp_induct)
  case (step t u)
  have "server_ok L t" by (rule reachable_ok [OF reachable_steps [OF step(1) assms(2)] assms(3)])
  from history_trans [OF step(3) server_step_history [OF step(2) assms(3) this]] show ?case .
qed (rule history_refl)

lemma status_path_absorbing:
  assumes "status_path s t" "s \<in> {Settled, Expired}"
  shows "t = s"
  using assms(1) unfolding status_path_def
  by (induction rule: rtranclp_induct) (use assms(2) in auto)

lemma status_path_funded:
  assumes "status_path s t" "s \<in> {Paid, Settled, Failed}"
  shows "t \<in> {Paid, Settled, Failed}"
  using assms(1) unfolding status_path_def
  by (induction rule: rtranclp_induct) (use assms(2) in auto)

lemma status_path_not_pending:
  assumes "status_path s t" "s \<noteq> Pending"
  shows "t \<noteq> Pending"
  using assms(1) unfolding status_path_def
proof (induction rule: rtranclp_induct)
  case (step t u)
  then show ?case by (cases t) auto
qed (use assms(2) in simp)

lemma history_get:
  assumes "history db (sv_db s')" "reachable L E cfg s'" "uuid_v7_ok L" "d \<in> set (deposits db)"
  obtains d' where "get (sv_db s') (d_id d) = Some d'" "terms_of d' = terms_of d"
    "status_path (d_status d) (d_status d')"
proof -
  obtain d' where d': "d' \<in> set (deposits (sv_db s'))" "terms_of d' = terms_of d"
      "status_path (d_status d) (d_status d')"
    using assms(1,4) unfolding history_def by blast
  have "distinct (map d_id (deposits (sv_db s')))"
    using reachable_ok [OF assms(2,3)] by (simp add: server_ok_def tables_ok_def ids_ok_def)
  then have "get (sv_db s') (d_id d) = Some d'"
    using d' terms_of_id [OF d'(2)] unfolding get_def select_deposit_def
    by (auto intro!: find_unique [where k = d_id and i = "d_id d"])
  then show thesis using that d' by blast
qed

text \<open>
  C12. The life cycle, over every run of the server from a reachable state: a deposit is never lost,
  its terms (chain, token, amount, receiver, calls, recovery address, salt, expiry, payment address)
  never change, its status follows the transitions of \<open>status_step\<close>; \<open>settled\<close> and \<open>expired\<close> are
  final, a deposit never becomes \<open>pending\<close> again, and one that was \<open>paid\<close> can only be \<open>paid\<close>,
  \<open>settled\<close> or \<open>failed\<close>, so it cannot expire with money in it.
\<close>

theorem deposit_life_cycle:
  assumes "(server_step L E cfg)\<^sup>*\<^sup>* s s'" "reachable L E cfg s" "uuid_v7_ok L"
    and "get (sv_db s) i = Some d"
  shows "\<exists>d'. get (sv_db s') i = Some d' \<and> terms_of d' = terms_of d
    \<and> status_step\<^sup>*\<^sup>* (d_status d) (d_status d')
    \<and> (d_status d \<in> {Settled, Expired} \<longrightarrow> d_status d' = d_status d)
    \<and> (d_status d \<noteq> Pending \<longrightarrow> d_status d' \<noteq> Pending)
    \<and> (d_status d \<in> {Paid, Settled, Failed} \<longrightarrow> d_status d' \<in> {Paid, Settled, Failed})"
proof -
  have d: "d \<in> set (deposits (sv_db s))" "d_id d = i"
    using assms(4) by (auto simp: get_def select_deposit_def find_Some_iff)
  obtain d' where d': "get (sv_db s') (d_id d) = Some d'" "terms_of d' = terms_of d"
      "status_path (d_status d) (d_status d')"
    by (rule history_get [OF reachable_history [OF assms(1-3)] reachable_steps [OF assms(1,2)] assms(3) d(1)])
  then show ?thesis
    using d(2) status_path_absorbing [OF d'(3)] status_path_not_pending [OF d'(3)] status_path_funded [OF d'(3)]
    by (auto simp: status_path_def)
qed

lemma ex_steps: "(server_step ex_lib ex_env ex_cfg)\<^sup>*\<^sup>* (ex_server ex_db2) (ex_server ex_db3)"
  unfolding ex_server_def
  by (rule r_into_rtranclp, rule server_step.tables, rule db_step.reconcile_open, unfold ex_db3_def,
      rule prod.collapse [symmetric])

theorem deposit_life_cycle_witness:
  "\<exists>d'. get ex_db3 0 = Some d' \<and> terms_of d' = terms_of (bump 1 (new_row ex_lib 1000 0 ''u'' ex_new))
    \<and> status_step\<^sup>*\<^sup>* Pending (d_status d')"
proof -
  let ?d = "bump 1 (new_row ex_lib 1000 0 ''u'' ex_new)"
  have "get (sv_db (ex_server ex_db2)) 0 = Some ?d" "d_status ?d = Pending"
    by (simp_all add: get_def select_deposit_def ex_server_def ex_db2_eq new_row_def bump_def)
  from deposit_life_cycle [OF ex_steps ex_reachable(2) ex_lib_ok(9) this(1)] this(2)
  show ?thesis by (auto simp: ex_server_def)
qed

text \<open>
  C19. The timeline of a deposit, as the API lists it, has no gap and no duplicate: its events carry
  the sequence numbers \<open>1\<close> to \<open>event_seq\<close>, in order.
\<close>

theorem timeline_gapless:
  assumes "reachable L E cfg s" "uuid_v7_ok L" "d \<in> set (deposits (sv_db s))"
  shows "map e_sequence (events (sv_db s) (d_id d)) = [1..d_event_seq d]"
proof -
  let ?es = "filter (\<lambda>e. e_deposit_id e = d_id d) (deposit_events (sv_db s))"
  have seq: "map e_sequence ?es = [1..d_event_seq d]"
    using reachable_ok [OF assms(1,2)] assms(3) by (simp add: server_ok_def tables_ok_def timeline_ok_def)
  have "sorted (map e_sequence ?es)" unfolding seq by simp
  then have "events (sv_db s) (d_id d) = ?es" unfolding events_def by (simp add: sorted_sort_id sort_key_id_if_sorted)
  then show ?thesis using seq by simp
qed

theorem timeline_gapless_witness: "map e_sequence (events ex_db3 0) = [1, 2]"
proof -
  have "ex_paid \<in> set (deposits (sv_db (ex_server ex_db3)))" "d_id ex_paid = 0" "d_event_seq ex_paid = 2"
    by (simp_all add: ex_server_def ex_db3_eq ex_paid_def new_row_def bump_def)
  moreover have "[1..2] = [1, 2 :: int]" by (simp add: upto_rec1)
  ultimately show ?thesis
    using timeline_gapless [OF ex_reachable(3) ex_lib_ok(9), of ex_paid] by (simp add: ex_server_def)
qed

text \<open>
  C20. The status of a deposit and its other columns agree in every reachable state: the settled,
  failed and expired stamps and the failure columns are set exactly in their status, a settled
  deposit has its transaction hash, and engine job and watch ids come with their stamps.
\<close>

theorem status_columns_agree:
  assumes "reachable L E cfg s" "uuid_v7_ok L" "d \<in> set (deposits (sv_db s))"
  shows "(d_settled_at d \<noteq> None) = (d_status d = Settled) \<and> (d_failed_at d \<noteq> None) = (d_status d = Failed)
    \<and> (d_expired_at d \<noteq> None) = (d_status d = Expired) \<and> (d_failure_code d \<noteq> None) = (d_status d = Failed)
    \<and> (d_status d = Settled \<longrightarrow> d_tx_hash d \<noteq> None)
    \<and> (d_status d = Pending \<longrightarrow> d_confirmed_amount d = ''0'')
    \<and> (d_engine_job_id d \<noteq> None \<longrightarrow> d_engine_submitted_at d \<noteq> None \<and> d_status d \<in> {Paid, Settled, Failed})
    \<and> (d_watch_id d \<noteq> None) = (d_watch_registered_at d \<noteq> None)"
proof -
  have "stamps_ok d"
    using reachable_ok [OF assms(1,2)] assms(3) by (simp add: server_ok_def tables_ok_def)
  then show ?thesis unfolding stamps_ok_def by blast
qed

theorem status_columns_agree_witness: "d_settled_at ex_paid = None \<and> d_failed_at ex_paid = None"
proof -
  have "ex_paid \<in> set (deposits (sv_db (ex_server ex_db3)))" "d_status ex_paid = Paid"
    by (simp_all add: ex_server_def ex_db3_eq ex_paid_def new_row_def bump_def)
  then show ?thesis using status_columns_agree [OF ex_reachable(3) ex_lib_ok(9), of ex_paid] by simp
qed

section \<open>From the quoted address to the chain\<close>

text \<open>
  C5. What the payer is told is what the service watches and settles: for a deposit created from a
  validated request, at any later moment of any run, the watch asks gum-indexer for the quoted payment
  address, the token and the amount, and the settlement asks gum-engine, on the deposit's chain, for a
  call of the factory whose terms have exactly that payment address and whose only call transfers the
  amount to the receiver.
\<close>

theorem settlement_pays_quoted_address:
  assumes "row_codecs_ok L" "uuid_v7_ok L" "oc_factory cfg = v_factory V"
    and "validate_request L V req now salt = Inr n" "n_chain_id n < 2 ^ 64"
    and "reachable L E cfg s" "create_tx L now' user n idem (sv_db s) = Inr (Some d0, db1)"
    and "(server_step L E cfg)\<^sup>*\<^sup>* \<lparr>sv_db = db1, sv_workers = sv_workers s\<rparr> s'"
  shows "\<exists>d w t terms. get (sv_db s') (d_id d0) = Some d
    \<and> watch_request L cfg d = Some w \<and> cw_payment_address w = n_payment_address n
    \<and> cw_token w = n_token_address n \<and> cw_balance_threshold w = u256_to_string (n_amount n)
    \<and> submit_request L cfg d = Some t \<and> st_chain_id t = n_chain_id n \<and> st_to t = v_factory V
    \<and> st_data t = execute_calldata L terms \<and> payment_address L terms (st_to t) = cw_payment_address w
    \<and> pt_calls terms = [call_transfer L (n_token_address n) (n_receiver n) (n_amount n)]"
proof -
  let ?s = "\<lparr>sv_db = db1, sv_workers = sv_workers s\<rparr>"
  have "run_tx (create_tx L now' user n idem) (sv_db s) = (Inr (Some d0), db1)"
    using assms(7) by (simp add: run_tx_def)
  then have "server_step L E cfg \<lparr>sv_db = sv_db s, sv_workers = sv_workers s\<rparr> ?s"
    by (intro server_step.tables) (rule db_step.create)
  moreover have "\<lparr>sv_db = sv_db s, sv_workers = sv_workers s\<rparr> = s" by simp
  ultimately have reach: "reachable L E cfg ?s" using reachable.step [OF assms(6)] by metis
  have ok: "tables_ok L (sv_db s)" using reachable_ok [OF assms(6,2)] by (simp add: server_ok_def)
  obtain r where r: "r \<in> set (deposits db1)" "d_id r = d_id d0"
      "terms_of r = terms_of (new_row L now' (d_id d0) user n)"
    using created_row [OF assms(7) ok assms(2)] by blast
  have "history db1 (sv_db s')" using reachable_history [OF assms(8) reach assms(2)] by simp
  then obtain d where d: "get (sv_db s') (d_id d0) = Some d" "terms_of d = terms_of r"
    by (rule history_get [OF _ reachable_steps [OF assms(8) reach] assms(2) r(1)]) (use r(2) in auto)
  note same = terms_of_cong [OF d(2) [unfolded r(3)]]
  from assms(4) obtain chain token where v: "n_chain_id n = cs_chain_id chain" "n_token_address n = ts_address token"
      "n_recovery n = v_recovery V" "n_salt n = salt"
      "n_calls n = [call_transfer L (n_token_address n) (n_receiver n) (n_amount n)]"
      "n_payment_address n = payment_address L
         (request_terms L V chain token (n_amount n) (n_receiver n) (n_expires_at n) salt) (v_factory V)"
    by (rule validate_requestE)
  show ?thesis
    using d(1) same(2,3) new_row_requests [OF assms(1,5), of cfg now' "d_id d0" user] v assms(3)
    by (intro exI [of _ d] exI) (auto simp: request_terms_def)
qed

theorem settlement_pays_quoted_address_witness:
  "\<exists>n d0 db1. validate_request ex_lib ex_validator ex_request 0 9 = Inr n
    \<and> create_tx ex_lib 1000 ''u'' n None ex_db1 = Inr (Some d0, db1)
    \<and> (\<exists>d w. get db1 (d_id d0) = Some d \<and> watch_request ex_lib (ex_cfg\<lparr>oc_factory := 20\<rparr>) d = Some w
        \<and> cw_payment_address w = n_payment_address n)"
proof -
  obtain n where n: "validate_request ex_lib ex_validator ex_request 0 9 = Inr n" "n_chain_id n = 1"
    by (rule ex_validated)
  have "\<exists>d0 db1. create_tx ex_lib 1000 ''u'' n None ex_db1 = Inr (Some d0, db1)"
    by (simp add: create_tx_def insert_deposit_def claim_key_def ex_db1_def empty_db_def ex_user_def tx_eval)
  then obtain d0 db1 where c: "create_tx ex_lib 1000 ''u'' n None (sv_db (ex_server ex_db1)) = Inr (Some d0, db1)"
    by (auto simp: ex_server_def)
  have "reachable ex_lib ex_env (ex_cfg\<lparr>oc_factory := 20\<rparr>) initial" by (rule reachable.init)
  moreover have "server_step ex_lib ex_env (ex_cfg\<lparr>oc_factory := 20\<rparr>) initial (ex_server ex_db1)"
    unfolding initial_def ex_server_def by (rule server_step.tables, rule ex_db1_step)
  ultimately have reach: "reachable ex_lib ex_env (ex_cfg\<lparr>oc_factory := 20\<rparr>) (ex_server ex_db1)"
    by (rule reachable.step)
  have codecs: "row_codecs_ok ex_lib" using ex_lib_ok by (simp add: row_codecs_ok_def)
  have "oc_factory (ex_cfg\<lparr>oc_factory := 20\<rparr>) = v_factory ex_validator" by (simp add: ex_validator_def)
  from settlement_pays_quoted_address [OF codecs ex_lib_ok(9) this n(1) _ reach c rtranclp.rtrancl_refl] n(2)
  show ?thesis using n(1) c by (auto simp: ex_server_def)
qed

end
